(* ===== verification/Prelude.thy ===== *)
theory Prelude
  imports Main
begin

text \<open>
  The vocabulary the component theories share: byte strings and the string methods of Python's
  standard library that RAET uses (\<open>split\<close>, \<open>join\<close>, \<open>partition\<close>, \<open>replace\<close>, slices,
  hexadecimal formatting and \<open>int(s, 16)\<close>), ordered dictionaries as association lists, results
  that may be an exception, and the generic lemmas about them.
\<close>

named_theorems odict_simps
  \<open>equations for lookups after the dictionary operations\<close>
named_theorems text_simps
  \<open>equations for the string methods on concrete shapes\<close>

type_synonym bytes = string

section \<open>Exceptions and results\<close>

text \<open>
  The exception classes of raet/raeting.py, and the built-in ones that RAET code can raise.
  Messages are dropped: the code only prints them.
\<close>

datatype exn =
    RaetError | StackError | EstateError | TransactionError | PacketError | PacketSizeError
  | KeepError | YardError | PageError
  | ValueError | KeyError | IndexError | NameError | TypeError | AttributeError | OSError
  | ZeroDivisionError | StructError

text \<open>\<open>except raeting.PacketError\<close> also catches its subclass \<open>PacketSizeError\<close>.\<close>

definition is_packet_error :: "exn \<Rightarrow> bool" where
  "is_packet_error e \<longleftrightarrow> e = PacketError \<or> e = PacketSizeError"

type_synonym 'a result = "exn + 'a"

definition rbind :: "'a result \<Rightarrow> ('a \<Rightarrow> 'b result) \<Rightarrow> 'b result" where
  "rbind r f = (case r of Inl e \<Rightarrow> Inl e | Inr x \<Rightarrow> f x)"

text \<open>Evaluation looks at the first result before the rest.\<close>

declare rbind_def [code_unfold]

definition guard :: "bool \<Rightarrow> exn \<Rightarrow> unit result" where
  "guard b e = (if b then Inr () else Inl e)"

lemma rbind_simps [simp]:
  "rbind (Inl e) f = Inl e"
  "rbind (Inr x) f = f x"
  by (simp_all add: rbind_def)

lemma rbind_eq_Inr: "rbind r f = Inr y \<longleftrightarrow> (\<exists>x. r = Inr x \<and> f x = Inr y)"
  by (cases r) auto

lemma rbind_eq_Inl: "rbind r f = Inl e \<longleftrightarrow> r = Inl e \<or> (\<exists>x. r = Inr x \<and> f x = Inl e)"
  by (cases r) auto

lemma guard_simps [simp]:
  "guard b e = Inr u \<longleftrightarrow> b"
  "guard b e = Inl e' \<longleftrightarrow> \<not> b \<and> e' = e"
  "guard True e = Inr ()"
  "guard False e = Inl e"
  by (auto simp: guard_def)

fun mapM :: "('a \<Rightarrow> 'b result) \<Rightarrow> 'a list \<Rightarrow> 'b list result" where
  "mapM f [] = Inr []"
| "mapM f (x # xs) = rbind (f x) (\<lambda>y. rbind (mapM f xs) (\<lambda>ys. Inr (y # ys)))"

lemma mapM_Inr: "(\<And>x. x \<in> set xs \<Longrightarrow> f x = Inr (g x)) \<Longrightarrow> mapM f xs = Inr (map g xs)"
  by (induction xs) simp_all

lemma mapM_Inr_length: "mapM f xs = Inr ys \<Longrightarrow> length ys = length xs"
  by (induction xs arbitrary: ys) (auto simp: rbind_eq_Inr)

lemma mapM_Inr_nth: "mapM f xs = Inr ys \<Longrightarrow> i < length xs \<Longrightarrow> f (xs ! i) = Inr (ys ! i)"
  by (induction xs arbitrary: ys i) (auto simp: rbind_eq_Inr less_Suc_eq_0_disj)

section \<open>Ordered dictionaries\<close>

text \<open>
  An \<open>odict\<close> is a dictionary that keeps insertion order: an association list with distinct
  keys. Setting a present key keeps its place, a new key goes to the end.
\<close>

type_synonym ('k, 'v) odict = "('k \<times> 'v) list"

definition oget :: "('k, 'v) odict \<Rightarrow> 'k \<Rightarrow> 'v option" where
  "oget d k = map_of d k"

definition okeys :: "('k, 'v) odict \<Rightarrow> 'k list" where
  "okeys d = map fst d"

definition ovalues :: "('k, 'v) odict \<Rightarrow> 'v list" where
  "ovalues d = map snd d"

definition ohas :: "('k, 'v) odict \<Rightarrow> 'k \<Rightarrow> bool" where
  "ohas d k \<longleftrightarrow> k \<in> set (okeys d)"

fun oset :: "'k \<Rightarrow> 'v \<Rightarrow> ('k, 'v) odict \<Rightarrow> ('k, 'v) odict" where
  "oset k v [] = [(k, v)]"
| "oset k v ((k', v') # d) = (if k' = k then (k, v) # d else (k', v') # oset k v d)"

definition odel :: "'k \<Rightarrow> ('k, 'v) odict \<Rightarrow> ('k, 'v) odict" where
  "odel k d = filter (\<lambda>kv. fst kv \<noteq> k) d"

definition oupdate :: "('k, 'v) odict \<Rightarrow> ('k, 'v) odict \<Rightarrow> ('k, 'v) odict" where
  "oupdate d kit = foldl (\<lambda>acc kv. oset (fst kv) (snd kv) acc) d kit"

definition owf :: "('k, 'v) odict \<Rightarrow> bool" where
  "owf d \<longleftrightarrow> distinct (okeys d)"

text \<open>\<open>d[k]\<close>, which raises \<open>KeyError\<close>, and \<open>d.get(k, default)\<close>.\<close>

definition oitem :: "('k, 'v) odict \<Rightarrow> 'k \<Rightarrow> 'v result" where
  "oitem d k = (case oget d k of None \<Rightarrow> Inl KeyError | Some v \<Rightarrow> Inr v)"

definition oget_or :: "('k, 'v) odict \<Rightarrow> 'k \<Rightarrow> 'v \<Rightarrow> 'v" where
  "oget_or d k v = (case oget d k of None \<Rightarrow> v | Some w \<Rightarrow> w)"

lemma oget_Nil [simp]: "oget [] k = None"
  by (simp add: oget_def)

lemma oget_Cons [simp]: "oget ((k', v) # d) k = (if k' = k then Some v else oget d k)"
  by (simp add: oget_def)

lemma oget_append: "oget (d @ e) k = (case oget d k of None \<Rightarrow> oget e k | Some v \<Rightarrow> Some v)"
  by (induction d) auto

lemma okeys_simps [simp]:
  "okeys [] = []" "okeys (kv # d) = fst kv # okeys d" "okeys (d @ e) = okeys d @ okeys e"
  by (simp_all add: okeys_def)

lemma oget_None_iff: "oget d k = None \<longleftrightarrow> k \<notin> set (okeys d)"
  by (auto simp: oget_def okeys_def map_of_eq_None_iff)

lemma oget_in_okeys: "oget d k = Some v \<Longrightarrow> k \<in> set (okeys d)"
  using oget_None_iff [of d k] by auto

lemma ohas_iff: "ohas d k \<longleftrightarrow> (\<exists>v. oget d k = Some v)"
  using oget_None_iff [of d k] by (auto simp: ohas_def)

lemma ohas_simps [simp]:
  "\<not> ohas [] k"
  "ohas ((k', v) # d) k \<longleftrightarrow> k' = k \<or> ohas d k"
  by (auto simp: ohas_def)

lemma oget_oset [simp, odict_simps]: "oget (oset k v d) k' = (if k' = k then Some v else oget d k')"
  by (induction d) auto

lemma oget_odel [simp, odict_simps]: "oget (odel k d) k' = (if k' = k then None else oget d k')"
  by (induction d) (auto simp: odel_def)

lemma set_okeys_oset [simp]: "set (okeys (oset k v d)) = insert k (set (okeys d))"
proof (induction d)
  case (Cons kv d)
  then show ?case by (cases kv) (simp add: insert_commute)
qed simp

lemma okeys_oset_present: "ohas d k \<Longrightarrow> okeys (oset k v d) = okeys d"
  by (induction d) auto

lemma oset_absent: "\<not> ohas d k \<Longrightarrow> oset k v d = d @ [(k, v)]"
  by (induction d) auto

lemma set_okeys_odel [simp]: "set (okeys (odel k d)) = set (okeys d) - {k}"
  by (induction d) (auto simp: odel_def)

lemma okeys_odel: "okeys (odel k d) = filter (\<lambda>x. x \<noteq> k) (okeys d)"
  by (induction d) (auto simp: odel_def)

lemma ohas_oset [simp, odict_simps]: "ohas (oset k v d) k' \<longleftrightarrow> k' = k \<or> ohas d k'"
  by (auto simp: ohas_def)

lemma ohas_odel [simp, odict_simps]: "ohas (odel k d) k' \<longleftrightarrow> k' \<noteq> k \<and> ohas d k'"
  by (auto simp: ohas_def)

lemma odel_oset_same: "odel k (oset k v d) = odel k d"
  by (induction d) (auto simp: odel_def)

lemma owf_Nil [simp, intro]: "owf []"
  by (simp add: owf_def)

lemma owf_oset [simp, intro]: "owf d \<Longrightarrow> owf (oset k v d)"
  by (induction d) (auto simp: owf_def)

lemma owf_odel [simp, intro]: "owf d \<Longrightarrow> owf (odel k d)"
  by (simp add: owf_def okeys_odel)

lemma oset_same: "oget d k = Some v \<Longrightarrow> oset k v d = d"
  by (induction d) (auto split: if_splits)

lemma oset_oset_same [simp]: "oset k v (oset k w d) = oset k v d"
  by (induction d) auto

lemma oupdate_simps [simp]:
  "oupdate d [] = d"
  "oupdate d ((k, v) # kit) = oupdate (oset k v d) kit"
  by (simp_all add: oupdate_def)

lemma oget_oupdate: "owf kit \<Longrightarrow>
    oget (oupdate d kit) k = (case oget kit k of None \<Rightarrow> oget d k | Some v \<Rightarrow> Some v)"
proof (induction kit arbitrary: d)
  case Nil
  then show ?case by simp
next
  case (Cons kv kit)
  obtain k1 v1 where kv: "kv = (k1, v1)" by fastforce
  with Cons.prems have wf: "owf kit" and new: "oget kit k1 = None"
    by (auto simp: owf_def oget_None_iff)
  show ?case
    using Cons.IH [OF wf, of "oset k1 v1 d"] new by (auto simp: kv split: option.splits)
qed

lemma owf_oupdate [simp, intro]: "owf d \<Longrightarrow> owf (oupdate d kit)"
  by (induction kit arbitrary: d) (simp_all add: split_paired_all)

lemma set_okeys_oupdate: "set (okeys (oupdate d kit)) = set (okeys d) \<union> set (okeys kit)"
  by (induction kit arbitrary: d) (simp_all add: split_paired_all)

lemma oitem_simps [simp]:
  "oitem d k = Inr v \<longleftrightarrow> oget d k = Some v"
  "oitem d k = Inl e \<longleftrightarrow> oget d k = None \<and> e = KeyError"
  by (auto simp: oitem_def split: option.splits)

lemma ovalues_simps [simp]:
  "ovalues [] = []" "ovalues (kv # d) = snd kv # ovalues d"
  by (simp_all add: ovalues_def)

lemma in_ovaluesD: "owf d \<Longrightarrow> v \<in> set (ovalues d) \<Longrightarrow> \<exists>k. oget d k = Some v"
  by (auto simp: owf_def ovalues_def okeys_def oget_def)

lemma oget_in_ovalues: "oget d k = Some v \<Longrightarrow> v \<in> set (ovalues d)"
  by (induction d) (auto split: if_splits)

section \<open>String methods\<close>

abbreviation NL :: char where
  "NL \<equiv> CHR 0x0A"

abbreviation CR :: char where
  "CR \<equiv> CHR 0x0D"

abbreviation SP :: char where
  "SP \<equiv> CHR 0x20"

fun split_on :: "char \<Rightarrow> string \<Rightarrow> string list" where
  "split_on c [] = [[]]"
| "split_on c (x # xs) =
     (if x = c then [] # split_on c xs
      else (case split_on c xs of [] \<Rightarrow> [[x]] | p # ps \<Rightarrow> (x # p) # ps))"

fun join_with :: "string \<Rightarrow> string list \<Rightarrow> string" where
  "join_with s [] = []"
| "join_with s [x] = x"
| "join_with s (x # y # ys) = x @ s @ join_with s (y # ys)"

definition starts_with :: "string \<Rightarrow> string \<Rightarrow> bool" where
  "starts_with p s \<longleftrightarrow> take (length p) s = p"

fun find_sub :: "string \<Rightarrow> string \<Rightarrow> nat option" where
  "find_sub p [] = (if p = [] then Some 0 else None)"
| "find_sub p (x # xs) =
     (if starts_with p (x # xs) then Some 0 else map_option Suc (find_sub p xs))"

definition contains :: "string \<Rightarrow> string \<Rightarrow> bool" where
  "contains s p \<longleftrightarrow> find_sub p s \<noteq> None"

definition partition_at :: "string \<Rightarrow> string \<Rightarrow> string \<times> string \<times> string" where
  "partition_at s p = (case find_sub p s of
     None \<Rightarrow> (s, [], [])
   | Some i \<Rightarrow> (take i s, p, drop (i + length p) s))"

definition replace_first :: "string \<Rightarrow> string \<Rightarrow> string \<Rightarrow> string" where
  "replace_first s p q = (case find_sub p s of
     None \<Rightarrow> s
   | Some i \<Rightarrow> take i s @ q @ drop (i + length p) s)"

text \<open>\<open>s[a:b]\<close>: negative bounds count from the end, and bounds out of range are clamped.\<close>

definition py_index :: "'a list \<Rightarrow> int \<Rightarrow> nat" where
  "py_index s i = nat (if i < 0 then max 0 (int (length s) + i) else min (int (length s)) i)"

definition py_slice :: "'a list \<Rightarrow> int \<Rightarrow> int \<Rightarrow> 'a list" where
  "py_slice s a b = take (py_index s b - py_index s a) (drop (py_index s a) s)"

definition py_from :: "'a list \<Rightarrow> int \<Rightarrow> 'a list" where
  "py_from s a = drop (py_index s a) s"

text \<open>\<open>s[-n:]\<close> for a positive number \<open>n\<close>.\<close>

definition last_n :: "nat \<Rightarrow> 'a list \<Rightarrow> 'a list" where
  "last_n n s = drop (length s - n) s"

lemma split_on_nonempty: "split_on c s \<noteq> []"
  by (cases s) (auto split: list.splits)

lemma split_on_plain: "c \<notin> set s \<Longrightarrow> split_on c s = [s]"
  by (induction s) auto

lemma split_on_append: "c \<notin> set p \<Longrightarrow> split_on c (p @ c # s) = p # split_on c s"
  by (induction p) auto

lemma split_on_join [text_simps]:
  "ps \<noteq> [] \<Longrightarrow> \<forall>p \<in> set ps. c \<notin> set p \<Longrightarrow> split_on c (join_with [c] ps) = ps"
proof (induction "[c]" ps rule: join_with.induct)
  case (3 x y ys)
  then show ?case by (simp add: split_on_append)
qed (auto simp: split_on_plain)

lemma join_with_length:
  "length (join_with [c] ps) = sum_list (map length ps) + (length ps - 1)"
  by (induction "[c]" ps rule: join_with.induct) auto

lemma starts_with_append [simp]: "starts_with p (p @ s)"
  by (simp add: starts_with_def)

lemma starts_withE: "starts_with p s \<Longrightarrow> \<exists>t. s = p @ t"
  unfolding starts_with_def by (metis append_take_drop_id)

lemma starts_with_simps [simp, code]:
  "starts_with [] s \<longleftrightarrow> True"
  "starts_with (a # p) (b # s) \<longleftrightarrow> a = b \<and> starts_with p s"
  "starts_with (a # p) [] \<longleftrightarrow> False"
  by (auto simp: starts_with_def)

lemma find_sub_head [simp]: "find_sub p (p @ s) = Some 0"
  by (cases p; cases s) (simp_all add: starts_with_def)

lemma find_sub_some: "find_sub p s = Some i \<Longrightarrow> s = take i s @ p @ drop (i + length p) s"
proof (induction p s arbitrary: i rule: find_sub.induct)
  case (2 p x xs)
  show ?case
  proof (cases "starts_with p (x # xs)")
    case True
    with 2 obtain t where "x # xs = p @ t" and "i = 0" by (auto dest: starts_withE)
    then show ?thesis by simp
  next
    case False
    with 2 show ?thesis by auto
  qed
qed (auto split: if_splits)

lemma find_sub_char: "c \<notin> set p \<Longrightarrow> find_sub [c] (p @ c # s) = Some (length p)"
  by (induction p) auto

lemma partition_char:
  "partition_at s [c] = (a, [c], b) \<longleftrightarrow> s = a @ c # b \<and> c \<notin> set a"
proof (cases "c \<in> set s")
  case True
  then obtain p t where s: "s = p @ c # t" "c \<notin> set p" by (auto dest: split_list_first)
  then show ?thesis by (auto simp: partition_at_def find_sub_char append_eq_append_conv2 append_eq_Cons_conv Cons_eq_append_conv)
next
  case False
  then have "find_sub [c] s = None" by (induction s) auto
  with False show ?thesis by (auto simp: partition_at_def)
qed

lemma contains_iff: "contains s p \<longleftrightarrow> (\<exists>i. find_sub p s = Some i)"
  by (auto simp: contains_def)

lemma replace_first_length:
  "length p = length q \<Longrightarrow> length (replace_first s p q) = length s"
proof -
  assume len: "length p = length q"
  show ?thesis
  proof (cases "find_sub p s")
    case (Some i)
    then have "s = take i s @ p @ drop (i + length p) s" by (rule find_sub_some)
    then have "length s = length (take i s @ p @ drop (i + length p) s)" by simp
    with Some len show ?thesis by (simp add: replace_first_def)
  qed (simp add: replace_first_def)
qed

text \<open>
  A blank line is found where a header of nonempty lines ends: two newlines in a row do not
  occur earlier.
\<close>

lemma find_sub_blank:
  "\<forall>i. Suc i < length s \<longrightarrow> \<not> (s ! i = c \<and> s ! Suc i = c) \<Longrightarrow> (s = [] \<or> last s \<noteq> c) \<Longrightarrow>
   find_sub [c, c] (s @ c # c # t) = Some (length s)"
proof (induction s)
  case (Cons x xs)
  have "\<not> starts_with [c, c] ((x # xs) @ c # c # t)"
  proof (cases xs)
    case Nil
    with Cons.prems show ?thesis by simp
  next
    case (Cons y ys)
    from Cons.prems(1) [rule_format, of 0] Cons show ?thesis by auto
  qed
  moreover have "find_sub [c, c] (xs @ c # c # t) = Some (length xs)"
  proof (rule Cons.IH)
    show "\<forall>i. Suc i < length xs \<longrightarrow> \<not> (xs ! i = c \<and> xs ! Suc i = c)"
      using Cons.prems(1) by (auto dest!: spec [of _ "Suc _"])
    show "xs = [] \<or> last xs \<noteq> c"
      using Cons.prems(2) by auto
  qed
  ultimately show ?case by simp
qed simp

end
