(* ===== verification/Numerals.thy ===== *)
theory Numerals
  imports Prelude
begin

text \<open>
  Python's textual integers, as far as the headers use them: \<open>"{:x}"\<close>, \<open>"{:04x}"\<close> and the
  decimal \<open>str\<close>, and \<open>int(s, 16)\<close> with its white space, sign and \<open>0x\<close> prefix.
\<close>

section \<open>Digits\<close>

definition digit_char :: "nat \<Rightarrow> char" where
  "digit_char d = ''0123456789abcdef'' ! d"

definition digit_value :: "char \<Rightarrow> nat option" where
  "digit_value c =
     (let n = of_char c :: nat in
      if 48 \<le> n \<and> n \<le> 57 then Some (n - 48)
      else if 97 \<le> n \<and> n \<le> 102 then Some (n - 87)
      else if 65 \<le> n \<and> n \<le> 70 then Some (n - 55)
      else None)"

fun digits :: "nat \<Rightarrow> nat \<Rightarrow> string" where
  "digits b n =
     (if n < b \<or> b < 2 then [digit_char n] else digits b (n div b) @ [digit_char (n mod b)])"

declare digits.simps [simp del]

fun digits_value :: "nat \<Rightarrow> nat \<Rightarrow> string \<Rightarrow> nat option" where
  "digits_value b acc [] = Some acc"
| "digits_value b acc (c # cs) =
     (case digit_value c of
        None \<Rightarrow> None
      | Some d \<Rightarrow> if d < b then digits_value b (acc * b + d) cs else None)"

lemma digit_value_all:
  "list_all (\<lambda>d. digit_value (digit_char d) = Some d) [0..<16]"
  by code_simp

lemma digit_value_char [simp]: "d < 16 \<Longrightarrow> digit_value (digit_char d) = Some d"
  using digit_value_all by (simp only: list_all_iff set_upt atLeastLessThan_iff) simp

definition plain_char :: "char \<Rightarrow> bool" where
  "plain_char c \<longleftrightarrow> c \<in> set ''0123456789abcdef''"

lemma plain_digit_all: "list_all (\<lambda>d. plain_char (digit_char d)) [0..<16]"
  by code_simp

lemma plain_digit_char [simp]: "d < 16 \<Longrightarrow> plain_char (digit_char d)"
  using plain_digit_all by (simp only: list_all_iff set_upt atLeastLessThan_iff) simp

lemma mod_lt_16: "2 \<le> b \<Longrightarrow> b \<le> 16 \<Longrightarrow> n mod b < (16::nat)"
  by (rule less_le_trans [OF mod_less_divisor]) auto

lemma digits_plain: "2 \<le> b \<Longrightarrow> b \<le> 16 \<Longrightarrow> list_all plain_char (digits b n)"
proof (induction b n rule: digits.induct)
  case (1 b n)
  have "n mod b < 16" using "1.prems" by (rule mod_lt_16)
  with 1 show ?case by (auto simp: digits.simps [of b n])
qed

lemma digits_nonempty [simp]: "digits b n \<noteq> []"
  by (subst digits.simps) simp

lemma digits_value_append:
  "digits_value b acc (xs @ ys) =
     (case digits_value b acc xs of None \<Rightarrow> None | Some v \<Rightarrow> digits_value b v ys)"
  by (induction b acc xs rule: digits_value.induct) (auto split: option.splits)

lemma digits_value_digits:
  "2 \<le> b \<Longrightarrow> b \<le> 16 \<Longrightarrow> digits_value b 0 (digits b n) = Some n"
proof (induction b n rule: digits.induct)
  case (1 b n)
  show ?case
  proof (cases "n < b")
    case True
    with 1 show ?thesis by (simp add: digits.simps [of b n])
  next
    case False
    have "digit_value (digit_char (n mod b)) = Some (n mod b)"
      using "1.prems" by (simp add: mod_lt_16)
    moreover have "n mod b < b" using "1.prems" by simp
    ultimately show ?thesis
      using False 1
      by (simp add: digits.simps [of b n] digits_value_append del: digit_value_char)
  qed
qed

lemma digits_length: "2 \<le> b \<Longrightarrow> 0 < k \<Longrightarrow> n < b ^ k \<Longrightarrow> length (digits b n) \<le> k"
proof (induction k arbitrary: n)
  case (Suc k)
  show ?case
  proof (cases "n < b")
    case True
    then show ?thesis by (simp add: digits.simps [of b n])
  next
    case False
    with Suc.prems have "0 < k" by (cases k) auto
    moreover have "n div b < b ^ k"
      using Suc.prems by (simp add: less_mult_imp_div_less mult.commute)
    ultimately show ?thesis
      using False Suc by (simp add: digits.simps [of b n])
  qed
qed simp

lemma digits_zeros: "digits_value b acc (replicate n (CHR ''0'') @ s) = digits_value b (acc * b ^ n) s"
  if "0 < b"
  using that by (induction n arbitrary: acc) (auto simp: digit_value_def mult.assoc)

section \<open>Formatting\<close>

definition pad_zeros :: "nat \<Rightarrow> string \<Rightarrow> string" where
  "pad_zeros w s = replicate (w - length s) (CHR ''0'') @ s"

text \<open>\<open>format(i, "0wx")\<close>: the padding comes after the sign.\<close>

definition fmt_hex :: "nat \<Rightarrow> int \<Rightarrow> string" where
  "fmt_hex w i =
     (if i < 0 then CHR ''-'' # pad_zeros (w - 1) (digits 16 (nat (- i)))
      else pad_zeros w (digits 16 (nat i)))"

definition fmt_dec :: "int \<Rightarrow> string" where
  "fmt_dec i = (if i < 0 then CHR ''-'' # digits 10 (nat (- i)) else digits 10 (nat i))"

section \<open>Parsing\<close>

definition is_space :: "char \<Rightarrow> bool" where
  "is_space c \<longleftrightarrow> (let n = of_char c :: nat in
     (9 \<le> n \<and> n \<le> 13) \<or> (28 \<le> n \<and> n \<le> 32) \<or> n = 133 \<or> n = 160)"

definition strip :: "string \<Rightarrow> string" where
  "strip s = rev (dropWhile is_space (rev (dropWhile is_space s)))"

definition drop_0x :: "string \<Rightarrow> string" where
  "drop_0x s = (if starts_with ''0x'' s \<or> starts_with ''0X'' s then drop 2 s else s)"

definition int16_unsigned :: "string \<Rightarrow> int result" where
  "int16_unsigned s =
     (let t = drop_0x s in
      if t = [] then Inl ValueError
      else case digits_value 16 0 t of None \<Rightarrow> Inl ValueError | Some n \<Rightarrow> Inr (int n))"

definition py_int16 :: "string \<Rightarrow> int result" where
  "py_int16 s = (case strip s of
     [] \<Rightarrow> Inl ValueError
   | c # t \<Rightarrow>
       if c = CHR ''-'' then rbind (int16_unsigned t) (\<lambda>i. Inr (- i))
       else if c = CHR ''+'' then int16_unsigned t
       else int16_unsigned (c # t))"

section \<open>Round trip\<close>

lemma plain_char_all:
  "list_all (\<lambda>c. \<not> is_space c \<and> c \<noteq> CHR ''-'' \<and> c \<noteq> CHR ''+'' \<and> c \<noteq> CHR ''x'' \<and> c \<noteq> CHR ''X''
     \<and> c \<noteq> NL \<and> c \<noteq> SP) ''0123456789abcdef''"
  by code_simp

lemma plain_char_cases:
  "plain_char c \<Longrightarrow> \<not> is_space c \<and> c \<noteq> CHR ''-'' \<and> c \<noteq> CHR ''+'' \<and> c \<noteq> CHR ''x'' \<and> c \<noteq> CHR ''X''
     \<and> c \<noteq> NL \<and> c \<noteq> SP"
  using plain_char_all unfolding list_all_iff plain_char_def by blast

lemma strip_no_space: "list_all (\<lambda>c. \<not> is_space c) s \<Longrightarrow> strip s = s"
proof -
  have drop: "list_all (\<lambda>c. \<not> is_space c) t \<Longrightarrow> dropWhile is_space t = t" for t
    by (cases t) auto
  assume "list_all (\<lambda>c. \<not> is_space c) s"
  then show ?thesis by (simp add: strip_def drop list_all_iff)
qed

lemma drop_0x_plain: "list_all plain_char s \<Longrightarrow> drop_0x s = s"
proof (cases s)
  case (Cons a t)
  assume "list_all plain_char s"
  then show ?thesis
    by (cases t) (auto simp: Cons drop_0x_def dest!: plain_char_cases)
qed (simp add: drop_0x_def)

lemma py_int16_plain:
  "s \<noteq> [] \<Longrightarrow> list_all plain_char s \<Longrightarrow> digits_value 16 0 s = Some n \<Longrightarrow> py_int16 s = Inr (int n)"
proof -
  assume s: "s \<noteq> []" "list_all plain_char s" "digits_value 16 0 s = Some n"
  then have "strip s = s"
    by (intro strip_no_space) (auto simp: list_all_iff dest: plain_char_cases)
  moreover obtain c t where c: "s = c # t" using s by (cases s) auto
  moreover have "c \<noteq> CHR ''-''" "c \<noteq> CHR ''+''"
    using s c by (auto dest: plain_char_cases)
  ultimately show ?thesis
    using s by (simp add: py_int16_def int16_unsigned_def drop_0x_plain)
qed

lemma plain_zero [simp]: "plain_char (CHR ''0'')"
  by (simp add: plain_char_def)

lemma fmt_hex_plain: "0 \<le> i \<Longrightarrow> list_all plain_char (fmt_hex w i)"
proof -
  assume "0 \<le> i"
  moreover have "list_all plain_char (digits 16 (nat i))" by (rule digits_plain) simp_all
  ultimately show ?thesis by (simp add: fmt_hex_def pad_zeros_def list_all_iff set_replicate_conv_if)
qed

lemma fmt_hex_nonempty [simp]: "fmt_hex w i \<noteq> []"
  by (auto simp: fmt_hex_def pad_zeros_def)

lemma fmt_hex_value: "0 \<le> i \<Longrightarrow> digits_value 16 0 (fmt_hex w i) = Some (nat i)"
  by (simp add: fmt_hex_def pad_zeros_def digits_zeros digits_value_digits)

text \<open>Reading back a formatted number gives the number, whatever the padding.\<close>

lemma py_int16_fmt_hex [text_simps]: "0 \<le> i \<Longrightarrow> py_int16 (fmt_hex w i) = Inr i"
  using py_int16_plain [of "fmt_hex w i" "nat i"] fmt_hex_plain fmt_hex_value by simp

lemma fmt_hex_length:
  "0 \<le> i \<Longrightarrow> 0 < k \<Longrightarrow> i < 16 ^ k \<Longrightarrow> length (fmt_hex w i) \<le> max w k"
proof -
  assume i: "0 \<le> i" "0 < k" "i < 16 ^ k"
  then have "nat i < 16 ^ k" by (simp add: nat_less_iff)
  then have "length (digits 16 (nat i)) \<le> k" using i by (intro digits_length) auto
  then show ?thesis using i by (simp add: fmt_hex_def pad_zeros_def)
qed

lemma fmt_hex_length_ge: "0 \<le> i \<Longrightarrow> w \<le> length (fmt_hex w i)"
  by (simp add: fmt_hex_def pad_zeros_def)

lemma fmt_hex_length_eq:
  "0 \<le> i \<Longrightarrow> 0 < w \<Longrightarrow> i < 16 ^ w \<Longrightarrow> length (fmt_hex w i) = w"
  using fmt_hex_length [of i w w] fmt_hex_length_ge [of i w] by simp

end
