(* ===== verification/Raeting.thy ===== *)
theory Raeting
  imports Numerals
begin

text \<open>
  The constants of raet/raeting.py: limits, the integer enumerations of the header fields, the
  default header values and the field formats. An enumeration is a datatype with its integer
  value; header dictionaries hold the integers, as the code's \<open>IntEnum\<close> comparisons expect.
\<close>

section \<open>Limits and sizes\<close>

definition SID_WRAP_MODULO :: int where "SID_WRAP_MODULO = 0x100000000"
definition SID_WRAP_DELTA :: int where "SID_WRAP_DELTA = 0x80000000"
definition SID_ROLLOVER :: int where "SID_ROLLOVER = 0xffffffff"

definition RAET_PORT :: int where "RAET_PORT = 7530"
definition RAET_TEST_PORT :: int where "RAET_TEST_PORT = 7531"
definition DEFAULT_SRC_HOST :: string where "DEFAULT_SRC_HOST = ''''"
definition DEFAULT_DST_HOST :: string where "DEFAULT_DST_HOST = ''127.0.0.1''"

definition UDP_MAX_DATAGRAM_SIZE :: nat where "UDP_MAX_DATAGRAM_SIZE = 2 ^ 16 - 1"
definition UDP_MAX_PACKET_SIZE :: nat where "UDP_MAX_PACKET_SIZE = min 1024 UDP_MAX_DATAGRAM_SIZE"
definition UXD_MAX_PACKET_SIZE :: nat where "UXD_MAX_PACKET_SIZE = 2 ^ 16 - 1"
definition MAX_SEGMENT_COUNT :: nat where "MAX_SEGMENT_COUNT = 2 ^ 16 - 1"
definition MAX_MESSAGE_SIZE :: nat where
  "MAX_MESSAGE_SIZE = min 67107840 (UDP_MAX_PACKET_SIZE * MAX_SEGMENT_COUNT)"
definition MAX_HEAD_SIZE :: nat where "MAX_HEAD_SIZE = 255"

lemma size_limits:
  "UDP_MAX_PACKET_SIZE = 1024" "UXD_MAX_PACKET_SIZE = 65535" "MAX_SEGMENT_COUNT = 65535"
  "MAX_MESSAGE_SIZE = 67107840" "MAX_HEAD_SIZE = 255"
  by (simp_all add: UDP_MAX_PACKET_SIZE_def UDP_MAX_DATAGRAM_SIZE_def UXD_MAX_PACKET_SIZE_def
      MAX_SEGMENT_COUNT_def MAX_MESSAGE_SIZE_def MAX_HEAD_SIZE_def)

text \<open>Evaluation compares sizes with these limits as integers.\<close>

lemma size_limits_code [code_unfold]:
  "UDP_MAX_PACKET_SIZE < n \<longleftrightarrow> 1024 < int n"
  "UXD_MAX_PACKET_SIZE < n \<longleftrightarrow> 65535 < int n"
  "MAX_MESSAGE_SIZE < n \<longleftrightarrow> 67107840 < int n"
  "n \<le> UDP_MAX_PACKET_SIZE \<longleftrightarrow> int n \<le> 1024"
  "n \<le> UXD_MAX_PACKET_SIZE \<longleftrightarrow> int n \<le> 65535"
  "int UDP_MAX_PACKET_SIZE = 1024"
  "int UXD_MAX_PACKET_SIZE = 65535"
  by (simp_all add: size_limits)

definition JSON_END :: bytes where "JSON_END = [CR, NL, CR, NL]"
definition HEAD_END :: bytes where "HEAD_END = [NL, NL]"

text \<open>\<open>VERSIONS.values()\<close>, of which the first is \<open>VERSION\<close>.\<close>

definition VERSIONS :: "(string, int) odict" where "VERSIONS = [(''0.1'', 0)]"
definition VERSION :: int where "VERSION = 0"

text \<open>The items of the \<open>struct\<close> formats: \<open>Ns\<close> and, in network order, \<open>L\<close>.\<close>

datatype struct_item = SBytes nat | SULong

fun item_size :: "struct_item \<Rightarrow> nat" where
  "item_size (SBytes n) = n"
| "item_size SULong = 4"

definition struct_size :: "struct_item list \<Rightarrow> nat" where
  "struct_size fmt = sum_list (map item_size fmt)"

definition HELLO_PACKER :: "struct_item list" where
  "HELLO_PACKER = [SBytes 64, SBytes 32, SBytes 80, SBytes 24]"
definition COOKIESTUFF_PACKER :: "struct_item list" where
  "COOKIESTUFF_PACKER = [SBytes 32, SULong, SULong, SBytes 24]"
definition COOKIE_PACKER :: "struct_item list" where
  "COOKIE_PACKER = [SBytes 80, SBytes 24]"
definition INITIATESTUFF_PACKER :: "struct_item list" where
  "INITIATESTUFF_PACKER = [SBytes 32, SBytes 48, SBytes 24, SBytes 128]"
definition INITIATE_PACKER :: "struct_item list" where
  "INITIATE_PACKER = [SBytes 32, SBytes 24, SBytes 248, SBytes 24]"

section \<open>Integer enumerations\<close>

text \<open>
  What \<open>@enum.unique class K(enum.IntEnum)\<close> promises: the members are all of the type and
  their values are distinct, so \<open>K(n)\<close> finds the one member of value \<open>n\<close> or raises.
\<close>

locale int_enum =
  fixes enum_value :: "'e \<Rightarrow> int"
    and enum_members :: "'e list"
  assumes members_all: "set enum_members = UNIV"
    and values_unique: "distinct (map enum_value enum_members)"
begin

lemma value_inj: "enum_value a = enum_value b \<longleftrightarrow> a = b"
proof -
  have "inj_on enum_value (set enum_members)"
    using values_unique by (simp add: distinct_map)
  then show ?thesis by (auto simp: members_all inj_on_def)
qed

lemma of_value_value:
  "find (\<lambda>k. enum_value k = n) enum_members = Some k \<longleftrightarrow> enum_value k = n"
proof
  assume "find (\<lambda>k. enum_value k = n) enum_members = Some k"
  then show "enum_value k = n" by (auto simp: find_Some_iff)
next
  assume v: "enum_value k = n"
  have "find (\<lambda>k. enum_value k = n) enum_members \<noteq> None"
    using v by (auto simp: find_None_iff members_all)
  then obtain k' where k': "find (\<lambda>k. enum_value k = n) enum_members = Some k'" by blast
  then have "enum_value k' = n" by (auto simp: find_Some_iff)
  with v k' show "find (\<lambda>k. enum_value k = n) enum_members = Some k"
    by (metis value_inj)
qed

lemma of_value_None:
  "find (\<lambda>k. enum_value k = n) enum_members = None \<longleftrightarrow> n \<notin> range enum_value"
  by (auto simp: find_None_iff members_all)

end

datatype head_kind = HkRaet | HkJson | HkBinary | HkUnknown

fun head_value :: "head_kind \<Rightarrow> int" where
  "head_value HkRaet = 0"
| "head_value HkJson = 1"
| "head_value HkBinary = 2"
| "head_value HkUnknown = 255"

datatype body_kind = BkNada | BkJson | BkRaw | BkMsgpack | BkUnknown

fun body_value :: "body_kind \<Rightarrow> int" where
  "body_value BkNada = 0"
| "body_value BkJson = 1"
| "body_value BkRaw = 2"
| "body_value BkMsgpack = 3"
| "body_value BkUnknown = 255"

definition body_kinds :: "body_kind list" where
  "body_kinds = [BkNada, BkJson, BkRaw, BkMsgpack, BkUnknown]"

interpretation body_enum: int_enum body_value body_kinds
proof
  show "set body_kinds = UNIV" by (auto simp: body_kinds_def intro: body_kind.exhaust)
qed (simp add: body_kinds_def)

definition body_of :: "int \<Rightarrow> body_kind option" where
  "body_of n = find (\<lambda>k. body_value k = n) body_kinds"

datatype foot_kind = FkNada | FkNacl | FkSha2 | FkCrc64 | FkUnknown

fun foot_value :: "foot_kind \<Rightarrow> int" where
  "foot_value FkNada = 0"
| "foot_value FkNacl = 1"
| "foot_value FkSha2 = 2"
| "foot_value FkCrc64 = 3"
| "foot_value FkUnknown = 255"

definition foot_kinds :: "foot_kind list" where
  "foot_kinds = [FkNada, FkNacl, FkSha2, FkCrc64, FkUnknown]"

interpretation foot_enum: int_enum foot_value foot_kinds
proof
  show "set foot_kinds = UNIV" by (auto simp: foot_kinds_def intro: foot_kind.exhaust)
qed (simp add: foot_kinds_def)

definition foot_of :: "int \<Rightarrow> foot_kind option" where
  "foot_of n = find (\<lambda>k. foot_value k = n) foot_kinds"

fun foot_size :: "foot_kind \<Rightarrow> nat" where
  "foot_size FkNada = 0"
| "foot_size FkNacl = 64"
| "foot_size FkSha2 = 256"
| "foot_size FkCrc64 = 8"
| "foot_size FkUnknown = 0"

datatype coat_kind = CkNada | CkNacl | CkCrc16 | CkCrc64 | CkUnknown

fun coat_value :: "coat_kind \<Rightarrow> int" where
  "coat_value CkNada = 0"
| "coat_value CkNacl = 1"
| "coat_value CkCrc16 = 2"
| "coat_value CkCrc64 = 3"
| "coat_value CkUnknown = 255"

definition coat_kinds :: "coat_kind list" where
  "coat_kinds = [CkNada, CkNacl, CkCrc16, CkCrc64, CkUnknown]"

interpretation coat_enum: int_enum coat_value coat_kinds
proof
  show "set coat_kinds = UNIV" by (auto simp: coat_kinds_def intro: coat_kind.exhaust)
qed (simp add: coat_kinds_def)

definition coat_of :: "int \<Rightarrow> coat_kind option" where
  "coat_of n = find (\<lambda>k. coat_value k = n) coat_kinds"

fun tail_size :: "coat_kind \<Rightarrow> nat" where
  "tail_size CkNada = 0"
| "tail_size CkNacl = 24"
| "tail_size CkCrc16 = 2"
| "tail_size CkCrc64 = 8"
| "tail_size CkUnknown = 0"

datatype trns_kind = TkMessage | TkJoin | TkBind | TkAllow | TkAlive | TkUnknown

fun trns_value :: "trns_kind \<Rightarrow> int" where
  "trns_value TkMessage = 0"
| "trns_value TkJoin = 1"
| "trns_value TkBind = 2"
| "trns_value TkAllow = 3"
| "trns_value TkAlive = 4"
| "trns_value TkUnknown = 255"

definition trns_kinds :: "trns_kind list" where
  "trns_kinds = [TkMessage, TkJoin, TkBind, TkAllow, TkAlive, TkUnknown]"

interpretation trns_enum: int_enum trns_value trns_kinds
proof
  show "set trns_kinds = UNIV" by (auto simp: trns_kinds_def intro: trns_kind.exhaust)
qed (simp add: trns_kinds_def)

datatype pckt_kind =
    PkMessage | PkAck | PkNack | PkResend | PkRequest | PkResponse | PkHello | PkCookie
  | PkInitiate | PkUnjoined | PkUnallowed | PkRenew | PkRefuse | PkReject | PkPend | PkDone
  | PkUnknown

fun pckt_value :: "pckt_kind \<Rightarrow> int" where
  "pckt_value PkMessage = 0"
| "pckt_value PkAck = 1"
| "pckt_value PkNack = 2"
| "pckt_value PkResend = 3"
| "pckt_value PkRequest = 4"
| "pckt_value PkResponse = 5"
| "pckt_value PkHello = 6"
| "pckt_value PkCookie = 7"
| "pckt_value PkInitiate = 8"
| "pckt_value PkUnjoined = 9"
| "pckt_value PkUnallowed = 10"
| "pckt_value PkRenew = 11"
| "pckt_value PkRefuse = 12"
| "pckt_value PkReject = 13"
| "pckt_value PkPend = 14"
| "pckt_value PkDone = 15"
| "pckt_value PkUnknown = 255"

definition pckt_kinds :: "pckt_kind list" where
  "pckt_kinds =
     [PkMessage, PkAck, PkNack, PkResend, PkRequest, PkResponse, PkHello, PkCookie, PkInitiate,
      PkUnjoined, PkUnallowed, PkRenew, PkRefuse, PkReject, PkPend, PkDone, PkUnknown]"

interpretation pckt_enum: int_enum pckt_value pckt_kinds
proof
  show "set pckt_kinds = UNIV" by (auto simp: pckt_kinds_def intro: pckt_kind.exhaust)
qed (simp add: pckt_kinds_def)

definition pckt_of :: "int \<Rightarrow> pckt_kind option" where
  "pckt_of n = find (\<lambda>k. pckt_value k = n) pckt_kinds"

datatype acceptance = Pending | Accepted | Rejected

fun acceptance_value :: "acceptance \<Rightarrow> int" where
  "acceptance_value Pending = 0"
| "acceptance_value Accepted = 1"
| "acceptance_value Rejected = 2"

datatype auto_mode = AutoNever | AutoOnce | AutoAlways

fun auto_value :: "auto_mode \<Rightarrow> int" where
  "auto_value AutoNever = 0"
| "auto_value AutoOnce = 1"
| "auto_value AutoAlways = 2"

datatype pack_kind = PackJson | PackMsgpack

fun pack_value :: "pack_kind \<Rightarrow> int" where
  "pack_value PackJson = 0"
| "pack_value PackMsgpack = 1"

definition pack_kinds :: "pack_kind list" where
  "pack_kinds = [PackJson, PackMsgpack]"

interpretation pack_enum: int_enum pack_value pack_kinds
proof
  show "set pack_kinds = UNIV" by (auto simp: pack_kinds_def intro: pack_kind.exhaust)
qed (simp add: pack_kinds_def)

definition pack_of :: "int \<Rightarrow> pack_kind option" where
  "pack_of n = find (\<lambda>k. pack_value k = n) pack_kinds"

text \<open>\<open>IntEnum\<close> members are ordered as their values.\<close>

instantiation acceptance :: linorder
begin

definition less_eq_acceptance :: "acceptance \<Rightarrow> acceptance \<Rightarrow> bool" where
  "less_eq_acceptance a b \<longleftrightarrow> acceptance_value a \<le> acceptance_value b"

definition less_acceptance :: "acceptance \<Rightarrow> acceptance \<Rightarrow> bool" where
  "less_acceptance a b \<longleftrightarrow> acceptance_value a < acceptance_value b"

instance
proof
  fix x y :: acceptance
  show "x \<le> y \<Longrightarrow> y \<le> x \<Longrightarrow> x = y"
    by (cases x; cases y) (simp_all add: less_eq_acceptance_def)
qed (auto simp: less_eq_acceptance_def less_acceptance_def)

end

section \<open>Header values\<close>

text \<open>
  A Python value, of a header field or of a deserialised message body. A float is carried by its
  text: no header that RAET sends contains one, and a received one is only stored.
\<close>

datatype val =
    VNone | VInt int | VBool bool | VStr string | VFloat string
  | VList "val list" | VDict "(string \<times> val) list"

type_synonym hdata = "(string, val) odict"

text \<open>Python's \<open>==\<close> on header values (a float's text equals itself only), and truth values.\<close>

fun as_int :: "val \<Rightarrow> int option" where
  "as_int (VInt i) = Some i"
| "as_int (VBool b) = Some (of_bool b)"
| "as_int _ = None"

definition py_eq :: "val \<Rightarrow> val \<Rightarrow> bool" where
  "py_eq v w = (case (as_int v, as_int w) of
     (Some i, Some j) \<Rightarrow> i = j
   | _ \<Rightarrow> v = w)"

definition is_int :: "val \<Rightarrow> int \<Rightarrow> bool" where
  "is_int v i \<longleftrightarrow> as_int v = Some i"

fun py_true :: "val \<Rightarrow> bool" where
  "py_true VNone = False"
| "py_true (VInt i) = (i \<noteq> 0)"
| "py_true (VBool b) = b"
| "py_true (VStr s) = (s \<noteq> [])"
| "py_true (VFloat s) = (s \<noteq> ''0.0'' \<and> s \<noteq> ''-0.0'')"
| "py_true (VList vs) = (vs \<noteq> [])"
| "py_true (VDict d) = (d \<noteq> [])"

lemma py_eq_simps [simp]:
  "py_eq (VInt i) (VInt j) \<longleftrightarrow> i = j"
  "py_eq (VStr s) (VStr t) \<longleftrightarrow> s = t"
  "py_eq v v"
  by (auto simp: py_eq_def split: option.splits)

lemma is_int_VInt [simp]: "is_int (VInt i) j \<longleftrightarrow> i = j"
  by (simp add: is_int_def)

text \<open>Message data: a mapping (or other value) to serialise, or bytes that are sent as they are.\<close>

datatype body = BData val | BRaw bytes

fun body_true :: "body \<Rightarrow> bool" where
  "body_true (BData v) = py_true v"
| "body_true (BRaw b) = (b \<noteq> [])"

definition is_mapping :: "body \<Rightarrow> bool" where
  "is_mapping b = (case b of BData (VDict _) \<Rightarrow> True | _ \<Rightarrow> False)"

definition PACKET_DEFAULTS :: hdata where
  "PACKET_DEFAULTS =
     [(''sh'', VStr DEFAULT_SRC_HOST), (''sp'', VInt RAET_PORT), (''dh'', VStr DEFAULT_DST_HOST),
      (''dp'', VInt RAET_PORT), (''ri'', VStr ''RAET''), (''vn'', VInt 0), (''pk'', VInt 0),
      (''pl'', VInt 0), (''hk'', VInt 0), (''hl'', VInt 0), (''se'', VInt 0), (''de'', VInt 0),
      (''cf'', VBool False), (''bf'', VBool False), (''nf'', VBool False), (''df'', VBool False),
      (''vf'', VBool False), (''si'', VInt 0), (''ti'', VInt 0), (''tk'', VInt 0),
      (''dt'', VInt 0), (''oi'', VInt 0), (''wf'', VBool False), (''sn'', VInt 0),
      (''sc'', VInt 1), (''ml'', VInt 0), (''sf'', VBool False), (''af'', VBool False),
      (''bk'', VInt 0), (''ck'', VInt 0), (''fk'', VInt 0), (''fl'', VInt 0),
      (''fg'', VStr ''00'')]"

definition PACKET_HEAD_FIELDS :: "string list" where
  "PACKET_HEAD_FIELDS =
     [''ri'', ''vn'', ''pk'', ''pl'', ''hk'', ''hl'', ''se'', ''de'', ''cf'', ''bf'', ''nf'', ''df'',
      ''vf'', ''si'', ''ti'', ''tk'', ''dt'', ''oi'', ''wf'', ''sn'', ''sc'', ''ml'', ''sf'', ''af'',
      ''bk'', ''bl'', ''ck'', ''cl'', ''fk'', ''fl'', ''fg'']"

definition PACKET_FLAGS :: "string list" where
  "PACKET_FLAGS = [''vf'', ''df'', ''nf'', ''af'', ''sf'', ''wf'', ''bf'', ''cf'']"

definition PACKET_FLAG_FIELDS :: "string list" where
  "PACKET_FLAG_FIELDS = [''vf'', ''df'', ''nf'', ''af'', ''sf'', ''wf'', ''bf'', ''cf'']"

text \<open>
  The format specifications that occur: \<open>'x'\<close> and \<open>'0wx'\<close> (\<open>FmtX 0\<close>, \<open>FmtX w\<close>),
  \<open>'.ns'\<close> (\<open>FmtPrec n\<close>), \<open>'s'\<close>, \<open>'f'\<close> and the empty one.
\<close>

datatype fmt = FmtX nat | FmtPrec nat | FmtS | FmtF | FmtEmpty

definition PACKET_FIELD_FORMATS :: "(string, fmt) odict" where
  "PACKET_FIELD_FORMATS =
     [(''ri'', FmtPrec 4), (''vn'', FmtX 0), (''pk'', FmtX 0), (''pl'', FmtX 4), (''hk'', FmtX 0),
      (''hl'', FmtX 2), (''se'', FmtX 0), (''de'', FmtX 0), (''cf'', FmtEmpty),
      (''bf'', FmtEmpty), (''nf'', FmtEmpty), (''df'', FmtEmpty), (''vf'', FmtEmpty),
      (''si'', FmtX 0), (''ti'', FmtX 0), (''tk'', FmtX 0), (''dt'', FmtF), (''oi'', FmtX 0),
      (''wf'', FmtEmpty), (''sn'', FmtX 0), (''sc'', FmtX 0), (''ml'', FmtX 0),
      (''sf'', FmtEmpty), (''af'', FmtEmpty), (''bk'', FmtX 0), (''ck'', FmtX 0),
      (''fk'', FmtX 0), (''fl'', FmtX 0), (''fg'', FmtPrec 2)]"

definition PAGE_DEFAULTS :: hdata where
  "PAGE_DEFAULTS =
     [(''ri'', VStr ''RAET''), (''vn'', VInt 0), (''pk'', VInt 0), (''sn'', VStr ''''),
      (''dn'', VStr ''''), (''si'', VStr ''000000000000000000''), (''bi'', VInt 0),
      (''pn'', VInt 0), (''pc'', VInt 1)]"

definition PAGE_FIELD_FORMATS :: "(string, fmt) odict" where
  "PAGE_FIELD_FORMATS =
     [(''ri'', FmtPrec 4), (''vn'', FmtX 0), (''pk'', FmtX 0), (''sn'', FmtS), (''dn'', FmtS),
      (''si'', FmtPrec 18), (''bi'', FmtX 0), (''pn'', FmtX 4), (''pc'', FmtX 4)]"

definition PAGE_FIELDS :: "string list" where
  "PAGE_FIELDS = [''ri'', ''vn'', ''pk'', ''sn'', ''dn'', ''si'', ''bi'', ''pn'', ''pc'']"

text \<open>
  \<open>"{val:{fmt}}".format(...)\<close>: \<open>float_text\<close> gives \<open>"{:f}"\<close> of a float; formatting a
  string as a number, or a number with a precision, raises \<open>ValueError\<close>, a container
  \<open>TypeError\<close>.
\<close>

fun format_val :: "(string \<Rightarrow> string) \<Rightarrow> fmt \<Rightarrow> val \<Rightarrow> string result" where
  "format_val ft f VNone = (if f = FmtEmpty then Inr ''None'' else Inl TypeError)"
| "format_val ft (FmtX w) (VInt i) = Inr (fmt_hex w i)"
| "format_val ft (FmtX w) (VBool b) = Inr (fmt_hex w (of_bool b))"
| "format_val ft f (VList vs) = Inl TypeError"
| "format_val ft f (VDict d) = Inl TypeError"
| "format_val ft (FmtX w) _ = Inl ValueError"
| "format_val ft (FmtPrec n) (VStr s) = Inr (take n s)"
| "format_val ft (FmtPrec n) _ = Inl ValueError"
| "format_val ft FmtS (VStr s) = Inr s"
| "format_val ft FmtS _ = Inl ValueError"
| "format_val ft FmtF (VInt i) = Inr (fmt_dec i @ ''.000000'')"
| "format_val ft FmtF (VBool b) = Inr (fmt_dec (of_bool b) @ ''.000000'')"
| "format_val ft FmtF (VFloat r) = Inr (ft r)"
| "format_val ft FmtF (VStr s) = Inl ValueError"
| "format_val ft FmtEmpty (VInt i) = Inr (fmt_dec i)"
| "format_val ft FmtEmpty (VBool b) = Inr (if b then ''True'' else ''False'')"
| "format_val ft FmtEmpty (VStr s) = Inr s"
| "format_val ft FmtEmpty (VFloat r) = Inr r"

text \<open>
  The conversion both header parsers apply to a field's text, by the letters of its format.
\<close>

fun convert_val :: "(string \<Rightarrow> string option) \<Rightarrow> fmt \<Rightarrow> string \<Rightarrow> val result" where
  "convert_val pf (FmtX w) s = rbind (py_int16 s) (\<lambda>i. Inr (VInt i))"
| "convert_val pf FmtF s = (case pf s of None \<Rightarrow> Inl ValueError | Some r \<Rightarrow> Inr (VFloat r))"
| "convert_val pf _ s = Inr (VStr s)"

end
