(* ===== verification/Packeting.thy ===== *)
theory Packeting
  imports Raeting
begin

text \<open>
  Road packets, raet/road/packeting.py: the head, body, coat and foot of a packet, its packing,
  signing and encryption on the way out and its parsing and verification on the way in.

  What the code takes from libraries is the record \<open>codec\<close>: JSON, MessagePack, the bit packing
  of ioflo, float texts, and the keys' operations of the stack's local estate and its remotes.
  A part's \<open>packed\<close> attribute is a field of the packet; a method that raises returns the
  exception (the packet object it leaves behind is dropped by every caller).
\<close>

section \<open>Library operations\<close>

record remote_crypt =
  rc_verify :: "bytes \<Rightarrow> bytes \<Rightarrow> bool"
  rc_encrypt :: "bytes \<Rightarrow> (bytes \<times> bytes) result"
  rc_decrypt :: "bytes \<Rightarrow> bytes \<Rightarrow> bytes result"

record codec =
  json_dumps :: "body \<Rightarrow> bytes result"
  json_loads :: "bytes \<Rightarrow> val option"
  msgpack :: "((body \<Rightarrow> bytes result) \<times> (bytes \<Rightarrow> val option)) option"
  pack_byte :: "string \<Rightarrow> int list \<Rightarrow> int"
  unpack_byte :: "string \<Rightarrow> int \<Rightarrow> bool list"
  float_text :: "string \<Rightarrow> string"
  parse_float :: "string \<Rightarrow> string option"
  local_signature :: "bytes \<Rightarrow> bytes"
  remotes_crypt :: "(int \<times> remote_crypt) list"

definition FMT8 :: string where "FMT8 = ''11111111''"

section \<open>Outgoing packets\<close>

record txpacket =
  tp_data :: hdata
  tp_embody :: body
  tp_head :: bytes
  tp_body :: bytes
  tp_coat :: bytes
  tp_foot :: bytes
  tp_packed :: bytes

definition tp_size :: "txpacket \<Rightarrow> nat" where
  "tp_size p = length (tp_packed p)"

definition EMPTY_BODY :: body where
  "EMPTY_BODY = BData (VDict [])"

text \<open>\<open>Packet.__init__\<close>: a kind of zero is not stored, since \<open>if kind\<close> is false for it.\<close>

definition Packet_init :: "hdata \<Rightarrow> int option \<Rightarrow> hdata result" where
  "Packet_init data kind =
     (let d = oupdate PACKET_DEFAULTS data in
      case kind of
        None \<Rightarrow> Inr d
      | Some k \<Rightarrow>
          if k = 0 then Inr d
          else if pckt_of k = None then Inl PacketError
          else Inr (oset ''pk'' (VInt k) d))"

definition TxPacket_init :: "hdata \<Rightarrow> int option \<Rightarrow> body \<Rightarrow> txpacket result" where
  "TxPacket_init data kind embody =
     rbind (Packet_init data kind) (\<lambda>d.
     Inr \<lparr>tp_data = d, tp_embody = embody, tp_head = [], tp_body = [], tp_coat = [], tp_foot = [],
          tp_packed = []\<rparr>)"

definition Packet_segmentive :: "hdata \<Rightarrow> bool" where
  "Packet_segmentive d \<longleftrightarrow>
     py_true (oget_or d ''sf'' VNone) \<or>
     (case as_int (oget_or d ''sc'' (VInt 1)) of Some n \<Rightarrow> n > 1 | None \<Rightarrow> False)"

definition Packet_refresh :: "hdata \<Rightarrow> hdata" where
  "Packet_refresh data = oupdate PACKET_DEFAULTS data"

subsection \<open>The head\<close>

definition packFlags :: "codec \<Rightarrow> hdata \<Rightarrow> int" where
  "packFlags c d =
     pack_byte c FMT8
       (map (\<lambda>f. if py_true (oget_or d f (VInt 0)) then 1 else 0) PACKET_FLAG_FIELDS)"

definition KIT0 :: hdata where
  "KIT0 = [(''ri'', VStr ''RAET''), (''pl'', VInt 0), (''hl'', VInt 0), (''fg'', VStr ''00'')]"

fun head_kit :: "hdata \<Rightarrow> hdata \<Rightarrow> hdata \<Rightarrow> hdata result" where
  "head_kit d kit [] = Inr kit"
| "head_kit d kit ((k, v) # rest) =
     (if k \<in> set PACKET_HEAD_FIELDS \<and> k \<notin> set PACKET_FLAGS
      then rbind (oitem d k) (\<lambda>w. head_kit d (if py_eq w v then kit else oset k w kit) rest)
      else head_kit d kit rest)"

definition head_line :: "codec \<Rightarrow> string \<times> val \<Rightarrow> string result" where
  "head_line c kv =
     rbind (oitem PACKET_FIELD_FORMATS (fst kv)) (\<lambda>f.
     rbind (format_val (float_text c) f (snd kv)) (\<lambda>t.
     Inr (fst kv @ [SP] @ t)))"

text \<open>
  The field lines with the final lengths put in: the header is laid out with the lengths of
  \<open>kit\<close> first, and the texts of \<open>pl\<close> and \<open>hl\<close> are replaced once they are known.
\<close>

definition field_line :: "string \<Rightarrow> string \<Rightarrow> bytes" where
  "field_line k t = [NL] @ k @ [SP] @ t @ [NL]"

definition put_length :: "codec \<Rightarrow> hdata \<Rightarrow> string \<Rightarrow> nat \<Rightarrow> int \<Rightarrow> bytes \<Rightarrow> bytes result" where
  "put_length c kit k w n packed =
     rbind (oitem kit k) (\<lambda>v.
     rbind (format_val (float_text c) (FmtX w) v) (\<lambda>old.
     Inr (replace_first packed (field_line k old) (field_line k (last_n w (fmt_hex w n))))))"

definition TxHead_pack_raet ::
    "codec \<Rightarrow> hdata \<Rightarrow> nat \<Rightarrow> nat \<Rightarrow> hdata \<Rightarrow> (bytes \<times> hdata) result" where
  "TxHead_pack_raet c kit coatsize fl d =
     rbind (mapM (head_line c) kit) (\<lambda>lines.
     let packed = join_with [NL] lines @ HEAD_END; hl = length packed in
     if hl > MAX_HEAD_SIZE then Inl NameError
     else let d1 = oset ''hl'' (VInt (int hl)) d in
     if coatsize > MAX_MESSAGE_SIZE then Inl PacketError
     else let pl = int (hl + coatsize + fl); d2 = oset ''pl'' (VInt pl) d1 in
     rbind (put_length c kit ''pl'' 4 pl packed) (\<lambda>packed1.
     rbind (put_length c kit ''hl'' 2 (int hl) packed1) (\<lambda>packed2.
     Inr (packed2, d2))))"

definition TxHead_pack_json ::
    "codec \<Rightarrow> hdata \<Rightarrow> nat \<Rightarrow> nat \<Rightarrow> hdata \<Rightarrow> (bytes \<times> hdata) result" where
  "TxHead_pack_json c kit0 coatsize fl d =
     (let kit = oset ''hl'' (VStr ''00'') (oset ''pl'' (VStr ''0000000'') kit0) in
     rbind (json_dumps c (BData (VDict kit))) (\<lambda>text.
     let packed = text @ JSON_END; hl = length packed in
     if hl > MAX_HEAD_SIZE then Inl NameError
     else let d1 = oset ''hl'' (VInt (int hl)) d in
     if coatsize > MAX_MESSAGE_SIZE then Inl PacketError
     else let pl = int (hl + coatsize + fl); d2 = oset ''pl'' (VInt pl) d1;
       packed1 = replace_first packed (''\"pl\":\"0000000\"'')
                   (''\"pl\":\"'' @ last_n 7 (fmt_hex 7 pl) @ ''\"'');
       packed2 = replace_first packed1 (''\"hl\":\"00\"'')
                   (''\"hl\":\"'' @ last_n 2 (fmt_hex 2 (int hl)) @ ''\"'')
     in Inr (packed2, d2)))"

definition TxHead_pack :: "codec \<Rightarrow> txpacket \<Rightarrow> txpacket result" where
  "TxHead_pack c p =
     (let fl = length (tp_foot p);
          d0 = oset ''fg'' (VStr (fmt_hex 2 (packFlags c (oset ''fl'' (VInt (int fl)) (tp_data p)))))
                 (oset ''fl'' (VInt (int fl)) (tp_data p))
      in rbind (head_kit d0 KIT0 PACKET_DEFAULTS) (\<lambda>kit.
      rbind (oitem d0 ''hk'') (\<lambda>hk.
      if is_int hk (head_value HkRaet) then
        rbind (TxHead_pack_raet c kit (length (tp_coat p)) fl d0) (\<lambda>(h, d).
        Inr (p\<lparr>tp_head := h, tp_data := d\<rparr>))
      else if is_int hk (head_value HkJson) then
        rbind (TxHead_pack_json c kit (length (tp_coat p)) fl d0) (\<lambda>(h, d).
        Inr (p\<lparr>tp_head := h, tp_data := d\<rparr>))
      else Inr (p\<lparr>tp_head := [], tp_data := d0\<rparr>))))"

subsection \<open>Body, coat and foot\<close>

definition TxBody_pack :: "codec \<Rightarrow> txpacket \<Rightarrow> txpacket result" where
  "TxBody_pack c p =
     rbind (oitem (tp_data p) ''bk'') (\<lambda>bk.
     rbind
      (if is_int bk (body_value BkJson) then
         (if body_true (tp_embody p) then json_dumps c (tp_embody p) else Inr [])
       else if is_int bk (body_value BkMsgpack) then
         (if body_true (tp_embody p) then
            (case msgpack c of None \<Rightarrow> Inl NameError | Some (dumps, _) \<Rightarrow> dumps (tp_embody p))
          else Inr [])
       else if is_int bk (body_value BkRaw) then
         (case tp_embody p of BRaw b \<Rightarrow> Inr b | BData _ \<Rightarrow> Inl TypeError)
       else Inr [])
      (\<lambda>b. Inr (p\<lparr>tp_body := b\<rparr>)))"

definition lookup_remote :: "codec \<Rightarrow> val \<Rightarrow> remote_crypt option" where
  "lookup_remote c v =
     (case as_int v of None \<Rightarrow> None | Some uid \<Rightarrow> oget (remotes_crypt c) uid)"

definition TxPacket_encrypt :: "codec \<Rightarrow> hdata \<Rightarrow> bytes \<Rightarrow> (bytes \<times> bytes) result" where
  "TxPacket_encrypt c d msg =
     rbind (oitem d ''se'') (\<lambda>se.
     case lookup_remote c se of None \<Rightarrow> Inl KeyError | Some r \<Rightarrow> rc_encrypt r msg)"

definition TxCoat_pack :: "codec \<Rightarrow> txpacket \<Rightarrow> txpacket result" where
  "TxCoat_pack c p =
     rbind (oitem (tp_data p) ''ck'') (\<lambda>ck.
     rbind
      (if is_int ck (coat_value CkNacl) then
         (if tp_body p \<noteq> [] then
            rbind (TxPacket_encrypt c (tp_data p) (tp_body p)) (\<lambda>(cipher, nonce).
            Inr (cipher @ nonce))
          else Inr [])
       else if is_int ck (coat_value CkNada) then Inr (tp_body p)
       else Inr [])
      (\<lambda>b. Inr (p\<lparr>tp_coat := b\<rparr>)))"

definition foot_kind_of_val :: "val \<Rightarrow> foot_kind option" where
  "foot_kind_of_val v = Option.bind (as_int v) foot_of"

definition BLANK :: bytes where
  "BLANK = replicate (foot_size FkNacl) (CHR 0x00)"

definition TxFoot_pack :: "txpacket \<Rightarrow> txpacket result" where
  "TxFoot_pack p =
     rbind (oitem (tp_data p) ''fk'') (\<lambda>fk.
     case foot_kind_of_val fk of
       None \<Rightarrow> Inl PacketError
     | Some k \<Rightarrow> Inr (p\<lparr>tp_foot := (if k = FkNacl then BLANK else [])\<rparr>))"

definition TxFoot_sign :: "codec \<Rightarrow> txpacket \<Rightarrow> txpacket result" where
  "TxFoot_sign c p =
     rbind (oitem (tp_data p) ''fk'') (\<lambda>fk.
     case foot_kind_of_val fk of
       None \<Rightarrow> Inl PacketError
     | Some k \<Rightarrow>
         Inr (if k = FkNacl then p\<lparr>tp_foot := local_signature c (tp_packed p)\<rparr> else p))"

subsection \<open>Whole packets\<close>

definition join_parts :: "txpacket \<Rightarrow> txpacket" where
  "join_parts p = p\<lparr>tp_packed := tp_head p @ tp_coat p @ tp_foot p\<rparr>"

definition TxPacket_sign :: "codec \<Rightarrow> txpacket \<Rightarrow> txpacket result" where
  "TxPacket_sign c p = rbind (TxFoot_sign c p) (\<lambda>p1. Inr (join_parts p1))"

definition TxPacket_prepack :: "codec \<Rightarrow> txpacket \<Rightarrow> txpacket result" where
  "TxPacket_prepack c p =
     rbind (TxBody_pack c p) (\<lambda>p1.
     rbind (TxCoat_pack c p1) (\<lambda>p2.
     rbind (TxFoot_pack p2) (\<lambda>p3.
     rbind (TxHead_pack c p3) (\<lambda>p4.
     Inr (join_parts p4)))))"

text \<open>
  The steps that finish a packet once its coat is there: \<open>repack\<close> takes them again, and
  \<open>packetize\<close> takes them for each segment.
\<close>

definition TxPacket_seal :: "codec \<Rightarrow> txpacket \<Rightarrow> txpacket result" where
  "TxPacket_seal c p =
     rbind (TxFoot_pack p) (\<lambda>p1.
     rbind (TxHead_pack c p1) (\<lambda>p2.
     TxPacket_sign c (join_parts p2)))"

definition TxPacket_repack :: "codec \<Rightarrow> txpacket \<Rightarrow> txpacket result" where
  "TxPacket_repack c p =
     rbind (TxPacket_seal c p) (\<lambda>p3.
     if tp_size p3 > UDP_MAX_PACKET_SIZE then Inl PacketError else Inr p3)"

definition TxPacket_pack :: "codec \<Rightarrow> txpacket \<Rightarrow> txpacket result" where
  "TxPacket_pack c p =
     rbind (TxPacket_prepack c p) (\<lambda>p1.
     if tp_size p1 > UDP_MAX_PACKET_SIZE then Inl PacketError else TxPacket_sign c p1)"

text \<open>
  A transaction index \<open>(rf, le, re, si, ti, bf)\<close>; in a join, where an estate may have no id
  yet, \<open>re\<close> is its host address.
\<close>

datatype eid = Uid val | Ha val val

type_synonym tindex = "val \<times> val \<times> eid \<times> val \<times> val \<times> val"

definition py_not :: "val \<Rightarrow> val" where
  "py_not v = VBool (\<not> py_true v)"

definition TxPacket_index :: "hdata \<Rightarrow> tindex result" where
  "TxPacket_index d =
     rbind (oitem d ''cf'') (\<lambda>cf. rbind (oitem d ''se'') (\<lambda>le. rbind (oitem d ''de'') (\<lambda>re.
     rbind (if (is_int re 0 \<and> \<not> py_true cf) \<or> (is_int le 0 \<and> py_true cf)
            then rbind (oitem d ''dh'') (\<lambda>h. rbind (oitem d ''dp'') (\<lambda>p. Inr (Ha h p)))
            else Inr (Uid re)) (\<lambda>e.
     rbind (oitem d ''si'') (\<lambda>si. rbind (oitem d ''ti'') (\<lambda>ti. rbind (oitem d ''bf'') (\<lambda>bf.
     Inr (cf, le, e, si, ti, bf))))))))"

section \<open>Incoming packets\<close>

record rxpacket =
  rp_data :: hdata
  rp_packed :: bytes
  rp_head :: bytes
  rp_body :: bytes
  rp_coat :: bytes
  rp_foot :: bytes
  rp_embody :: body

definition rp_size :: "rxpacket \<Rightarrow> nat" where
  "rp_size p = length (rp_packed p)"

definition RxPacket_init :: "hdata \<Rightarrow> bytes \<Rightarrow> rxpacket" where
  "RxPacket_init data packed =
     \<lparr>rp_data = oupdate PACKET_DEFAULTS data, rp_packed = packed, rp_head = [], rp_body = [],
      rp_coat = [], rp_foot = [], rp_embody = EMPTY_BODY\<rparr>"

text \<open>\<open>index\<close> of a received packet: the near and far ids swap, and so does the flag.\<close>

definition RxPacket_index :: "hdata \<Rightarrow> tindex result" where
  "RxPacket_index d =
     rbind (oitem d ''cf'') (\<lambda>cf. rbind (oitem d ''de'') (\<lambda>le. rbind (oitem d ''se'') (\<lambda>re.
     rbind (if (is_int re 0 \<and> py_true cf) \<or> (is_int le 0 \<and> \<not> py_true cf)
            then rbind (oitem d ''sh'') (\<lambda>h. rbind (oitem d ''sp'') (\<lambda>p. Inr (Ha h p)))
            else Inr (Uid re)) (\<lambda>e.
     rbind (oitem d ''si'') (\<lambda>si. rbind (oitem d ''ti'') (\<lambda>ti. rbind (oitem d ''bf'') (\<lambda>bf.
     Inr (py_not cf, le, e, si, ti, bf))))))))"

subsection \<open>The head\<close>

text \<open>\<open>int(x, 16)\<close> accepts strings only.\<close>

definition py_int16_val :: "val \<Rightarrow> int result" where
  "py_int16_val v = (case v of VStr s \<Rightarrow> py_int16 s | _ \<Rightarrow> Inl TypeError)"

fun set_flags :: "string list \<Rightarrow> bool list \<Rightarrow> hdata \<Rightarrow> hdata result" where
  "set_flags [] vs d = Inr d"
| "set_flags (f # fs) vs d =
     (if ohas d f then
        (case vs of [] \<Rightarrow> Inl IndexError | v # vs' \<Rightarrow> set_flags fs vs' (oset f (VBool v) d))
      else set_flags fs (tl vs) d)"

definition unpackFlags :: "codec \<Rightarrow> val \<Rightarrow> hdata \<Rightarrow> hdata result" where
  "unpackFlags c flags d =
     rbind (py_int16_val flags) (\<lambda>n. set_flags PACKET_FLAG_FIELDS (unpack_byte c FMT8 n) d)"

definition unpack_flag_field :: "codec \<Rightarrow> hdata \<Rightarrow> hdata result" where
  "unpack_flag_field c d =
     (case oget d ''fg'' of None \<Rightarrow> Inr d | Some fg \<Rightarrow> unpackFlags c fg d)"

definition head_field :: "codec \<Rightarrow> string \<Rightarrow> (string \<times> val) result" where
  "head_field c line =
     (case split_on SP line of
        [key, text] \<Rightarrow>
          if key \<notin> set PACKET_HEAD_FIELDS then Inl PacketError
          else rbind (oitem PACKET_FIELD_FORMATS key) (\<lambda>f.
               rbind (convert_val (parse_float c) f text) (\<lambda>v. Inr (key, v)))
      | _ \<Rightarrow> Inl ValueError)"

definition check_val :: "hdata \<Rightarrow> string \<Rightarrow> int \<Rightarrow> unit result" where
  "check_val d k n = rbind (oitem d k) (\<lambda>v. guard (is_int v n) PacketError)"

definition RxHead_parse_raet :: "codec \<Rightarrow> rxpacket \<Rightarrow> rxpacket result" where
  "RxHead_parse_raet c p =
     (let (front, sep, back) = partition_at (rp_packed p) HEAD_END; head = front @ sep in
      rbind (mapM (head_field c) (split_on NL front)) (\<lambda>fields.
      let kit = oupdate [] fields in
      rbind (unpack_flag_field c (oupdate (rp_data p) kit)) (\<lambda>d.
      rbind (check_val d ''hk'' (head_value HkRaet)) (\<lambda>_.
      rbind (check_val d ''hl'' (int (length head))) (\<lambda>_.
      rbind (check_val d ''pl'' (int (rp_size p))) (\<lambda>_.
      Inr (p\<lparr>rp_head := head, rp_data := d\<rparr>)))))))"

definition check_length_text :: "hdata \<Rightarrow> string \<Rightarrow> int \<Rightarrow> hdata result" where
  "check_length_text d k n =
     rbind (oitem d k) (\<lambda>v.
     rbind (py_int16_val v) (\<lambda>m.
     rbind (guard (m = n) PacketError) (\<lambda>_. Inr (oset k (VInt m) d))))"

definition RxHead_parse_json :: "codec \<Rightarrow> rxpacket \<Rightarrow> rxpacket result" where
  "RxHead_parse_json c p =
     (let (front, sep, back) = partition_at (rp_packed p) JSON_END; head = front @ sep in
      case json_loads c front of
        None \<Rightarrow> Inl ValueError
      | Some (VDict kit) \<Rightarrow>
          rbind (unpack_flag_field c (oupdate (rp_data p) kit)) (\<lambda>d.
          rbind (check_val d ''hk'' (head_value HkJson)) (\<lambda>_.
          rbind (check_length_text d ''hl'' (int (length head))) (\<lambda>d1.
          rbind (check_length_text d1 ''pl'' (int (rp_size p))) (\<lambda>d2.
          Inr (p\<lparr>rp_head := head, rp_data := d2\<rparr>)))))
      | Some _ \<Rightarrow> Inl TypeError)"

definition RxHead_parse :: "codec \<Rightarrow> rxpacket \<Rightarrow> rxpacket result" where
  "RxHead_parse c p =
     (if starts_with (''ri RAET'' @ [NL]) (rp_packed p) \<and> contains (rp_packed p) HEAD_END
      then RxHead_parse_raet c p
      else if starts_with ''{\"ri\":\"RAET\",'' (rp_packed p) \<and> contains (rp_packed p) JSON_END
      then RxHead_parse_json c p
      else Inl PacketError)"

subsection \<open>Foot, coat and body\<close>

definition RxPacket_verify :: "codec \<Rightarrow> hdata \<Rightarrow> bytes \<Rightarrow> bytes \<Rightarrow> bool result" where
  "RxPacket_verify c d signature msg =
     rbind (oitem d ''de'') (\<lambda>nuid.
     case lookup_remote c nuid of
       None \<Rightarrow> Inr False
     | Some r \<Rightarrow> Inr (rc_verify r signature msg))"

definition RxPacket_decrypt :: "codec \<Rightarrow> hdata \<Rightarrow> bytes \<Rightarrow> bytes \<Rightarrow> bytes result" where
  "RxPacket_decrypt c d cipher nonce =
     rbind (oitem d ''de'') (\<lambda>nuid.
     case lookup_remote c nuid of
       None \<Rightarrow> Inl KeyError
     | Some r \<Rightarrow> rc_decrypt r cipher nonce)"

definition RxFoot_parse :: "codec \<Rightarrow> rxpacket \<Rightarrow> rxpacket result" where
  "RxFoot_parse c p =
     rbind (oitem (rp_data p) ''fk'') (\<lambda>fk.
     rbind (oitem (rp_data p) ''fl'') (\<lambda>flv.
     case foot_kind_of_val fk of
       None \<Rightarrow> Inl PacketError
     | Some k \<Rightarrow>
        (case as_int flv of
           None \<Rightarrow> Inl TypeError
         | Some fl \<Rightarrow>
            if int (rp_size p) < fl then Inl PacketError
            else let foot = py_from (rp_packed p) (int (rp_size p) - fl);
                     p1 = p\<lparr>rp_foot := foot\<rparr> in
            if k = FkNacl then
              (if length foot \<noteq> foot_size FkNacl then Inl PacketError
               else rbind (RxPacket_verify c (rp_data p) foot
                            (py_slice (rp_packed p) 0 (int (rp_size p) - fl) @ BLANK)) (\<lambda>ok.
                    if ok then Inr p1 else Inl PacketError))
            else Inr p1)))"

definition RxCoat_parse :: "codec \<Rightarrow> rxpacket \<Rightarrow> rxpacket result" where
  "RxCoat_parse c p =
     rbind (oitem (rp_data p) ''ck'') (\<lambda>ckv.
     case Option.bind (as_int ckv) coat_of of
       None \<Rightarrow> Inl PacketError
     | Some ck \<Rightarrow>
        (if ck = CkNacl then
           (if rp_coat p \<noteq> [] then
              let tl = tail_size CkNacl;
                  cipher = take (length (rp_coat p) - tl) (rp_coat p);
                  nonce = last_n tl (rp_coat p) in
              rbind (RxPacket_decrypt c (rp_data p) cipher nonce) (\<lambda>msg.
              Inr (p\<lparr>rp_body := msg\<rparr>))
            else Inr (p\<lparr>rp_body := rp_coat p\<rparr>))
         else if ck = CkNada then Inr (p\<lparr>rp_body := rp_coat p\<rparr>)
         else Inr p))"

definition loaded_mapping :: "val option \<Rightarrow> body result" where
  "loaded_mapping v =
     (case v of
        None \<Rightarrow> Inl ValueError
      | Some (VDict d) \<Rightarrow> Inr (BData (VDict d))
      | Some _ \<Rightarrow> Inl PacketError)"

definition RxBody_parse :: "codec \<Rightarrow> rxpacket \<Rightarrow> rxpacket result" where
  "RxBody_parse c p =
     rbind (oitem (rp_data p) ''bk'') (\<lambda>bkv.
     case Option.bind (as_int bkv) body_of of
       None \<Rightarrow> Inl PacketError
     | Some bk \<Rightarrow>
        rbind
         (if bk = BkJson then
            (if rp_body p \<noteq> [] then loaded_mapping (json_loads c (rp_body p)) else Inr EMPTY_BODY)
          else if bk = BkMsgpack then
            (if rp_body p \<noteq> [] then
               (case msgpack c of
                  None \<Rightarrow> Inl NameError
                | Some (_, loads) \<Rightarrow> loaded_mapping (loads (rp_body p)))
             else Inr EMPTY_BODY)
          else if bk = BkRaw then Inr (BRaw (rp_body p))
          else Inr EMPTY_BODY)
         (\<lambda>b. Inr (p\<lparr>rp_embody := b\<rparr>)))"

subsection \<open>Whole packets\<close>

text \<open>
  The message for an incompatible version has two fields and is formatted with one argument, so
  building it raises \<open>IndexError\<close>.
\<close>

definition RxPacket_parseOuter :: "codec \<Rightarrow> rxpacket \<Rightarrow> rxpacket result" where
  "RxPacket_parseOuter c p =
     (if rp_packed p = [] then Inl PacketError
      else rbind (RxHead_parse c p) (\<lambda>p1.
           rbind (oitem (rp_data p1) ''vn'') (\<lambda>vn.
           if \<not> (\<exists>v \<in> set (ovalues VERSIONS). is_int vn v) then Inl IndexError
           else RxFoot_parse c p1)))"

definition RxPacket_unpackInner :: "rxpacket \<Rightarrow> rxpacket result" where
  "RxPacket_unpackInner p =
     rbind (oitem (rp_data p) ''hl'') (\<lambda>hl.
     rbind (oitem (rp_data p) ''fl'') (\<lambda>fl.
     case (as_int hl, as_int fl) of
       (Some h, Some f) \<Rightarrow>
         Inr (p\<lparr>rp_coat := py_slice (rp_packed p) h (int (rp_size p) - f)\<rparr>)
     | _ \<Rightarrow> Inl TypeError))"

definition RxPacket_parseInner :: "codec \<Rightarrow> rxpacket \<Rightarrow> rxpacket result" where
  "RxPacket_parseInner c p =
     rbind (RxPacket_unpackInner p) (\<lambda>p1.
     rbind (RxCoat_parse c p1) (\<lambda>p2.
     RxBody_parse c p2))"

definition RxPacket_parse :: "codec \<Rightarrow> rxpacket \<Rightarrow> rxpacket result" where
  "RxPacket_parse c p = rbind (RxPacket_parseOuter c p) (RxPacket_parseInner c)"

end
