(* ===== verification/HeadText.thy ===== *)
theory HeadText
  imports Packeting
begin

text \<open>
  The RAET text header: what \<open>TxHead.pack\<close> writes for the headers RAET sends, line by line,
  and that \<open>RxHead.parse\<close> reads the same fields back.
\<close>

section \<open>Headers that can be sent\<close>

definition INT_FIELDS :: "string list" where
  "INT_FIELDS =
     [''vn'', ''pk'', ''pl'', ''hk'', ''hl'', ''se'', ''de'', ''si'', ''ti'', ''tk'', ''oi'',
      ''sn'', ''sc'', ''ml'', ''bk'', ''ck'', ''fk'', ''fl'']"

text \<open>
  The shape of the header data that the transactions build: every default field is there, the
  numbers are not negative, the flags are Booleans, and the previous lengths, which the text is
  laid out with, fit their columns.
\<close>

definition sendable :: "hdata \<Rightarrow> bool" where
  "sendable d \<longleftrightarrow>
     oget d ''ri'' = Some (VStr ''RAET'') \<and> oget d ''dt'' = Some (VInt 0) \<and>
     (\<exists>s. oget d ''fg'' = Some (VStr s)) \<and>
     (\<forall>k \<in> set INT_FIELDS. \<exists>i \<ge> 0. oget d k = Some (VInt i)) \<and>
     (\<forall>f \<in> set PACKET_FLAGS. \<exists>b. oget d f = Some (VBool b)) \<and>
     (\<forall>i. oget d ''pl'' = Some (VInt i) \<longrightarrow> i < 65536) \<and>
     (\<forall>i. oget d ''hl'' = Some (VInt i) \<longrightarrow> i < 256)"

lemma sendable_int: "sendable d \<Longrightarrow> k \<in> set INT_FIELDS \<Longrightarrow> \<exists>i \<ge> 0. oget d k = Some (VInt i)"
  by (simp add: sendable_def)

section \<open>The kit of fields\<close>

lemma head_kit_okeys: "head_kit d kit defs = Inr kit' \<Longrightarrow> \<exists>more. okeys kit' = okeys kit @ more"
proof (induction d kit defs arbitrary: kit' rule: head_kit.induct)
  case (2 d kit k v rest)
  show ?case
  proof (cases "k \<in> set PACKET_HEAD_FIELDS \<and> k \<notin> set PACKET_FLAGS")
    case True
    with "2.prems" obtain w where w: "oget d k = Some w"
      and r: "head_kit d (if py_eq w v then kit else oset k w kit) rest = Inr kit'"
      by (auto simp: rbind_eq_Inr)
    have "\<exists>more. okeys (if py_eq w v then kit else oset k w kit) = okeys kit @ more"
      by (cases "ohas kit k") (auto simp: okeys_oset_present oset_absent)
    moreover from "2.IH"(1) [OF True r]
    have "\<exists>more. okeys kit' = okeys (if py_eq w v then kit else oset k w kit) @ more" .
    ultimately show ?thesis by force
  next
    case False
    then have "head_kit d kit rest = Inr kit'" using "2.prems" by (auto split: if_splits)
    then show ?thesis using "2.IH"(2) False by blast
  qed
qed auto

lemma head_kit_owf: "head_kit d kit defs = Inr kit' \<Longrightarrow> owf kit \<Longrightarrow> owf kit'"
proof (induction d kit defs arbitrary: kit' rule: head_kit.induct)
  case (2 d kit k v rest)
  show ?case
  proof (cases "k \<in> set PACKET_HEAD_FIELDS \<and> k \<notin> set PACKET_FLAGS")
    case True
    with "2.prems" obtain w
      where r: "head_kit d (if py_eq w v then kit else oset k w kit) rest = Inr kit'"
      by (auto simp: rbind_eq_Inr)
    show ?thesis by (rule "2.IH"(1) [OF True r]) (simp add: "2.prems")
  next
    case False
    then have "head_kit d kit rest = Inr kit'" using "2.prems" by (auto split: if_splits)
    then show ?thesis using "2.IH"(2) False "2.prems" by blast
  qed
qed auto

text \<open>A field of the kit holds the data's value, or is left out because that is the default.\<close>

lemma head_kit_oget:
  "head_kit d kit defs = Inr kit' \<Longrightarrow> owf defs \<Longrightarrow>
   oget kit' k =
     (case oget defs k of
        None \<Rightarrow> oget kit k
      | Some v \<Rightarrow>
          if k \<in> set PACKET_HEAD_FIELDS \<and> k \<notin> set PACKET_FLAGS
          then (case oget d k of
                  Some w \<Rightarrow> if py_eq w v then oget kit k else Some w
                | None \<Rightarrow> oget kit k)
          else oget kit k)"
proof (induction d kit defs arbitrary: kit' rule: head_kit.induct)
  case (2 d kit k' v rest)
  then have wf: "owf rest" and new: "oget rest k' = None"
    by (auto simp: owf_def oget_None_iff)
  show ?case
  proof (cases "k' \<in> set PACKET_HEAD_FIELDS \<and> k' \<notin> set PACKET_FLAGS")
    case True
    with "2.prems" obtain w where w: "oget d k' = Some w"
      and r: "head_kit d (if py_eq w v then kit else oset k' w kit) rest = Inr kit'"
      by (auto simp: rbind_eq_Inr)
    show ?thesis
      using "2.IH"(1) [OF True r wf] True w new by (auto split: option.splits)
  next
    case False
    then have "head_kit d kit rest = Inr kit'" using "2.prems" by (auto split: if_splits)
    from "2.IH"(2) [OF False this wf] show ?thesis
      using False new by (auto split: option.splits)
  qed
qed auto

lemma head_kit_ok:
  "\<forall>k \<in> set (okeys defs). ohas d k \<Longrightarrow> \<exists>kit'. head_kit d kit defs = Inr kit'"
proof (induction d kit defs rule: head_kit.induct)
  case (2 d kit k v rest)
  then obtain w where "oget d k = Some w" by (auto simp: ohas_iff)
  then have w: "oitem d k = Inr w" by simp
  have rest: "\<forall>k \<in> set (okeys rest). ohas d k" using "2.prems" by simp
  show ?case
  proof (cases "k \<in> set PACKET_HEAD_FIELDS \<and> k \<notin> set PACKET_FLAGS")
    case True
    from "2.IH"(1) [OF True rest, of w] True w show ?thesis by (simp add: oitem_def)
  next
    case False
    then show ?thesis using "2.IH"(2) [OF False rest] by auto
  qed
qed simp

section \<open>Lines\<close>

text \<open>The fields of a kit that come from sendable data, with their text.\<close>

fun field_text :: "string \<times> val \<Rightarrow> string" where
  "field_text (k, VInt i) = fmt_hex (if k = ''pl'' then 4 else if k = ''hl'' then 2 else 0) i"
| "field_text (k, VStr s) = s"
| "field_text (k, _) = []"

definition plain_field :: "string \<times> val \<Rightarrow> bool" where
  "plain_field kv \<longleftrightarrow>
     kv = (''ri'', VStr ''RAET'') \<or>
     (\<exists>n. kv = (''fg'', VStr (fmt_hex 2 n)) \<and> 0 \<le> n \<and> n < 256) \<or>
     (\<exists>i. fst kv \<in> set INT_FIELDS \<and> snd kv = VInt i \<and> 0 \<le> i)"

definition line_of :: "string \<times> val \<Rightarrow> string" where
  "line_of kv = fst kv @ [SP] @ field_text kv"

lemma int_field_formats:
  "list_all (\<lambda>k. oget PACKET_FIELD_FORMATS k =
       Some (FmtX (if k = ''pl'' then 4 else if k = ''hl'' then 2 else 0))) INT_FIELDS"
  by code_simp

lemma int_field_format: "k \<in> set INT_FIELDS \<Longrightarrow> oget PACKET_FIELD_FORMATS k =
    Some (FmtX (if k = ''pl'' then 4 else if k = ''hl'' then 2 else 0))"
  using int_field_formats by (simp only: list_all_iff)

lemma int_fields_in_head:
  "list_all (\<lambda>k. k \<in> set PACKET_HEAD_FIELDS \<and> SP \<notin> set k \<and> NL \<notin> set k) (''ri'' # ''fg'' # INT_FIELDS)"
  by code_simp

lemma text_formats:
  "oget PACKET_FIELD_FORMATS ''ri'' = Some (FmtPrec 4)"
  "oget PACKET_FIELD_FORMATS ''fg'' = Some (FmtPrec 2)"
  by (code_simp, code_simp)

lemma plain_field_key:
  "plain_field kv \<Longrightarrow> fst kv \<in> set PACKET_HEAD_FIELDS \<and> SP \<notin> set (fst kv) \<and> NL \<notin> set (fst kv)"
  using int_fields_in_head unfolding plain_field_def list_all_iff by auto

lemma fmt_hex_no_space: "0 \<le> i \<Longrightarrow> SP \<notin> set (fmt_hex w i) \<and> NL \<notin> set (fmt_hex w i)"
  using fmt_hex_plain [of i w] unfolding list_all_iff by (blast dest: plain_char_cases)

lemma plain_field_text:
  "plain_field kv \<Longrightarrow> SP \<notin> set (field_text kv) \<and> NL \<notin> set (field_text kv) \<and> field_text kv \<noteq> []"
  by (cases kv) (auto simp: plain_field_def fmt_hex_no_space)

lemma fmt_hex_2_length: "0 \<le> n \<Longrightarrow> n < 256 \<Longrightarrow> length (fmt_hex 2 n) = 2"
  using fmt_hex_length_eq [of n 2] by simp

lemma head_line_plain: "plain_field kv \<Longrightarrow> head_line c kv = Inr (line_of kv)"
  by (cases kv)
    (auto simp: plain_field_def head_line_def line_of_def oitem_def text_formats int_field_format
      fmt_hex_2_length)

lemma split_pair: "SP \<notin> set a \<Longrightarrow> SP \<notin> set b \<Longrightarrow> split_on SP (a @ [SP] @ b) = [a, b]"
  by (simp add: split_on_append split_on_plain)

lemma head_field_line: "plain_field kv \<Longrightarrow> head_field c (line_of kv) = Inr kv"
proof -
  assume kv: "plain_field kv"
  then have "split_on SP (line_of kv) = [fst kv, field_text kv]"
    unfolding line_of_def using plain_field_key plain_field_text by (intro split_pair) auto
  with kv show ?thesis
    using plain_field_key [OF kv]
    by (cases kv) (auto simp: plain_field_def head_field_def oitem_def text_formats
        int_field_format py_int16_fmt_hex)
qed

lemma mapM_head_line: "list_all plain_field kit \<Longrightarrow> mapM (head_line c) kit = Inr (map line_of kit)"
  by (intro mapM_Inr head_line_plain) (simp add: list_all_iff)

lemma mapM_head_field: "list_all plain_field kit \<Longrightarrow> mapM (head_field c) (map line_of kit) = Inr kit"
  by (induction kit) (simp_all add: head_field_line)

section \<open>The end of the header\<close>

definition head_text :: "hdata \<Rightarrow> bytes" where
  "head_text kit = join_with [NL] (map line_of kit) @ HEAD_END"

lemma line_of_no_NL: "plain_field kv \<Longrightarrow> NL \<notin> set (line_of kv)"
  using plain_field_key plain_field_text by (auto simp: line_of_def)

lemma line_of_nonempty: "line_of kv \<noteq> []"
  by (simp add: line_of_def)

lemma join_no_blank:
  "\<forall>p \<in> set ps. c \<notin> set p \<and> p \<noteq> [] \<Longrightarrow> ps \<noteq> [] \<Longrightarrow>
   find_sub [c, c] (join_with [c] ps @ c # c # t) = Some (length (join_with [c] ps))"
proof (induction "[c]" ps rule: join_with.induct)
  case (2 x)
  have "find_sub [c, c] (x @ c # c # t) = Some (length x)"
    by (rule find_sub_blank) (use 2 in \<open>auto simp: in_set_conv_nth last_conv_nth\<close>)
  then show ?case by simp
next
  case (3 x y ys)
  let ?j = "join_with [c] (y # ys)"
  have j: "find_sub [c, c] (?j @ c # c # t) = Some (length ?j)"
    using 3 by auto
  have "?j \<noteq> [] \<and> hd ?j \<noteq> c"
    using "3.prems" by (cases ys; cases y) auto
  then obtain a r where ar: "?j = a # r" "a \<noteq> c" by (cases ?j) auto
  have skip: "find_sub [c, c] (x @ c # ?j @ c # c # t) = Some (length x + Suc (length ?j))"
    if "c \<notin> set x" for x
    using that
  proof (induction x)
    case Nil
    have "\<not> starts_with [c, c] (c # ?j @ c # c # t)" using ar by auto
    with j show ?case by simp
  next
    case (Cons b bs)
    then have "\<not> starts_with [c, c] ((b # bs) @ c # ?j @ c # c # t)" by auto
    with Cons show ?case by simp
  qed
  have "c \<notin> set x" using "3.prems" by simp
  from skip [OF this] show ?case by simp
qed simp

lemma partition_head_text:
  "list_all plain_field kit \<Longrightarrow> kit \<noteq> [] \<Longrightarrow>
   partition_at (head_text kit @ rest) HEAD_END =
     (join_with [NL] (map line_of kit), HEAD_END, rest)"
  "list_all plain_field kit \<Longrightarrow> kit \<noteq> [] \<Longrightarrow> contains (head_text kit @ rest) HEAD_END"
proof -
  assume "list_all plain_field kit" "kit \<noteq> []"
  then have "find_sub [NL, NL] (join_with [NL] (map line_of kit) @ NL # NL # rest) =
      Some (length (join_with [NL] (map line_of kit)))"
    by (intro join_no_blank) (auto simp: list_all_iff line_of_no_NL line_of_nonempty)
  then show "partition_at (head_text kit @ rest) HEAD_END =
     (join_with [NL] (map line_of kit), HEAD_END, rest)"
    and "contains (head_text kit @ rest) HEAD_END"
    by (simp_all add: partition_at_def contains_def head_text_def HEAD_END_def)
qed

lemma split_head_text:
  "list_all plain_field kit \<Longrightarrow> kit \<noteq> [] \<Longrightarrow>
   split_on NL (join_with [NL] (map line_of kit)) = map line_of kit"
  by (rule split_on_join) (auto simp: list_all_iff line_of_no_NL)

end
