(* ===== verification/HeadRound.thy ===== *)
theory HeadRound
  imports HeadText
begin

text \<open>
  The head of a packet over the wire: \<open>TxHead.pack\<close> lays the header out, measures it, and
  writes the lengths into the text; \<open>RxHead.parse\<close> of any packet that begins with this text
  gets the sender's fields.
\<close>

section \<open>The kit of a sendable header\<close>

lemma head_default_keys:
  "filter (\<lambda>k. k \<in> set PACKET_HEAD_FIELDS \<and> k \<notin> set PACKET_FLAGS) (okeys PACKET_DEFAULTS) =
     [''ri'', ''vn'', ''pk'', ''pl'', ''hk'', ''hl'', ''se'', ''de'', ''si'', ''ti'', ''tk'', ''dt'',
      ''oi'', ''sn'', ''sc'', ''ml'', ''bk'', ''ck'', ''fk'', ''fl'', ''fg'']"
  by code_simp

lemma head_default_cases:
  "k \<in> set PACKET_HEAD_FIELDS \<Longrightarrow> k \<notin> set PACKET_FLAGS \<Longrightarrow> oget PACKET_DEFAULTS k = Some v \<Longrightarrow>
   k \<in> {''ri'', ''dt'', ''fg''} \<union> set INT_FIELDS"
proof -
  assume a: "k \<in> set PACKET_HEAD_FIELDS" "k \<notin> set PACKET_FLAGS" "oget PACKET_DEFAULTS k = Some v"
  then have "k \<in> set (okeys PACKET_DEFAULTS)"
    using oget_None_iff [of PACKET_DEFAULTS k] by auto
  with a have "k \<in> set (filter (\<lambda>k. k \<in> set PACKET_HEAD_FIELDS \<and> k \<notin> set PACKET_FLAGS)
      (okeys PACKET_DEFAULTS))" by simp
  then show ?thesis unfolding head_default_keys by (auto simp: INT_FIELDS_def)
qed

lemma PACKET_DEFAULTS_owf: "owf PACKET_DEFAULTS"
  by code_simp

lemma PACKET_DEFAULTS_oget:
  "oget PACKET_DEFAULTS ''dt'' = Some (VInt 0)"
  "oget PACKET_DEFAULTS ''ri'' = Some (VStr ''RAET'')"
  "oget PACKET_DEFAULTS ''pl'' = Some (VInt 0)"
  "oget PACKET_DEFAULTS ''hl'' = Some (VInt 0)"
  "oget PACKET_DEFAULTS ''fg'' = Some (VStr ''00'')"
  by (code_simp, code_simp, code_simp, code_simp, code_simp)

text \<open>The data as \<open>TxHead.pack\<close> completes it: the foot's size and the flags' field.\<close>

definition headed :: "hdata \<Rightarrow> nat \<Rightarrow> int \<Rightarrow> hdata" where
  "headed d fl flags = oset ''fg'' (VStr (fmt_hex 2 flags)) (oset ''fl'' (VInt (int fl)) d)"

lemma sendable_has_defaults: "sendable d \<Longrightarrow> \<forall>k \<in> set (okeys PACKET_DEFAULTS).
    k \<in> set PACKET_HEAD_FIELDS \<and> k \<notin> set PACKET_FLAGS \<longrightarrow> ohas d k"
proof (intro ballI impI)
  fix k
  assume s: "sendable d" and k: "k \<in> set (okeys PACKET_DEFAULTS)"
    "k \<in> set PACKET_HEAD_FIELDS \<and> k \<notin> set PACKET_FLAGS"
  then obtain v where "oget PACKET_DEFAULTS k = Some v"
    using oget_None_iff [of PACKET_DEFAULTS k] by auto
  with k have "k \<in> {''ri'', ''dt'', ''fg''} \<union> set INT_FIELDS" by (blast dest: head_default_cases)
  with s show "ohas d k" by (auto simp: sendable_def ohas_iff)
qed

lemma KIT0_oget: "oget KIT0 k =
   (if k = ''ri'' then Some (VStr ''RAET'') else if k = ''pl'' \<or> k = ''hl'' then Some (VInt 0)
    else if k = ''fg'' then Some (VStr ''00'') else None)"
  by (simp add: KIT0_def)

lemma headed_oget: "oget (headed d fl flags) k =
   (if k = ''fg'' then Some (VStr (fmt_hex 2 flags)) else if k = ''fl'' then Some (VInt (int fl))
    else oget d k)"
  by (simp add: headed_def)

lemma fmt_hex_2_zero: "fmt_hex 2 0 = ''00''"
  by code_simp

lemma kit_plain:
  assumes s: "sendable d" and f: "0 \<le> flags" "flags < 256"
    and kit: "head_kit (headed d fl flags) KIT0 PACKET_DEFAULTS = Inr kit"
  shows "list_all plain_field kit"
proof -
  have wf: "owf kit" using head_kit_owf [OF kit] by (simp add: KIT0_def owf_def)
  have "plain_field (k, v)" if "(k, v) \<in> set kit" for k v
  proof -
    have kv: "oget kit k = Some v" using wf that by (simp add: oget_def owf_def okeys_def)
    have zero: "plain_field (''pl'', VInt 0)" "plain_field (''hl'', VInt 0)"
      "plain_field (''ri'', VStr ''RAET'')" "plain_field (''fg'', VStr ''00'')"
      unfolding plain_field_def using fmt_hex_2_zero by (force simp: INT_FIELDS_def)+
    have fg: "plain_field (''fg'', VStr (fmt_hex 2 flags))"
      unfolding plain_field_def using f by blast
    have data: "plain_field (k, w)"
      if h: "k \<in> set PACKET_HEAD_FIELDS" "k \<notin> set PACKET_FLAGS" "oget PACKET_DEFAULTS k = Some u"
        and that: "oget (headed d fl flags) k = Some w" "\<not> py_eq w u" for u w
    proof -
      consider "k = ''ri''" | "k = ''dt''" | "k = ''fg''" | "k \<in> set INT_FIELDS"
        using head_default_cases [OF h] by auto
      then show ?thesis
      proof cases
        case 1
        with that s show ?thesis by (simp add: headed_oget sendable_def zero)
      next
        case 2
        with h that s show ?thesis by (simp add: headed_oget sendable_def PACKET_DEFAULTS_oget)
      next
        case 3
        with that fg show ?thesis by (simp add: headed_oget)
      next
        case 4
        then obtain i where "oget d k = Some (VInt i)" "0 \<le> i" using sendable_int [OF s] by blast
        moreover have "k \<noteq> ''fg''" using 4 by (auto simp: INT_FIELDS_def)
        ultimately show ?thesis using that 4 by (auto simp: headed_oget plain_field_def split: if_splits)
      qed
    qed
    show ?thesis
      using kv head_kit_oget [OF kit PACKET_DEFAULTS_owf, of k] data zero
      by (auto simp: KIT0_oget split: option.splits if_splits)
  qed
  then show ?thesis by (auto simp: list_all_iff)
qed

text \<open>The value of each field that the kit stands for.\<close>

lemma kit_value:
  assumes s: "sendable d"
    and kit: "head_kit (headed d fl flags) KIT0 PACKET_DEFAULTS = Inr kit"
    and k: "k \<in> set PACKET_HEAD_FIELDS" "k \<notin> set PACKET_FLAGS" "oget PACKET_DEFAULTS k = Some u"
  shows "(case oget kit k of None \<Rightarrow> Some u | Some w \<Rightarrow> Some w) = oget (headed d fl flags) k"
proof -
  have def0: "oget KIT0 k = Some z \<Longrightarrow> oget PACKET_DEFAULTS k = Some z" for z
    by (auto simp: KIT0_oget PACKET_DEFAULTS_oget split: if_splits)
  have has: "\<exists>w. oget (headed d fl flags) k = Some w"
    using sendable_has_defaults [OF s] k oget_None_iff [of PACKET_DEFAULTS k]
    by (auto simp: headed_oget ohas_iff)
  then obtain w where w: "oget (headed d fl flags) k = Some w" by blast
  consider "k = ''ri''" | "k = ''dt''" | "k = ''fg''" | "k \<in> set INT_FIELDS"
    using head_default_cases [OF k] by auto
  then have same: "py_eq w u \<Longrightarrow> w = u"
  proof cases
    case 1
    with w s k show "py_eq w u \<Longrightarrow> w = u"
      by (auto simp: headed_oget sendable_def PACKET_DEFAULTS_oget)
  next
    case 2
    with w s k show "py_eq w u \<Longrightarrow> w = u"
      by (auto simp: headed_oget sendable_def PACKET_DEFAULTS_oget)
  next
    case 3
    with w s k show "py_eq w u \<Longrightarrow> w = u" by (auto simp: headed_oget PACKET_DEFAULTS_oget)
  next
    case 4
    have ints: "list_all (\<lambda>k. \<exists>i \<in> {0, 1, 7530}. oget PACKET_DEFAULTS k = Some (VInt i)) INT_FIELDS"
      by code_simp
    from 4 have "\<exists>i. w = VInt i" using sendable_int [OF s 4] w
      by (auto simp: headed_oget INT_FIELDS_def)
    moreover have "\<exists>i. u = VInt i" using bspec [OF ints [unfolded list_all_iff] 4] k by auto
    ultimately show "py_eq w u \<Longrightarrow> w = u" by auto
  qed
  show ?thesis
    using head_kit_oget [OF kit PACKET_DEFAULTS_owf, of k] k w same def0
    by (auto split: option.splits)
qed

section \<open>Writing the lengths into the text\<close>

lemma find_sub_line:
  "NL \<notin> set a \<Longrightarrow> find_sub (NL # p) (a @ NL # p @ s) = Some (length a)"
  by (induction a) auto

lemma find_sub_next_line:
  "NL \<notin> set a \<Longrightarrow> NL \<notin> set b \<Longrightarrow> \<not> starts_with p (b @ NL # p @ s) \<Longrightarrow>
   find_sub (NL # p) (a @ NL # b @ NL # p @ s) = Some (length a + Suc (length b))"
proof (induction a)
  case Nil
  then show ?case by (simp add: find_sub_line)
qed auto

lemma replace_line:
  "NL \<notin> set a \<Longrightarrow> replace_first (a @ NL # p @ s) (NL # p) (NL # q) = a @ NL # q @ s"
  by (simp add: replace_first_def find_sub_line)

lemma replace_next_line:
  "NL \<notin> set a \<Longrightarrow> NL \<notin> set b \<Longrightarrow> \<not> starts_with p (b @ NL # p @ s) \<Longrightarrow>
   replace_first (a @ NL # b @ NL # p @ s) (NL # p) (NL # q) = a @ NL # b @ NL # q @ s"
  by (simp add: replace_first_def find_sub_next_line)

lemma last_n_all: "length s = n \<Longrightarrow> last_n n s = s"
  by (simp add: last_n_def)

text \<open>The kit starts with the four fields that are always sent.\<close>

lemma kit_shape:
  assumes plain: "list_all plain_field kit"
    and kit: "head_kit d KIT0 defs = Inr kit"
  obtains i j f rest where
    "kit = (''ri'', VStr ''RAET'') # (''pl'', VInt i) # (''hl'', VInt j) # (''fg'', f) # rest"
proof -
  obtain more where "okeys kit = okeys KIT0 @ more" using head_kit_okeys [OF kit] by blast
  then have keys: "map fst kit = ''ri'' # ''pl'' # ''hl'' # ''fg'' # more"
    by (simp add: KIT0_def okeys_def)
  then obtain a b e f rest where "kit = (''ri'', a) # (''pl'', b) # (''hl'', e) # (''fg'', f) # rest"
    by (auto simp: map_eq_Cons_conv)
  with plain that show thesis by (auto simp: plain_field_def INT_FIELDS_def)
qed

definition with_lengths :: "int \<Rightarrow> int \<Rightarrow> hdata \<Rightarrow> hdata" where
  "with_lengths hl pl kit = oset ''hl'' (VInt hl) (oset ''pl'' (VInt pl) kit)"

lemma put_lengths:
  assumes kit: "kit = (''ri'', VStr ''RAET'') # (''pl'', VInt i) # (''hl'', VInt j) # (''fg'', f) # rest"
    and pl: "0 \<le> pl" "pl < 65536" and hl: "hl < 256"
  shows "put_length c kit ''pl'' 4 pl (head_text kit) =
           Inr (head_text (oset ''pl'' (VInt pl) kit))" (is ?pl)
    and "put_length c kit ''hl'' 2 (int hl) (head_text (oset ''pl'' (VInt pl) kit)) =
           Inr (head_text (with_lengths (int hl) pl kit))" (is ?hl)
proof -
  have l4: "last_n 4 (fmt_hex 4 pl) = fmt_hex 4 pl"
    using fmt_hex_length_eq [of pl 4] pl by (intro last_n_all) simp
  have l2: "last_n 2 (fmt_hex 2 (int hl)) = fmt_hex 2 (int hl)"
    using fmt_hex_length_eq [of "int hl" 2] hl by (intro last_n_all) simp
  obtain r0 rs where tail: "(case rest of [] \<Rightarrow> [] | _ \<Rightarrow> NL # join_with [NL] (map line_of rest))
      @ HEAD_END = r0 # rs" by (cases rest) (auto simp: HEAD_END_def)
  have join: "join_with [NL] (l # map line_of rest) @ HEAD_END = l @ r0 # rs" for l
    using tail by (cases rest) auto
  have ri: "NL \<notin> set ''ri RAET''" by simp
  let ?t = "\<lambda>x y. ''ri RAET'' @ NL # (''pl '' @ x @ [NL]) @ (''hl '' @ y) @ NL #
      line_of (''fg'', f) @ r0 # rs"
  have lo: "line_of (''ri'', VStr ''RAET'') = ''ri RAET''"
    "line_of (''pl'', VInt x) = ''pl '' @ fmt_hex 4 x"
    "line_of (''hl'', VInt x) = ''hl '' @ fmt_hex 2 x" for x by (simp_all add: line_of_def)
  have laid: "head_text ((''ri'', VStr ''RAET'') # (''pl'', VInt x) # (''hl'', VInt y) # (''fg'', f) #
      rest) = ?t (fmt_hex 4 x) (fmt_hex 2 y)" for x y
    by (simp add: head_text_def lo join)
  show ?pl
    using replace_line [OF ri, of "''pl '' @ fmt_hex 4 i @ [NL]"
        "(''hl '' @ fmt_hex 2 j) @ NL # line_of (''fg'', f) @ r0 # rs" "''pl '' @ fmt_hex 4 pl @ [NL]"]
    unfolding kit oset.simps put_length_def field_line_def oitem_def l4 by (simp add: laid)
  have b: "NL \<notin> set (''pl '' @ fmt_hex 4 pl)" using fmt_hex_no_space [of pl 4] pl by simp
  show ?hl
    using replace_next_line [OF ri b, of "''hl '' @ fmt_hex 2 j @ [NL]"
        "line_of (''fg'', f) @ r0 # rs" "''hl '' @ fmt_hex 2 (int hl) @ [NL]"]
    unfolding kit oset.simps put_length_def field_line_def oitem_def l2 with_lengths_def
    by (simp add: laid)
qed

end
