(* ===== verification/Samples.thy ===== *)
theory Samples
  imports Packeting
begin

text \<open>
  Concrete instances of the library operations that the model takes as arguments, to run the
  definitions on: eight flag bits packed in one number, a signature and a box that carry the
  message in the clear, and a JSON writer for one message.
\<close>

definition sample_pack_byte :: "string \<Rightarrow> int list \<Rightarrow> int" where
  "sample_pack_byte f bs = foldl (\<lambda>n b. 2 * n + b) 0 bs"

definition sample_unpack_byte :: "string \<Rightarrow> int \<Rightarrow> bool list" where
  "sample_unpack_byte f n =
     [n div 128 mod 2 = 1, n div 64 mod 2 = 1, n div 32 mod 2 = 1, n div 16 mod 2 = 1,
      n div 8 mod 2 = 1, n div 4 mod 2 = 1, n div 2 mod 2 = 1, n mod 2 = 1]"

definition sample_sign :: "bytes \<Rightarrow> bytes" where
  "sample_sign m = take 64 (m @ replicate 64 (CHR ''s''))"

definition sample_crypt :: remote_crypt where
  "sample_crypt = \<lparr>rc_verify = (\<lambda>s m. s = sample_sign m),
     rc_encrypt = (\<lambda>m. Inr (CHR ''c'' # m, replicate 24 (CHR ''n''))),
     rc_decrypt = (\<lambda>cipher nonce. case cipher of [] \<Rightarrow> Inl ValueError | _ # m \<Rightarrow> Inr m)\<rparr>"

definition sample_dict :: "(string \<times> val) list" where
  "sample_dict = [(''stuff'', VInt 5)]"

definition sample_json :: string where
  "sample_json = ''{\"stuff\":5}''"

definition sample_codec :: codec where
  "sample_codec =
     \<lparr>json_dumps = (\<lambda>b. if b = BData (VDict sample_dict) then Inr sample_json else Inl TypeError),
      json_loads = (\<lambda>t. if t = sample_json then Some (VDict sample_dict) else None),
      msgpack = None, pack_byte = sample_pack_byte, unpack_byte = sample_unpack_byte,
      float_text = id, parse_float = Some, local_signature = sample_sign,
      remotes_crypt = [(5, sample_crypt), (9, sample_crypt)]\<rparr>"

text \<open>A signed and encrypted message from estate 5 to estate 9.\<close>

definition sample_data :: hdata where
  "sample_data = oupdate PACKET_DEFAULTS
     [(''se'', VInt 5), (''de'', VInt 9), (''si'', VInt 1000), (''ti'', VInt 7), (''cf'', VBool True),
      (''wf'', VBool True), (''bk'', VInt 1), (''ck'', VInt 1), (''fk'', VInt 1)]"

definition sample_packet :: txpacket where
  "sample_packet = \<lparr>tp_data = sample_data, tp_embody = BData (VDict sample_dict), tp_head = [],
     tp_body = [], tp_coat = [], tp_foot = [], tp_packed = []\<rparr>"

lemma sample_pack_ok: "\<exists>q. TxPacket_pack sample_codec sample_packet = Inr q"
proof -
  have "case TxPacket_pack sample_codec sample_packet of Inr _ \<Rightarrow> True | Inl _ \<Rightarrow> False"
    by code_simp
  then show ?thesis by (auto split: sum.splits)
qed

end
