(* ===== verification/PacketRound.thy ===== *)
theory PacketRound
  imports HeadRound Samples
begin

text \<open>
  A packet over the wire: what \<open>TxPacket.pack\<close> produces is accepted by \<open>RxPacket.parse\<close>,
  which recovers the header fields and the body. The library operations are arguments, with the
  documented laws about them as predicates.
\<close>

section \<open>What is relied on of the libraries\<close>

text \<open>ioflo's \<open>packByte\<close> and \<open>unpackByte\<close> with eight one-bit fields.\<close>

definition bit_of :: "bool \<Rightarrow> int" where
  "bit_of b = (if b then 1 else 0)"

definition bits_law :: "codec \<Rightarrow> codec \<Rightarrow> bool" where
  "bits_law c c' \<longleftrightarrow>
     (\<forall>bs. length bs = 8 \<longrightarrow>
        0 \<le> pack_byte c FMT8 (map bit_of bs) \<and> pack_byte c FMT8 (map bit_of bs) < 256 \<and>
        unpack_byte c' FMT8 (pack_byte c FMT8 (map bit_of bs)) = bs)"

text \<open>
  Keys: signatures have 64 bytes and verify, a box opens what its counterpart sealed, and its
  nonce has 24 bytes.
\<close>

definition sign_law :: "(bytes \<Rightarrow> bytes) \<Rightarrow> remote_crypt \<Rightarrow> bool" where
  "sign_law sg r \<longleftrightarrow> (\<forall>m. length (sg m) = 64 \<and> rc_verify r (sg m) m)"

definition box_law :: "remote_crypt \<Rightarrow> remote_crypt \<Rightarrow> bool" where
  "box_law r r' \<longleftrightarrow>
     (\<forall>m cipher nonce. rc_encrypt r m = Inr (cipher, nonce) \<longrightarrow>
        length nonce = 24 \<and> rc_decrypt r' cipher nonce = Inr m)"

text \<open>Serialised bodies load again, and are not empty.\<close>

definition body_law :: "codec \<Rightarrow> codec \<Rightarrow> int \<Rightarrow> body \<Rightarrow> bool" where
  "body_law c c' bk b \<longleftrightarrow>
     (bk = body_value BkNada \<and> b = EMPTY_BODY) \<or>
     (bk = body_value BkRaw \<and> (\<exists>x. b = BRaw x)) \<or>
     (bk = body_value BkJson \<and>
        (\<exists>m. b = BData (VDict m) \<and>
           (\<forall>t. m \<noteq> [] \<longrightarrow> json_dumps c b = Inr t \<longrightarrow> t \<noteq> [] \<and> json_loads c' t = Some (VDict m)))) \<or>
     (bk = body_value BkMsgpack \<and>
        (\<exists>m dumps loads dumps' loads'. b = BData (VDict m) \<and>
           msgpack c = Some (dumps, loads) \<and> msgpack c' = Some (dumps', loads') \<and>
           (\<forall>t. m \<noteq> [] \<longrightarrow> dumps b = Inr t \<longrightarrow> t \<noteq> [] \<and> loads' t = Some (VDict m))))"

section \<open>The head\<close>

lemma oupdate_append: "owf (d @ e) \<Longrightarrow> oupdate d e = d @ e"
proof (induction e arbitrary: d)
  case (Cons kv e)
  obtain k v where kv: "kv = (k, v)" by fastforce
  with Cons.prems have "oset k v d = d @ [(k, v)]"
    by (intro oset_absent) (auto simp: owf_def ohas_def)
  with Cons.IH [of "d @ [(k, v)]"] Cons.prems kv show ?case by simp
qed simp

lemma oupdate_Nil: "owf e \<Longrightarrow> oupdate [] e = e"
  using oupdate_append [of "[]" e] by simp

lemma plain_with_lengths:
  "list_all plain_field kit \<Longrightarrow> 0 \<le> hl \<Longrightarrow> 0 \<le> pl \<Longrightarrow> list_all plain_field (with_lengths hl pl kit)"
proof -
  have ins: "list_all plain_field kit \<Longrightarrow> plain_field (k, v) \<Longrightarrow> list_all plain_field (oset k v kit)"
    for k v and kit :: hdata
    by (induction kit) (auto simp: split_paired_all)
  have "plain_field (''pl'', VInt pl)" if "0 \<le> pl" for pl
    using that by (simp add: plain_field_def INT_FIELDS_def)
  moreover have "plain_field (''hl'', VInt hl)" if "0 \<le> hl" for hl
    using that by (simp add: plain_field_def INT_FIELDS_def)
  ultimately show "list_all plain_field kit \<Longrightarrow> 0 \<le> hl \<Longrightarrow> 0 \<le> pl \<Longrightarrow>
      list_all plain_field (with_lengths hl pl kit)"
    unfolding with_lengths_def by (intro ins) auto
qed

text \<open>\<open>RxHead.parse\<close> of a text that a kit of plain fields was written to.\<close>

lemma parse_head_text:
  assumes plain: "list_all plain_field kit" and wf: "owf kit"
    and first: "kit = (''ri'', VStr ''RAET'') # x # xs"
    and packed: "rp_packed p = head_text kit @ rest"
    and d: "unpack_flag_field c (oupdate (rp_data p) kit) = Inr d"
    and fields: "oget d ''hk'' = Some (VInt 0)" "oget d ''hl'' = Some (VInt (int (length (head_text kit))))"
      "oget d ''pl'' = Some (VInt (int (rp_size p)))"
  shows "RxHead_parse c p = Inr (p\<lparr>rp_head := head_text kit, rp_data := d\<rparr>)"
proof -
  have ne: "kit \<noteq> []" using first by simp
  have raet: "starts_with (''ri RAET'' @ [NL]) (rp_packed p)"
    unfolding packed head_text_def first by (simp add: line_of_def)
  have head: "join_with [NL] (map line_of kit) @ HEAD_END = head_text kit"
    by (simp add: head_text_def)
  have hl: "length (join_with [NL] (map line_of kit)) + length HEAD_END = length (head_text kit)"
    by (simp add: head_text_def)
  then have hl': "int (length (join_with [NL] (map line_of kit))) + int (length HEAD_END) =
      int (length (head_text kit))" by linarith
  have checks: "check_val d ''hk'' 0 = Inr ()"
    "check_val d ''hl'' (int (length (head_text kit))) = Inr ()"
    "check_val d ''pl'' (int (rp_size p)) = Inr ()"
    using fields by (simp_all add: check_val_def oitem_def)
  have "RxHead_parse_raet c p = Inr (p\<lparr>rp_head := head_text kit, rp_data := d\<rparr>)"
    unfolding RxHead_parse_raet_def packed partition_head_text(1) [OF plain ne]
    by (simp add: split_head_text [OF plain ne] mapM_head_field [OF plain] oupdate_Nil [OF wf]
        d head hl' checks del: oupdate_simps)
  then show ?thesis
    using raet partition_head_text(2) [OF plain ne] by (simp add: RxHead_parse_def packed)
qed

lemma set_flags_ok:
  "list_all (ohas d) fs \<Longrightarrow> length vs = length fs \<Longrightarrow> distinct fs \<Longrightarrow>
   \<exists>d'. set_flags fs vs d = Inr d' \<and>
     (\<forall>k. oget d' k = (case map_of (zip fs vs) k of Some b \<Rightarrow> Some (VBool b) | None \<Rightarrow> oget d k))"
proof (induction fs arbitrary: vs d)
  case (Cons f fs)
  then obtain v vs' where vs: "vs = v # vs'" by (cases vs) auto
  have "list_all (ohas (oset f (VBool v) d)) fs" using Cons.prems by (auto simp: list_all_iff)
  then obtain d' where d': "set_flags fs vs' (oset f (VBool v) d) = Inr d'"
    "\<forall>k. oget d' k = (case map_of (zip fs vs') k of Some b \<Rightarrow> Some (VBool b)
       | None \<Rightarrow> oget (oset f (VBool v) d) k)"
    using Cons.IH [OF \<open>list_all (ohas (oset f (VBool v) d)) fs\<close>, of vs'] Cons.prems vs by auto
  have none: "map_of (zip fs vs') f = None"
    using Cons.prems vs by (auto simp: map_of_eq_None_iff dest: set_zip_leftD)
  have "oget d' k = (case map_of (zip (f # fs) vs) k of Some b \<Rightarrow> Some (VBool b)
      | None \<Rightarrow> oget d k)" for k
  proof (cases "k = f")
    case True
    with none d'(2) show ?thesis unfolding vs by (simp del: map_of_eq_None_iff)
  next
    case False
    then show ?thesis unfolding vs d'(2) [rule_format, of k]
      by (simp split: option.split)
  qed
  with d'(1) Cons.prems vs show ?case by auto
qed simp

text \<open>The head of a packed packet: its text, and the lengths stored in the data.\<close>

lemma flags_in_defaults: "list_all (ohas PACKET_DEFAULTS) PACKET_FLAG_FIELDS"
  by code_simp

lemma flags_not_head:
  "list_all (\<lambda>f. f \<in> set PACKET_FLAGS \<and> f \<noteq> ''fg'' \<and> f \<notin> set INT_FIELDS \<and> f \<noteq> ''ri'') PACKET_FLAG_FIELDS"
  by code_simp

lemma flag_fields_eq: "PACKET_FLAG_FIELDS = PACKET_FLAGS" "distinct PACKET_FLAGS" "length PACKET_FLAGS = 8"
  by (simp_all add: PACKET_FLAG_FIELDS_def PACKET_FLAGS_def)

definition flag_bits :: "hdata \<Rightarrow> bool list" where
  "flag_bits d = map (\<lambda>f. py_true (oget_or d f (VInt 0))) PACKET_FLAGS"

lemma packFlags_bits: "packFlags c d = pack_byte c FMT8 (map bit_of (flag_bits d))"
  by (simp add: packFlags_def flag_bits_def flag_fields_eq bit_of_def comp_def)

lemma flag_bits_fl: "flag_bits (oset ''fl'' v d) = flag_bits d"
  by (simp add: flag_bits_def PACKET_FLAGS_def oget_or_def)

lemma flag_bits_value:
  "sendable d \<Longrightarrow> map_of (zip PACKET_FLAGS (flag_bits d)) f =
     (if f \<in> set PACKET_FLAGS then (case oget d f of Some (VBool b) \<Rightarrow> Some b | _ \<Rightarrow> None) else None)"
proof -
  assume "sendable d"
  then have b: "\<forall>f \<in> set PACKET_FLAGS. \<exists>b. oget d f = Some (VBool b)" by (simp add: sendable_def)
  have "map_of (zip fs (map (\<lambda>f. py_true (oget_or d f (VInt 0))) fs)) f =
      (if f \<in> set fs then (case oget d f of Some (VBool b) \<Rightarrow> Some b | _ \<Rightarrow> None) else None)"
    if "\<forall>f \<in> set fs. \<exists>b. oget d f = Some (VBool b)" for fs
    using that by (induction fs) (auto simp: oget_or_def)
  from this [OF b] show ?thesis unfolding flag_bits_def .
qed

text \<open>The fields of a header that both ends must agree on.\<close>

definition WIRE_FIELDS :: "string list" where
  "WIRE_FIELDS = filter (\<lambda>k. k \<in> set PACKET_HEAD_FIELDS) (okeys PACKET_DEFAULTS)"

text \<open>The texts have the same length before and after the lengths are put in.\<close>

lemma line_lengths:
  "0 \<le> i \<Longrightarrow> i < 65536 \<Longrightarrow> length (line_of (''pl'', VInt i)) = 7"
  "0 \<le> i \<Longrightarrow> i < 256 \<Longrightarrow> length (line_of (''hl'', VInt i)) = 5"
  by (simp_all add: line_of_def fmt_hex_length_eq)

lemma head_text_length:
  "length (head_text kit) = sum_list (map (length \<circ> line_of) kit) + (length kit - 1) + 2"
  by (simp add: head_text_def join_with_length HEAD_END_def comp_def)

lemma with_lengths_length:
  assumes kit: "kit = (''ri'', VStr ''RAET'') # (''pl'', VInt i) # (''hl'', VInt j) # (''fg'', f) # rest"
    and old: "0 \<le> i" "i < 65536" "0 \<le> j" "j < 256"
    and new: "0 \<le> pl" "pl < 65536" "0 \<le> hl" "hl < 256"
  shows "length (head_text (with_lengths hl pl kit)) = length (head_text kit)"
  unfolding kit with_lengths_def head_text_length by (simp add: line_lengths old new)

lemma sendable_prev_lengths:
  assumes s: "sendable d"
    and kit: "head_kit (headed d fl flags) KIT0 PACKET_DEFAULTS = Inr kit"
  shows "\<exists>i. oget kit ''pl'' = Some (VInt i) \<and> 0 \<le> i \<and> i < 65536"
    and "\<exists>i. oget kit ''hl'' = Some (VInt i) \<and> 0 \<le> i \<and> i < 256"
proof -
  have "''pl'' \<in> set INT_FIELDS" "''hl'' \<in> set INT_FIELDS" by (simp_all add: INT_FIELDS_def)
  from this [THEN sendable_int [OF s]] obtain i j
    where d: "oget d ''pl'' = Some (VInt i)" "0 \<le> i" "oget d ''hl'' = Some (VInt j)" "0 \<le> j"
    by blast
  with s have b: "i < 65536" "j < 256" by (auto simp: sendable_def)
  have "''pl'' \<in> set PACKET_HEAD_FIELDS \<and> ''pl'' \<notin> set PACKET_FLAGS"
    "''hl'' \<in> set PACKET_HEAD_FIELDS \<and> ''hl'' \<notin> set PACKET_FLAGS"
    by (simp_all add: PACKET_HEAD_FIELDS_def PACKET_FLAGS_def)
  then show "\<exists>i. oget kit ''pl'' = Some (VInt i) \<and> 0 \<le> i \<and> i < 65536"
    and "\<exists>i. oget kit ''hl'' = Some (VInt i) \<and> 0 \<le> i \<and> i < 256"
    using head_kit_oget [OF kit PACKET_DEFAULTS_owf] d b
    by (auto simp: PACKET_DEFAULTS_oget headed_oget KIT0_oget)
qed

lemma TxHead_pack_head:
  assumes s: "sendable d" and f: "0 \<le> flags" "flags < 256"
    and cs: "cs \<le> 1024" and fl: "fl \<le> 64"
    and kit: "head_kit (headed d fl flags) KIT0 PACKET_DEFAULTS = Inr kit"
    and pack: "TxHead_pack_raet c kit cs fl (headed d fl flags) = Inr (h, d2)"
  obtains hl xs x where
    "h = head_text (with_lengths (int hl) (int (hl + cs + fl)) kit)"
    "length h = hl" "hl \<le> 255"
    "d2 = oset ''pl'' (VInt (int (hl + cs + fl))) (oset ''hl'' (VInt (int hl)) (headed d fl flags))"
    "with_lengths (int hl) (int (hl + cs + fl)) kit = (''ri'', VStr ''RAET'') # x # xs"
proof -
  have plain: "list_all plain_field kit" by (rule kit_plain [OF s f kit])
  obtain i j g rest where k: "kit = (''ri'', VStr ''RAET'') # (''pl'', VInt i) # (''hl'', VInt j) #
      (''fg'', g) # rest" by (rule kit_shape [OF plain kit])
  have old: "0 \<le> i" "i < 65536" "0 \<le> j" "j < 256"
    using sendable_prev_lengths [OF s kit] k by auto
  define hl where "hl = length (head_text kit)"
  have lay: "join_with [NL] (map line_of kit) @ HEAD_END = head_text kit"
    by (simp add: head_text_def)
  from pack have max: "hl \<le> 255"
    unfolding TxHead_pack_raet_def mapM_head_line [OF plain]
    by (auto simp: Let_def lay hl_def size_limits split: if_splits simp flip: length_append)
  let ?pl = "int (hl + cs + fl)"
  have pl: "0 \<le> ?pl" "?pl < 65536" using max cs fl by simp_all
  have hl: "hl < 256" using max by simp
  note put = put_lengths [OF k pl hl]
  have "TxHead_pack_raet c kit cs fl (headed d fl flags) =
      Inr (head_text (with_lengths (int hl) ?pl kit),
        oset ''pl'' (VInt ?pl) (oset ''hl'' (VInt (int hl)) (headed d fl flags)))"
    unfolding TxHead_pack_raet_def mapM_head_line [OF plain] rbind_simps Let_def lay hl_def [symmetric]
    using max cs put by (simp add: size_limits)
  moreover have "length (head_text (with_lengths (int hl) ?pl kit)) = hl"
    using with_lengths_length [OF k old pl, of "int hl"] hl by (simp add: hl_def)
  moreover have "\<exists>x xs. with_lengths (int hl) ?pl kit = (''ri'', VStr ''RAET'') # x # xs"
    unfolding k with_lengths_def by simp
  ultimately show thesis using pack max that by auto
qed

section \<open>The parts of a packed packet\<close>

definition blank_foot :: "foot_kind \<Rightarrow> bytes" where
  "blank_foot k = (if k = FkNacl then BLANK else [])"

lemma blank_foot_length: "length (blank_foot k) = (if k = FkNacl then 64 else 0)"
  by (simp add: blank_foot_def BLANK_def)

text \<open>The steps of packing, one by one.\<close>

lemma TxFoot_pack_blank:
  assumes "TxFoot_pack p = Inr q"
  obtains k where "Option.bind (oget (tp_data p) ''fk'') foot_kind_of_val = Some k"
    "q = p\<lparr>tp_foot := blank_foot k\<rparr>"
  using assms by (auto simp: TxFoot_pack_def rbind_eq_Inr blank_foot_def split: option.split_asm)

lemma TxHead_pack_kit:
  assumes head: "TxHead_pack c p = Inr q" and hk: "oget (tp_data p) ''hk'' = Some (VInt 0)"
    and fl: "fl = length (tp_foot p)"
    and flags: "flags = packFlags c (oset ''fl'' (VInt (int fl)) (tp_data p))"
  obtains kit h d2 where "head_kit (headed (tp_data p) fl flags) KIT0 PACKET_DEFAULTS = Inr kit"
    "TxHead_pack_raet c kit (length (tp_coat p)) fl (headed (tp_data p) fl flags) = Inr (h, d2)"
    "q = p\<lparr>tp_head := h, tp_data := d2\<rparr>"
proof -
  have d0: "oset ''fg'' (VStr (fmt_hex 2 (packFlags c (oset ''fl'' (VInt (int (length (tp_foot p))))
      (tp_data p))))) (oset ''fl'' (VInt (int (length (tp_foot p)))) (tp_data p)) =
      headed (tp_data p) fl flags"
    by (simp add: headed_def flags fl)
  have hk0: "oget (headed (tp_data p) fl flags) ''hk'' = Some (VInt 0)"
    using hk by (simp add: headed_oget)
  have "rbind (head_kit (headed (tp_data p) fl flags) KIT0 PACKET_DEFAULTS) (\<lambda>kit.
      rbind (TxHead_pack_raet c kit (length (tp_coat p)) fl (headed (tp_data p) fl flags)) (\<lambda>(h, d).
      Inr (p\<lparr>tp_head := h, tp_data := d\<rparr>))) = Inr q"
    using head unfolding TxHead_pack_def Let_def d0 unfolding fl [symmetric]
    by (simp add: oitem_def hk0)
  with that show thesis by (auto simp: rbind_eq_Inr)
qed

lemma TxPacket_prepack_steps:
  assumes "TxPacket_prepack c p = Inr p4"
  obtains b co p2 p3 where "TxBody_pack c p = Inr (p\<lparr>tp_body := b\<rparr>)"
    "TxCoat_pack c (p\<lparr>tp_body := b\<rparr>) = Inr (p\<lparr>tp_body := b, tp_coat := co\<rparr>)"
    "TxFoot_pack (p\<lparr>tp_body := b, tp_coat := co\<rparr>) = Inr p2"
    "TxHead_pack c p2 = Inr p3" "p4 = join_parts p3"
  using assms by (auto simp: TxPacket_prepack_def rbind_eq_Inr TxBody_pack_def TxCoat_pack_def)

lemma TxPacket_seal_parts:
  assumes seal: "TxPacket_seal c p = Inr q" and hk: "oget (tp_data p) ''hk'' = Some (VInt 0)"
  obtains k kit h fl flags where
    "Option.bind (oget (tp_data p) ''fk'') foot_kind_of_val = Some k"
    "fl = length (blank_foot k)" "flags = packFlags c (oset ''fl'' (VInt (int fl)) (tp_data p))"
    "head_kit (headed (tp_data p) fl flags) KIT0 PACKET_DEFAULTS = Inr kit"
    "TxHead_pack_raet c kit (length (tp_coat p)) fl (headed (tp_data p) fl flags) = Inr (h, tp_data q)"
    "tp_packed q = h @ tp_coat p @
       (if k = FkNacl then local_signature c (h @ tp_coat p @ BLANK) else [])"
proof -
  from seal obtain p3 p2 where p2: "TxFoot_pack p = Inr p2"
    and p3: "TxHead_pack c p2 = Inr p3" and sign: "TxPacket_sign c (join_parts p3) = Inr q"
    by (auto simp: TxPacket_seal_def rbind_eq_Inr)
  obtain k where k: "Option.bind (oget (tp_data p) ''fk'') foot_kind_of_val = Some k"
    and foot: "p2 = p\<lparr>tp_foot := blank_foot k\<rparr>" by (rule TxFoot_pack_blank [OF p2])
  then obtain fk where fk: "oget (tp_data p) ''fk'' = Some fk" "foot_kind_of_val fk = Some k"
    by (auto simp: bind_eq_Some_conv)
  define fl where "fl = length (blank_foot k)"
  define flags where "flags = packFlags c (oset ''fl'' (VInt (int fl)) (tp_data p))"
  have fl2: "fl = length (tp_foot p2)" and pd: "tp_data p2 = tp_data p" "tp_coat p2 = tp_coat p"
    by (simp_all add: fl_def foot)
  obtain kit h d2 where kit: "head_kit (headed (tp_data p) fl flags) KIT0 PACKET_DEFAULTS = Inr kit"
    and h: "TxHead_pack_raet c kit (length (tp_coat p)) fl (headed (tp_data p) fl flags) = Inr (h, d2)"
    and p3': "p3 = p2\<lparr>tp_head := h, tp_data := d2\<rparr>"
    by (rule TxHead_pack_kit [OF p3, unfolded pd, OF hk fl2 flags_def])
  have d2: "oget d2 ''fk'' = Some fk"
    using h fk by (auto simp: TxHead_pack_raet_def rbind_eq_Inr Let_def headed_oget
        split: if_splits)
  have q: "tp_data q = d2" "tp_packed q = h @ tp_coat p @
      (if k = FkNacl then local_signature c (h @ tp_coat p @ BLANK) else [])"
    using sign d2 fk
    by (auto simp: TxPacket_sign_def TxFoot_sign_def rbind_eq_Inr p3' foot join_parts_def
        blank_foot_def split: if_splits)
  show thesis
    using that [OF k fl_def flags_def kit, of h] h q by simp
qed

text \<open>\<open>pack\<close> packs body and coat and seals the packet; what it returns has the size it checked.\<close>

lemma TxPacket_pack_seal:
  assumes pack: "TxPacket_pack c p = Inr q"
  obtains b co where
    "TxBody_pack c p = Inr (p\<lparr>tp_body := b\<rparr>)"
    "TxCoat_pack c (p\<lparr>tp_body := b\<rparr>) = Inr (p\<lparr>tp_body := b, tp_coat := co\<rparr>)"
    "TxPacket_seal c (p\<lparr>tp_body := b, tp_coat := co\<rparr>) = Inr q" "length co \<le> 1024"
proof -
  from pack obtain p4 where pre: "TxPacket_prepack c p = Inr p4" and size: "tp_size p4 \<le> 1024"
    and sign: "TxPacket_sign c p4 = Inr q"
    by (auto simp: TxPacket_pack_def rbind_eq_Inr size_limits split: if_splits)
  obtain b co p2 p3 where b: "TxBody_pack c p = Inr (p\<lparr>tp_body := b\<rparr>)"
    and co: "TxCoat_pack c (p\<lparr>tp_body := b\<rparr>) = Inr (p\<lparr>tp_body := b, tp_coat := co\<rparr>)"
    and p2: "TxFoot_pack (p\<lparr>tp_body := b, tp_coat := co\<rparr>) = Inr p2"
    and p3: "TxHead_pack c p2 = Inr p3" and p4: "p4 = join_parts p3"
    by (rule TxPacket_prepack_steps [OF pre])
  have "tp_coat p2 = co" by (rule TxFoot_pack_blank [OF p2]) simp
  then have "tp_coat p3 = co"
    using p3 by (auto simp: TxHead_pack_def Let_def rbind_eq_Inr split: if_splits)
  then have "length co \<le> 1024" using size by (simp add: tp_size_def p4 join_parts_def)
  with that b co p2 p3 p4 sign show thesis by (simp add: TxPacket_seal_def)
qed

section \<open>The received header\<close>

lemma with_lengths_oget: "oget (with_lengths hl pl kit) k =
   (if k = ''hl'' then Some (VInt hl) else if k = ''pl'' then Some (VInt pl) else oget kit k)"
  by (simp add: with_lengths_def)

lemma with_lengths_owf: "owf kit \<Longrightarrow> owf (with_lengths hl pl kit)"
  by (simp add: with_lengths_def)

lemma wire_field_default: "k \<in> set WIRE_FIELDS \<Longrightarrow>
    k \<in> set PACKET_HEAD_FIELDS \<and> (\<exists>u. oget PACKET_DEFAULTS k = Some u)"
  using oget_None_iff [of PACKET_DEFAULTS k] by (auto simp: WIRE_FIELDS_def)

lemma special_fields: "list_all (\<lambda>k. k \<in> set WIRE_FIELDS \<and> k \<notin> set PACKET_FLAGS)
    [''pl'', ''hl'', ''fg'', ''fl'', ''hk'', ''vn'', ''fk'', ''ck'', ''bk'', ''de'', ''se'']"
  by code_simp

lemma received_fields:
  assumes s: "sendable d" and bits: "bits_law c c'" and fl: "fl \<le> 64"
    and flags: "flags = packFlags c (oset ''fl'' (VInt (int fl)) d)"
    and kit: "head_kit (headed d fl flags) KIT0 PACKET_DEFAULTS = Inr kit"
  obtains d3 where
    "unpack_flag_field c' (oupdate PACKET_DEFAULTS (with_lengths hl pl kit)) = Inr d3"
    "\<forall>k \<in> set WIRE_FIELDS. oget d3 k = oget (oset ''pl'' (VInt pl) (oset ''hl'' (VInt hl) (headed d fl flags))) k"
proof -
  define bs where "bs = flag_bits d"
  have len: "length bs = 8" by (simp add: bs_def flag_bits_def flag_fields_eq)
  have fb: "flags = pack_byte c FMT8 (map bit_of bs)"
    by (simp add: flags packFlags_bits flag_bits_fl bs_def)
  have f: "0 \<le> flags" "flags < 256" and un: "unpack_byte c' FMT8 flags = bs"
    using bits len by (auto simp: bits_law_def fb)
  define D where "D = oupdate PACKET_DEFAULTS (with_lengths hl pl kit)"
  have wf: "owf (with_lengths hl pl kit)"
    using head_kit_owf [OF kit] by (intro with_lengths_owf) (simp add: KIT0_def owf_def)
  have D: "oget D k = oget (oset ''pl'' (VInt pl) (oset ''hl'' (VInt hl) (headed d fl flags))) k"
    if "k \<in> set WIRE_FIELDS" "k \<notin> set PACKET_FLAGS" for k
  proof -
    from wire_field_default [OF that(1)] obtain u
      where u: "k \<in> set PACKET_HEAD_FIELDS" "oget PACKET_DEFAULTS k = Some u" by blast
    show ?thesis
      using kit_value [OF s kit u(1) that(2) u(2)]
      by (auto simp: D_def oget_oupdate [OF wf] with_lengths_oget u(2) split: option.splits)
  qed
  have special: "k \<in> set WIRE_FIELDS \<and> k \<notin> set PACKET_FLAGS" if "k \<in> {''fg'', ''fl'', ''pl'', ''hl''}" for k
    using special_fields that by auto
  have fg: "oget D ''fg'' = Some (VStr (fmt_hex 2 flags))"
    using D [of "''fg''"] special [of "''fg''"] by (simp add: headed_oget)
  have "list_all (ohas D) PACKET_FLAGS"
    using flags_in_defaults
    by (auto simp: list_all_iff ohas_def D_def set_okeys_oupdate flag_fields_eq)
  then obtain d3 where d3: "set_flags PACKET_FLAGS bs D = Inr d3"
    "\<forall>k. oget d3 k = (case map_of (zip PACKET_FLAGS bs) k of Some b \<Rightarrow> Some (VBool b) | None \<Rightarrow> oget D k)"
    using set_flags_ok [of D PACKET_FLAGS bs] len by (auto simp: flag_fields_eq)
  have "oget d3 k = oget (oset ''pl'' (VInt pl) (oset ''hl'' (VInt hl) (headed d fl flags))) k"
    if k: "k \<in> set WIRE_FIELDS" for k
  proof (cases "k \<in> set PACKET_FLAGS")
    case True
    with s obtain b where b: "oget d k = Some (VBool b)" by (auto simp: sendable_def)
    have "k \<notin> {''fg'', ''fl'', ''pl'', ''hl''}" using special True by blast
    then show ?thesis
      using d3(2) flag_bits_value [OF s, of k] True b by (simp add: bs_def headed_oget)
  next
    case False
    then show ?thesis
      using d3(2) flag_bits_value [OF s, of k] D [OF k] by (simp add: bs_def)
  qed
  moreover have "unpack_flag_field c' D = Inr d3"
    using fg d3(1) un f
    by (simp add: unpack_flag_field_def unpackFlags_def py_int16_val_def py_int16_fmt_hex
        flag_fields_eq)
  ultimately show thesis using that by (simp add: D_def)
qed

section \<open>Foot, coat and body of the received packet\<close>

text \<open>The keys that the two ends need: none for a packet without signature or encryption.\<close>

definition can_verify :: "codec \<Rightarrow> codec \<Rightarrow> hdata \<Rightarrow> bool" where
  "can_verify c c' d \<longleftrightarrow>
     (oget d ''fk'' = Some (VInt (foot_value FkNacl)) \<longrightarrow>
       (\<exists>de r. oget d ''de'' = Some de \<and> lookup_remote c' de = Some r \<and>
          sign_law (local_signature c) r))"

definition can_open :: "codec \<Rightarrow> codec \<Rightarrow> hdata \<Rightarrow> bool" where
  "can_open c c' d \<longleftrightarrow>
     (oget d ''ck'' = Some (VInt (coat_value CkNacl)) \<longrightarrow>
       (\<exists>se de r r'. oget d ''se'' = Some se \<and> lookup_remote c se = Some r \<and>
          oget d ''de'' = Some de \<and> lookup_remote c' de = Some r' \<and> box_law r r'))"

lemma py_slice_front: "py_slice (a @ b) 0 (int (length a)) = a"
  by (simp add: py_slice_def py_index_def)

lemma py_slice_middle: "py_slice (a @ b @ e) (int (length a)) (int (length a + length b)) = b"
  by (simp add: py_slice_def py_index_def)

lemma py_from_back: "py_from (a @ b) (int (length a)) = b"
  by (simp add: py_from_def py_index_def)

lemma foot_of_val:
  "foot_kind_of_val (VInt i) = Some k \<longleftrightarrow> foot_value k = i"
  using foot_enum.of_value_value by (simp add: foot_kind_of_val_def foot_of_def)

lemma coat_of_val: "coat_of i = Some k \<longleftrightarrow> coat_value k = i"
  using coat_enum.of_value_value by (simp add: coat_of_def)

lemma body_of_val: "body_of i = Some k \<longleftrightarrow> body_value k = i"
  using body_enum.of_value_value by (simp add: body_of_def)

lemma RxFoot_parse_signed:
  assumes d: "oget (rp_data p) ''fk'' = Some (VInt (foot_value k))"
      "oget (rp_data p) ''fl'' = Some (VInt (int (length (blank_foot k))))"
    and packed: "rp_packed p = front @ (if k = FkNacl then local_signature c (front @ BLANK) else [])"
    and ok: "can_verify c c' (rp_data p)"
  shows "\<exists>foot. RxFoot_parse c' p = Inr (p\<lparr>rp_foot := foot\<rparr>)"
proof (cases "k = FkNacl")
  case True
  then obtain de r where de: "oget (rp_data p) ''de'' = Some de" "lookup_remote c' de = Some r"
    and law: "sign_law (local_signature c) r" using ok d by (auto simp: can_verify_def)
  let ?sig = "local_signature c (front @ BLANK)"
  have len: "length ?sig = 64" and ver: "rc_verify r ?sig (front @ BLANK)"
    using law by (simp_all add: sign_law_def)
  have packed': "rp_packed p = front @ ?sig" using packed True by simp
  then have size: "int (rp_size p) - 64 = int (length front)" "\<not> int (rp_size p) < 64"
    using len by (simp_all add: rp_size_def)
  have "foot_kind_of_val (VInt (foot_value k)) = Some FkNacl" using True by (simp add: foot_of_val)
  then show ?thesis
    using d True de ver len packed' size
    by (intro exI [of _ ?sig]) (simp add: RxFoot_parse_def oitem_def blank_foot_length
        py_from_back py_slice_front RxPacket_verify_def)
next
  case False
  have "foot_kind_of_val (VInt (foot_value k)) = Some k" by (simp add: foot_of_val)
  with d False show ?thesis
    by (auto simp: RxFoot_parse_def oitem_def blank_foot_length)
qed

lemma coat_round:
  assumes co: "TxCoat_pack c (p\<lparr>tp_body := b\<rparr>) = Inr (p\<lparr>tp_body := b, tp_coat := co\<rparr>)"
    and ck: "oget (tp_data p) ''ck'' = Some (VInt (coat_value k))" "k = CkNada \<or> k = CkNacl"
    and ok: "can_open c c' (tp_data p)"
    and r: "rp_coat r = co" "oget (rp_data r) ''ck'' = oget (tp_data p) ''ck''"
      "oget (rp_data r) ''de'' = oget (tp_data p) ''de''"
  shows "RxCoat_parse c' r = Inr (r\<lparr>rp_body := b\<rparr>)"
proof (cases "k = CkNacl")
  case True
  have k: "coat_of 1 = Some CkNacl" by (simp add: coat_of_val)
  from ok ck True obtain se de s s' where se: "oget (tp_data p) ''se'' = Some se"
    "lookup_remote c se = Some s" and de: "oget (tp_data p) ''de'' = Some de"
    "lookup_remote c' de = Some s'" and law: "box_law s s'"
    by (auto simp: can_open_def)
  show ?thesis
  proof (cases "b = []")
    case True
    then have "co = []" using co ck \<open>k = CkNacl\<close>
      by (auto simp: TxCoat_pack_def oitem_def dest!: arg_cong [where f = tp_coat])
    with True r ck \<open>k = CkNacl\<close> k show ?thesis
      by (simp add: RxCoat_parse_def oitem_def)
  next
    case False
    then obtain cipher nonce where enc: "rc_encrypt s b = Inr (cipher, nonce)"
      and co': "co = cipher @ nonce"
      using co ck \<open>k = CkNacl\<close> se
      by (auto simp: TxCoat_pack_def oitem_def rbind_eq_Inr TxPacket_encrypt_def
          dest!: arg_cong [where f = tp_coat])
    with law have n: "length nonce = 24" "rc_decrypt s' cipher nonce = Inr b"
      by (auto simp: box_law_def)
    then have "co \<noteq> []" using co' by auto
    then show ?thesis
      using r ck de \<open>k = CkNacl\<close> k n co'
      by (simp add: RxCoat_parse_def oitem_def RxPacket_decrypt_def last_n_def)
  qed
next
  case False
  then have k: "k = CkNada" using ck by simp
  have "coat_of 0 = Some CkNada" by (simp add: coat_of_val)
  moreover have "co = b" using co ck k
    by (auto simp: TxCoat_pack_def oitem_def dest!: arg_cong [where f = tp_coat])
  ultimately show ?thesis using r ck k by (simp add: RxCoat_parse_def oitem_def)
qed

lemma body_round:
  assumes b: "TxBody_pack c p = Inr (p\<lparr>tp_body := b\<rparr>)"
    and bk: "oget (tp_data p) ''bk'' = Some (VInt bk)"
    and law: "body_law c c' bk (tp_embody p)"
    and r: "rp_body r = b" "oget (rp_data r) ''bk'' = oget (tp_data p) ''bk''"
  shows "RxBody_parse c' r = Inr (r\<lparr>rp_embody := tp_embody p\<rparr>)"
proof -
  have kinds: "body_of 0 = Some BkNada" "body_of 1 = Some BkJson" "body_of 2 = Some BkRaw"
    "body_of 3 = Some BkMsgpack" by (simp_all add: body_of_val)
  from law consider "bk = 0" "tp_embody p = EMPTY_BODY"
    | x where "bk = 2" "tp_embody p = BRaw x"
    | m where "bk = 1" "tp_embody p = BData (VDict m)" "\<forall>t. m \<noteq> [] \<longrightarrow>
        json_dumps c (tp_embody p) = Inr t \<longrightarrow> t \<noteq> [] \<and> json_loads c' t = Some (VDict m)"
    | m dumps loads dumps' loads' where "bk = 3" "tp_embody p = BData (VDict m)"
        "msgpack c = Some (dumps, loads)" "msgpack c' = Some (dumps', loads')"
        "\<forall>t. m \<noteq> [] \<longrightarrow> dumps (tp_embody p) = Inr t \<longrightarrow> t \<noteq> [] \<and> loads' t = Some (VDict m)"
    unfolding body_law_def body_value.simps by blast
  then show ?thesis
  proof cases
    case 1
    with bk r kinds show ?thesis by (simp add: RxBody_parse_def oitem_def)
  next
    case 2
    with bk r kinds b show ?thesis
      by (auto simp: RxBody_parse_def TxBody_pack_def oitem_def dest!: arg_cong [where f = tp_body])
  next
    case 3
    then show ?thesis
      using bk r kinds b
      by (cases "m = []") (auto simp: RxBody_parse_def TxBody_pack_def oitem_def loaded_mapping_def
          EMPTY_BODY_def rbind_eq_Inr dest!: arg_cong [where f = tp_body])
  next
    case 4
    then show ?thesis
      using bk r kinds b
      by (cases "m = []") (auto simp: RxBody_parse_def TxBody_pack_def oitem_def loaded_mapping_def
          EMPTY_BODY_def rbind_eq_Inr dest!: arg_cong [where f = tp_body])
  qed
qed

section \<open>The round trip\<close>

text \<open>A sealed packet is accepted, and its coat is found between head and foot.\<close>

lemma sealed_outer:
  assumes s: "sendable (tp_data p)" and hk: "oget (tp_data p) ''hk'' = Some (VInt 0)"
    and vn: "oget (tp_data p) ''vn'' = Some (VInt 0)"
    and bits: "bits_law c c'" and keys: "can_verify c c' (tp_data p)"
    and seal: "TxPacket_seal c p = Inr q" and cs: "length (tp_coat p) \<le> 1024"
  obtains r where "RxPacket_parseOuter c' (RxPacket_init [] (tp_packed q)) = Inr r"
    "rp_packed r = tp_packed q"
    "\<forall>k \<in> set WIRE_FIELDS. oget (rp_data r) k = oget (tp_data q) k"
    "\<forall>k. k \<notin> {''pl'', ''hl'', ''fg'', ''fl''} \<longrightarrow> oget (tp_data q) k = oget (tp_data p) k"
    "oget (rp_data r) ''pl'' = Some (VInt (int (length (tp_packed q))))"
    "oget (rp_data r) ''hl'' = Some (VInt (int (length (rp_head r))))"
    "RxPacket_unpackInner r = Inr (r\<lparr>rp_coat := tp_coat p\<rparr>)"
proof -
  obtain k kit h fl flags where
    fk: "Option.bind (oget (tp_data p) ''fk'') foot_kind_of_val = Some k"
    and fl: "fl = length (blank_foot k)"
    and flags: "flags = packFlags c (oset ''fl'' (VInt (int fl)) (tp_data p))"
    and kit: "head_kit (headed (tp_data p) fl flags) KIT0 PACKET_DEFAULTS = Inr kit"
    and head: "TxHead_pack_raet c kit (length (tp_coat p)) fl (headed (tp_data p) fl flags) =
      Inr (h, tp_data q)"
    and packed: "tp_packed q = h @ tp_coat p @
      (if k = FkNacl then local_signature c (h @ tp_coat p @ BLANK) else [])"
    by (rule TxPacket_seal_parts [OF seal hk])
  define co where "co = tp_coat p"
  note cs = cs [folded co_def] and head = head [folded co_def] and packed = packed [folded co_def]
  have fl64: "fl \<le> 64" by (simp add: fl blank_foot_length)
  have "length (flag_bits (tp_data p)) = 8" by (simp add: flag_bits_def flag_fields_eq)
  then have f: "0 \<le> flags" "flags < 256"
    using bits by (auto simp: bits_law_def flags packFlags_bits flag_bits_fl)
  obtain hl xs x where h: "h = head_text (with_lengths (int hl) (int (hl + length co + fl)) kit)"
    and hl: "length h = hl" "hl \<le> 255"
    and d2: "tp_data q = oset ''pl'' (VInt (int (hl + length co + fl)))
        (oset ''hl'' (VInt (int hl)) (headed (tp_data p) fl flags))"
    and shape: "with_lengths (int hl) (int (hl + length co + fl)) kit = (''ri'', VStr ''RAET'') # x # xs"
    by (rule TxHead_pack_head [OF s f cs fl64 kit head])
  let ?pl = "int (hl + length co + fl)"
  let ?kit = "with_lengths (int hl) ?pl kit"
  let ?p0 = "RxPacket_init [] (tp_packed q)"
  obtain d3 where d3: "unpack_flag_field c' (oupdate PACKET_DEFAULTS ?kit) = Inr d3"
    and same: "\<forall>k \<in> set WIRE_FIELDS. oget d3 k = oget (tp_data q) k"
    using received_fields [OF s bits fl64 flags kit, of "int hl" ?pl] d2 by metis
  have get: "oget d3 k = oget (tp_data q) k"
    if "k \<in> set [''pl'', ''hl'', ''fg'', ''fl'', ''hk'', ''vn'', ''fk'', ''ck'', ''bk'', ''de'', ''se'']" for k
    using same special_fields that unfolding list_all_iff by blast
  have others: "oget (tp_data q) k = oget (tp_data p) k" if "k \<notin> {''pl'', ''hl'', ''fg'', ''fl''}" for k
    using that by (simp add: d2 headed_oget)
  obtain fkn where fkn: "oget (tp_data p) ''fk'' = Some (VInt fkn)"
    using sendable_int [OF s, of "''fk''"] by (auto simp: INT_FIELDS_def)
  with fk have fkv: "oget (tp_data p) ''fk'' = Some (VInt (foot_value k))"
    by (simp add: foot_of_val)
  have foot_len: "length (if k = FkNacl then local_signature c (h @ co @ BLANK) else []) = fl"
  proof (cases "k = FkNacl")
    case True
    with keys fkv obtain r where "sign_law (local_signature c) r" by (auto simp: can_verify_def)
    with True show ?thesis by (simp add: fl blank_foot_length sign_law_def)
  qed (simp add: fl blank_foot_length)
  have size: "rp_size ?p0 = hl + length co + fl"
    using foot_len hl by (simp add: RxPacket_init_def rp_size_def packed)
  have plain: "list_all plain_field ?kit"
    by (intro plain_with_lengths kit_plain [OF s f kit]) simp_all
  have wf: "owf ?kit"
    using head_kit_owf [OF kit] by (intro with_lengths_owf) (simp add: KIT0_def owf_def)
  have "RxHead_parse c' ?p0 = Inr (?p0\<lparr>rp_head := head_text ?kit, rp_data := d3\<rparr>)"
  proof (rule parse_head_text [OF plain wf shape])
    show "rp_packed ?p0 = head_text ?kit @ co @
        (if k = FkNacl then local_signature c (h @ co @ BLANK) else [])"
      by (simp add: RxPacket_init_def packed h)
    show "unpack_flag_field c' (oupdate (rp_data ?p0) ?kit) = Inr d3"
      using d3 by (simp add: RxPacket_init_def)
    show "oget d3 ''hk'' = Some (VInt 0)" using get [of "''hk''"] others [of "''hk''"] hk by simp
    show "oget d3 ''hl'' = Some (VInt (int (length (head_text ?kit))))"
      using get [of "''hl''"] hl h by (simp add: d2)
    show "oget d3 ''pl'' = Some (VInt (int (rp_size ?p0)))"
      using get [of "''pl''"] size by (simp add: d2)
  qed
  then obtain p1 where p1: "RxHead_parse c' ?p0 = Inr p1" "rp_data p1 = d3"
    "rp_packed p1 = tp_packed q" "rp_head p1 = head_text ?kit" by (simp add: RxPacket_init_def)
  have "can_verify c c' d3"
    using keys get [of "''fk''"] get [of "''de''"] others by (simp add: can_verify_def)
  moreover have "rp_packed p1 = (h @ co) @
      (if k = FkNacl then local_signature c ((h @ co) @ BLANK) else [])"
    by (simp only: append_assoc p1 packed)
  ultimately obtain foot where foot: "RxFoot_parse c' p1 = Inr (p1\<lparr>rp_foot := foot\<rparr>)"
    using RxFoot_parse_signed [of p1 k "h @ co" c c'] p1(2) get [of "''fk''"] get [of "''fl''"]
      others [of "''fk''"] fkv by (auto simp: d2 headed_oget fl)
  have "0 \<in> set (ovalues VERSIONS)" by (simp add: VERSIONS_def)
  then have outer: "RxPacket_parseOuter c' ?p0 = Inr (p1\<lparr>rp_foot := foot\<rparr>)"
    using p1 foot get [of "''vn''"] others [of "''vn''"] vn h
    by (auto simp: RxPacket_parseOuter_def oitem_def RxPacket_init_def packed head_text_def
        HEAD_END_def)
  have "py_slice (tp_packed q) (int hl) (int hl + int (length co)) = co"
    using py_slice_middle [of h co] hl by (simp add: packed)
  then have un: "RxPacket_unpackInner (p1\<lparr>rp_foot := foot\<rparr>) = Inr (p1\<lparr>rp_foot := foot, rp_coat := co\<rparr>)"
    using p1 size get [of "''hl''"] get [of "''fl''"]
    by (simp add: RxPacket_unpackInner_def oitem_def d2 headed_oget rp_size_def RxPacket_init_def)
  show thesis
    using that [OF outer] un same p1 others get [of "''pl''"] get [of "''hl''"] size hl h
    by (simp add: d2 RxPacket_init_def rp_size_def co_def)
qed

lemma RxPacket_parse_packed:
  assumes s: "sendable (tp_data p)" and hk: "oget (tp_data p) ''hk'' = Some (VInt 0)"
    and vn: "oget (tp_data p) ''vn'' = Some (VInt 0)"
    and ck: "oget (tp_data p) ''ck'' = Some (VInt (coat_value ck))" "ck = CkNada \<or> ck = CkNacl"
    and bk: "oget (tp_data p) ''bk'' = Some (VInt bk)" "body_law c c' bk (tp_embody p)"
    and bits: "bits_law c c'" and keys: "can_verify c c' (tp_data p)" "can_open c c' (tp_data p)"
    and pack: "TxPacket_pack c p = Inr q"
  shows "\<exists>r. RxPacket_parse c' (RxPacket_init [] (tp_packed q)) = Inr r \<and>
      (\<forall>k \<in> set WIRE_FIELDS. oget (rp_data r) k = oget (tp_data q) k) \<and>
      (\<forall>k. k \<notin> {''pl'', ''hl'', ''fg'', ''fl''} \<longrightarrow> oget (tp_data q) k = oget (tp_data p) k) \<and>
      oget (rp_data r) ''pl'' = Some (VInt (int (length (tp_packed q)))) \<and>
      oget (rp_data r) ''hl'' = Some (VInt (int (length (rp_head r)))) \<and>
      rp_embody r = tp_embody p"
proof -
  obtain b co where b: "TxBody_pack c p = Inr (p\<lparr>tp_body := b\<rparr>)"
    and co: "TxCoat_pack c (p\<lparr>tp_body := b\<rparr>) = Inr (p\<lparr>tp_body := b, tp_coat := co\<rparr>)"
    and seal: "TxPacket_seal c (p\<lparr>tp_body := b, tp_coat := co\<rparr>) = Inr q" and cs: "length co \<le> 1024"
    by (rule TxPacket_pack_seal [OF pack])
  have pd: "tp_data (p\<lparr>tp_body := b, tp_coat := co\<rparr>) = tp_data p"
    "tp_coat (p\<lparr>tp_body := b, tp_coat := co\<rparr>) = co" by simp_all
  obtain r where r: "RxPacket_parseOuter c' (RxPacket_init [] (tp_packed q)) = Inr r"
    and same: "\<forall>k \<in> set WIRE_FIELDS. oget (rp_data r) k = oget (tp_data q) k"
    and others: "\<forall>k. k \<notin> {''pl'', ''hl'', ''fg'', ''fl''} \<longrightarrow> oget (tp_data q) k = oget (tp_data p) k"
    and lens: "oget (rp_data r) ''pl'' = Some (VInt (int (length (tp_packed q))))"
      "oget (rp_data r) ''hl'' = Some (VInt (int (length (rp_head r))))"
    and un: "RxPacket_unpackInner r = Inr (r\<lparr>rp_coat := co\<rparr>)"
    by (rule sealed_outer [of "p\<lparr>tp_body := b, tp_coat := co\<rparr>" c c' q, unfolded pd,
          OF s hk vn bits keys(1) seal cs])
  have get: "oget (rp_data r) k = oget (tp_data p) k" if "k \<in> {''ck'', ''bk'', ''de''}" for k
  proof -
    have "k \<in> set [''pl'', ''hl'', ''fg'', ''fl'', ''hk'', ''vn'', ''fk'', ''ck'', ''bk'', ''de'', ''se'']"
      using that by auto
    then have "k \<in> set WIRE_FIELDS" using special_fields unfolding list_all_iff by blast
    then have "oget (rp_data r) k = oget (tp_data q) k" using same by blast
    moreover have "k \<notin> {''pl'', ''hl'', ''fg'', ''fl''}" using that by auto
    ultimately show ?thesis using others by metis
  qed
  have coat: "RxCoat_parse c' (r\<lparr>rp_coat := co\<rparr>) = Inr (r\<lparr>rp_coat := co, rp_body := b\<rparr>)"
    using get by (subst coat_round [OF co ck keys(2)]) simp_all
  have body: "RxBody_parse c' (r\<lparr>rp_coat := co, rp_body := b\<rparr>) =
      Inr (r\<lparr>rp_coat := co, rp_body := b, rp_embody := tp_embody p\<rparr>)"
    using get by (subst body_round [OF b bk]) simp_all
  have "RxPacket_parse c' (RxPacket_init [] (tp_packed q)) =
      Inr (r\<lparr>rp_coat := co, rp_body := b, rp_embody := tp_embody p\<rparr>)"
    by (simp add: RxPacket_parse_def r RxPacket_parseInner_def un coat body)
  then show ?thesis
    using same others lens by simp
qed

text \<open>
  C1: A packet that \<open>TxPacket.pack\<close> packs with a RAET head, whatever its header values, flags
  and foot, is accepted by \<open>RxPacket.parse\<close> at the other end. The receiver gets every header
  field with the sender's value, the lengths in the header are those of the text and of the whole
  packet, and the body is the sender's.
\<close>

theorem packet_round_trip:
  assumes "sendable (tp_data p)" and "oget (tp_data p) ''hk'' = Some (VInt 0)"
    and "oget (tp_data p) ''vn'' = Some (VInt 0)"
    and "oget (tp_data p) ''ck'' = Some (VInt (coat_value ck))" and "ck = CkNada \<or> ck = CkNacl"
    and "oget (tp_data p) ''bk'' = Some (VInt bk)" and "body_law c c' bk (tp_embody p)"
    and "bits_law c c'" and "can_verify c c' (tp_data p)" and "can_open c c' (tp_data p)"
    and "TxPacket_pack c p = Inr q"
  shows "\<exists>r. RxPacket_parse c' (RxPacket_init [] (tp_packed q)) = Inr r \<and>
      (\<forall>k \<in> set WIRE_FIELDS. oget (rp_data r) k = oget (tp_data q) k) \<and>
      (\<forall>k. k \<notin> {''pl'', ''hl'', ''fg'', ''fl''} \<longrightarrow> oget (tp_data q) k = oget (tp_data p) k) \<and>
      oget (rp_data r) ''pl'' = Some (VInt (int (length (tp_packed q)))) \<and>
      oget (rp_data r) ''hl'' = Some (VInt (int (length (rp_head r)))) \<and>
      rp_embody r = tp_embody p"
  by (rule RxPacket_parse_packed [OF assms])

lemma sample_bits: "bits_law sample_codec sample_codec"
proof -
  have "list_all (\<lambda>bs. 0 \<le> sample_pack_byte FMT8 (map bit_of bs) \<and>
      sample_pack_byte FMT8 (map bit_of bs) < 256 \<and>
      sample_unpack_byte FMT8 (sample_pack_byte FMT8 (map bit_of bs)) = bs)
      (List.n_lists 8 [False, True])"
    by code_simp
  moreover have "set (List.n_lists 8 [False, True]) = {bs. length bs = 8}"
    by (subst set_n_lists) auto
  ultimately show ?thesis
    unfolding bits_law_def list_all_iff by (simp add: sample_codec_def)
qed

lemma sample_laws:
  "sign_law sample_sign sample_crypt" "box_law sample_crypt sample_crypt"
proof -
  have "min (length m) 64 + (64 - length m) = 64" for m :: bytes by simp
  then show "sign_law sample_sign sample_crypt"
    by (simp add: sign_law_def sample_crypt_def sample_sign_def)
qed (simp add: box_law_def sample_crypt_def)

text \<open>An executable form of the condition.\<close>

lemma sendable_iff:
  "sendable d \<longleftrightarrow>
     oget d ''ri'' = Some (VStr ''RAET'') \<and> oget d ''dt'' = Some (VInt 0) \<and>
     (case oget d ''fg'' of Some (VStr s) \<Rightarrow> True | _ \<Rightarrow> False) \<and>
     list_all (\<lambda>k. case oget d k of Some (VInt i) \<Rightarrow> 0 \<le> i | _ \<Rightarrow> False) INT_FIELDS \<and>
     list_all (\<lambda>f. case oget d f of Some (VBool b) \<Rightarrow> True | _ \<Rightarrow> False) PACKET_FLAGS \<and>
     (case oget d ''pl'' of Some (VInt i) \<Rightarrow> i < 65536 | _ \<Rightarrow> True) \<and>
     (case oget d ''hl'' of Some (VInt i) \<Rightarrow> i < 256 | _ \<Rightarrow> True)"
proof -
  have "(\<exists>s. oget d k = Some (VStr s)) \<longleftrightarrow> (case oget d k of Some (VStr s) \<Rightarrow> True | _ \<Rightarrow> False)"
    "(\<exists>i \<ge> 0. oget d k = Some (VInt i)) \<longleftrightarrow> (case oget d k of Some (VInt i) \<Rightarrow> 0 \<le> i | _ \<Rightarrow> False)"
    "(\<exists>b. oget d k = Some (VBool b)) \<longleftrightarrow> (case oget d k of Some (VBool b) \<Rightarrow> True | _ \<Rightarrow> False)"
    "(\<forall>i. oget d k = Some (VInt i) \<longrightarrow> i < n) \<longleftrightarrow> (case oget d k of Some (VInt i) \<Rightarrow> i < n | _ \<Rightarrow> True)"
    for k n by (auto split: option.split val.split)
  then show ?thesis unfolding sendable_def list_all_iff by simp
qed

lemma sample_sendable: "sendable sample_data"
  unfolding sendable_iff by (intro conjI; code_simp)

lemma sample_fields:
  "oget sample_data ''hk'' = Some (VInt 0)" "oget sample_data ''vn'' = Some (VInt 0)"
  "oget sample_data ''ck'' = Some (VInt (coat_value CkNacl))" "oget sample_data ''bk'' = Some (VInt 1)"
  "oget sample_data ''se'' = Some (VInt 5)" "oget sample_data ''de'' = Some (VInt 9)"
  "oget sample_data ''si'' = Some (VInt 1000)"
  by (code_simp, code_simp, code_simp, code_simp, code_simp, code_simp, code_simp)

lemma sample_body: "body_law sample_codec sample_codec 1 (BData (VDict sample_dict))"
  unfolding body_law_def by (simp add: sample_codec_def sample_json_def sample_dict_def)

lemma sample_keys:
  "can_verify sample_codec sample_codec sample_data"
  "can_open sample_codec sample_codec sample_data"
proof -
  have look: "lookup_remote sample_codec (VInt 5) = Some sample_crypt"
    "lookup_remote sample_codec (VInt 9) = Some sample_crypt"
    by (simp_all add: lookup_remote_def sample_codec_def)
  then show "can_verify sample_codec sample_codec sample_data"
    "can_open sample_codec sample_codec sample_data"
    unfolding can_verify_def can_open_def using sample_laws sample_fields
    by (auto simp: sample_codec_def)
qed

theorem packet_round_trip_witness:
  "\<exists>q r. TxPacket_pack sample_codec sample_packet = Inr q \<and>
     RxPacket_parse sample_codec (RxPacket_init [] (tp_packed q)) = Inr r \<and>
     rp_embody r = BData (VDict sample_dict) \<and> oget (rp_data r) ''si'' = Some (VInt 1000)"
proof -
  obtain q where q: "TxPacket_pack sample_codec sample_packet = Inr q" using sample_pack_ok ..
  have d: "tp_data sample_packet = sample_data" and
    e: "tp_embody sample_packet = BData (VDict sample_dict)" by (simp_all add: sample_packet_def)
  have "''si'' \<in> set WIRE_FIELDS" by code_simp
  with packet_round_trip [OF _ _ _ _ _ _ _ sample_bits _ _ q, of CkNacl 1] sample_sendable
    sample_fields sample_body sample_keys
  show ?thesis unfolding d e using q by fastforce
qed

end
