(* ===== verification/Segmenting.thy ===== *)
theory Segmenting
  imports Prelude
begin

text \<open>
  Long messages: both transports cut a packed message into pieces of a fixed size, number them,
  and collect the pieces at the other end in whatever order they come. The loop that cuts is the
  same code in \<open>TxTray.packetize\<close> and \<open>TxBook.paginate\<close>; the locale is the contract that
  \<open>RxTray.parse\<close> and \<open>RxBook.parse\<close> share.
\<close>

section \<open>Lists indexed as in Python\<close>

definition py_get :: "'a list \<Rightarrow> int \<Rightarrow> 'a result" where
  "py_get xs i =
     (let j = (if i < 0 then int (length xs) + i else i) in
      if 0 \<le> j \<and> j < int (length xs) then Inr (xs ! nat j) else Inl IndexError)"

definition py_set :: "'a list \<Rightarrow> int \<Rightarrow> 'a \<Rightarrow> 'a list result" where
  "py_set xs i x =
     (let j = (if i < 0 then int (length xs) + i else i) in
      if 0 \<le> j \<and> j < int (length xs) then Inr (xs[nat j := x]) else Inl IndexError)"

lemma py_set_nat: "i < length xs \<Longrightarrow> py_set xs (int i) x = Inr (xs[i := x])"
  by (simp add: py_set_def)

lemma py_get_nat: "i < length xs \<Longrightarrow> py_get xs (int i) = Inr (xs ! i)"
  by (simp add: py_get_def)

section \<open>Cutting\<close>

text \<open>\<open>(size // n) + (1 if size % n else 0)\<close>, which raises for \<open>n\<close> zero.\<close>

definition piece_count :: "int \<Rightarrow> int \<Rightarrow> int result" where
  "piece_count amount n =
     (if n = 0 then Inl ZeroDivisionError
      else Inr (amount div n + (if amount mod n \<noteq> 0 then 1 else 0)))"

text \<open>The piece of number \<open>i\<close>: the last one takes what is left.\<close>

definition piece :: "bytes \<Rightarrow> int \<Rightarrow> int \<Rightarrow> int \<Rightarrow> bytes" where
  "piece packed n count i =
     (if i = count - 1 then py_from packed (i * n) else py_slice packed (i * n) ((i + 1) * n))"

definition pieces :: "bytes \<Rightarrow> int \<Rightarrow> int \<Rightarrow> bytes list" where
  "pieces packed n count = map (\<lambda>i. piece packed n count (int i)) [0..<nat count]"

lemma pieces_length [simp]: "length (pieces packed n count) = nat count"
  by (simp add: pieces_def)

lemma pieces_nth: "i < nat count \<Longrightarrow> pieces packed n count ! i = piece packed n count (int i)"
  by (simp add: pieces_def)

lemma piece_count_bounds:
  assumes "piece_count (int m) (int n) = Inr count" and "0 < n"
  shows "0 \<le> count" "int m \<le> count * int n" "0 < m \<Longrightarrow> (count - 1) * int n < int m"
proof -
  define q r where "q = int m div int n" and "r = int m mod int n"
  have c: "count = q + (if r \<noteq> 0 then 1 else 0)"
    using assms by (auto simp: piece_count_def q_def r_def split: if_splits)
  have dm: "int m = q * int n + r" unfolding q_def r_def by (rule div_mult_mod_eq [symmetric])
  have r: "0 \<le> r" "r < int n" using assms(2) by (simp_all add: r_def)
  show "0 \<le> count" using assms(2) by (simp add: c q_def pos_imp_zdiv_nonneg_iff)
  show "int m \<le> count * int n"
    using r unfolding c dm by (auto simp: distrib_right)
  show "(count - 1) * int n < int m" if "0 < m"
    using r that dm assms(2) unfolding c by (auto simp: left_diff_distrib distrib_right)
qed

lemma py_slice_nat:
  "py_slice s (int a) (int b) = take (b - a) (drop a s)"
proof -
  have "py_index s (int a) = min (length s) a" for a by (simp add: py_index_def min_def)
  then show ?thesis
    by (cases "a \<le> length s") (auto simp: py_slice_def min_def)
qed

lemma py_from_nat: "py_from s (int a) = drop a s"
  by (cases "a \<le> length s") (auto simp: py_from_def py_index_def min_def)

lemma piece_nat:
  "piece packed (int n) (int k) (int i) =
     (if i + 1 = k then drop (i * n) packed else take n (drop (i * n) packed))"
proof -
  have "(int i = int k - 1) = (i + 1 = k)" by linarith
  moreover have "py_from packed (int i * int n) = drop (i * n) packed"
    using py_from_nat [of packed "i * n"] by simp
  moreover have "py_slice packed (int i * int n) ((int i + 1) * int n) = take n (drop (i * n) packed)"
    using py_slice_nat [of packed "i * n" "i * n + n"] by (simp add: distrib_right)
  ultimately show ?thesis by (simp add: piece_def)
qed

lemma concat_chunks:
  "concat (map (\<lambda>i. take n (drop (i * n) s)) [0..<j]) = take (j * n) s"
proof (induction j)
  case (Suc j)
  have "take (j * n) s @ take n (drop (j * n) s) = take (j * n + n) s" by (simp add: take_add)
  with Suc show ?case by (simp add: add.commute)
qed simp

text \<open>The pieces are the message, and none is longer than the size asked for.\<close>

lemma pieces_concat:
  assumes "piece_count (int (length packed)) (int n) = Inr count" and n: "0 < n"
  shows "concat (pieces packed (int n) count) = packed"
proof -
  note b = piece_count_bounds [OF assms]
  define k where "k = nat count"
  have count: "count = int k" using b by (simp add: k_def)
  have len: "length packed \<le> k * n" using b(2) unfolding count by (simp flip: of_nat_mult)
  show ?thesis
  proof (cases k)
    case 0
    then show ?thesis using len by (simp add: pieces_def count)
  next
    case (Suc j)
    have "concat (pieces packed (int n) count) =
        concat (map (\<lambda>i. take n (drop (i * n) packed)) [0..<j]) @ drop (j * n) packed"
      unfolding pieces_def count nat_int Suc piece_nat
      by (simp, rule arg_cong [where f = concat], rule map_cong) auto
    then show ?thesis unfolding concat_chunks by simp
  qed
qed

lemma piece_length:
  assumes "piece_count (int (length packed)) (int n) = Inr count" and n: "0 < n"
    and i: "i < nat count"
  shows "length (pieces packed (int n) count ! i) \<le> n"
proof -
  note b = piece_count_bounds [OF assms(1,2)]
  define k where "k = nat count"
  have count: "count = int k" using b by (simp add: k_def)
  have len: "length packed \<le> k * n" using b(2) unfolding count by (simp flip: of_nat_mult)
  have "length packed - i * n \<le> n" if "i + 1 = k"
    using len that by (metis Suc_eq_plus1 add.commute diff_le_mono diff_add_inverse2 mult_Suc)
  then show ?thesis
    unfolding pieces_nth [OF i] unfolding count piece_nat by auto
qed

section \<open>Collecting\<close>

text \<open>
  Storing a piece: the slots are made when the first piece comes. The result is the slots, and
  the assembled message once no slot is empty.
\<close>

definition place_piece :: "bytes option list \<Rightarrow> int \<Rightarrow> int \<Rightarrow> bytes \<Rightarrow> bytes option list result" where
  "place_piece slots count i p =
     py_set (if slots = [] then replicate (nat count) None else slots) i (Some p)"

definition joined :: "bytes option list \<Rightarrow> bytes" where
  "joined slots = concat (map (case_option [] id) slots)"

definition filled :: "bytes list \<Rightarrow> nat set \<Rightarrow> bytes option list" where
  "filled ps S = map (\<lambda>i. if i \<in> S then Some (ps ! i) else None) [0..<length ps]"

lemma filled_complete: "None \<notin> set (filled ps S) \<longleftrightarrow> {..<length ps} \<subseteq> S"
  by (auto simp: filled_def)

lemma joined_filled: "{..<length ps} \<subseteq> S \<Longrightarrow> joined (filled ps S) = concat ps"
proof -
  assume "{..<length ps} \<subseteq> S"
  then have "map (case_option [] id) (filled ps S) = map (\<lambda>i. ps ! i) [0..<length ps]"
    by (auto simp: filled_def)
  then show ?thesis by (simp add: joined_def map_nth)
qed

lemma filled_empty: "filled ps {} = replicate (length ps) None"
  by (simp add: filled_def map_replicate_trivial)

lemma place_filled:
  assumes "i < length ps" and "slots = filled ps S \<or> (slots = [] \<and> S = {})"
  shows "place_piece slots (int (length ps)) (int i) (ps ! i) = Inr (filled ps (insert i S))"
proof -
  have "(if slots = [] then replicate (nat (int (length ps))) None else slots) = filled ps S"
    using assms filled_empty [of ps] by (auto simp: filled_def)
  moreover have "(filled ps S)[i := Some (ps ! i)] = filled ps (insert i S)"
    using assms(1) by (intro nth_equalityI) (auto simp: filled_def nth_list_update)
  ultimately show ?thesis
    using assms(1) by (simp add: place_piece_def py_set_nat filled_def)
qed

text \<open>Giving packets to a collector until it has the message.\<close>

fun feed :: "('st \<Rightarrow> 'p \<Rightarrow> ('st \<times> 'b option) result) \<Rightarrow> 'st \<Rightarrow> 'p list \<Rightarrow> ('st \<times> 'b option) result"
where
  "feed f st [] = Inr (st, None)"
| "feed f st (p # ps) =
     rbind (f st p) (\<lambda>(st', r). case r of Some b \<Rightarrow> Inr (st', Some b) | None \<Rightarrow> feed f st' ps)"

lemma feed_whole:
  assumes "\<And>t. \<exists>t'. f t r = Inr (t', Some b)" and "set ps = {r}"
  shows "\<exists>t'. feed f t ps = Inr (t', Some b)"
proof -
  from assms(2) obtain ps' where "ps = r # ps'" by (cases ps) auto
  with assms(1) [of t] show ?thesis by auto
qed

text \<open>
  The contract of a collector, for one message of \<open>amount\<close> pieces: a piece that leaves others
  missing is kept, and the piece that completes the message returns it.
\<close>

locale collector =
  fixes parse :: "'st \<Rightarrow> 'p \<Rightarrow> ('st \<times> 'b option) result"
    and holds :: "'st \<Rightarrow> nat set \<Rightarrow> bool"
    and belongs :: "'p \<Rightarrow> bool"
    and num :: "'p \<Rightarrow> nat"
    and amount :: nat
    and message :: 'b
  assumes keeps: "holds st S \<Longrightarrow> belongs p \<Longrightarrow> insert (num p) S \<noteq> {..<amount} \<Longrightarrow>
      \<exists>st'. parse st p = Inr (st', None) \<and> holds st' (insert (num p) S)"
    and completes: "holds st S \<Longrightarrow> belongs p \<Longrightarrow> insert (num p) S = {..<amount} \<Longrightarrow>
      \<exists>st'. parse st p = Inr (st', Some message)"
begin

lemma feed_partial:
  "holds st S \<Longrightarrow> \<forall>p \<in> set ps. belongs p \<Longrightarrow> \<not> {..<amount} \<subseteq> S \<union> num ` set ps \<Longrightarrow>
   \<exists>st'. feed parse st ps = Inr (st', None) \<and> holds st' (S \<union> num ` set ps)"
proof (induction ps arbitrary: st S)
  case (Cons p ps)
  have "insert (num p) S \<noteq> {..<amount}" using Cons.prems(3) by auto
  with Cons.prems obtain st' where "parse st p = Inr (st', None)" "holds st' (insert (num p) S)"
    using keeps by (metis list.set_intros(1))
  with Cons.IH [of st' "insert (num p) S"] Cons.prems show ?case by auto
qed auto

text \<open>The message comes out when all pieces are there, in any order and however often.\<close>

lemma feed_all:
  "holds st S \<Longrightarrow> S \<subset> {..<amount} \<Longrightarrow> \<forall>p \<in> set ps. belongs p \<and> num p < amount \<Longrightarrow>
   {..<amount} \<subseteq> S \<union> num ` set ps \<Longrightarrow> \<exists>st'. feed parse st ps = Inr (st', Some message)"
proof (induction ps arbitrary: st S)
  case (Cons p ps)
  have p: "belongs p" "num p < amount" using Cons.prems(3) by auto
  show ?case
  proof (cases "insert (num p) S = {..<amount}")
    case True
    then obtain st' where "parse st p = Inr (st', Some message)"
      using completes [OF Cons.prems(1) p(1)] by blast
    then show ?thesis by simp
  next
    case False
    then obtain st' where st': "parse st p = Inr (st', None)" "holds st' (insert (num p) S)"
      using keeps [OF Cons.prems(1) p(1)] by blast
    have "insert (num p) S \<subset> {..<amount}" using False Cons.prems(2) p(2) by auto
    from Cons.IH [OF st'(2) this] Cons.prems st'(1) show ?thesis by auto
  qed
qed auto

text \<open>All of the packets give the message, and fewer give nothing.\<close>

lemma feed_set:
  assumes st: "holds st {}" and each: "\<forall>i < amount. belongs (rs ! i) \<and> num (rs ! i) = i"
    and len: "length rs = amount" "rs \<noteq> []"
  shows "set ps = set rs \<Longrightarrow> \<exists>st'. feed parse st ps = Inr (st', Some message)"
    and "set ps \<subset> set rs \<Longrightarrow> \<exists>st'. feed parse st ps = Inr (st', None)"
proof -
  have rs: "r \<in> set rs \<Longrightarrow> belongs r \<and> num r < amount \<and> rs ! num r = r" for r
    using each len by (metis in_set_conv_nth)
  have nums: "num ` set rs = {..<amount}"
  proof
    show "num ` set rs \<subseteq> {..<amount}" using rs by auto
    show "{..<amount} \<subseteq> num ` set rs"
      using each len by (metis (no_types, lifting) image_eqI lessThan_iff nth_mem subsetI)
  qed
  show "\<exists>st'. feed parse st ps = Inr (st', Some message)" if ps: "set ps = set rs"
  proof (rule feed_all [OF st])
    have "0 \<in> {..<amount}" using len by (cases rs) auto
    then show "{} \<subset> {..<amount}" by blast
    show "\<forall>p \<in> set ps. belongs p \<and> num p < amount" using rs ps by blast
    show "{..<amount} \<subseteq> {} \<union> num ` set ps" using nums ps by simp
  qed
  show "\<exists>st'. feed parse st ps = Inr (st', None)" if ps: "set ps \<subset> set rs"
  proof -
    from ps obtain r where r: "r \<in> set rs" "r \<notin> set ps" by blast
    have "num r \<notin> num ` set ps"
    proof
      assume "num r \<in> num ` set ps"
      then obtain r' where "r' \<in> set ps" "num r' = num r" by auto
      then show False using rs [of r'] rs [of r] r ps by (metis psubsetD)
    qed
    then have "\<not> {..<amount} \<subseteq> {} \<union> num ` set ps" using rs [OF r(1)] by auto
    moreover have "\<forall>p \<in> set ps. belongs p" using rs ps by blast
    ultimately show ?thesis using feed_partial [OF st, where ps = ps] by blast
  qed
qed

end

end
