(* ===== verification/Traying.thy ===== *)
theory Traying
  imports PacketRound Segmenting
begin

text \<open>
  Trays, raet/road/packeting.py: a message and the packets it travels in. \<open>TxTray.pack\<close> cuts
  a message that is too big for one packet; \<open>RxTray.parse\<close> collects the packets of a message.
\<close>

section \<open>Outgoing\<close>

record txtray =
  tt_data :: hdata
  tt_body :: body
  tt_packed :: bytes
  tt_packets :: "txpacket list"
  tt_current :: int
  tt_last :: int

definition TxTray_init :: "hdata \<Rightarrow> body \<Rightarrow> txtray" where
  "TxTray_init data body =
     \<lparr>tt_data = oupdate PACKET_DEFAULTS data, tt_body = body, tt_packed = [], tt_packets = [],
      tt_current = 0, tt_last = 0\<rparr>"

definition extra_size :: "val \<Rightarrow> nat" where
  "extra_size hk =
     (if is_int hk (head_value HkRaet) then 27 else if is_int hk (head_value HkJson) then 36 else 0)"

definition segment_packet ::
    "codec \<Rightarrow> hdata \<Rightarrow> bytes \<Rightarrow> int \<Rightarrow> int \<Rightarrow> int \<Rightarrow> txpacket result" where
  "segment_packet c data segment i segcount ml =
     rbind (TxPacket_init data None EMPTY_BODY) (\<lambda>p.
     let d = oset ''sf'' (VBool True) (oset ''ml'' (VInt ml)
               (oset ''sc'' (VInt segcount) (oset ''sn'' (VInt i) (tp_data p))))
     in TxPacket_seal c (p\<lparr>tp_data := d, tp_coat := segment, tp_body := segment\<rparr>))"

definition TxTray_packetize :: "codec \<Rightarrow> txtray \<Rightarrow> nat \<Rightarrow> nat \<Rightarrow> txtray result" where
  "TxTray_packetize c t headsize footsize =
     rbind (oitem (tt_data t) ''hk'') (\<lambda>hk.
     let hotelsize = headsize + extra_size hk + footsize;
         segsize = int UDP_MAX_PACKET_SIZE - int hotelsize;
         ml = int (length (tt_packed t))
     in rbind (piece_count ml segsize) (\<lambda>segcount.
     rbind (mapM (\<lambda>i. segment_packet c (tt_data t) (piece (tt_packed t) segsize segcount (int i))
                        (int i) segcount ml) [0..<nat segcount]) (\<lambda>ps.
     Inr (t\<lparr>tt_packets := tt_packets t @ ps\<rparr>))))"

definition TxTray_pack :: "codec \<Rightarrow> txtray \<Rightarrow> hdata \<Rightarrow> body option \<Rightarrow> txtray result" where
  "TxTray_pack c t data body =
     (let t1 = t\<lparr>tt_data := oupdate (tt_data t) data,
                 tt_body := (case body of None \<Rightarrow> tt_body t | Some b \<Rightarrow> b),
                 tt_current := 0, tt_packets := []\<rparr>
      in rbind (TxPacket_init (tt_data t1) (Some (pckt_value PkMessage)) (tt_body t1)) (\<lambda>p.
         rbind (TxPacket_prepack c p) (\<lambda>p1.
         if tp_size p1 \<le> UDP_MAX_PACKET_SIZE
         then rbind (TxPacket_sign c p1) (\<lambda>p2. Inr (t1\<lparr>tt_packets := [p2]\<rparr>))
         else TxTray_packetize c (t1\<lparr>tt_packed := tp_coat p1\<rparr>)
                (length (tp_head p1)) (length (tp_foot p1)))))"

section \<open>Incoming\<close>

record rxtray =
  rt_data :: hdata
  rt_body :: "body option"
  rt_packed :: bytes
  rt_segments :: "bytes option list"
  rt_complete :: bool
  rt_highest :: int

definition RxTray_init :: "hdata \<Rightarrow> rxtray" where
  "RxTray_init data =
     \<lparr>rt_data = oupdate PACKET_DEFAULTS data, rt_body = None, rt_packed = [], rt_segments = [],
      rt_complete = False, rt_highest = 0\<rparr>"

definition int_item :: "hdata \<Rightarrow> string \<Rightarrow> int result" where
  "int_item d k =
     rbind (oitem d k) (\<lambda>v. case as_int v of None \<Rightarrow> Inl TypeError | Some i \<Rightarrow> Inr i)"

definition RxTray_missing :: "rxtray \<Rightarrow> int option \<Rightarrow> int option \<Rightarrow> int list result" where
  "RxTray_missing t lo hi =
     (let b = (case lo of None \<Rightarrow> 0 | Some b \<Rightarrow> b);
          e = (case hi of None \<Rightarrow> rt_highest t | Some e \<Rightarrow> e)
      in rbind (mapM (\<lambda>i. rbind (py_get (rt_segments t) i) (\<lambda>s. Inr (i, s))) [b..e - 1]) (\<lambda>xs.
         Inr (map fst (filter (\<lambda>x. snd x = None) xs))))"

definition RxTray_desegmentize :: "codec \<Rightarrow> rxtray \<Rightarrow> (rxtray \<times> body) result" where
  "RxTray_desegmentize c t =
     (let t1 = t\<lparr>rt_packed := joined (rt_segments t)\<rparr> in
      rbind (int_item (rt_data t) ''sc'') (\<lambda>sc.
      rbind (oitem (rt_data t) ''ml'') (\<lambda>ml.
      if sc > 1 \<and> \<not> is_int ml (int (length (rt_packed t1))) then Inl PacketError
      else rbind (RxCoat_parse c (RxPacket_init (rt_data t) []\<lparr>rp_coat := rt_packed t1\<rparr>)) (\<lambda>p.
           rbind (RxBody_parse c p) (\<lambda>p1.
           Inr (t1\<lparr>rt_complete := True\<rparr>, rp_embody p1))))))"

definition RxTray_parse :: "codec \<Rightarrow> rxtray \<Rightarrow> rxpacket \<Rightarrow> (rxtray \<times> body option) result" where
  "RxTray_parse c t p =
     rbind (int_item (rp_data p) ''sc'') (\<lambda>sc.
     rbind (int_item (rp_data p) ''sn'') (\<lambda>sn.
     let t1 = (if sn > rt_highest t then t\<lparr>rt_highest := sn\<rparr> else t) in
     if sc = 1 then
       rbind (RxPacket_parseInner c p) (\<lambda>p1.
       Inr (t1\<lparr>rt_data := oupdate (rt_data t1) (rp_data p), rt_body := Some (rp_embody p1),
               rt_complete := True\<rparr>, Some (rp_embody p1)))
     else
       let t2 = (if rt_segments t1 = []
                 then t1\<lparr>rt_data := oupdate (rt_data t1) (rp_data p)\<rparr> else t1) in
       rbind (RxPacket_unpackInner p) (\<lambda>p1.
       rbind (place_piece (rt_segments t1) sc sn (rp_coat p1)) (\<lambda>segs.
       let t3 = t2\<lparr>rt_segments := segs\<rparr> in
       if None \<in> set segs then Inr (t3, None)
       else rbind (RxTray_desegmentize c t3) (\<lambda>(t4, b).
            Inr (t4\<lparr>rt_body := Some b\<rparr>, Some b))))))"

section \<open>Segments of one message\<close>

text \<open>
  A message on the wire: the header fields that all its segments share, the pieces, and the body
  they carry, which opening the joined pieces must give.
\<close>

record wire_message =
  wm_head :: hdata
  wm_pieces :: "bytes list"
  wm_body :: body

definition KEY_FIELDS :: "string list" where
  "KEY_FIELDS = [''ck'', ''bk'', ''de'']"

definition opens_to :: "codec \<Rightarrow> wire_message \<Rightarrow> bool" where
  "opens_to c m \<longleftrightarrow>
     (\<forall>r. rp_coat r = concat (wm_pieces m) \<and>
        (\<forall>k \<in> set KEY_FIELDS. oget (rp_data r) k = oget (wm_head m) k) \<longrightarrow>
        (\<exists>r1 r2. RxCoat_parse c r = Inr r1 \<and> RxBody_parse c r1 = Inr r2 \<and>
           rp_embody r2 = wm_body m))"

definition segment_head :: "wire_message \<Rightarrow> hdata \<Rightarrow> bool" where
  "segment_head m d \<longleftrightarrow>
     owf d \<and> (\<forall>k \<in> set KEY_FIELDS. ohas d k \<and> oget d k = oget (wm_head m) k) \<and>
     oget d ''sc'' = Some (VInt (int (length (wm_pieces m)))) \<and>
     oget d ''ml'' = Some (VInt (int (length (concat (wm_pieces m)))))"

definition segment_num :: "rxpacket \<Rightarrow> nat" where
  "segment_num r = (case oget (rp_data r) ''sn'' of Some (VInt i) \<Rightarrow> nat i | _ \<Rightarrow> 0)"

definition is_segment :: "codec \<Rightarrow> wire_message \<Rightarrow> rxpacket \<Rightarrow> bool" where
  "is_segment c m r \<longleftrightarrow>
     opens_to c m \<and> segment_head m (rp_data r) \<and> length (wm_pieces m) \<noteq> 1 \<and>
     segment_num r < length (wm_pieces m) \<and>
     oget (rp_data r) ''sn'' = Some (VInt (int (segment_num r))) \<and>
     RxPacket_unpackInner r = Inr (r\<lparr>rp_coat := wm_pieces m ! segment_num r\<rparr>)"

definition tray_holds :: "wire_message \<Rightarrow> rxtray \<Rightarrow> nat set \<Rightarrow> bool" where
  "tray_holds m t S \<longleftrightarrow>
     S \<subseteq> {..<length (wm_pieces m)} \<and> owf (rt_data t) \<and>
     ((S = {} \<and> rt_segments t = []) \<or>
      (rt_segments t = filled (wm_pieces m) S \<and> segment_head m (rt_data t)))"

lemma segment_head_oupdate:
  "owf d0 \<Longrightarrow> segment_head m d \<Longrightarrow> segment_head m (oupdate d0 d)"
  by (auto simp: segment_head_def oget_oupdate ohas_iff KEY_FIELDS_def split: option.splits)

lemma RxTray_parse_segment:
  assumes "is_segment c m r" and "tray_holds m t S"
  obtains t3 where "segment_head m (rt_data t3)"
    "rt_segments t3 = filled (wm_pieces m) (insert (segment_num r) S)"
    "RxTray_parse c t r =
       (if None \<in> set (rt_segments t3) then Inr (t3, None)
        else rbind (RxTray_desegmentize c t3) (\<lambda>(t4, b). Inr (t4\<lparr>rt_body := Some b\<rparr>, Some b)))"
proof -
  let ?n = "length (wm_pieces m)" let ?i = "segment_num r"
  from assms(1) have d: "segment_head m (rp_data r)" "?n \<noteq> 1" "?i < ?n"
    "oget (rp_data r) ''sn'' = Some (VInt (int ?i))"
    "RxPacket_unpackInner r = Inr (r\<lparr>rp_coat := wm_pieces m ! ?i\<rparr>)"
    by (auto simp: is_segment_def)
  then have sc: "int_item (rp_data r) ''sc'' = Inr (int ?n)"
    by (simp add: int_item_def segment_head_def oitem_def)
  have sn: "int_item (rp_data r) ''sn'' = Inr (int ?i)"
    using d by (simp add: int_item_def oitem_def)
  have sc1: "int ?n \<noteq> 1" using d by simp
  have slots: "rt_segments t = filled (wm_pieces m) S \<or> (rt_segments t = [] \<and> S = {})"
    using assms(2) by (auto simp: tray_holds_def)
  note place = place_filled [OF d(3) slots]
  define t1 where "t1 = (if int ?i > rt_highest t then t\<lparr>rt_highest := int ?i\<rparr> else t)"
  have t1: "rt_segments t1 = rt_segments t" "rt_data t1 = rt_data t"
    by (simp_all add: t1_def)
  define t2 where "t2 = (if rt_segments t1 = []
      then t1\<lparr>rt_data := oupdate (rt_data t1) (rp_data r)\<rparr> else t1)"
  define t3 where "t3 = t2\<lparr>rt_segments := filled (wm_pieces m) (insert ?i S)\<rparr>"
  have "segment_head m (rt_data t2)"
    using assms(2) d(1) segment_head_oupdate [of "rt_data t" m "rp_data r"]
    by (auto simp: t2_def t1 tray_holds_def)
  then have "segment_head m (rt_data t3)" by (simp add: t3_def)
  moreover have "rt_segments t3 = filled (wm_pieces m) (insert ?i S)" by (simp add: t3_def)
  moreover have "RxTray_parse c t r =
       (if None \<in> set (rt_segments t3) then Inr (t3, None)
        else rbind (RxTray_desegmentize c t3) (\<lambda>(t4, b). Inr (t4\<lparr>rt_body := Some b\<rparr>, Some b)))"
    unfolding RxTray_parse_def sc sn rbind_simps Let_def t1_def [symmetric] t2_def [symmetric] d(5)
    using sc1 place t1 by (simp add: t3_def)
  ultimately show thesis by (rule that)
qed

lemma RxTray_desegmentize_filled:
  assumes "opens_to c m" and "segment_head m (rt_data t)"
    and "rt_segments t = filled (wm_pieces m) S" and "{..<length (wm_pieces m)} \<subseteq> S"
  shows "\<exists>t'. RxTray_desegmentize c t = Inr (t', wm_body m)"
proof -
  let ?r = "RxPacket_init (rt_data t) []\<lparr>rp_coat := concat (wm_pieces m)\<rparr>"
  have "\<forall>k \<in> set KEY_FIELDS. oget (rp_data ?r) k = oget (wm_head m) k"
    using segment_head_oupdate [OF PACKET_DEFAULTS_owf assms(2)]
    by (simp add: RxPacket_init_def segment_head_def)
  moreover have "rp_coat ?r = concat (wm_pieces m)" by simp
  ultimately obtain r1 r2 where "RxCoat_parse c ?r = Inr r1" "RxBody_parse c r1 = Inr r2"
    "rp_embody r2 = wm_body m"
    using assms(1) [unfolded opens_to_def, rule_format, of ?r] by blast
  then show ?thesis
    using assms joined_filled [of "wm_pieces m" S]
    by (simp add: RxTray_desegmentize_def int_item_def oitem_def segment_head_def)
qed

interpretation tray: collector "RxTray_parse c" "tray_holds m" "is_segment c m" segment_num
  "length (wm_pieces m)" "wm_body m" for c m
proof
  fix t S r
  assume h: "tray_holds m t S" and r: "is_segment c m r"
  obtain t3 where t3: "segment_head m (rt_data t3)"
    "rt_segments t3 = filled (wm_pieces m) (insert (segment_num r) S)"
    and parse: "RxTray_parse c t r =
       (if None \<in> set (rt_segments t3) then Inr (t3, None)
        else rbind (RxTray_desegmentize c t3) (\<lambda>(t4, b). Inr (t4\<lparr>rt_body := Some b\<rparr>, Some b)))"
    by (rule RxTray_parse_segment [OF r h])
  have sub: "insert (segment_num r) S \<subseteq> {..<length (wm_pieces m)}"
    using h r by (auto simp: tray_holds_def is_segment_def)
  show "\<exists>t'. RxTray_parse c t r = Inr (t', None) \<and> tray_holds m t' (insert (segment_num r) S)"
    if "insert (segment_num r) S \<noteq> {..<length (wm_pieces m)}"
    using that sub t3 parse
    by (auto simp: filled_complete tray_holds_def segment_head_def)
  show "\<exists>t'. RxTray_parse c t r = Inr (t', Some (wm_body m))"
    if full: "insert (segment_num r) S = {..<length (wm_pieces m)}"
  proof -
    have "opens_to c m" using r by (simp add: is_segment_def)
    from RxTray_desegmentize_filled [OF this t3] full obtain t'
      where "RxTray_desegmentize c t3 = Inr (t', wm_body m)" by auto
    moreover have "None \<notin> set (rt_segments t3)" by (simp add: t3(2) filled_complete full)
    ultimately show ?thesis by (simp add: parse)
  qed
qed

end
