(* ===== verification/TrayRound.thy ===== *)
theory TrayRound
  imports Traying
begin

text \<open>
  A message over the wire: the packets of \<open>TxTray.pack\<close> are accepted one by one, and
  \<open>RxTray.parse\<close> gets the message out of them in whatever order they come.
\<close>

section \<open>Received data are well formed\<close>

lemma set_flags_owf: "set_flags fs vs d = Inr d' \<Longrightarrow> owf d \<Longrightarrow> owf d'"
  by (induction fs vs d rule: set_flags.induct) (auto split: if_splits list.splits)

lemma unpack_flag_field_owf: "unpack_flag_field c d = Inr d' \<Longrightarrow> owf d \<Longrightarrow> owf d'"
  by (auto simp: unpack_flag_field_def unpackFlags_def rbind_eq_Inr set_flags_owf split: option.splits)

lemma RxHead_parse_raet_owf:
  "RxHead_parse_raet c p = Inr q \<Longrightarrow> owf (rp_data p) \<Longrightarrow> owf (rp_data q)"
  by (auto simp: RxHead_parse_raet_def rbind_eq_Inr split: prod.splits dest: unpack_flag_field_owf)

lemma check_length_text_owf: "check_length_text d k n = Inr d' \<Longrightarrow> owf d \<Longrightarrow> owf d'"
  by (auto simp: check_length_text_def rbind_eq_Inr)

lemma RxHead_parse_json_owf:
  "RxHead_parse_json c p = Inr q \<Longrightarrow> owf (rp_data p) \<Longrightarrow> owf (rp_data q)"
  by (auto simp: RxHead_parse_json_def rbind_eq_Inr Let_def split: prod.splits option.splits val.splits
      dest!: unpack_flag_field_owf check_length_text_owf)

lemma RxFoot_parse_data: "RxFoot_parse c p = Inr q \<Longrightarrow> \<exists>foot. q = p\<lparr>rp_foot := foot\<rparr>"
proof -
  assume q: "RxFoot_parse c p = Inr q"
  then obtain fk flv where f: "oget (rp_data p) ''fk'' = Some fk" "oget (rp_data p) ''fl'' = Some flv"
    by (auto simp: RxFoot_parse_def rbind_eq_Inr)
  with q obtain k fl where k: "foot_kind_of_val fk = Some k" "as_int flv = Some fl"
    by (auto simp: RxFoot_parse_def oitem_def split: option.split_asm)
  from q show ?thesis
    unfolding RxFoot_parse_def by (auto simp: oitem_def f k Let_def rbind_eq_Inr split: if_split_asm)
qed

lemma RxPacket_parseOuter_owf:
  "RxPacket_parseOuter c p = Inr q \<Longrightarrow> owf (rp_data p) \<Longrightarrow> owf (rp_data q)"
  by (auto simp: RxPacket_parseOuter_def rbind_eq_Inr RxHead_parse_def split: if_splits
      dest!: RxHead_parse_raet_owf RxHead_parse_json_owf RxFoot_parse_data)

section \<open>Sizes of the first attempt\<close>

lemma put_length_length:
  assumes "put_length c kit k w n packed = Inr packed'" and "oget kit k = Some (VInt i)"
    and "0 \<le> i" "i < 16 ^ w" "0 \<le> n" "0 < w"
  shows "length packed' = length packed"
proof -
  have "length (fmt_hex w i) = w" using assms by (intro fmt_hex_length_eq) auto
  moreover have "w \<le> length (fmt_hex w n)" using assms by (intro fmt_hex_length_ge)
  ultimately have "length (field_line k (fmt_hex w i)) = length (field_line k (last_n w (fmt_hex w n)))"
    by (simp add: field_line_def last_n_def)
  with assms show ?thesis
    by (auto simp: put_length_def rbind_eq_Inr oitem_def replace_first_length)
qed

text \<open>The lengths that are put into the text do not change its length.\<close>

lemma TxHead_pack_raet_length:
  assumes s: "sendable d" and f: "0 \<le> flags" "flags < 256"
    and kit: "head_kit (headed d fl flags) KIT0 PACKET_DEFAULTS = Inr kit"
    and pack: "TxHead_pack_raet c kit cs fl d0 = Inr (h, d2)"
  shows "length h = length (head_text kit)" "length h \<le> 255" "cs \<le> 67107840"
proof -
  have plain: "list_all plain_field kit" by (rule kit_plain [OF s f kit])
  have lay: "join_with [NL] (map line_of kit) @ HEAD_END = head_text kit"
    by (simp add: head_text_def)
  define pl where "pl = length (head_text kit) + cs + fl"
  from pack obtain p1 where hl: "length (head_text kit) \<le> 255" and cs: "cs \<le> 67107840"
    and p1: "put_length c kit ''pl'' 4 (int pl) (head_text kit) = Inr p1"
    and h: "put_length c kit ''hl'' 2 (int (length (head_text kit))) p1 = Inr h"
    unfolding TxHead_pack_raet_def mapM_head_line [OF plain] rbind_simps Let_def lay
      pl_def [symmetric]
    by (auto simp: rbind_eq_Inr size_limits split: if_split_asm)
  obtain i j where "oget kit ''pl'' = Some (VInt i)" "0 \<le> i" "i < 65536"
    "oget kit ''hl'' = Some (VInt j)" "0 \<le> j" "j < 256"
    using sendable_prev_lengths [OF s kit] by blast
  then have "length h = length p1" "length p1 = length (head_text kit)"
    using put_length_length [OF h, of j] put_length_length [OF p1, of i] by simp_all
  with hl cs show "length h = length (head_text kit)" "length h \<le> 255" "cs \<le> 67107840" by simp_all
qed

lemma flags_range: "bits_law c c' \<Longrightarrow> 0 \<le> packFlags c d \<and> packFlags c d < 256"
proof -
  have "length (flag_bits d) = 8" by (simp add: flag_bits_def flag_fields_eq)
  then show "bits_law c c' \<Longrightarrow> 0 \<le> packFlags c d \<and> packFlags c d < 256"
    by (auto simp: bits_law_def packFlags_bits)
qed

text \<open>The first attempt at packing a message, of which \<open>packetize\<close> takes the sizes.\<close>

lemma prepack_parts:
  assumes pre: "TxPacket_prepack c p = Inr p1" and s: "sendable (tp_data p)"
    and hk: "oget (tp_data p) ''hk'' = Some (VInt 0)" and bits: "bits_law c c'"
  obtains b co k flags kit where
    "TxBody_pack c p = Inr (p\<lparr>tp_body := b\<rparr>)"
    "TxCoat_pack c (p\<lparr>tp_body := b\<rparr>) = Inr (p\<lparr>tp_body := b, tp_coat := co\<rparr>)"
    "tp_coat p1 = co" "length (tp_head p1) \<le> 255" "length co \<le> 67107840"
    "tp_size p1 = length (tp_head p1) + length co + length (tp_foot p1)"
    "Option.bind (oget (tp_data p) ''fk'') foot_kind_of_val = Some k"
    "length (tp_foot p1) = length (blank_foot k)" "0 \<le> flags" "flags < 256"
    "head_kit (headed (tp_data p) (length (blank_foot k)) flags) KIT0 PACKET_DEFAULTS = Inr kit"
    "length (tp_head p1) = length (head_text kit)"
proof -
  obtain b co p2 p3 where b: "TxBody_pack c p = Inr (p\<lparr>tp_body := b\<rparr>)"
    and co: "TxCoat_pack c (p\<lparr>tp_body := b\<rparr>) = Inr (p\<lparr>tp_body := b, tp_coat := co\<rparr>)"
    and p2: "TxFoot_pack (p\<lparr>tp_body := b, tp_coat := co\<rparr>) = Inr p2"
    and p3: "TxHead_pack c p2 = Inr p3" and p1: "p1 = join_parts p3"
    by (rule TxPacket_prepack_steps [OF pre])
  obtain k where k: "Option.bind (oget (tp_data p) ''fk'') foot_kind_of_val = Some k"
    and foot: "p2 = p\<lparr>tp_body := b, tp_coat := co, tp_foot := blank_foot k\<rparr>"
    by (rule TxFoot_pack_blank [OF p2]) simp
  define fl where "fl = length (blank_foot k)"
  define flags where "flags = packFlags c (oset ''fl'' (VInt (int fl)) (tp_data p))"
  have f: "0 \<le> flags" "flags < 256" using flags_range [OF bits] by (simp_all add: flags_def)
  have fl2: "fl = length (tp_foot p2)" and pd: "tp_data p2 = tp_data p" "tp_coat p2 = co"
    by (simp_all add: fl_def foot)
  obtain kit h d2 where kit: "head_kit (headed (tp_data p) fl flags) KIT0 PACKET_DEFAULTS = Inr kit"
    and h: "TxHead_pack_raet c kit (length co) fl (headed (tp_data p) fl flags) = Inr (h, d2)"
    and p3': "p3 = p2\<lparr>tp_head := h, tp_data := d2\<rparr>"
    by (rule TxHead_pack_kit [OF p3, unfolded pd, OF hk fl2 flags_def])
  note len = TxHead_pack_raet_length [OF s f kit h]
  show thesis
    using that [OF b co _ _ len(3) _ k _ f kit [unfolded fl_def]] len p3' foot
    by (simp add: p1 join_parts_def tp_size_def)
qed

section \<open>Segments\<close>

text \<open>Data that a packet of the tray starts from: the tray's, over the defaults.\<close>

lemma over_defaults:
  assumes "sendable d" and "owf d"
  shows "sendable (oupdate PACKET_DEFAULTS d)"
    and "k \<in> set INT_FIELDS \<Longrightarrow> oget (oupdate PACKET_DEFAULTS d) k = oget d k"
proof -
  have get: "oget (oupdate PACKET_DEFAULTS d) k = oget d k" if "\<exists>v. oget d k = Some v" for k
    using that by (auto simp: oget_oupdate [OF assms(2)])
  show "k \<in> set INT_FIELDS \<Longrightarrow> oget (oupdate PACKET_DEFAULTS d) k = oget d k"
    using sendable_int [OF assms(1)] get by blast
  have "''pl'' \<in> set INT_FIELDS" "''hl'' \<in> set INT_FIELDS" by (simp_all add: INT_FIELDS_def)
  from this [THEN sendable_int [OF assms(1)]]
  have "\<exists>v. oget d ''pl'' = Some v" "\<exists>v. oget d ''hl'' = Some v" by auto
  then show "sendable (oupdate PACKET_DEFAULTS d)"
    using assms(1) unfolding sendable_def by (auto simp: get)
qed

definition segment_data :: "hdata \<Rightarrow> int \<Rightarrow> int \<Rightarrow> int \<Rightarrow> hdata" where
  "segment_data d i n ml =
     oset ''sf'' (VBool True) (oset ''ml'' (VInt ml) (oset ''sc'' (VInt n) (oset ''sn'' (VInt i) d)))"

lemma segment_data_sendable:
  assumes s: "sendable d" and n: "0 \<le> i" "0 \<le> n" "0 \<le> ml"
  shows "sendable (segment_data d i n ml)"
proof -
  have f: "''sf'' \<notin> set INT_FIELDS" "''sn'' \<notin> set PACKET_FLAGS" "''sc'' \<notin> set PACKET_FLAGS"
    "''ml'' \<notin> set PACKET_FLAGS" by (simp_all add: INT_FIELDS_def PACKET_FLAGS_def)
  have "oget (segment_data d i n ml) k =
      (if k = ''sf'' then Some (VBool True) else if k = ''ml'' then Some (VInt ml)
       else if k = ''sc'' then Some (VInt n) else if k = ''sn'' then Some (VInt i) else oget d k)" for k
    by (auto simp: segment_data_def)
  then show ?thesis using s n f unfolding sendable_def by auto
qed

lemma segment_received:
  assumes s: "sendable d" "owf d" and hk: "oget d ''hk'' = Some (VInt 0)"
    and vn: "oget d ''vn'' = Some (VInt 0)" and bits: "bits_law c c'" and keys: "can_verify c c' d"
    and q: "segment_packet c d seg i n ml = Inr q" and len: "length seg \<le> 1024"
    and n: "0 \<le> i" "0 \<le> n" "0 \<le> ml"
  obtains r where "RxPacket_parseOuter c' (RxPacket_init [] (tp_packed q)) = Inr r"
    "owf (rp_data r)" "\<forall>k \<in> set KEY_FIELDS. ohas (rp_data r) k \<and> oget (rp_data r) k = oget d k"
    "oget (rp_data r) ''sc'' = Some (VInt n)" "oget (rp_data r) ''sn'' = Some (VInt i)"
    "oget (rp_data r) ''ml'' = Some (VInt ml)"
    "RxPacket_unpackInner r = Inr (r\<lparr>rp_coat := seg\<rparr>)"
proof -
  let ?D = "oupdate PACKET_DEFAULTS d"
  let ?d = "segment_data ?D i n ml"
  let ?p = "\<lparr>tp_data = ?d, tp_embody = EMPTY_BODY, tp_head = [], tp_body = seg, tp_coat = seg,
     tp_foot = [], tp_packed = []\<rparr>"
  have seal: "TxPacket_seal c ?p = Inr q"
    using q by (simp add: segment_packet_def TxPacket_init_def Packet_init_def segment_data_def)
  have D: "sendable ?D" "\<And>k. k \<in> set INT_FIELDS \<Longrightarrow> oget ?D k = oget d k"
    using over_defaults [OF s] by auto
  have sd: "sendable ?d" by (rule segment_data_sendable [OF D(1) n])
  have get: "oget ?d k = oget d k" if "k \<in> set INT_FIELDS" "k \<notin> {''ml'', ''sc'', ''sn'', ''sf''}" for k
    using that D(2) by (simp add: segment_data_def)
  have ints: "''hk'' \<in> set INT_FIELDS" "''vn'' \<in> set INT_FIELDS" "''fk'' \<in> set INT_FIELDS"
    "''de'' \<in> set INT_FIELDS" "''ck'' \<in> set INT_FIELDS" "''bk'' \<in> set INT_FIELDS"
    by (simp_all add: INT_FIELDS_def)
  have hk': "oget ?d ''hk'' = Some (VInt 0)" and vn': "oget ?d ''vn'' = Some (VInt 0)"
    using hk vn get ints by simp_all
  have keys': "can_verify c c' ?d" using keys get ints by (simp add: can_verify_def)
  have pd: "tp_data ?p = ?d" "tp_coat ?p = seg" by simp_all
  obtain r where r: "RxPacket_parseOuter c' (RxPacket_init [] (tp_packed q)) = Inr r"
    and same: "\<forall>k \<in> set WIRE_FIELDS. oget (rp_data r) k = oget (tp_data q) k"
    and others: "\<forall>k. k \<notin> {''pl'', ''hl'', ''fg'', ''fl''} \<longrightarrow> oget (tp_data q) k = oget ?d k"
    and un: "RxPacket_unpackInner r = Inr (r\<lparr>rp_coat := seg\<rparr>)"
    by (rule sealed_outer [of ?p c c' q, unfolded pd, OF sd hk' vn' bits keys' seal len])
  have wf: "owf (rp_data r)"
    using RxPacket_parseOuter_owf [OF r] by (simp add: RxPacket_init_def PACKET_DEFAULTS_owf)
  have wire: "list_all (\<lambda>k. k \<in> set WIRE_FIELDS) [''sc'', ''sn'', ''ml'', ''ck'', ''bk'', ''de'']"
    by code_simp
  have all: "oget (rp_data r) k = oget ?d k" if "k \<in> {''sc'', ''sn'', ''ml'', ''ck'', ''bk'', ''de''}" for k
  proof -
    have "k \<in> set WIRE_FIELDS" using that wire by auto
    moreover have "k \<notin> {''pl'', ''hl'', ''fg'', ''fl''}" using that by auto
    ultimately show ?thesis using same others by metis
  qed
  have "\<forall>k \<in> set KEY_FIELDS. ohas (rp_data r) k \<and> oget (rp_data r) k = oget d k"
  proof
    fix k assume k: "k \<in> set KEY_FIELDS"
    then have ki: "k \<in> set INT_FIELDS" "k \<notin> {''ml'', ''sc'', ''sn'', ''sf''}"
      "k \<in> {''sc'', ''sn'', ''ml'', ''ck'', ''bk'', ''de''}"
      by (auto simp: KEY_FIELDS_def INT_FIELDS_def)
    then have "oget (rp_data r) k = oget d k" using all get by simp
    moreover have "\<exists>v. oget d k = Some v" using sendable_int [OF s(1) ki(1)] by blast
    ultimately show "ohas (rp_data r) k \<and> oget (rp_data r) k = oget d k" by (simp add: ohas_iff)
  qed
  then show thesis
    using that [OF r wf] un all by (simp add: segment_data_def)
qed

section \<open>The message\<close>

lemma RxPacket_parseInner_data: "RxPacket_parseInner c r = Inr r2 \<Longrightarrow> rp_data r2 = rp_data r"
proof -
  assume "RxPacket_parseInner c r = Inr r2"
  then obtain r0 r1 where un: "RxPacket_unpackInner r = Inr r0"
    and co: "RxCoat_parse c r0 = Inr r1" and b: "RxBody_parse c r1 = Inr r2"
    by (auto simp: RxPacket_parseInner_def rbind_eq_Inr)
  have "rp_data r0 = rp_data r"
  proof -
    from un obtain hl fl where "oget (rp_data r) ''hl'' = Some hl" "oget (rp_data r) ''fl'' = Some fl"
      by (auto simp: RxPacket_unpackInner_def rbind_eq_Inr)
    with un show ?thesis
      by (auto simp: RxPacket_unpackInner_def oitem_def split: option.split_asm)
  qed
  moreover have "rp_data r1 = rp_data r0"
  proof -
    from co obtain v k where "oget (rp_data r0) ''ck'' = Some v" "Option.bind (as_int v) coat_of = Some k"
      by (auto simp: RxCoat_parse_def rbind_eq_Inr split: option.split_asm)
    with co show ?thesis
      by (auto simp: RxCoat_parse_def oitem_def Let_def rbind_eq_Inr split: if_split_asm)
  qed
  moreover have "rp_data r2 = rp_data r1"
  proof -
    from b obtain v k where "oget (rp_data r1) ''bk'' = Some v" "Option.bind (as_int v) body_of = Some k"
      by (auto simp: RxBody_parse_def rbind_eq_Inr split: option.split_asm)
    with b show ?thesis
      by (auto simp: RxBody_parse_def oitem_def rbind_eq_Inr split: if_split_asm)
  qed
  ultimately show ?thesis by simp
qed

text \<open>A packet that is the whole message completes the tray at once.\<close>

lemma whole_packet_parse:
  assumes "int_item (rp_data r) ''sc'' = Inr 1" "int_item (rp_data r) ''sn'' = Inr i"
    and "RxPacket_parseInner c r = Inr r2"
  shows "\<exists>t'. RxTray_parse c t r = Inr (t', Some (rp_embody r2))"
  using assms by (simp add: RxTray_parse_def Let_def)

lemma RxTray_init_holds: "tray_holds m (RxTray_init rdata) {}"
  by (simp add: tray_holds_def RxTray_init_def PACKET_DEFAULTS_owf owf_oupdate)

text \<open>The segments of a message, received, are collected in any order.\<close>

lemma segments_collected:
  assumes "\<forall>i < length (wm_pieces m). is_segment c m (rs ! i) \<and> segment_num (rs ! i) = i"
    and "length rs = length (wm_pieces m)" and "rs \<noteq> []"
  shows "set ps = set rs \<Longrightarrow>
      \<exists>t'. feed (RxTray_parse c) (RxTray_init rdata) ps = Inr (t', Some (wm_body m))"
    and "set ps \<subset> set rs \<Longrightarrow> \<exists>t'. feed (RxTray_parse c) (RxTray_init rdata) ps = Inr (t', None)"
  using tray.feed_set [OF RxTray_init_holds assms] by blast+

text \<open>
  C2: A message given to \<open>TxTray.pack\<close> goes out as one packet or as many segments, each of which
  the receiver's \<open>parseOuter\<close> accepts. Given to \<open>RxTray.parse\<close> in any order, repeated or not,
  they yield the message that was packed, and they yield nothing as long as one is missing.
\<close>

theorem tray_any_order:
  assumes d: "d = oupdate (tt_data t) data" and wf: "owf (tt_data t)" and s: "sendable d"
    and hk: "oget d ''hk'' = Some (VInt 0)" and vn: "oget d ''vn'' = Some (VInt 0)"
    and sc: "oget d ''sc'' = Some (VInt 1)"
    and ck: "oget d ''ck'' = Some (VInt (coat_value ck))" "ck = CkNada \<or> ck = CkNacl"
    and bk: "oget d ''bk'' = Some (VInt bk)" "body_law c c' bk body"
    and bits: "bits_law c c'" and keys: "can_verify c c' d" "can_open c c' d"
    and pack: "TxTray_pack c t data (Some body) = Inr t'"
  shows "\<exists>rs. mapM (\<lambda>q. RxPacket_parseOuter c' (RxPacket_init [] (tp_packed q))) (tt_packets t') = Inr rs \<and>
      (\<forall>ps. set ps = set rs \<longrightarrow>
         (\<exists>st. feed (RxTray_parse c') (RxTray_init rdata) ps = Inr (st, Some body))) \<and>
      (\<forall>ps. set ps \<subset> set rs \<longrightarrow>
         (\<exists>st. feed (RxTray_parse c') (RxTray_init rdata) ps = Inr (st, None)))"
proof -
  let ?D = "oupdate PACKET_DEFAULTS d"
  let ?p = "\<lparr>tp_data = ?D, tp_embody = body, tp_head = [], tp_body = [], tp_coat = [],
     tp_foot = [], tp_packed = []\<rparr>"
  have wfd: "owf d" using wf by (simp add: d)
  note D = over_defaults [OF s wfd]
  have ints: "list_all (\<lambda>k. k \<in> set INT_FIELDS)
      [''hk'', ''vn'', ''fk'', ''de'', ''ck'', ''bk'', ''se'', ''sc'', ''sn'']" by code_simp
  have get: "oget ?D k = oget d k"
    if "k \<in> {''hk'', ''vn'', ''fk'', ''de'', ''ck'', ''bk'', ''se'', ''sc'', ''sn''}" for k
    using that ints D(2) by auto
  have hk': "oget ?D ''hk'' = Some (VInt 0)" and vn': "oget ?D ''vn'' = Some (VInt 0)"
    and sc': "oget ?D ''sc'' = Some (VInt 1)"
    and ck': "oget ?D ''ck'' = Some (VInt (coat_value ck))" and bk': "oget ?D ''bk'' = Some (VInt bk)"
    using hk vn sc ck bk get by simp_all
  have keys': "can_verify c c' ?D" "can_open c c' ?D"
    using keys get by (simp_all add: can_verify_def can_open_def)
  let ?t1 = "t\<lparr>tt_data := d, tt_body := body, tt_current := 0, tt_packets := []\<rparr>"
  have init: "TxPacket_init d (Some 0) body = Inr ?p"
    by (simp add: TxPacket_init_def Packet_init_def)
  from pack obtain p1 where pre: "TxPacket_prepack c ?p = Inr p1"
    and rest: "(if tp_size p1 \<le> UDP_MAX_PACKET_SIZE
         then rbind (TxPacket_sign c p1) (\<lambda>p2. Inr (?t1\<lparr>tt_packets := [p2]\<rparr>))
         else TxTray_packetize c (?t1\<lparr>tt_packed := tp_coat p1\<rparr>)
                (length (tp_head p1)) (length (tp_foot p1))) = Inr t'"
    unfolding TxTray_pack_def by (auto simp: Let_def d [symmetric] init rbind_eq_Inr)
  have pd: "tp_data ?p = ?D" "tp_embody ?p = body" by simp_all
  obtain b co where b: "TxBody_pack c ?p = Inr (?p\<lparr>tp_body := b\<rparr>)"
    and co: "TxCoat_pack c (?p\<lparr>tp_body := b\<rparr>) = Inr (?p\<lparr>tp_body := b, tp_coat := co\<rparr>)"
    and parts: "tp_coat p1 = co" "length (tp_head p1) \<le> 255" "length (tp_foot p1) \<le> 64"
      "tp_size p1 = length (tp_head p1) + length co + length (tp_foot p1)"
    by (rule prepack_parts [OF pre, unfolded pd, OF D(1) hk' bits]) (simp add: blank_foot_length)
  show ?thesis
  proof (cases "tp_size p1 \<le> UDP_MAX_PACKET_SIZE")
    case True
    then obtain q where q: "TxPacket_sign c p1 = Inr q" and t': "tt_packets t' = [q]"
      using rest by (auto simp: rbind_eq_Inr)
    have "TxPacket_pack c ?p = Inr q" using pre True q by (simp add: TxPacket_pack_def)
    from RxPacket_parse_packed [of ?p ck bk c c' q, unfolded pd, OF D(1) hk' vn' ck' ck(2) bk' bk(2)
        bits keys' this]
    obtain r2 where r2: "RxPacket_parse c' (RxPacket_init [] (tp_packed q)) = Inr r2"
      and same: "\<forall>k \<in> set WIRE_FIELDS. oget (rp_data r2) k = oget (tp_data q) k"
      and others: "\<forall>k. k \<notin> {''pl'', ''hl'', ''fg'', ''fl''} \<longrightarrow> oget (tp_data q) k = oget ?D k"
      and em: "rp_embody r2 = body" by blast
    then obtain r where r: "RxPacket_parseOuter c' (RxPacket_init [] (tp_packed q)) = Inr r"
      and inner: "RxPacket_parseInner c' r = Inr r2"
      by (auto simp: RxPacket_parse_def rbind_eq_Inr)
    have data: "rp_data r2 = rp_data r" by (rule RxPacket_parseInner_data [OF inner])
    have wire: "''sc'' \<in> set WIRE_FIELDS" "''sn'' \<in> set WIRE_FIELDS" by (code_simp, code_simp)
    obtain i where i: "oget ?D ''sn'' = Some (VInt i)"
      using sendable_int [OF D(1), of "''sn''"] ints by auto
    have "oget (rp_data r) ''sc'' = Some (VInt 1)" "oget (rp_data r) ''sn'' = Some (VInt i)"
      using same others wire sc' i by (simp_all add: data)
    then have "int_item (rp_data r) ''sc'' = Inr 1" "int_item (rp_data r) ''sn'' = Inr i"
      by (simp_all add: int_item_def oitem_def)
    from whole_packet_parse [OF this inner]
    have one: "\<exists>t''. RxTray_parse c' tr r = Inr (t'', Some body)" for tr by (simp add: em)
    have all: "\<exists>st. feed (RxTray_parse c') (RxTray_init rdata) ps = Inr (st, Some body)"
      if "set ps = {r}" for ps using that by (intro feed_whole [where r = r] one)
    have none: "\<exists>st. feed (RxTray_parse c') (RxTray_init rdata) ps = Inr (st, None)"
      if "set ps \<subset> {r}" for ps
    proof -
      have "ps = []" using that by (cases ps) auto
      then show ?thesis by simp
    qed
    show ?thesis using r all none by (intro exI [of _ "[r]"]) (simp add: t')
  next
    case False
    define segsize where "segsize = 1024 - (length (tp_head p1) + 27 + length (tp_foot p1))"
    have seg: "0 < segsize" "segsize \<le> 1024" using parts by (simp_all add: segsize_def)
    have big: "segsize < length co" using False parts by (simp add: segsize_def size_limits)
    have segi: "int UDP_MAX_PACKET_SIZE - int (length (tp_head p1) + extra_size (VInt 0) +
        length (tp_foot p1)) = int segsize"
      using parts by (simp add: segsize_def size_limits extra_size_def of_nat_diff)
    have hkd: "oitem d ''hk'' = Inr (VInt 0)" using hk by simp
    let ?ml = "int (length co)"
    from rest False obtain n ps where n: "piece_count ?ml (int segsize) = Inr n"
      and ps: "mapM (\<lambda>i. segment_packet c d (piece co (int segsize) n (int i)) (int i) n ?ml)
          [0..<nat n] = Inr ps" and t': "tt_packets t' = ps"
      by (auto simp: TxTray_packetize_def hkd Let_def segi parts(1) rbind_eq_Inr simp del: of_nat_add)
    note nb = piece_count_bounds [OF n seg(1)]
    have n2: "1 < n"
    proof (rule ccontr)
      assume "\<not> 1 < n"
      then have "n * int segsize \<le> 1 * int segsize" by (intro mult_right_mono) auto
      with nb(2) big show False by simp
    qed
    define m where "m = \<lparr>wm_head = d, wm_pieces = pieces co (int segsize) n, wm_body = body\<rparr>"
    have mlen: "length (wm_pieces m) = nat n" by (simp add: m_def)
    have whole: "concat (wm_pieces m) = co" using pieces_concat [OF n seg(1)] by (simp add: m_def)
    have opens: "opens_to c' m"
      unfolding opens_to_def
    proof (intro allI impI)
      fix r :: rxpacket assume r: "rp_coat r = concat (wm_pieces m) \<and>
        (\<forall>k \<in> set KEY_FIELDS. oget (rp_data r) k = oget (wm_head m) k)"
      then have rk: "oget (rp_data r) ''ck'' = oget ?D ''ck''" "oget (rp_data r) ''de'' = oget ?D ''de''"
        "oget (rp_data r) ''bk'' = oget ?D ''bk''"
        by (simp_all add: KEY_FIELDS_def m_def get)
      have "RxCoat_parse c' r = Inr (r\<lparr>rp_body := b\<rparr>)"
        using rk r whole by (intro coat_round [OF co, unfolded pd, OF ck' ck(2) keys'(2)]) simp_all
      moreover have "RxBody_parse c' (r\<lparr>rp_body := b\<rparr>) = Inr (r\<lparr>rp_body := b, rp_embody := body\<rparr>)"
        using rk by (subst body_round [OF b, unfolded pd, OF bk' bk(2)]) simp_all
      ultimately show "\<exists>r1 r2. RxCoat_parse c' r = Inr r1 \<and> RxBody_parse c' r1 = Inr r2 \<and>
          rp_embody r2 = wm_body m" by (simp add: m_def)
    qed
    have pslen: "length ps = nat n" using mapM_Inr_length [OF ps] by simp
    have "\<exists>r. RxPacket_parseOuter c' (RxPacket_init [] (tp_packed (ps ! i))) = Inr r \<and>
        is_segment c' m r \<and> segment_num r = i" if i: "i < nat n" for i
    proof -
      have q: "segment_packet c d (piece co (int segsize) n (int i)) (int i) n ?ml = Inr (ps ! i)"
        using mapM_Inr_nth [OF ps, of i] i by simp
      have pi: "piece co (int segsize) n (int i) = wm_pieces m ! i"
        using i by (simp add: m_def pieces_nth)
      have len: "length (piece co (int segsize) n (int i)) \<le> 1024"
        using piece_length [OF n seg(1) i] seg(2) i by (simp add: pieces_nth)
      obtain r where r: "RxPacket_parseOuter c' (RxPacket_init [] (tp_packed (ps ! i))) = Inr r"
        and rd: "owf (rp_data r)" "\<forall>k \<in> set KEY_FIELDS. ohas (rp_data r) k \<and> oget (rp_data r) k = oget d k"
        "oget (rp_data r) ''sc'' = Some (VInt n)" "oget (rp_data r) ''sn'' = Some (VInt (int i))"
        "oget (rp_data r) ''ml'' = Some (VInt ?ml)"
        "RxPacket_unpackInner r = Inr (r\<lparr>rp_coat := piece co (int segsize) n (int i)\<rparr>)"
        by (rule segment_received [OF s wfd hk vn bits keys(1) q len]) (use n2 in auto)
      have num: "segment_num r = i" using rd by (simp add: segment_num_def)
      have "is_segment c' m r"
        unfolding is_segment_def num using opens rd i n2 nb(1) whole
        by (simp add: segment_head_def mlen pi) (simp add: m_def)
      with r num show ?thesis by blast
    qed
    then obtain f where f: "\<And>i. i < nat n \<Longrightarrow>
        RxPacket_parseOuter c' (RxPacket_init [] (tp_packed (ps ! i))) = Inr (f i) \<and>
        is_segment c' m (f i) \<and> segment_num (f i) = i" by metis
    define rs where "rs = map f [0..<nat n]"
    have rs: "mapM (\<lambda>q. RxPacket_parseOuter c' (RxPacket_init [] (tp_packed q))) ps = Inr rs"
    proof -
      have "ps = map ((!) ps) [0..<nat n]" by (simp add: map_nth flip: pslen)
      moreover have "mapM (\<lambda>q. RxPacket_parseOuter c' (RxPacket_init [] (tp_packed q)))
          (map ((!) ps) is) = Inr (map f is)" if "set is \<subseteq> {..<nat n}" for "is"
        using that f by (induction "is") auto
      ultimately show ?thesis unfolding rs_def
        by (metis atLeastLessThan_upt lessThan_atLeast0 order_refl)
    qed
    have seg: "\<forall>i < length (wm_pieces m). is_segment c' m (rs ! i) \<and> segment_num (rs ! i) = i"
      using f by (simp add: rs_def mlen)
    have len: "length rs = length (wm_pieces m)" "rs \<noteq> []" using n2 by (simp_all add: rs_def mlen)
    note col = segments_collected [OF seg len]
    have "wm_body m = body" by (simp add: m_def)
    then show ?thesis using rs col by (intro exI [of _ rs]) (simp add: t')
  qed
qed

definition sample_tray :: txtray where
  "sample_tray = TxTray_init [] EMPTY_BODY"

lemma sample_tray_ok:
  "\<exists>t. TxTray_pack sample_codec sample_tray sample_data (Some (BData (VDict sample_dict))) = Inr t"
proof -
  have "case TxTray_pack sample_codec sample_tray sample_data (Some (BData (VDict sample_dict))) of
      Inr _ \<Rightarrow> True | Inl _ \<Rightarrow> False"
    by code_simp
  then show ?thesis by (auto split: sum.splits)
qed

theorem tray_any_order_witness:
  "\<exists>t rs ps st.
     TxTray_pack sample_codec sample_tray sample_data (Some (BData (VDict sample_dict))) = Inr t \<and>
     mapM (\<lambda>q. RxPacket_parseOuter sample_codec (RxPacket_init [] (tp_packed q))) (tt_packets t) = Inr rs \<and>
     set ps = set rs \<and>
     feed (RxTray_parse sample_codec) (RxTray_init []) ps = Inr (st, Some (BData (VDict sample_dict)))"
proof -
  obtain t where t: "TxTray_pack sample_codec sample_tray sample_data (Some (BData (VDict sample_dict))) =
      Inr t" using sample_tray_ok ..
  define d where "d = oupdate (tt_data sample_tray) sample_data"
  have wf: "owf (tt_data sample_tray)"
    by (simp add: sample_tray_def TxTray_init_def PACKET_DEFAULTS_owf)
  have d: "d = sample_data" unfolding d_def by code_simp
  have sc: "oget d ''sc'' = Some (VInt 1)" unfolding d by code_simp
  have ck: "CkNacl = CkNada \<or> CkNacl = CkNacl" by simp
  show ?thesis
    using tray_any_order [OF d_def wf sample_sendable [folded d] sample_fields(1,2) [folded d] sc
        sample_fields(3) [folded d] ck sample_fields(4) [folded d] sample_body sample_bits
        sample_keys [folded d] t, of "[]"] t by blast
qed

end
