(* ===== verification/SegmentSize.thy ===== *)
theory SegmentSize
  imports TrayRound
begin

text \<open>
  Segments fit: \<open>packetize\<close> leaves 27 bytes for the fields \<open>sn\<close>, \<open>sc\<close> and \<open>ml\<close> that a RAET
  head grows by, which is exactly what they can take while there are at most 65535 segments.
\<close>

section \<open>How long a header is\<close>

definition kit_cost :: "hdata \<Rightarrow> nat" where
  "kit_cost kit = sum_list (map (\<lambda>kv. Suc (length (line_of kv))) kit)"

lemma kit_cost_simps [simp]:
  "kit_cost [] = 0" "kit_cost (kv # kit) = Suc (length (line_of kv)) + kit_cost kit"
  "kit_cost (k1 @ k2) = kit_cost k1 + kit_cost k2"
  by (simp_all add: kit_cost_def)

lemma head_text_cost: "kit \<noteq> [] \<Longrightarrow> length (head_text kit) = Suc (kit_cost kit)"
proof -
  have "sum_list (map (length \<circ> line_of) kit) + length kit = kit_cost kit" for kit
    by (induction kit) auto
  then show "kit \<noteq> [] \<Longrightarrow> length (head_text kit) = Suc (kit_cost kit)"
    by (cases kit) (simp_all add: head_text_length flip: add_Suc_right)
qed

text \<open>What one field adds to a kit that starts as \<open>KIT0\<close>.\<close>

definition field_cost :: "hdata \<Rightarrow> string \<times> val \<Rightarrow> nat" where
  "field_cost d kv =
     (if fst kv \<in> set PACKET_HEAD_FIELDS \<and> fst kv \<notin> set PACKET_FLAGS \<and> fst kv \<notin> set (okeys KIT0)
      then (case oget d (fst kv) of
              None \<Rightarrow> 0
            | Some w \<Rightarrow> if py_eq w (snd kv) then 0 else Suc (length (line_of (fst kv, w))))
      else 0)"

lemma kit_cost_replace:
  "oget kit k = Some v \<Longrightarrow> length (line_of (k, w)) = length (line_of (k, v)) \<Longrightarrow>
   kit_cost (oset k w kit) = kit_cost kit"
  by (induction kit) (auto split: if_splits)

lemma head_kit_cost:
  "head_kit d kit defs = Inr kit' \<Longrightarrow> owf defs \<Longrightarrow>
   \<forall>k \<in> set (okeys KIT0). ohas kit k \<Longrightarrow>
   \<forall>k \<in> set (okeys defs). ohas kit k \<longrightarrow> k \<in> set (okeys KIT0) \<Longrightarrow>
   \<forall>k v w. k \<in> set (okeys KIT0) \<longrightarrow> oget kit k = Some v \<longrightarrow> oget d k = Some w \<longrightarrow>
     length (line_of (k, w)) = length (line_of (k, v)) \<Longrightarrow>
   kit_cost kit' = kit_cost kit + sum_list (map (field_cost d) defs)"
proof (induction d kit defs arbitrary: kit' rule: head_kit.induct)
  case (2 d kit k v rest)
  have wf: "owf rest" and new: "k \<notin> set (okeys rest)" using "2.prems"(2) by (auto simp: owf_def)
  show ?case
  proof (cases "k \<in> set PACKET_HEAD_FIELDS \<and> k \<notin> set PACKET_FLAGS")
    case True
    with "2.prems"(1) obtain w where w: "oget d k = Some w"
      and r: "head_kit d (if py_eq w v then kit else oset k w kit) rest = Inr kit'"
      by (auto simp: rbind_eq_Inr)
    let ?kit = "if py_eq w v then kit else oset k w kit"
    have has: "\<forall>k \<in> set (okeys KIT0). ohas ?kit k" using "2.prems"(3) by simp
    have only: "\<forall>k \<in> set (okeys rest). ohas ?kit k \<longrightarrow> k \<in> set (okeys KIT0)"
      using "2.prems"(4) new by auto
    have len: "\<forall>k v w. k \<in> set (okeys KIT0) \<longrightarrow> oget ?kit k = Some v \<longrightarrow> oget d k = Some w \<longrightarrow>
        length (line_of (k, w)) = length (line_of (k, v))"
      using "2.prems"(5) w by auto
    have "kit_cost ?kit = kit_cost kit + field_cost d (k, v)"
    proof (cases "ohas kit k")
      case True
      then have "k \<in> set (okeys KIT0)" using "2.prems"(4) by simp
      moreover obtain u where "oget kit k = Some u" using True by (auto simp: ohas_iff)
      ultimately show ?thesis
        using "2.prems"(5) w kit_cost_replace [of kit k u w] by (auto simp: field_cost_def)
    next
      case False
      then have "k \<notin> set (okeys KIT0)" using "2.prems"(3) by blast
      with False True w show ?thesis
        by (simp add: field_cost_def oset_absent)
    qed
    then show ?thesis using "2.IH"(1) [OF True r wf has only len] by simp
  next
    case False
    then have r: "head_kit d kit rest = Inr kit'" using "2.prems"(1) by (auto split: if_splits)
    have "field_cost d (k, v) = 0" using False by (auto simp: field_cost_def)
    moreover have "\<forall>k \<in> set (okeys rest). ohas kit k \<longrightarrow> k \<in> set (okeys KIT0)"
      using "2.prems"(4) by simp
    ultimately show ?thesis using "2.IH"(2) [OF False r wf "2.prems"(3) _ "2.prems"(5)] by simp
  qed
qed simp

lemma KIT0_keys: "okeys KIT0 = [''ri'', ''pl'', ''hl'', ''fg'']"
  by (simp add: KIT0_def)

lemma headed_kit_cost:
  assumes s: "sendable d" and f: "0 \<le> flags" "flags < 256"
    and kit: "head_kit (headed d fl flags) KIT0 PACKET_DEFAULTS = Inr kit"
  shows "kit_cost kit = kit_cost KIT0 + sum_list (map (field_cost (headed d fl flags)) PACKET_DEFAULTS)"
proof (rule head_kit_cost [OF kit PACKET_DEFAULTS_owf])
  show "\<forall>k \<in> set (okeys KIT0). ohas KIT0 k" by (simp add: KIT0_def)
  show "\<forall>k \<in> set (okeys PACKET_DEFAULTS). ohas KIT0 k \<longrightarrow> k \<in> set (okeys KIT0)"
    by (simp add: ohas_def)
  have ri: "oget d ''ri'' = Some (VStr ''RAET'')" using s by (simp add: sendable_def)
  have "''pl'' \<in> set INT_FIELDS" "''hl'' \<in> set INT_FIELDS" by (simp_all add: INT_FIELDS_def)
  from this [THEN sendable_int [OF s]] obtain i j
    where d: "oget d ''pl'' = Some (VInt i)" "0 \<le> i" "oget d ''hl'' = Some (VInt j)" "0 \<le> j"
    by blast
  with s have b: "i < 65536" "j < 256" by (auto simp: sendable_def)
  have "length (line_of (''fg'', VStr (fmt_hex 2 flags))) = length (line_of (''fg'', VStr ''00''))"
    using f by (simp add: line_of_def fmt_hex_2_length)
  then show "\<forall>k v w. k \<in> set (okeys KIT0) \<longrightarrow> oget KIT0 k = Some v \<longrightarrow>
      oget (headed d fl flags) k = Some w \<longrightarrow> length (line_of (k, w)) = length (line_of (k, v))"
    using d b ri line_lengths [of 0] line_lengths(1) [of i] line_lengths(2) [of j]
    by (auto simp: KIT0_keys KIT0_oget headed_oget split: if_splits)
qed

text \<open>The fields that a segment sets, and what they can add.\<close>

definition segment_bonus :: "string \<Rightarrow> nat" where
  "segment_bonus k = (if k = ''sn'' \<or> k = ''sc'' then 8 else if k = ''ml'' then 11 else 0)"

lemma segment_bonus_sum: "sum_list (map (\<lambda>kv. segment_bonus (fst kv)) PACKET_DEFAULTS) = 27"
  by (simp add: PACKET_DEFAULTS_def segment_bonus_def)

lemma segment_field_cost:
  assumes n: "0 \<le> i" "i < 65536" "0 \<le> n" "n < 65536" "0 \<le> ml" "ml < 268435456"
  shows "field_cost (headed (segment_data d i n ml) fl flags) kv \<le>
     field_cost (headed d fl flags') kv + segment_bonus (fst kv)"
proof -
  have hex: "length (fmt_hex 0 i) \<le> 4" "length (fmt_hex 0 n) \<le> 4" "length (fmt_hex 0 ml) \<le> 7"
    using n fmt_hex_length [of i 4 0] fmt_hex_length [of n 4 0] fmt_hex_length [of ml 7 0] by simp_all
  have sf: "''sf'' \<in> set PACKET_FLAGS" by (simp add: PACKET_FLAGS_def)
  obtain k v where kv: "kv = (k, v)" by fastforce
  consider "k = ''sn''" | "k = ''sc''" | "k = ''ml''" | "k = ''sf'' \<or> k = ''fg''"
    | "k \<notin> {''sn'', ''sc'', ''ml'', ''sf'', ''fg''}" by blast
  then show ?thesis
  proof cases
    case 4
    then show ?thesis using sf by (auto simp: kv field_cost_def KIT0_keys)
  next
    case 5
    then have "oget (headed (segment_data d i n ml) fl flags) k = oget (headed d fl flags') k"
      by (simp add: headed_oget segment_data_def)
    then show ?thesis by (simp add: kv field_cost_def)
  qed (use hex in \<open>simp_all add: kv field_cost_def headed_oget segment_data_def line_of_def
      segment_bonus_def split: option.split\<close>)
qed

lemma segment_head_growth:
  assumes s: "sendable d" and s': "sendable (segment_data d i n ml)"
    and f: "0 \<le> flags" "flags < 256" "0 \<le> flags'" "flags' < 256"
    and n: "0 \<le> i" "i < 65536" "0 \<le> n" "n < 65536" "0 \<le> ml" "ml < 268435456"
    and k: "head_kit (headed (segment_data d i n ml) fl flags) KIT0 PACKET_DEFAULTS = Inr kit"
      "head_kit (headed d fl flags') KIT0 PACKET_DEFAULTS = Inr kit'"
  shows "kit_cost kit \<le> kit_cost kit' + 27"
proof -
  have "sum_list (map (field_cost (headed (segment_data d i n ml) fl flags)) PACKET_DEFAULTS) \<le>
      sum_list (map (\<lambda>kv. field_cost (headed d fl flags') kv + segment_bonus (fst kv)) PACKET_DEFAULTS)"
    by (intro sum_list_mono segment_field_cost n)
  also have "\<dots> = sum_list (map (field_cost (headed d fl flags')) PACKET_DEFAULTS) + 27"
    by (simp add: sum_list_addf segment_bonus_sum)
  finally show ?thesis
    unfolding headed_kit_cost [OF s' f(1,2) k(1)] headed_kit_cost [OF s f(3,4) k(2)] by simp
qed

section \<open>Sizes of packed packets\<close>

text \<open>Signatures have the length of the blank foot, and the flags fit their two digits.\<close>

definition sign_size :: "codec \<Rightarrow> bool" where
  "sign_size c \<longleftrightarrow> (\<forall>m. length (local_signature c m) = 64)"

lemma with_lengths_cost:
  assumes s: "sendable d" and kit: "head_kit (headed d fl flags) KIT0 PACKET_DEFAULTS = Inr kit"
    and new: "0 \<le> hl" "hl < 256" "0 \<le> pl" "pl < 65536"
  shows "kit_cost (with_lengths hl pl kit) = kit_cost kit"
proof -
  obtain i j where i: "oget kit ''pl'' = Some (VInt i)" "0 \<le> i" "i < 65536"
    and j: "oget kit ''hl'' = Some (VInt j)" "0 \<le> j" "j < 256"
    using sendable_prev_lengths [OF s kit] by blast
  have "kit_cost (oset ''pl'' (VInt pl) kit) = kit_cost kit"
    using i new by (intro kit_cost_replace [OF i(1)]) (simp add: line_lengths)
  moreover have "kit_cost (with_lengths hl pl kit) = kit_cost (oset ''pl'' (VInt pl) kit)"
    unfolding with_lengths_def using j new
    by (intro kit_cost_replace [of _ _ "VInt j"]) (simp_all add: line_lengths)
  ultimately show ?thesis by simp
qed

lemma seal_size:
  assumes s: "sendable (tp_data p)" and hk: "oget (tp_data p) ''hk'' = Some (VInt 0)"
    and bits: "bits_law c c'" and sig: "sign_size c"
    and seal: "TxPacket_seal c p = Inr q" and cs: "length (tp_coat p) \<le> 1024"
  obtains k fl flags kit where
    "Option.bind (oget (tp_data p) ''fk'') foot_kind_of_val = Some k" "fl = length (blank_foot k)"
    "0 \<le> flags" "flags < 256"
    "head_kit (headed (tp_data p) fl flags) KIT0 PACKET_DEFAULTS = Inr kit"
    "tp_size q = Suc (kit_cost kit) + length (tp_coat p) + fl"
proof -
  obtain k kit h fl flags where
    fk: "Option.bind (oget (tp_data p) ''fk'') foot_kind_of_val = Some k"
    and fl: "fl = length (blank_foot k)"
    and flags: "flags = packFlags c (oset ''fl'' (VInt (int fl)) (tp_data p))"
    and kit: "head_kit (headed (tp_data p) fl flags) KIT0 PACKET_DEFAULTS = Inr kit"
    and head: "TxHead_pack_raet c kit (length (tp_coat p)) fl (headed (tp_data p) fl flags) =
      Inr (h, tp_data q)"
    and packed: "tp_packed q = h @ tp_coat p @
      (if k = FkNacl then local_signature c (h @ tp_coat p @ BLANK) else [])"
    by (rule TxPacket_seal_parts [OF seal hk])
  have fl64: "fl \<le> 64" by (simp add: fl blank_foot_length)
  have f: "0 \<le> flags" "flags < 256" using flags_range [OF bits] flags by simp_all
  obtain hl xs x where h: "h = head_text (with_lengths (int hl) (int (hl + length (tp_coat p) + fl)) kit)"
    and hl: "length h = hl" "hl \<le> 255"
    and shape: "with_lengths (int hl) (int (hl + length (tp_coat p) + fl)) kit = (''ri'', VStr ''RAET'') # x # xs"
    by (rule TxHead_pack_head [OF s f cs fl64 kit head])
  have "length h = Suc (kit_cost (with_lengths (int hl) (int (hl + length (tp_coat p) + fl)) kit))"
    unfolding h by (rule head_text_cost) (simp only: shape list.distinct not_False_eq_True)
  also have "\<dots> = Suc (kit_cost kit)"
    using hl cs fl64 with_lengths_cost [OF s kit] by simp
  finally have "length h = Suc (kit_cost kit)" .
  then have "tp_size q = Suc (kit_cost kit) + length (tp_coat p) + fl"
    using sig by (simp add: tp_size_def packed fl blank_foot_length sign_size_def)
  with that fk fl f kit show thesis by blast
qed

section \<open>Packets of a tray fit\<close>

lemma same_kit_cost:
  assumes s: "sendable d" and f: "0 \<le> flags" "flags < 256" "0 \<le> flags'" "flags' < 256"
    and k: "head_kit (headed d fl flags) KIT0 PACKET_DEFAULTS = Inr kit"
      "head_kit (headed d fl flags') KIT0 PACKET_DEFAULTS = Inr kit'"
  shows "kit_cost kit = kit_cost kit'"
proof -
  have "field_cost (headed d fl flags) kv = field_cost (headed d fl flags') kv" for kv
    by (auto simp: field_cost_def headed_oget KIT0_keys)
  then have "field_cost (headed d fl flags) = field_cost (headed d fl flags')" by blast
  then show ?thesis
    unfolding headed_kit_cost [OF s f(1,2) k(1)] headed_kit_cost [OF s f(3,4) k(2)] by simp
qed

lemma kit_nonempty: "head_kit d KIT0 defs = Inr kit \<Longrightarrow> kit \<noteq> []"
  using head_kit_okeys [of d KIT0 defs kit] by (auto simp: KIT0_def okeys_def)

text \<open>
  C11: All packets that \<open>TxTray.pack\<close> makes with a RAET head, segments included, keep to the
  largest packet size, as long as the message needs at most \<open>MAX_SEGMENT_COUNT\<close> segments.
\<close>

theorem tray_packets_fit:
  assumes d: "d = oupdate (tt_data t) data" and wf: "owf (tt_data t)" and s: "sendable d"
    and hk: "oget d ''hk'' = Some (VInt 0)" and bits: "bits_law c c'" and sig: "sign_size c"
    and pack: "TxTray_pack c t data (Some body) = Inr t'"
    and count: "length (tt_packets t') \<le> MAX_SEGMENT_COUNT"
  shows "\<forall>q \<in> set (tt_packets t'). tp_size q \<le> UDP_MAX_PACKET_SIZE"
proof -
  let ?D = "oupdate PACKET_DEFAULTS d"
  let ?p = "\<lparr>tp_data = ?D, tp_embody = body, tp_head = [], tp_body = [], tp_coat = [],
     tp_foot = [], tp_packed = []\<rparr>"
  have wfd: "owf d" using wf by (simp add: d)
  note D = over_defaults [OF s wfd]
  have ints: "''hk'' \<in> set INT_FIELDS" "''fk'' \<in> set INT_FIELDS" by (simp_all add: INT_FIELDS_def)
  have hk': "oget ?D ''hk'' = Some (VInt 0)" using hk D(2) ints by simp
  let ?t1 = "t\<lparr>tt_data := d, tt_body := body, tt_current := 0, tt_packets := []\<rparr>"
  have init: "TxPacket_init d (Some 0) body = Inr ?p"
    by (simp add: TxPacket_init_def Packet_init_def)
  from pack obtain p1 where pre: "TxPacket_prepack c ?p = Inr p1"
    and rest: "(if tp_size p1 \<le> UDP_MAX_PACKET_SIZE
         then rbind (TxPacket_sign c p1) (\<lambda>p2. Inr (?t1\<lparr>tt_packets := [p2]\<rparr>))
         else TxTray_packetize c (?t1\<lparr>tt_packed := tp_coat p1\<rparr>)
                (length (tp_head p1)) (length (tp_foot p1))) = Inr t'"
    unfolding TxTray_pack_def by (auto simp: Let_def d [symmetric] init rbind_eq_Inr)
  have pd: "tp_data ?p = ?D" "tp_embody ?p = body" by simp_all
  obtain k co flags kit where parts: "tp_coat p1 = co" "length (tp_head p1) \<le> 255" "length co \<le> 67107840"
      "tp_size p1 = length (tp_head p1) + length co + length (tp_foot p1)"
    and k: "Option.bind (oget ?D ''fk'') foot_kind_of_val = Some k"
    and foot: "length (tp_foot p1) = length (blank_foot k)"
    and f: "0 \<le> flags" "flags < 256"
    and kit: "head_kit (headed ?D (length (blank_foot k)) flags) KIT0 PACKET_DEFAULTS = Inr kit"
    and head: "length (tp_head p1) = length (head_text kit)"
    by (rule prepack_parts [OF pre, unfolded pd, OF D(1) hk' bits])
  have head': "length (tp_head p1) = Suc (kit_cost kit)"
    using head head_text_cost [OF kit_nonempty [OF kit]] by simp
  show ?thesis
  proof (cases "tp_size p1 \<le> UDP_MAX_PACKET_SIZE")
    case True
    then obtain q where q: "TxPacket_sign c p1 = Inr q" and t': "tt_packets t' = [q]"
      using rest by (auto simp: rbind_eq_Inr)
    have "TxPacket_pack c ?p = Inr q" using pre True q by (simp add: TxPacket_pack_def)
    then obtain b' co' where seal: "TxPacket_seal c (?p\<lparr>tp_body := b', tp_coat := co'\<rparr>) = Inr q"
      and coat: "TxBody_pack c ?p = Inr (?p\<lparr>tp_body := b'\<rparr>)"
        "TxCoat_pack c (?p\<lparr>tp_body := b'\<rparr>) = Inr (?p\<lparr>tp_body := b', tp_coat := co'\<rparr>)"
      and len: "length co' \<le> 1024" by (rule TxPacket_pack_seal)
    have same: "co' = co"
    proof -
      obtain b2 co2 p2 p3 where "TxBody_pack c ?p = Inr (?p\<lparr>tp_body := b2\<rparr>)"
        "TxCoat_pack c (?p\<lparr>tp_body := b2\<rparr>) = Inr (?p\<lparr>tp_body := b2, tp_coat := co2\<rparr>)"
        and p2: "TxFoot_pack (?p\<lparr>tp_body := b2, tp_coat := co2\<rparr>) = Inr p2"
        and p3: "TxHead_pack c p2 = Inr p3" and p1: "p1 = join_parts p3"
        by (rule TxPacket_prepack_steps [OF pre])
      with coat have "co2 = co'" by simp
      moreover have "tp_coat p2 = co2" by (rule TxFoot_pack_blank [OF p2]) simp
      moreover have "tp_coat p3 = tp_coat p2"
        using p3 by (auto simp: TxHead_pack_def Let_def rbind_eq_Inr split: if_split_asm)
      ultimately show ?thesis using parts(1) p1 by (simp add: join_parts_def)
    qed
    have pd2: "tp_data (?p\<lparr>tp_body := b', tp_coat := co'\<rparr>) = ?D"
      "tp_coat (?p\<lparr>tp_body := b', tp_coat := co'\<rparr>) = co'" by simp_all
    obtain k2 fl2 flags2 kit2 where k2: "Option.bind (oget ?D ''fk'') foot_kind_of_val = Some k2"
      "fl2 = length (blank_foot k2)" and f2: "0 \<le> flags2" "flags2 < 256"
      and kit2: "head_kit (headed ?D fl2 flags2) KIT0 PACKET_DEFAULTS = Inr kit2"
      and size: "tp_size q = Suc (kit_cost kit2) + length co' + fl2"
      by (rule seal_size [of "?p\<lparr>tp_body := b', tp_coat := co'\<rparr>", unfolded pd2,
            OF D(1) hk' bits sig seal len])
    have "k2 = k" using k k2 by simp
    then have "kit_cost kit2 = kit_cost kit"
      using same_kit_cost [OF D(1) f2 f, of "length (blank_foot k)"] kit kit2 k2 by simp
    then have "tp_size q = tp_size p1"
      using size same parts head' foot \<open>k2 = k\<close> k2 by simp
    then show ?thesis using True by (simp add: t')
  next
    case False
    define segsize where "segsize = 1024 - (length (tp_head p1) + 27 + length (tp_foot p1))"
    have seg: "0 < segsize" using parts foot by (simp add: segsize_def blank_foot_length)
    have seg': "segsize + (length (tp_head p1) + 27 + length (tp_foot p1)) = 1024"
      using parts foot by (simp add: segsize_def blank_foot_length)
    have segi: "int UDP_MAX_PACKET_SIZE - int (length (tp_head p1) + extra_size (VInt 0) +
        length (tp_foot p1)) = int segsize"
      using seg' by (simp add: size_limits extra_size_def)
    have hkd: "oitem d ''hk'' = Inr (VInt 0)" using hk by simp
    let ?ml = "int (length co)"
    from rest False obtain n ps where n: "piece_count ?ml (int segsize) = Inr n"
      and ps: "mapM (\<lambda>i. segment_packet c d (piece co (int segsize) n (int i)) (int i) n ?ml)
          [0..<nat n] = Inr ps" and t': "tt_packets t' = ps"
      by (auto simp: TxTray_packetize_def hkd Let_def segi parts(1) rbind_eq_Inr simp del: of_nat_add)
    have pslen: "length ps = nat n" using mapM_Inr_length [OF ps] by simp
    have nb: "0 \<le> n" "n \<le> 65535"
      using piece_count_bounds(1) [OF n seg] count by (simp_all add: t' pslen size_limits)
    have "tp_size (ps ! i) \<le> 1024" if i: "i < nat n" for i
    proof -
      let ?seg = "piece co (int segsize) n (int i)"
      let ?d = "segment_data ?D (int i) n ?ml"
      let ?q = "\<lparr>tp_data = ?d, tp_embody = EMPTY_BODY, tp_head = [], tp_body = ?seg, tp_coat = ?seg,
         tp_foot = [], tp_packed = []\<rparr>"
      have q: "segment_packet c d ?seg (int i) n ?ml = Inr (ps ! i)"
        using mapM_Inr_nth [OF ps, of i] i by simp
      then have seal: "TxPacket_seal c ?q = Inr (ps ! i)"
        by (simp add: segment_packet_def TxPacket_init_def Packet_init_def segment_data_def)
      have len: "length ?seg \<le> segsize"
        using piece_length [OF n seg i] i by (simp add: pieces_nth)
      have len': "length ?seg \<le> 1024" using len seg' by simp
      have ib: "0 \<le> int i" "int i < 65536" using i nb by simp_all
      have mb: "0 \<le> ?ml" "?ml < 268435456" using parts(3) by simp_all
      have n': "n < 65536" using nb by simp
      have sd: "sendable ?d" by (rule segment_data_sendable [OF D(1) ib(1) nb(1) mb(1)])
      have hkq: "oget ?d ''hk'' = Some (VInt 0)" and fkq: "oget ?d ''fk'' = oget ?D ''fk''"
        using hk' by (simp_all add: segment_data_def)
      have qd: "tp_data ?q = ?d" "tp_coat ?q = ?seg" by simp_all
      obtain k2 fl2 flags2 kit2 where k2: "Option.bind (oget ?d ''fk'') foot_kind_of_val = Some k2"
        "fl2 = length (blank_foot k2)" and f2: "0 \<le> flags2" "flags2 < 256"
        and kit2: "head_kit (headed ?d fl2 flags2) KIT0 PACKET_DEFAULTS = Inr kit2"
        and size: "tp_size (ps ! i) = Suc (kit_cost kit2) + length ?seg + fl2"
        by (rule seal_size [of ?q, unfolded qd, OF sd hkq bits sig seal len'])
      have "k2 = k" using k k2 fkq by simp
      then have "kit_cost kit2 \<le> kit_cost kit + 27"
        using segment_head_growth [OF D(1) sd f2 f ib nb(1) n' mb kit2] kit k2 by simp
      then show ?thesis
        using size len seg' head' foot \<open>k2 = k\<close> k2 by simp
    qed
    then show ?thesis
      unfolding t' size_limits by (metis in_set_conv_nth pslen)
  qed
qed

theorem tray_packets_fit_witness:
  "\<exists>t. TxTray_pack sample_codec sample_tray sample_data (Some (BData (VDict sample_dict))) = Inr t \<and>
     (\<forall>q \<in> set (tt_packets t). tp_size q \<le> UDP_MAX_PACKET_SIZE)"
proof -
  obtain t where t: "TxTray_pack sample_codec sample_tray sample_data (Some (BData (VDict sample_dict))) =
      Inr t" using sample_tray_ok ..
  define d where "d = oupdate (tt_data sample_tray) sample_data"
  have wf: "owf (tt_data sample_tray)"
    by (simp add: sample_tray_def TxTray_init_def PACKET_DEFAULTS_owf)
  have d: "d = sample_data" unfolding d_def by code_simp
  have sig: "sign_size sample_codec"
    using sample_laws(1) by (simp add: sign_size_def sign_law_def sample_codec_def)
  have one: "length (tt_packets t) \<le> MAX_SEGMENT_COUNT"
  proof -
    have "case TxTray_pack sample_codec sample_tray sample_data (Some (BData (VDict sample_dict))) of
        Inr t \<Rightarrow> length (tt_packets t) = 1 | Inl _ \<Rightarrow> False"
      by code_simp
    then show ?thesis by (simp add: t size_limits)
  qed
  show ?thesis
    using tray_packets_fit [OF d_def wf sample_sendable [folded d] sample_fields(1) [folded d]
        sample_bits sig t one] t by blast
qed

end
