(* ===== verification/PacketFacts.thy ===== *)
theory PacketFacts
  imports SegmentSize
begin

text \<open>
  What an accepted packet is known to satisfy, whoever sent it; how the indices of the two ends
  of a transaction match; and which malformed headers are refused with which exception.
\<close>

section \<open>Accepted packets\<close>

lemma check_val_ok: "check_val d k n = Inr u \<longleftrightarrow> (\<exists>v. oget d k = Some v \<and> is_int v n)"
  by (auto simp: check_val_def rbind_eq_Inr)

lemma RxHead_parse_raet_lengths:
  assumes "RxHead_parse_raet c p = Inr q"
  shows "rp_packed q = rp_packed p"
    and "\<exists>v. oget (rp_data q) ''hl'' = Some v \<and> is_int v (int (length (rp_head q)))"
    and "\<exists>v. oget (rp_data q) ''pl'' = Some v \<and> is_int v (int (rp_size q))"
  using assms
  by (auto simp: RxHead_parse_raet_def rbind_eq_Inr check_val_ok rp_size_def split: prod.splits)

lemma RxHead_parse_json_lengths:
  assumes "RxHead_parse_json c p = Inr q"
  shows "rp_packed q = rp_packed p"
    and "\<exists>v. oget (rp_data q) ''hl'' = Some v \<and> is_int v (int (length (rp_head q)))"
    and "\<exists>v. oget (rp_data q) ''pl'' = Some v \<and> is_int v (int (rp_size q))"
proof -
  from assms obtain front sep suffix kit d d1 d2
    where part: "partition_at (rp_packed p) JSON_END = (front, sep, suffix)"
      and d1: "check_length_text d ''hl'' (int (length (front @ sep))) = Inr d1"
      and d2: "check_length_text d1 ''pl'' (int (rp_size p)) = Inr d2"
      and q: "q = p\<lparr>rp_head := front @ sep, rp_data := d2\<rparr>"
    by (auto simp: RxHead_parse_json_def rbind_eq_Inr Let_def split: prod.splits option.splits
        val.splits)
  from d1 have "oget d1 ''hl'' = Some (VInt (int (length (front @ sep))))"
    by (auto simp: check_length_text_def rbind_eq_Inr)
  with d2 have hl: "oget d2 ''hl'' = Some (VInt (int (length (front @ sep))))"
    and pl: "oget d2 ''pl'' = Some (VInt (int (rp_size p)))"
    by (auto simp: check_length_text_def rbind_eq_Inr)
  show "rp_packed q = rp_packed p"
    and "\<exists>v. oget (rp_data q) ''hl'' = Some v \<and> is_int v (int (length (rp_head q)))"
    and "\<exists>v. oget (rp_data q) ''pl'' = Some v \<and> is_int v (int (rp_size q))"
    using hl pl by (simp_all add: q rp_size_def)
qed

lemma RxHead_parse_lengths:
  assumes "RxHead_parse c p = Inr q"
  shows "rp_packed q = rp_packed p"
    and "\<exists>v. oget (rp_data q) ''hl'' = Some v \<and> is_int v (int (length (rp_head q)))"
    and "\<exists>v. oget (rp_data q) ''pl'' = Some v \<and> is_int v (int (rp_size q))"
  using assms RxHead_parse_raet_lengths RxHead_parse_json_lengths
  by (auto simp: RxHead_parse_def split: if_split_asm)

lemma RxFoot_parse_verified:
  assumes q: "RxFoot_parse c p = Inr q"
    and fk: "oget (rp_data p) ''fk'' = Some fk" "is_int fk (foot_value FkNacl)"
  obtains de r where "oget (rp_data p) ''de'' = Some de" "lookup_remote c de = Some r"
    "length (rp_foot q) = 64"
    "\<exists>front. rp_packed p = front @ rp_foot q \<and> rc_verify r (rp_foot q) (front @ BLANK)"
proof -
  have k: "foot_kind_of_val fk = Some FkNacl"
    using fk(2) foot_enum.of_value_value
    by (simp add: is_int_def foot_kind_of_val_def foot_of_def)
  from q obtain flv where flv: "oget (rp_data p) ''fl'' = Some flv"
    by (auto simp: RxFoot_parse_def rbind_eq_Inr)
  with q fk k obtain fl where fl: "as_int flv = Some fl"
    by (auto simp: RxFoot_parse_def oitem_def split: option.split_asm)
  let ?foot = "py_from (rp_packed p) (int (rp_size p) - fl)"
  let ?front = "py_slice (rp_packed p) 0 (int (rp_size p) - fl)"
  have steps: "\<not> int (rp_size p) < fl" "length ?foot = 64"
    "RxPacket_verify c (rp_data p) ?foot (?front @ BLANK) = Inr True" "q = p\<lparr>rp_foot := ?foot\<rparr>"
    using q by (auto simp: RxFoot_parse_def oitem_def fk flv k fl Let_def rbind_eq_Inr
        split: if_split_asm)
  from steps(3) obtain de r where "oget (rp_data p) ''de'' = Some de" "lookup_remote c de = Some r"
    "rc_verify r ?foot (?front @ BLANK)"
    by (auto simp: RxPacket_verify_def rbind_eq_Inr split: option.split_asm)
  moreover have "rp_packed p = ?front @ ?foot"
  proof -
    have "0 \<le> int (rp_size p) - fl" using steps(1) by simp
    then obtain n where n: "int (rp_size p) - fl = int n" by (rule nonneg_int_cases)
    show ?thesis unfolding n using py_slice_nat [of "rp_packed p" 0 n] py_from_nat [of "rp_packed p" n]
      by simp
  qed
  ultimately show thesis using that steps by auto
qed

text \<open>
  C12: A packet that \<open>parseOuter\<close> accepts, from whatever bytes, states its own length and the
  length of its head, has a version that RAET speaks, and if its foot is a signature then the
  signature is the verification key's of the remote that the packet's destination names, over
  the packet with a blank foot.
\<close>

theorem accepted_packet:
  assumes "RxPacket_parseOuter c (RxPacket_init [] packed) = Inr r"
  shows "rp_packed r = packed \<and>
     (\<exists>v. oget (rp_data r) ''hl'' = Some v \<and> is_int v (int (length (rp_head r)))) \<and>
     (\<exists>v. oget (rp_data r) ''pl'' = Some v \<and> is_int v (int (length packed))) \<and>
     (\<exists>v. oget (rp_data r) ''vn'' = Some v \<and> is_int v 0) \<and>
     (\<forall>fk. oget (rp_data r) ''fk'' = Some fk \<and> is_int fk (foot_value FkNacl) \<longrightarrow>
        (\<exists>de s front. oget (rp_data r) ''de'' = Some de \<and> lookup_remote c de = Some s \<and>
           packed = front @ rp_foot r \<and> length (rp_foot r) = foot_size FkNacl \<and>
           rc_verify s (rp_foot r) (front @ BLANK)))"
proof -
  let ?p = "RxPacket_init [] packed"
  from assms obtain p1 vn where h: "RxHead_parse c ?p = Inr p1"
    and vn: "oget (rp_data p1) ''vn'' = Some vn" "\<exists>v \<in> set (ovalues VERSIONS). is_int vn v"
    and foot: "RxFoot_parse c p1 = Inr r"
    by (auto simp: RxPacket_parseOuter_def rbind_eq_Inr split: if_split_asm)
  from RxFoot_parse_data [OF foot] obtain f where r: "r = p1\<lparr>rp_foot := f\<rparr>" ..
  have packed: "rp_packed p1 = packed"
    using RxHead_parse_lengths(1) [OF h] by (simp add: RxPacket_init_def)
  have "is_int vn 0" using vn(2) by (simp add: VERSIONS_def)
  moreover have "\<exists>de s front. oget (rp_data r) ''de'' = Some de \<and> lookup_remote c de = Some s \<and>
      packed = front @ rp_foot r \<and> length (rp_foot r) = foot_size FkNacl \<and>
      rc_verify s (rp_foot r) (front @ BLANK)"
    if fk: "oget (rp_data r) ''fk'' = Some fk \<and> is_int fk (foot_value FkNacl)" for fk
  proof -
    have "oget (rp_data p1) ''fk'' = Some fk" "is_int fk (foot_value FkNacl)" using fk r by simp_all
    from RxFoot_parse_verified [OF foot this] obtain de s
      where "oget (rp_data p1) ''de'' = Some de" "lookup_remote c de = Some s" "length (rp_foot r) = 64"
        "\<exists>front. rp_packed p1 = front @ rp_foot r \<and> rc_verify s (rp_foot r) (front @ BLANK)" .
    then show ?thesis using r packed by auto
  qed
  ultimately show ?thesis
    using RxHead_parse_lengths(2,3) [OF h] vn(1) packed r by (auto simp: rp_size_def)
qed

theorem accepted_packet_witness:
  "\<exists>packed r. RxPacket_parseOuter sample_codec (RxPacket_init [] packed) = Inr r \<and>
     (\<exists>front. packed = front @ rp_foot r \<and> rc_verify sample_crypt (rp_foot r) (front @ BLANK))"
proof -
  have "case TxPacket_pack sample_codec sample_packet of Inl _ \<Rightarrow> False | Inr q \<Rightarrow>
      (case RxPacket_parseOuter sample_codec (RxPacket_init [] (tp_packed q)) of Inl _ \<Rightarrow> False
       | Inr r \<Rightarrow> oget (rp_data r) ''fk'' = Some (VInt 1) \<and> oget (rp_data r) ''de'' = Some (VInt 9))"
    by code_simp
  then obtain packed r where r: "RxPacket_parseOuter sample_codec (RxPacket_init [] packed) = Inr r"
    and fk: "oget (rp_data r) ''fk'' = Some (VInt 1)" and de: "oget (rp_data r) ''de'' = Some (VInt 9)"
    by (auto split: sum.split_asm)
  have "lookup_remote sample_codec (VInt 9) = Some sample_crypt"
    by (simp add: lookup_remote_def sample_codec_def)
  then show ?thesis using accepted_packet [OF r] r fk de by auto
qed

section \<open>Transaction indices\<close>

text \<open>
  C13: A reply finds its transaction. The index that a packet has for its sender is the index
  that the reply has when the sender receives it: ids and addresses of the two ends swapped,
  correspondent flag inverted, same session, transaction and broadcast flag. This holds also in a
  join, where an end without an id is known by its address.
\<close>

theorem reply_index:
  assumes "oget d ''cf'' = Some (VBool cf)" and "oget d' ''cf'' = Some (VBool (\<not> cf))"
    and "oget d' ''de'' = oget d ''se''" and "oget d' ''se'' = oget d ''de''"
    and "oget d' ''sh'' = oget d ''dh''" and "oget d' ''sp'' = oget d ''dp''"
    and "oget d' ''si'' = oget d ''si''" and "oget d' ''ti'' = oget d ''ti''"
    and "oget d' ''bf'' = oget d ''bf''"
  shows "RxPacket_index d' = TxPacket_index d"
proof -
  have same: "oitem d' ''de'' = oitem d ''se''" "oitem d' ''se'' = oitem d ''de''"
    "oitem d' ''sh'' = oitem d ''dh''" "oitem d' ''sp'' = oitem d ''dp''"
    "oitem d' ''si'' = oitem d ''si''" "oitem d' ''ti'' = oitem d ''ti''"
    "oitem d' ''bf'' = oitem d ''bf''"
    using assms(3-) by (simp_all add: oitem_def)
  have "py_not (VBool (\<not> cf)) = VBool cf" by (simp add: py_not_def)
  moreover have cf: "oitem d ''cf'' = Inr (VBool cf)" "oitem d' ''cf'' = Inr (VBool (\<not> cf))"
    using assms(1,2) by simp_all
  ultimately show ?thesis
    unfolding RxPacket_index_def TxPacket_index_def same cf rbind_simps by simp
qed

theorem reply_index_witness:
  "RxPacket_index (oupdate PACKET_DEFAULTS
      [(''cf'', VBool True), (''se'', VInt 9), (''de'', VInt 0), (''sh'', VStr ''127.0.0.1''),
       (''sp'', VInt 7530), (''si'', VInt 4)]) =
   TxPacket_index (oupdate PACKET_DEFAULTS [(''de'', VInt 9), (''si'', VInt 4)])"
  by (rule reply_index [of _ False]) (code_simp, code_simp, code_simp, code_simp, code_simp,
      code_simp, code_simp, code_simp, code_simp)

section \<open>Malformed headers\<close>

lemma mapM_first_error:
  "\<forall>g \<in> set good. \<exists>y. f g = Inr y \<Longrightarrow> f x = Inl e \<Longrightarrow> mapM f (good @ x # rest) = Inl e"
  by (induction good) auto

lemma py_int16_error: "py_int16 t = Inl e \<Longrightarrow> e = ValueError"
  by (auto simp: py_int16_def int16_unsigned_def rbind_def Let_def split: list.splits if_splits option.splits sum.splits)

lemma number_field: "oget PACKET_FIELD_FORMATS k = Some (FmtX w) \<Longrightarrow> k \<in> set PACKET_HEAD_FIELDS"
proof -
  have "\<forall>k \<in> set (okeys PACKET_FIELD_FORMATS). k \<in> set PACKET_HEAD_FIELDS" by code_simp
  moreover assume "oget PACKET_FIELD_FORMATS k = Some (FmtX w)"
  ultimately show ?thesis by (blast dest: oget_in_okeys)
qed

text \<open>What a header line is refused with.\<close>

lemma head_field_errors:
  "length (split_on SP line) \<noteq> 2 \<Longrightarrow> head_field c line = Inl ValueError"
  "split_on SP line = [k, t] \<Longrightarrow> k \<notin> set PACKET_HEAD_FIELDS \<Longrightarrow> head_field c line = Inl PacketError"
  "split_on SP line = [k, t] \<Longrightarrow> k \<in> {''bl'', ''cl''} \<Longrightarrow> head_field c line = Inl KeyError"
  "split_on SP line = [k, t] \<Longrightarrow> oget PACKET_FIELD_FORMATS k = Some (FmtX w) \<Longrightarrow> \<forall>i. py_int16 t \<noteq> Inr i \<Longrightarrow>
   head_field c line = Inl ValueError"
proof -
  show "length (split_on SP line) \<noteq> 2 \<Longrightarrow> head_field c line = Inl ValueError"
    by (auto simp: head_field_def numeral_2_eq_2 split: list.split)
  show "split_on SP line = [k, t] \<Longrightarrow> k \<notin> set PACKET_HEAD_FIELDS \<Longrightarrow> head_field c line = Inl PacketError"
    by (simp add: head_field_def)
  have "''bl'' \<in> set PACKET_HEAD_FIELDS" "''cl'' \<in> set PACKET_HEAD_FIELDS"
    "oget PACKET_FIELD_FORMATS ''bl'' = None" "oget PACKET_FIELD_FORMATS ''cl'' = None"
    by code_simp+
  then show "split_on SP line = [k, t] \<Longrightarrow> k \<in> {''bl'', ''cl''} \<Longrightarrow> head_field c line = Inl KeyError"
    by (auto simp: head_field_def oitem_def)
  assume "split_on SP line = [k, t]" "oget PACKET_FIELD_FORMATS k = Some (FmtX w)" "\<forall>i. py_int16 t \<noteq> Inr i"
  then show "head_field c line = Inl ValueError"
    using number_field [of k w] py_int16_error [of t]
    by (cases "py_int16 t") (auto simp: head_field_def oitem_def)
qed

lemma faulty_line:
  assumes "starts_with (''ri RAET'' @ [NL]) packed" and "partition_at packed HEAD_END = (front, HEAD_END, back)"
    and "split_on NL front = good @ line # rest" and "\<forall>g \<in> set good. \<exists>kv. head_field c g = Inr kv"
    and "head_field c line = Inl e"
  shows "RxPacket_parseOuter c (RxPacket_init data packed) = Inl e"
proof -
  have "packed \<noteq> []" using assms(1) by (auto simp: starts_with_def)
  moreover have "contains packed HEAD_END"
    using assms(2) by (auto simp: contains_def partition_at_def HEAD_END_def split: option.splits)
  ultimately show ?thesis
    using assms(1-3) mapM_first_error [OF assms(4,5)]
    by (simp add: RxPacket_parseOuter_def RxHead_parse_def RxHead_parse_raet_def RxPacket_init_def)
qed

text \<open>
  C14: Which exception refuses a packet. The first faulty line of a RAET head decides: \<open>ValueError\<close> if
  it is not a name and a value with one space between, or if the value of a number is not
  hexadecimal; \<open>KeyError\<close> for the fields \<open>bl\<close> and \<open>cl\<close>, which are listed but have no format; and the
  \<open>PacketError\<close> that the methods document only for a name that is not listed. A head that parses
  but has another version raises \<open>IndexError\<close>. No bytes at all, and bytes that do not start like a
  packet, are refused as documented.
\<close>

theorem malformed_packets:
  assumes "starts_with (''ri RAET'' @ [NL]) packed" and "partition_at packed HEAD_END = (front, HEAD_END, back)"
    and "split_on NL front = good @ line # rest" and "\<forall>g \<in> set good. \<exists>kv. head_field c g = Inr kv"
  shows "(length (split_on SP line) \<noteq> 2 \<longrightarrow> RxPacket_parseOuter c (RxPacket_init data packed) = Inl ValueError) \<and>
    (\<forall>k t. split_on SP line = [k, t] \<longrightarrow>
      (k \<notin> set PACKET_HEAD_FIELDS \<longrightarrow> RxPacket_parseOuter c (RxPacket_init data packed) = Inl PacketError) \<and>
      (k \<in> {''bl'', ''cl''} \<longrightarrow> RxPacket_parseOuter c (RxPacket_init data packed) = Inl KeyError) \<and>
      ((\<exists>w. oget PACKET_FIELD_FORMATS k = Some (FmtX w)) \<and> (\<forall>i. py_int16 t \<noteq> Inr i) \<longrightarrow>
         RxPacket_parseOuter c (RxPacket_init data packed) = Inl ValueError)) \<and>
    (\<forall>q vn. RxHead_parse c (RxPacket_init data packed) = Inr q \<and> oget (rp_data q) ''vn'' = Some vn \<and>
       (\<forall>v \<in> set (ovalues VERSIONS). \<not> is_int vn v) \<longrightarrow>
       RxPacket_parseOuter c (RxPacket_init data packed) = Inl IndexError) \<and>
    (\<forall>other. other = [] \<or> (\<forall>start \<in> {''ri RAET'' @ [NL], ''{\"ri\":\"RAET\",''}. \<not> starts_with start other) \<longrightarrow>
       RxPacket_parseOuter c (RxPacket_init data other) = Inl PacketError)"
proof -
  have version: "RxPacket_parseOuter c (RxPacket_init data packed) = Inl IndexError"
    if "RxHead_parse c (RxPacket_init data packed) = Inr q" "oget (rp_data q) ''vn'' = Some vn"
      "\<forall>v \<in> set (ovalues VERSIONS). \<not> is_int vn v" for q vn
    using that assms(1) by (auto simp: RxPacket_parseOuter_def RxPacket_init_def oitem_def starts_with_def)
  have other: "RxPacket_parseOuter c (RxPacket_init data other) = Inl PacketError"
    if "other = [] \<or> (\<forall>start \<in> {''ri RAET'' @ [NL], ''{\"ri\":\"RAET\",''}. \<not> starts_with start other)" for other
    using that by (auto simp: RxPacket_parseOuter_def RxHead_parse_def RxPacket_init_def)
  note refused = head_field_errors [THEN faulty_line [OF assms]]
  show ?thesis
    by (intro conjI allI impI; (elim conjE exE)?) (erule refused version other; assumption?)+
qed

theorem malformed_packets_witness:
  "RxPacket_parseOuter sample_codec (RxPacket_init [] (''ri RAET'' @ [NL] @ ''pl'' @ HEAD_END)) = Inl ValueError \<and>
   RxPacket_parseOuter sample_codec (RxPacket_init [] (''ri RAET'' @ [NL] @ ''bl 5'' @ HEAD_END)) = Inl KeyError \<and>
   RxPacket_parseOuter sample_codec (RxPacket_init [] (''ri RAET'' @ [NL] @ ''vn 1'' @ [NL] @
     ''pl 1a'' @ [NL] @ ''hl 1a'' @ HEAD_END)) = Inl IndexError"
proof (intro conjI)
  have start: "head_field sample_codec ''ri RAET'' = Inr (''ri'', VStr ''RAET'')" by code_simp
  have a: "starts_with (''ri RAET'' @ [NL]) (''ri RAET'' @ [NL] @ ''pl'' @ HEAD_END)"
    "partition_at (''ri RAET'' @ [NL] @ ''pl'' @ HEAD_END) HEAD_END = (''ri RAET'' @ [NL] @ ''pl'', HEAD_END, [])"
    "split_on NL (''ri RAET'' @ [NL] @ ''pl'') = [''ri RAET''] @ ''pl'' # []" "split_on SP ''pl'' = [''pl'']"
    by code_simp+
  show "RxPacket_parseOuter sample_codec (RxPacket_init [] (''ri RAET'' @ [NL] @ ''pl'' @ HEAD_END)) = Inl ValueError"
    using malformed_packets [OF a(1-3), of sample_codec "[]"] start a(4) by simp
  have b: "starts_with (''ri RAET'' @ [NL]) (''ri RAET'' @ [NL] @ ''bl 5'' @ HEAD_END)"
    "partition_at (''ri RAET'' @ [NL] @ ''bl 5'' @ HEAD_END) HEAD_END = (''ri RAET'' @ [NL] @ ''bl 5'', HEAD_END, [])"
    "split_on NL (''ri RAET'' @ [NL] @ ''bl 5'') = [''ri RAET''] @ ''bl 5'' # []" "split_on SP ''bl 5'' = [''bl'', ''5'']"
    by code_simp+
  show "RxPacket_parseOuter sample_codec (RxPacket_init [] (''ri RAET'' @ [NL] @ ''bl 5'' @ HEAD_END)) = Inl KeyError"
    using malformed_packets [OF b(1-3), of sample_codec "[]"] start b(4) by simp
  show "RxPacket_parseOuter sample_codec (RxPacket_init [] (''ri RAET'' @ [NL] @ ''vn 1'' @ [NL] @
     ''pl 1a'' @ [NL] @ ''hl 1a'' @ HEAD_END)) = Inl IndexError" by code_simp
qed

end
