(* ===== verification/Lotting.thy ===== *)
theory Lotting
  imports Raeting "HOL-Library.Word"
begin

text \<open>
  Session ids, raet/lotting.py: each end of a session numbers its sessions with a 32-bit counter
  that skips zero, and takes a session id for newer by serial-number comparison.
\<close>

section \<open>Operations\<close>

definition nextSid :: "int \<Rightarrow> int" where
  "nextSid sid = (let s = sid + 1 in if s > SID_ROLLOVER then 1 else s)"

definition validateSid :: "int \<Rightarrow> int \<Rightarrow> bool" where
  "validateSid new old \<longleftrightarrow>
     old = 0 \<or> new = 0 \<or> (new - old) mod SID_WRAP_MODULO < SID_WRAP_DELTA"

definition validSid :: "int \<Rightarrow> int \<Rightarrow> bool" where
  "validSid own sid \<longleftrightarrow> validateSid sid own"

lemmas sid_constants = SID_WRAP_MODULO_def SID_WRAP_DELTA_def SID_ROLLOVER_def

text \<open>The ids that \<open>nextSid\<close> gives; zero stands for no session yet.\<close>

definition proper_sid :: "int \<Rightarrow> bool" where
  "proper_sid s \<longleftrightarrow> 0 < s \<and> s < 4294967296"

lemma nextSid_proper: "0 \<le> s \<Longrightarrow> s < 4294967296 \<Longrightarrow> proper_sid (nextSid s)"
  by (simp add: nextSid_def sid_constants proper_sid_def Let_def)

section \<open>Serial numbers\<close>

text \<open>The id after \<open>k\<close> sessions, counted around the cycle of \<open>2^32 - 1\<close> proper ids.\<close>

lemma nextSid_power:
  assumes "proper_sid s"
  shows "(nextSid ^^ k) s = (s - 1 + int k) mod 4294967295 + 1"
proof (induction k)
  case 0
  then show ?case using assms by (simp add: proper_sid_def)
next
  case (Suc k)
  let ?m = "(s - 1 + int k) mod 4294967295"
  have b: "0 \<le> ?m" "?m < 4294967295" by simp_all
  have "(?m + 1) mod 4294967295 = (s - 1 + int k + 1) mod 4294967295" by (rule mod_add_left_eq)
  moreover have "s - 1 + int (Suc k) = s - 1 + int k + 1" by simp
  moreover have "(?m + 1) mod 4294967295 = (if ?m = 4294967294 then 0 else ?m + 1)"
    using b by (auto intro: mod_pos_pos_trivial)
  ultimately have e: "(s - 1 + int (Suc k)) mod 4294967295 = (if ?m = 4294967294 then 0 else ?m + 1)"
    by metis
  have "(s - 1 + int (Suc k)) mod 4294967295 + 1 = (if ?m = 4294967294 then 1 else ?m + 2)"
    unfolding e by simp
  moreover have "nextSid (?m + 1) = (if ?m = 4294967294 then 1 else ?m + 2)"
    using b by (auto simp: nextSid_def sid_constants Let_def)
  ultimately show ?case using Suc by simp
qed

lemma mod_wrap:
  "- 4294967296 \<le> x \<Longrightarrow> x < 4294967296 \<Longrightarrow>
   x mod 4294967296 = (if x < 0 then x + 4294967296 else (x::int))"
proof (cases "x < 0")
  case True
  assume "- 4294967296 \<le> x"
  then have "(x + 4294967296) mod 4294967296 = x + 4294967296"
    using True by (intro mod_pos_pos_trivial) auto
  then show ?thesis using True by simp
qed (auto intro: mod_pos_pos_trivial)

text \<open>
  C15: The ids of the next \<open>2^31 - 2\<close> sessions are all valid after the present one, across the
  rollover that skips zero, and with them the present one is a stale id: it is not valid any more
  once another session has begun.
\<close>

theorem next_sids_valid:
  assumes "proper_sid s" and "0 < k" and "int k \<le> 2147483646"
  shows "proper_sid ((nextSid ^^ k) s) \<and> validSid s ((nextSid ^^ k) s) \<and>
    \<not> validSid ((nextSid ^^ k) s) s"
proof -
  let ?n = "(nextSid ^^ k) s"
  have s: "0 < s" "s < 4294967296" using assms(1) by (simp_all add: proper_sid_def)
  have n: "?n = (s - 1 + int k) mod 4294967295 + 1" by (rule nextSid_power [OF assms(1)])
  have "(s - 1 + int k) mod 4294967295 =
      (if s - 1 + int k < 4294967295 then s - 1 + int k else s - 1 + int k - 4294967295)"
  proof (cases "s - 1 + int k < 4294967295")
    case False
    then have "(s - 1 + int k - 4294967295) mod 4294967295 = s - 1 + int k - 4294967295"
      using s assms(3) by (intro mod_pos_pos_trivial) auto
    moreover have "(s - 1 + int k - 4294967295) mod 4294967295 = (s - 1 + int k) mod 4294967295"
      by (rule minus_mod_self2)
    ultimately show ?thesis using False by simp
  qed (use s in \<open>auto intro: mod_pos_pos_trivial\<close>)
  then have d: "?n = (if s - 1 + int k < 4294967295 then s + int k else s + int k - 4294967295)"
    unfolding n by auto
  have p: "proper_sid ?n" using s d assms(2,3) by (auto simp: proper_sid_def)
  moreover have "(?n - s) mod 4294967296 < 2147483648"
    using s d assms(2,3) mod_wrap [of "?n - s"] by (auto split: if_splits)
  moreover have "\<not> (s - ?n) mod 4294967296 < 2147483648"
    using s d assms(2,3) mod_wrap [of "s - ?n"] by (auto split: if_splits)
  ultimately show ?thesis
    using s by (auto simp: validSid_def validateSid_def sid_constants proper_sid_def)
qed

theorem next_sids_valid_witness:
  "validSid 4294967295 ((nextSid ^^ 1) 4294967295) \<and> \<not> validSid ((nextSid ^^ 1) 4294967295) 4294967295"
  using next_sids_valid [of 4294967295 1] by (simp add: proper_sid_def)

text \<open>
  C16: On proper ids the comparison is that of 32-bit serial numbers: the new id is valid when the
  difference of the two words is not negative as a signed number. Of two different ids at most
  one is valid after the other, and exactly one unless they are half the cycle apart; an id is
  always valid after itself.
\<close>

theorem sid_serial_order:
  assumes a: "proper_sid a" and b: "proper_sid b"
  shows "(validateSid a b \<longleftrightarrow> 0 \<le> sint (word_of_int (a - b) :: 32 word)) \<and>
    validateSid a a \<and> (a \<noteq> b \<longrightarrow> \<not> (validateSid a b \<and> validateSid b a)) \<and>
    (validateSid a b \<or> validateSid b a \<longleftrightarrow> \<bar>a - b\<bar> \<noteq> 2147483648)"
proof -
  have ab: "0 < a" "a < 4294967296" "0 < b" "b < 4294967296" using a b by (simp_all add: proper_sid_def)
  have va: "validateSid a b \<longleftrightarrow> (a - b) mod 4294967296 < 2147483648"
    and vb: "validateSid b a \<longleftrightarrow> (b - a) mod 4294967296 < 2147483648"
    using ab by (simp_all add: validateSid_def sid_constants)
  have "0 \<le> sint (word_of_int (a - b) :: 32 word) \<longleftrightarrow> (a - b) mod 4294967296 < 2147483648"
  proof -
    have "sint (word_of_int x :: 32 word) = signed_take_bit 31 x" for x
      by (simp add: signed_of_int)
    then have "sint (word_of_int (a - b) :: 32 word) = signed_take_bit 31 (a - b)" .
    also have "0 \<le> \<dots> \<longleftrightarrow> \<not> bit (a - b) 31" by simp
    also have "\<dots> \<longleftrightarrow> (a - b) mod 4294967296 < 2147483648"
    proof -
      have "take_bit 32 (a - b) = take_bit 31 (a - b) + of_bool (bit (a - b) 31) * 2 ^ 31"
        using take_bit_Suc_from_most [of 31 "a - b"] by simp
      moreover have "0 \<le> take_bit 31 (a - b)" "take_bit 31 (a - b) < 2 ^ 31"
        by (rule take_bit_nonnegative, rule take_bit_int_less_exp)
      moreover have "take_bit 32 (a - b) = (a - b) mod 4294967296" by (simp add: take_bit_eq_mod)
      ultimately show ?thesis by (cases "bit (a - b) 31") auto
    qed
    finally show ?thesis .
  qed
  moreover have "validateSid a a" by (simp add: validateSid_def sid_constants)
  moreover have "a \<noteq> b \<longrightarrow> \<not> (validateSid a b \<and> validateSid b a)"
    using ab mod_wrap [of "a - b"] mod_wrap [of "b - a"] by (auto simp: va vb split: if_splits)
  moreover have "validateSid a b \<or> validateSid b a \<longleftrightarrow> \<bar>a - b\<bar> \<noteq> 2147483648"
    using ab mod_wrap [of "a - b"] mod_wrap [of "b - a"] by (auto simp: va vb split: if_splits)
  ultimately show ?thesis using va by blast
qed

theorem sid_serial_order_witness:
  "validateSid 1 4294967295 \<and> \<not> validateSid 4294967295 1 \<and>
   0 \<le> sint (word_of_int (1 - 4294967295) :: 32 word)"
proof -
  have "proper_sid 1" "proper_sid 4294967295" by (simp_all add: proper_sid_def)
  from sid_serial_order [OF this] show ?thesis by (simp add: validateSid_def sid_constants)
qed

end
