(* ===== verification/Effects.thy ===== *)
theory Effects
  imports Prelude
begin

text \<open>
  Methods that change objects: a computation takes the state and returns its result or the
  exception it raised, together with the state it leaves, which an exception does not undo.
\<close>

named_theorems keeps_intros
  \<open>rules that an operation preserves an invariant\<close>
named_theorems run_simps
  \<open>equations to run a computation on a state\<close>

type_synonym ('s, 'a) eff = "'s \<Rightarrow> 'a result \<times> 's"

section \<open>Combinators\<close>

definition eret :: "'a \<Rightarrow> ('s, 'a) eff" where
  "eret x s = (Inr x, s)"

definition eraise :: "exn \<Rightarrow> ('s, 'a) eff" where
  "eraise e s = (Inl e, s)"

definition ebind :: "('s, 'a) eff \<Rightarrow> ('a \<Rightarrow> ('s, 'b) eff) \<Rightarrow> ('s, 'b) eff" where
  "ebind m f s = (case m s of (Inl e, s') \<Rightarrow> (Inl e, s') | (Inr x, s') \<Rightarrow> f x s')"

definition ethen :: "('s, 'a) eff \<Rightarrow> ('s, 'b) eff \<Rightarrow> ('s, 'b) eff" where
  "ethen m n = ebind m (\<lambda>_. n)"

definition eget :: "('s \<Rightarrow> 'a) \<Rightarrow> ('s, 'a) eff" where
  "eget f s = (Inr (f s), s)"

definition emod :: "('s \<Rightarrow> 's) \<Rightarrow> ('s, unit) eff" where
  "emod f s = (Inr (), f s)"

definition elift :: "'a result \<Rightarrow> ('s, 'a) eff" where
  "elift r s = (r, s)"

definition ewhen :: "bool \<Rightarrow> ('s, unit) eff \<Rightarrow> ('s, unit) eff" where
  "ewhen b m = (if b then m else eret ())"

text \<open>\<open>try: m except C: h\<close>, for the exceptions that \<open>C\<close> catches.\<close>

definition etry :: "(exn \<Rightarrow> bool) \<Rightarrow> ('s, 'a) eff \<Rightarrow> ('s, 'a) eff \<Rightarrow> ('s, 'a) eff" where
  "etry c m h s = (case m s of
     (Inl e, s') \<Rightarrow> if c e then h s' else (Inl e, s')
   | (Inr x, s') \<Rightarrow> (Inr x, s'))"

fun efor :: "'x list \<Rightarrow> ('x \<Rightarrow> ('s, unit) eff) \<Rightarrow> ('s, unit) eff" where
  "efor [] f = eret ()"
| "efor (x # xs) f = ethen (f x) (efor xs f)"

declare ebind_def [code_unfold] ethen_def [code_unfold]

lemma eff_run [run_simps]:
  "eret x s = (Inr x, s)"
  "eraise e s = (Inl e, s)"
  "eget f s = (Inr (f s), s)"
  "emod g s = (Inr (), g s)"
  "elift r s = (r, s)"
  "ebind m h s = (case m s of (Inl e, s') \<Rightarrow> (Inl e, s') | (Inr x, s') \<Rightarrow> h x s')"
  "ethen m n s = (case m s of (Inl e, s') \<Rightarrow> (Inl e, s') | (Inr x, s') \<Rightarrow> n s')"
  by (simp_all add: eret_def eraise_def eget_def emod_def elift_def ebind_def ethen_def)

lemma ewhen_run [run_simps]: "ewhen b m s = (if b then m s else (Inr (), s))"
  by (simp add: ewhen_def eret_def)

lemma ebind_known: "ebind (elift (Inr x)) f = f x" "ebind (elift (Inl e)) f = eraise e"
  by (rule ext, simp add: run_simps)+

lemma ebind_assoc: "ebind (ebind m f) g = ebind m (\<lambda>x. ebind (f x) g)"
  by (rule ext) (simp add: ebind_def split: prod.split sum.split)

section \<open>Invariants\<close>

text \<open>\<open>m\<close> preserves \<open>P\<close>, whether it returns or raises.\<close>

definition keeps :: "('s \<Rightarrow> bool) \<Rightarrow> ('s, 'a) eff \<Rightarrow> bool" where
  "keeps P m \<longleftrightarrow> (\<forall>s. P s \<longrightarrow> P (snd (m s)))"

lemma keepsI: "(\<And>s. P s \<Longrightarrow> P (snd (m s))) \<Longrightarrow> keeps P m"
  by (simp add: keeps_def)

lemma keepsD: "keeps P m \<Longrightarrow> P s \<Longrightarrow> P (snd (m s))"
  by (simp add: keeps_def)

lemma keeps_pure [keeps_intros, simp]:
  "keeps P (eret x)" "keeps P (eraise e)" "keeps P (eget f)" "keeps P (elift r)"
  by (simp_all add: keeps_def run_simps)

lemma keeps_emod [keeps_intros]: "(\<And>s. P s \<Longrightarrow> P (f s)) \<Longrightarrow> keeps P (emod f)"
  by (simp add: keeps_def run_simps)

lemma keeps_ebind [keeps_intros]: "keeps P m \<Longrightarrow> (\<And>x. keeps P (f x)) \<Longrightarrow> keeps P (ebind m f)"
  by (fastforce simp: keeps_def ebind_def split: prod.splits sum.splits)

lemma keeps_ebind_result:
  "keeps P m \<Longrightarrow> (\<And>s x s'. m s = (Inr x, s') \<Longrightarrow> keeps P (f x)) \<Longrightarrow> keeps P (ebind m f)"
  by (fastforce simp: keeps_def ebind_def split: prod.splits sum.splits)

lemma keeps_ethen [keeps_intros]: "keeps P m \<Longrightarrow> keeps P n \<Longrightarrow> keeps P (ethen m n)"
  unfolding ethen_def by (rule keeps_ebind)

lemma keeps_ewhen [keeps_intros]: "(b \<Longrightarrow> keeps P m) \<Longrightarrow> keeps P (ewhen b m)"
  by (simp add: ewhen_def)

lemma keeps_if [keeps_intros]:
  "(b \<Longrightarrow> keeps P m) \<Longrightarrow> (\<not> b \<Longrightarrow> keeps P n) \<Longrightarrow> keeps P (if b then m else n)"
  by simp

lemma keeps_option [keeps_intros]:
  "(x = None \<Longrightarrow> keeps P m) \<Longrightarrow> (\<And>y. x = Some y \<Longrightarrow> keeps P (f y)) \<Longrightarrow>
   keeps P (case x of None \<Rightarrow> m | Some y \<Rightarrow> f y)"
  by (cases x) auto

lemma keeps_sum [keeps_intros]:
  "(\<And>e. x = Inl e \<Longrightarrow> keeps P (f e)) \<Longrightarrow> (\<And>y. x = Inr y \<Longrightarrow> keeps P (g y)) \<Longrightarrow>
   keeps P (case x of Inl e \<Rightarrow> f e | Inr y \<Rightarrow> g y)"
  by (cases x) auto

lemma keeps_list [keeps_intros]:
  "(x = [] \<Longrightarrow> keeps P m) \<Longrightarrow> (\<And>y ys. x = y # ys \<Longrightarrow> keeps P (f y ys)) \<Longrightarrow>
   keeps P (case x of [] \<Rightarrow> m | y # ys \<Rightarrow> f y ys)"
  by (cases x) auto

lemma keeps_prod [keeps_intros]:
  "(\<And>a b. x = (a, b) \<Longrightarrow> keeps P (f a b)) \<Longrightarrow> keeps P (case x of (a, b) \<Rightarrow> f a b)"
  by (cases x) auto

lemma keeps_etry [keeps_intros]: "keeps P m \<Longrightarrow> keeps P h \<Longrightarrow> keeps P (etry c m h)"
  by (fastforce simp: keeps_def etry_def split: prod.splits sum.splits)

lemma keeps_efor [keeps_intros]: "(\<And>x. x \<in> set xs \<Longrightarrow> keeps P (f x)) \<Longrightarrow> keeps P (efor xs f)"
  by (induction xs) (auto intro: keeps_ethen)

lemma keeps_Let [keeps_intros]: "keeps P (f x) \<Longrightarrow> keeps P (let y = x in f y)"
  by simp

end
