(* ===== verification/Paths.thy ===== *)
theory Paths
  imports Raeting
begin

text \<open>
  Paths of files, as \<open>os.path\<close> of POSIX takes them apart and puts them together, and the
  directories that the keep and the lane choose. The file system's answers are the record
  \<open>dir_env\<close>; \<open>de_abspath\<close> is \<open>os.path.abspath\<close> after \<open>os.path.expanduser\<close>.
\<close>

section \<open>Parts of a path\<close>

text \<open>\<open>s.rpartition(c)\<close>: the parts before and after the last \<open>c\<close>, if there is one.\<close>

definition rsplit :: "char \<Rightarrow> string \<Rightarrow> (string \<times> string) option" where
  "rsplit c s =
     (if c \<in> set s
      then Some (rev (tl (dropWhile (\<lambda>x. x \<noteq> c) (rev s))), rev (takeWhile (\<lambda>x. x \<noteq> c) (rev s)))
      else None)"

text \<open>
  \<open>os.path.splitext\<close>: at the last dot of the last component, unless only dots come before it.
\<close>

definition splitext :: "string \<Rightarrow> string \<times> string" where
  "splitext p =
     (let base = (case rsplit (CHR ''/'') p of None \<Rightarrow> p | Some (_, b) \<Rightarrow> b);
          front = take (length p - length base) p
      in case rsplit (CHR ''.'') base of
           None \<Rightarrow> (p, [])
         | Some (root, ext) \<Rightarrow>
             if list_all (\<lambda>c. c = CHR ''.'') root then (p, [])
             else (front @ root, CHR ''.'' # ext))"

definition SLASH :: char where "SLASH = CHR ''/''"
definition DOT :: char where "DOT = CHR ''.''"

text \<open>\<open>os.path.split(p)[1]\<close> and \<open>os.path.join\<close>.\<close>

definition path_tail :: "string \<Rightarrow> string" where
  "path_tail p = (case rsplit SLASH p of None \<Rightarrow> p | Some (_, tail) \<Rightarrow> tail)"

definition posix_join :: "string \<Rightarrow> string \<Rightarrow> string" where
  "posix_join a b =
     (if b \<noteq> [] \<and> hd b = SLASH then b
      else if a = [] \<or> last a = SLASH then a @ b
      else a @ [SLASH] @ b)"

section \<open>Directories\<close>

datatype errno =
    EAGAIN | EWOULDBLOCK | ENETUNREACH | EHOSTUNREACH | EHOSTDOWN | ECONNRESET | ETIME | ECONNREFUSED
  | ENOENT | ENOBUFS | EEXIST | EOther int

record dir_env =
  de_abspath :: "string \<Rightarrow> string"
  de_exists :: "string \<Rightarrow> bool"
  de_access :: "string \<Rightarrow> bool"
  de_makedirs :: "string \<Rightarrow> errno option"

text \<open>A directory that is made if it is not there, unless that fails with an error not in \<open>ok\<close>.\<close>

definition existing_dir :: "dir_env \<Rightarrow> errno list \<Rightarrow> string \<Rightarrow> string result" where
  "existing_dir D ok d =
     (if de_exists D d then Inr d
      else case de_makedirs D d of
             None \<Rightarrow> Inr d
           | Some e \<Rightarrow> if e \<in> set ok then Inr d else Inl OSError)"

text \<open>If a directory cannot be made, or is there and may not be used, another one takes its place.\<close>

definition chosen_dir :: "dir_env \<Rightarrow> errno list \<Rightarrow> string \<Rightarrow> string \<Rightarrow> string result" where
  "chosen_dir D ok dirpath alternative =
     (let d = de_abspath D dirpath; a = existing_dir D ok (de_abspath D alternative) in
      if \<not> de_exists D d then (case de_makedirs D d of None \<Rightarrow> Inr d | Some _ \<Rightarrow> a)
      else if \<not> de_access D d then a
      else Inr d)"

text \<open>What is below a directory, at any depth.\<close>

definition in_tree :: "string \<Rightarrow> string \<Rightarrow> bool" where
  "in_tree d p \<longleftrightarrow> starts_with (d @ ''/'') p"

section \<open>Facts\<close>

lemma rsplit_last: "c \<notin> set t \<Longrightarrow> rsplit c (s @ c # t) = Some (s, t)"
proof -
  assume "c \<notin> set t"
  then have "\<forall>x \<in> set (rev t). x \<noteq> c" by auto
  then have "takeWhile (\<lambda>x. x \<noteq> c) (rev t @ c # rev s) = rev t"
    "dropWhile (\<lambda>x. x \<noteq> c) (rev t @ c # rev s) = c # rev s"
    by (simp_all add: takeWhile_append dropWhile_append)
  then show ?thesis by (simp add: rsplit_def)
qed

lemma rsplit_none: "c \<notin> set t \<Longrightarrow> rsplit c t = None"
  by (simp add: rsplit_def)

lemma splitext_file:
  assumes "CHR ''/'' \<notin> set (root @ ext)" and "CHR ''.'' \<notin> set ext" and "\<exists>c \<in> set root. c \<noteq> CHR ''.''"
  shows "splitext (d @ ''/'' @ root @ ''.'' @ ext) = (d @ ''/'' @ root, ''.'' @ ext)"
    and "splitext (root @ ''.'' @ ext) = (root, ''.'' @ ext)"
proof -
  have base: "rsplit (CHR ''.'') (root @ ''.'' @ ext) = Some (root, ext)"
    using rsplit_last [of "CHR ''.''" ext root] assms(2) by simp
  have dots: "\<not> list_all (\<lambda>c. c = CHR ''.'') root"
    using assms(3) by (auto simp: list_all_iff)
  have "rsplit (CHR ''/'') (d @ ''/'' @ root @ ''.'' @ ext) = Some (d, root @ ''.'' @ ext)"
    using rsplit_last [of "CHR ''/''" "root @ ''.'' @ ext" d] assms(1) by simp
  then show "splitext (d @ ''/'' @ root @ ''.'' @ ext) = (d @ ''/'' @ root, ''.'' @ ext)"
    using base dots by (simp add: splitext_def Let_def)
  have "rsplit (CHR ''/'') (root @ ''.'' @ ext) = None"
    using assms(1) by (simp add: rsplit_def)
  then show "splitext (root @ ''.'' @ ext) = (root, ''.'' @ ext)"
    using base dots by (simp add: splitext_def Let_def)
qed

lemma rsplit_Some: "rsplit c s = Some (a, b) \<Longrightarrow> s = a @ c # b"
proof -
  assume "rsplit c s = Some (a, b)"
  then have c: "c \<in> set (rev s)" and ab: "a = rev (tl (dropWhile (\<lambda>x. x \<noteq> c) (rev s)))" "b = rev (takeWhile (\<lambda>x. x \<noteq> c) (rev s))"
    by (auto simp: rsplit_def split: if_splits)
  from c have "dropWhile (\<lambda>x. x \<noteq> c) (rev s) = c # rev a"
    using hd_dropWhile [of "\<lambda>x. x \<noteq> c" "rev s"] by (cases "dropWhile (\<lambda>x. x \<noteq> c) (rev s)") (auto simp: ab(1))
  then have "rev s = rev b @ c # rev a"
    using takeWhile_dropWhile_id [of "\<lambda>x. x \<noteq> c" "rev s"] by (simp add: ab(2))
  then show "s = a @ c # b" by (simp add: rev_eq_append_conv)
qed

lemma splitext_parts: "SLASH \<notin> set n \<Longrightarrow> fst (splitext n) @ snd (splitext n) = n"
proof -
  have parts: "r @ CHR ''.'' # e = n" if "rsplit (CHR ''.'') n = Some (r, e)" for r e
    using rsplit_Some [OF that] by simp
  assume "SLASH \<notin> set n"
  then show ?thesis by (auto simp: splitext_def SLASH_def rsplit_none Let_def parts split: option.split)
qed

lemma in_tree_iff: "in_tree d p \<longleftrightarrow> (\<exists>t. p = d @ ''/'' @ t)"
  by (auto simp: in_tree_def dest: starts_withE) (metis append.assoc append_Cons append_Nil starts_with_append)

end
