(* ===== verification/Stacking.thy ===== *)
theory Stacking
  imports Complex_Main Effects Raeting Paths
begin

text \<open>
  The base stack, raet/stacking.py: the tables of remotes by uid and by name, the queues of
  packets and messages and their service loops, and the statistics.

  A remote is an object: the tables hold references (numbers), and \<open>st_lots\<close> gives the object's
  attributes. The socket is an argument: \<open>net\<close> tells what a send does, from the sends attempted
  before, and \<open>st_inbox\<close> is what the receives will return. ioflo's \<open>odict.insert\<close> is the argument
  \<open>ins\<close>.
\<close>

section \<open>State\<close>

record 'ha lot =
  lot_name :: string
  lot_uid :: int
  lot_ha :: 'ha
  lot_sid :: int

datatype 'ha received = RxData bytes 'ha | RxEmpty | RxError errno

text \<open>
  A timer of ioflo, as its last restart left it: when that was, on the clock of the store, and for
  how long it runs.
\<close>

record timer =
  tm_start :: rat
  tm_duration :: rat

record ('ha, 'm) stack =
  st_stamp :: rat
  st_puid :: int
  st_local :: "'ha lot"
  st_lots :: "nat \<Rightarrow> 'ha lot"
  st_uidRemotes :: "(int, nat) odict"
  st_nameRemotes :: "(string, nat) odict"
  st_server :: bool
  st_inbox :: "'ha received list"
  st_rxes :: "(bytes \<times> 'ha) list"
  st_txes :: "(bytes \<times> 'ha) list"
  st_rxMsgs :: "(body \<times> string) list"
  st_txMsgs :: "'m list"
  st_stats :: "(string, int) odict"
  st_statTimer :: timer
  st_attempts :: "(bytes \<times> 'ha) list"
  st_sent :: "(bytes \<times> 'ha) list"

type_synonym ('ha, 'm, 'z, 'a) stack_eff = "(('ha, 'm, 'z) stack_scheme, 'a) eff"

section \<open>Tables of remotes\<close>

definition nextUid :: "('ha, 'm, 'z, int) stack_eff" where
  "nextUid =
     ethen (emod (\<lambda>s. s\<lparr>st_puid := (if st_puid s + 1 > 0xffffffff then 1 else st_puid s + 1)\<rparr>))
       (eget st_puid)"

definition remote_uid :: "('ha, 'm, 'z) stack_scheme \<Rightarrow> nat \<Rightarrow> int" where
  "remote_uid s r = lot_uid (st_lots s r)"

definition remote_name :: "('ha, 'm, 'z) stack_scheme \<Rightarrow> nat \<Rightarrow> string" where
  "remote_name s r = lot_name (st_lots s r)"

definition set_lot :: "nat \<Rightarrow> ('ha lot \<Rightarrow> 'ha lot) \<Rightarrow> ('ha, 'm, 'z) stack_scheme \<Rightarrow> ('ha, 'm, 'z) stack_scheme"
where
  "set_lot r f s = s\<lparr>st_lots := (st_lots s)(r := f (st_lots s r))\<rparr>"

definition addRemote :: "nat \<Rightarrow> ('ha, 'm, 'z, nat) stack_eff" where
  "addRemote r =
     ebind (eget id) (\<lambda>s.
     let uid = remote_uid s r; name = remote_name s r in
     if ohas (st_uidRemotes s) uid \<or> (uid \<noteq> 0 \<and> uid = lot_uid (st_local s)) then eraise StackError
     else if ohas (st_nameRemotes s) name \<or> name = lot_name (st_local s) then eraise StackError
     else ethen (emod (\<lambda>s. s\<lparr>st_uidRemotes := oset uid r (st_uidRemotes s),
                            st_nameRemotes := oset name r (st_nameRemotes s)\<rparr>))
            (eret r))"

text \<open>\<open>keys().index(old)\<close>, \<open>del\<close> and \<open>insert\<close>: the value stays where it is.\<close>

fun index_of :: "'k \<Rightarrow> 'k list \<Rightarrow> nat" where
  "index_of k [] = 0"
| "index_of k (x # xs) = (if x = k then 0 else Suc (index_of k xs))"

type_synonym ('k, 'v) inserter = "('k, 'v) odict \<Rightarrow> nat \<Rightarrow> 'k \<Rightarrow> 'v \<Rightarrow> ('k, 'v) odict"

definition rekey :: "('k, 'v) inserter \<Rightarrow> 'k \<Rightarrow> 'k \<Rightarrow> 'v \<Rightarrow> ('k, 'v) odict \<Rightarrow> ('k, 'v) odict" where
  "rekey ins old new v d = ins (odel old d) (index_of old (okeys d)) new v"

definition moveRemote :: "(int, nat) inserter \<Rightarrow> nat \<Rightarrow> int \<Rightarrow> ('ha, 'm, 'z, unit) stack_eff" where
  "moveRemote ins r new =
     ebind (eget id) (\<lambda>s.
     let old = remote_uid s r in
     if ohas (st_uidRemotes s) new \<or> new = lot_uid (st_local s) then eraise StackError
     else if \<not> ohas (st_uidRemotes s) old then eraise StackError
     else if oget (st_uidRemotes s) old \<noteq> Some r then eraise StackError
     else emod (\<lambda>s. (set_lot r (lot_uid_update (\<lambda>_. new)) s)
            \<lparr>st_uidRemotes := rekey ins old new r (st_uidRemotes s)\<rparr>))"

definition renameRemote :: "(string, nat) inserter \<Rightarrow> nat \<Rightarrow> string \<Rightarrow> ('ha, 'm, 'z, unit) stack_eff" where
  "renameRemote ins r new =
     ebind (eget id) (\<lambda>s.
     let old = remote_name s r in
     if new = old then eret ()
     else if ohas (st_nameRemotes s) new \<or> new = lot_name (st_local s) then eraise StackError
     else if \<not> ohas (st_nameRemotes s) old then eraise StackError
     else if oget (st_nameRemotes s) old \<noteq> Some r then eraise StackError
     else emod (\<lambda>s. (set_lot r (lot_name_update (\<lambda>_. new)) s)
            \<lparr>st_nameRemotes := rekey ins old new r (st_nameRemotes s)\<rparr>))"

text \<open>The second \<open>del\<close> may raise after the first was done.\<close>

definition removeRemote :: "nat \<Rightarrow> ('ha, 'm, 'z, unit) stack_eff" where
  "removeRemote r =
     ebind (eget id) (\<lambda>s.
     let uid = remote_uid s r; name = remote_name s r in
     if \<not> ohas (st_uidRemotes s) uid then eraise StackError
     else if oget (st_uidRemotes s) uid \<noteq> Some r then eraise StackError
     else ethen (emod (\<lambda>s. s\<lparr>st_uidRemotes := odel uid (st_uidRemotes s)\<rparr>))
            (if ohas (st_nameRemotes s) name
             then emod (\<lambda>s. s\<lparr>st_nameRemotes := odel name (st_nameRemotes s)\<rparr>)
             else eraise KeyError))"

definition removeAllRemotes :: "('ha, 'm, 'z, unit) stack_eff" where
  "removeAllRemotes = ebind (eget (ovalues \<circ> st_uidRemotes)) (\<lambda>rs. efor rs removeRemote)"

definition fetchUidByName :: "('ha, 'm, 'z) stack_scheme \<Rightarrow> string \<Rightarrow> int option" where
  "fetchUidByName s name = map_option (remote_uid s) (oget (st_nameRemotes s) name)"

text \<open>
  A remote's uid, if none is given, is the next one that is free. \<open>free_uid n\<close> tries \<open>n\<close> times and
  gives \<open>None\<close> if all were taken.
\<close>

fun free_uid :: "nat \<Rightarrow> ('ha, 'm, 'z, int option) stack_eff" where
  "free_uid 0 = eret None"
| "free_uid (Suc n) =
     ebind nextUid (\<lambda>u.
     ebind (eget (\<lambda>s. ohas (st_uidRemotes s) u \<or> u = lot_uid (st_local s))) (\<lambda>taken.
     if taken then free_uid n else eret (Some u)))"

text \<open>
  The loop in the code has no bound. With fewer remotes than ids it has found one after as many
  tries as there are remotes, and two; otherwise no id is free and it does not return, which the
  model shows as a \<open>RaetError\<close>.
\<close>

definition new_uid :: "('ha, 'm, 'z, int) stack_eff" where
  "new_uid =
     ebind (eget (\<lambda>s. length (st_uidRemotes s) + 2)) (\<lambda>n.
     ebind (free_uid n) (\<lambda>u. case u of None \<Rightarrow> eraise RaetError | Some u \<Rightarrow> eret u))"

section \<open>Statistics\<close>

definition incStat :: "string \<Rightarrow> int \<Rightarrow> ('ha, 'm, 'z, unit) stack_eff" where
  "incStat key delta =
     emod (\<lambda>s. s\<lparr>st_stats :=
       oset key (case oget (st_stats s) key of Some n \<Rightarrow> n + delta | None \<Rightarrow> delta) (st_stats s)\<rparr>)"

definition updateStat :: "string \<Rightarrow> int \<Rightarrow> ('ha, 'm, 'z, unit) stack_eff" where
  "updateStat key v = emod (\<lambda>s. s\<lparr>st_stats := oset key v (st_stats s)\<rparr>)"

definition clearStat :: "string \<Rightarrow> ('ha, 'm, 'z, unit) stack_eff" where
  "clearStat key =
     emod (\<lambda>s. if ohas (st_stats s) key then s\<lparr>st_stats := oset key 0 (st_stats s)\<rparr> else s)"

definition clearStats :: "('ha, 'm, 'z, unit) stack_eff" where
  "clearStats =
     emod (\<lambda>s. s\<lparr>st_stats := map (\<lambda>(k, v). (k, 0)) (st_stats s),
                  st_statTimer := (st_statTimer s)\<lparr>tm_start := st_stamp s\<rparr>\<rparr>)"

section \<open>Receiving\<close>

text \<open>
  One \<open>receive\<close> takes what the socket has. After an error that is not a connection reset the
  code goes on to test \<open>rx\<close>, which was not assigned: \<open>UnboundLocalError\<close>, a \<open>NameError\<close>.
\<close>

definition sock_receive :: "('ha, 'm, 'z, 'ha received) stack_eff" where
  "sock_receive s =
     (case st_inbox s of [] \<Rightarrow> (Inr RxEmpty, s) | r # rs \<Rightarrow> (Inr r, s\<lparr>st_inbox := rs\<rparr>))"

definition handleOneReceived :: "('ha, 'm, 'z, bool) stack_eff" where
  "handleOneReceived =
     ebind sock_receive (\<lambda>r. case r of
       RxError e \<Rightarrow> if e = ECONNRESET then eret False else eraise NameError
     | RxEmpty \<Rightarrow> eret False
     | RxData rx ra \<Rightarrow>
         if rx = [] then eret False
         else ethen (emod (\<lambda>s. s\<lparr>st_rxes := st_rxes s @ [(rx, ra)]\<rparr>)) (eret True))"

text \<open>\<open>while self._handleOneReceived(): pass\<close>; each turn that goes on uses up one item of the inbox.\<close>

fun receive_loop :: "nat \<Rightarrow> ('ha, 'm, 'z, unit) stack_eff" where
  "receive_loop 0 = eret ()"
| "receive_loop (Suc n) = ebind handleOneReceived (\<lambda>go. if go then receive_loop n else eret ())"

definition serviceReceives :: "('ha, 'm, 'z, unit) stack_eff" where
  "serviceReceives =
     ebind (eget id) (\<lambda>s. ewhen (st_server s) (receive_loop (Suc (length (st_inbox s)))))"

definition serviceReceiveOnce :: "('ha, 'm, 'z, unit) stack_eff" where
  "serviceReceiveOnce =
     ebind (eget st_server) (\<lambda>server. ewhen server (ebind handleOneReceived (\<lambda>_. eret ())))"

text \<open>
  \<open>while queue: handle()\<close> for a handler that takes one item and adds none: as many turns as the
  queue is long. The base class's handler of a received packet calls an undefined name.
\<close>

fun drain :: "nat \<Rightarrow> ('s \<Rightarrow> bool) \<Rightarrow> ('s, unit) eff \<Rightarrow> ('s, unit) eff" where
  "drain 0 busy m = eret ()"
| "drain (Suc n) busy m = ebind (eget busy) (\<lambda>b. if b then ethen m (drain n busy m) else eret ())"

definition handleOneRx :: "('ha, 'm, 'z, unit) stack_eff" where
  "handleOneRx s =
     (case st_rxes s of
        [] \<Rightarrow> (Inl IndexError, s)
      | _ # rest \<Rightarrow> (Inl NameError, s\<lparr>st_rxes := rest\<rparr>))"

definition serviceRxes :: "('ha, 'm, 'z, unit) stack_eff \<Rightarrow> ('ha, 'm, 'z, unit) stack_eff" where
  "serviceRxes handle =
     ebind (eget (length \<circ> st_rxes)) (\<lambda>n. drain n (\<lambda>s. st_rxes s \<noteq> []) handle)"

definition serviceRxOnce :: "('ha, 'm, 'z, unit) stack_eff \<Rightarrow> ('ha, 'm, 'z, unit) stack_eff" where
  "serviceRxOnce handle = ebind (eget st_rxes) (\<lambda>q. ewhen (q \<noteq> []) handle)"

section \<open>Transmitting\<close>

definition transmit ::
    "(body \<Rightarrow> int \<Rightarrow> 'm) \<Rightarrow> body \<Rightarrow> int option \<Rightarrow> ('ha, 'm, 'z, unit) stack_eff" where
  "transmit entry msg uid =
     (if \<not> is_mapping msg then incStat ''invalid_transmit_body'' 1
      else ebind (eget id) (\<lambda>s.
        case uid of
          Some u \<Rightarrow> emod (\<lambda>s. s\<lparr>st_txMsgs := st_txMsgs s @ [entry msg u]\<rparr>)
        | None \<Rightarrow>
            (case ovalues (st_uidRemotes s) of
               [] \<Rightarrow> incStat ''invalid_destination'' 1
             | r # _ \<Rightarrow> emod (\<lambda>s. s\<lparr>st_txMsgs := st_txMsgs s @ [entry msg (remote_uid s r)]\<rparr>))))"

definition handleOneTxMsg ::
    "('m \<Rightarrow> ('ha, 'm, 'z, unit) stack_eff) \<Rightarrow> ('ha, 'm, 'z, unit) stack_eff" where
  "handleOneTxMsg message =
     ebind (eget st_txMsgs) (\<lambda>q. case q of
       [] \<Rightarrow> eraise IndexError
     | m # ms \<Rightarrow> ethen (emod (\<lambda>s. s\<lparr>st_txMsgs := ms\<rparr>)) (message m))"

definition serviceTxMsgs ::
    "('m \<Rightarrow> ('ha, 'm, 'z, unit) stack_eff) \<Rightarrow> ('ha, 'm, 'z, unit) stack_eff" where
  "serviceTxMsgs message =
     ebind (eget (length \<circ> st_txMsgs)) (\<lambda>n.
       drain n (\<lambda>s. st_txMsgs s \<noteq> []) (handleOneTxMsg message))"

definition serviceTxMsgOnce ::
    "('m \<Rightarrow> ('ha, 'm, 'z, unit) stack_eff) \<Rightarrow> ('ha, 'm, 'z, unit) stack_eff" where
  "serviceTxMsgOnce message = ebind (eget st_txMsgs) (\<lambda>q. ewhen (q \<noteq> []) (handleOneTxMsg message))"

definition tx :: "bytes \<Rightarrow> int \<Rightarrow> ('ha, 'm, 'z, unit) stack_eff" where
  "tx packed duid =
     ebind (eget id) (\<lambda>s. case oget (st_uidRemotes s) duid of
       None \<Rightarrow> eraise StackError
     | Some r \<Rightarrow> emod (\<lambda>s. s\<lparr>st_txes := st_txes s @ [(packed, lot_ha (st_lots s r))]\<rparr>))"

text \<open>A send either goes out or fails with an error number.\<close>

type_synonym 'ha network = "(bytes \<times> 'ha) list \<Rightarrow> bytes \<Rightarrow> 'ha \<Rightarrow> errno option"

definition retry_errors :: "errno list" where
  "retry_errors =
     [EAGAIN, EWOULDBLOCK, ENETUNREACH, EHOSTUNREACH, EHOSTDOWN, ECONNRESET, ETIME]"

definition sock_send :: "'ha network \<Rightarrow> bytes \<Rightarrow> 'ha \<Rightarrow> ('ha, 'm, 'z, errno option) stack_eff" where
  "sock_send net packed ha s =
     (let r = net (st_attempts s) packed ha;
          s1 = s\<lparr>st_attempts := st_attempts s @ [(packed, ha)]\<rparr>
      in (Inr r, if r = None then s1\<lparr>st_sent := st_sent s1 @ [(packed, ha)]\<rparr> else s1))"

type_synonym 'ha blocked = "(bytes \<times> 'ha) list \<times> 'ha list"

definition handleOneTx :: "'ha network \<Rightarrow> 'ha blocked \<Rightarrow> ('ha, 'm, 'z, 'ha blocked) stack_eff" where
  "handleOneTx net lb =
     (case lb of (laters, blocks) \<Rightarrow>
      ebind (eget st_txes) (\<lambda>q. case q of
        [] \<Rightarrow> eraise IndexError
      | (packed, ta) # rest \<Rightarrow>
          ethen (emod (\<lambda>s. s\<lparr>st_txes := rest\<rparr>))
           (if ta \<in> set blocks then eret (laters @ [(packed, ta)], blocks)
            else ebind (sock_send net packed ta) (\<lambda>r. case r of
              None \<Rightarrow> eret (laters, blocks)
            | Some e \<Rightarrow>
                if e \<in> set retry_errors then eret (laters @ [(packed, ta)], blocks @ [ta])
                else eraise OSError))))"

fun tx_loop :: "'ha network \<Rightarrow> nat \<Rightarrow> 'ha blocked \<Rightarrow> ('ha, 'm, 'z, 'ha blocked) stack_eff" where
  "tx_loop net 0 lb = eret lb"
| "tx_loop net (Suc n) lb =
     ebind (eget st_txes) (\<lambda>q. if q = [] then eret lb else ebind (handleOneTx net lb) (tx_loop net n))"

definition put_back :: "'ha blocked \<Rightarrow> ('ha, 'm, 'z, unit) stack_eff" where
  "put_back lb = emod (\<lambda>s. s\<lparr>st_txes := st_txes s @ fst lb\<rparr>)"

definition serviceTxes :: "'ha network \<Rightarrow> ('ha, 'm, 'z, unit) stack_eff" where
  "serviceTxes net =
     ebind (eget id) (\<lambda>s. ewhen (st_server s)
       (ebind (tx_loop net (length (st_txes s)) ([], [])) put_back))"

definition serviceTxOnce :: "'ha network \<Rightarrow> ('ha, 'm, 'z, unit) stack_eff" where
  "serviceTxOnce net =
     ebind (eget id) (\<lambda>s. ewhen (st_server s)
       (ebind (if st_txes s = [] then eret ([], []) else handleOneTx net ([], [])) put_back))"

section \<open>Service\<close>

text \<open>The whole service: the subclass's handlers and timers are arguments.\<close>

definition serviceAllRx ::
    "('ha, 'm, 'z, unit) stack_eff \<Rightarrow> ('ha, 'm, 'z, unit) stack_eff \<Rightarrow> ('ha, 'm, 'z, unit) stack_eff"
where
  "serviceAllRx handle process = ethen serviceReceives (ethen (serviceRxes handle) process)"

definition serviceAllTx ::
    "'ha network \<Rightarrow> ('m \<Rightarrow> ('ha, 'm, 'z, unit) stack_eff) \<Rightarrow> ('ha, 'm, 'z, unit) stack_eff" where
  "serviceAllTx net message = ethen (serviceTxMsgs message) (serviceTxes net)"

definition serviceAll ::
    "'ha network \<Rightarrow> ('ha, 'm, 'z, unit) stack_eff \<Rightarrow> ('ha, 'm, 'z, unit) stack_eff \<Rightarrow>
     ('m \<Rightarrow> ('ha, 'm, 'z, unit) stack_eff) \<Rightarrow> ('ha, 'm, 'z, unit) stack_eff" where
  "serviceAll net handle process message =
     ethen (serviceAllRx handle process) (serviceAllTx net message)"

definition serviceServer :: "'ha network \<Rightarrow> ('ha, 'm, 'z, unit) stack_eff" where
  "serviceServer net = ethen serviceReceives (serviceTxes net)"

definition serviceOneAllRx ::
    "('ha, 'm, 'z, unit) stack_eff \<Rightarrow> ('ha, 'm, 'z, unit) stack_eff \<Rightarrow> ('ha, 'm, 'z, unit) stack_eff"
where
  "serviceOneAllRx handle process = ethen serviceReceiveOnce (ethen (serviceRxOnce handle) process)"

definition serviceOneAllTx ::
    "'ha network \<Rightarrow> ('m \<Rightarrow> ('ha, 'm, 'z, unit) stack_eff) \<Rightarrow> ('ha, 'm, 'z, unit) stack_eff" where
  "serviceOneAllTx net message = ethen (serviceTxMsgOnce message) (serviceTxOnce net)"

section \<open>Rules for computations\<close>

lemma keeps_received [keeps_intros]:
  "(\<And>b ra. x = RxData b ra \<Longrightarrow> keeps P (f b ra)) \<Longrightarrow> (x = RxEmpty \<Longrightarrow> keeps P m) \<Longrightarrow>
   (\<And>e. x = RxError e \<Longrightarrow> keeps P (g e)) \<Longrightarrow>
   keeps P (case x of RxData b ra \<Rightarrow> f b ra | RxEmpty \<Rightarrow> m | RxError e \<Rightarrow> g e)"
  by (cases x) auto

lemma keeps_drain [keeps_intros]: "keeps P m \<Longrightarrow> keeps P (drain n busy m)"
  by (induction n) (auto intro!: keeps_intros)

end
