(* ===== verification/Keeping.thy ===== *)
theory Keeping
  imports Effects Paths
begin

text \<open>
  Persistence, raet/keeping.py: a \<open>Keep\<close> stores the data of the local endpoint and of each remote
  in a file of its own. The file system is a dictionary from paths to contents; JSON and
  MessagePack, with the decoding of byte strings before them, and the text of values that are not
  strings, are arguments. A load that
  raises \<open>EOFError\<close> or \<open>ValueError\<close> is \<open>None\<close>.
\<close>

type_synonym fs = "(string, bytes) odict"

record serial =
  sr_json_dump :: "val \<Rightarrow> bytes result"
  sr_json_load :: "bytes \<Rightarrow> val option"
  sr_msgpack :: "((val \<Rightarrow> bytes result) \<times> (bytes \<Rightarrow> val option)) option"
  sr_text :: "val \<Rightarrow> string"

record keep =
  kp_serial :: serial
  kp_dirpath :: string
  kp_prefix :: string
  kp_ext :: string
  kp_LocalFields :: "string list"
  kp_RemoteFields :: "string list"

section \<open>Paths\<close>

text \<open>\<open>os.path.join\<close>, for a directory whose path does not end in a slash.\<close>

definition path_join :: "string \<Rightarrow> string \<Rightarrow> string" where
  "path_join d f = d @ ''/'' @ f"

lemma in_tree_join: "in_tree d p \<Longrightarrow> in_tree d (path_join p q)"
  by (auto simp: in_tree_iff path_join_def)

lemma in_tree_file: "in_tree d (path_join d q)"
  by (auto simp: in_tree_iff path_join_def)

definition localdirpath :: "('z) keep_scheme \<Rightarrow> string" where
  "localdirpath k = path_join (kp_dirpath k) ''local''"

definition remotedirpath :: "('z) keep_scheme \<Rightarrow> string" where
  "remotedirpath k = path_join (kp_dirpath k) ''remote''"

definition localfilepath :: "('z) keep_scheme \<Rightarrow> string" where
  "localfilepath k = path_join (localdirpath k) (kp_prefix k @ ''.'' @ kp_ext k)"

definition dotted_name :: "string \<Rightarrow> string \<Rightarrow> string \<Rightarrow> string" where
  "dotted_name prefix name ext = prefix @ ''.'' @ name @ ''.'' @ ext"

definition remotefilepath :: "('z) keep_scheme \<Rightarrow> string \<Rightarrow> string" where
  "remotefilepath k name = path_join (remotedirpath k) (dotted_name (kp_prefix k) name (kp_ext k))"

section \<open>Creation\<close>

definition KEEP_DIR :: string where "KEEP_DIR = ''/var/cache/raet/keep''"
definition ALT_KEEP_DIR :: string where "ALT_KEEP_DIR = ''~/.raet/keep''"
definition KEEP_EXT :: string where "KEEP_EXT = ''json''"

record keep_args =
  ka_basedirpath :: string
  ka_dirpath :: string
  ka_stackname :: string
  ka_prefix :: string
  ka_ext :: string

definition Keep_dir :: "dir_env \<Rightarrow> keep_args \<Rightarrow> string result" where
  "Keep_dir D a =
     (let base = (if ka_basedirpath a = [] then KEEP_DIR else ka_basedirpath a);
          dirpath = (if ka_dirpath a = [] then posix_join base (ka_stackname a) else ka_dirpath a)
      in chosen_dir D [] dirpath (posix_join ALT_KEEP_DIR (ka_stackname a)))"

text \<open>\<open>names\<close> are the class attributes \<open>LocalFields\<close> and \<open>RemoteFields\<close>.\<close>

definition Keep_init :: "dir_env \<Rightarrow> serial \<Rightarrow> string list \<times> string list \<Rightarrow> keep_args \<Rightarrow> keep result" where
  "Keep_init D sr names a =
     rbind (Keep_dir D a) (\<lambda>dirpath.
     let ext = (if ka_ext a = [] then KEEP_EXT else ka_ext a);
         k = \<lparr>kp_serial = sr, kp_dirpath = dirpath, kp_prefix = ka_prefix a,
              kp_ext = (if ext = ''msgpack'' \<and> sr_msgpack sr = None then ''json'' else ext),
              kp_LocalFields = fst names, kp_RemoteFields = snd names\<rparr>
     in rbind (existing_dir D [] (localdirpath k)) (\<lambda>_.
        rbind (existing_dir D [] (remotedirpath k)) (\<lambda>_. Inr k)))"

text \<open>\<open>os.listdir\<close>, in the order of the dictionary.\<close>

definition listdir :: "string \<Rightarrow> fs \<Rightarrow> string list" where
  "listdir d fs =
     map (drop (length d + 1))
       (filter (\<lambda>p. starts_with (d @ ''/'') p \<and> CHR ''/'' \<notin> set (drop (length d + 1) p)) (okeys fs))"

section \<open>Files\<close>

definition keep_dump :: "serial \<Rightarrow> val \<Rightarrow> string \<Rightarrow> (fs, unit) eff" where
  "keep_dump sr data filepath =
     (if CHR '' '' \<in> set filepath then eraise KeepError
      else let ext = snd (splitext filepath) in
        if ext = ''.json'' then
          ebind (elift (sr_json_dump sr data)) (\<lambda>b. emod (oset filepath b))
        else if ext = ''.msgpack'' then
          (case sr_msgpack sr of
             None \<Rightarrow> eraise KeepError
           | Some (dump, _) \<Rightarrow> ebind (elift (dump data)) (\<lambda>b. emod (oset filepath b)))
        else eraise KeepError)"

definition keep_load :: "serial \<Rightarrow> string \<Rightarrow> (fs, val option) eff" where
  "keep_load sr filepath =
     (let ext = snd (splitext filepath) in
      if ext = ''.json'' then
        ebind (eget (\<lambda>fs. oget fs filepath)) (\<lambda>b. case b of
          None \<Rightarrow> eraise OSError
        | Some b \<Rightarrow> eret (sr_json_load sr b))
      else if ext = ''.msgpack'' then
        (case sr_msgpack sr of
           None \<Rightarrow> eraise KeepError
         | Some (_, load) \<Rightarrow>
             ebind (eget (\<lambda>fs. oget fs filepath)) (\<lambda>b. case b of
               None \<Rightarrow> eraise OSError
             | Some b \<Rightarrow> eret (load b)))
      else eret None)"

text \<open>\<open>if os.path.exists(p): os.remove(p)\<close> and \<open>if not os.path.exists(p): return None\<close>.\<close>

definition clear_file :: "string \<Rightarrow> (fs, unit) eff" where
  "clear_file filepath = emod (odel filepath)"

definition load_file :: "serial \<Rightarrow> string \<Rightarrow> (fs, val option) eff" where
  "load_file sr filepath =
     ebind (eget (\<lambda>fs. ohas fs filepath)) (\<lambda>b. if b then keep_load sr filepath else eret None)"

definition scrubData :: "hdata \<Rightarrow> hdata \<Rightarrow> hdata" where
  "scrubData data defaults = map (\<lambda>(k, v). (k, oget_or data k v)) defaults"

definition verifyData :: "string list \<Rightarrow> hdata \<Rightarrow> bool" where
  "verifyData names data \<longleftrightarrow> set names = set (okeys data)"

definition verifyLocalData :: "('z) keep_scheme \<Rightarrow> hdata \<Rightarrow> string list option \<Rightarrow> bool" where
  "verifyLocalData k data names =
     verifyData (case names of None \<Rightarrow> kp_LocalFields k | Some ns \<Rightarrow> ns) data"

definition verifyRemoteData :: "('z) keep_scheme \<Rightarrow> hdata \<Rightarrow> string list option \<Rightarrow> bool" where
  "verifyRemoteData k data names =
     verifyData (case names of None \<Rightarrow> kp_RemoteFields k | Some ns \<Rightarrow> ns) data"

section \<open>Local data\<close>

definition dumpLocalData :: "('z) keep_scheme \<Rightarrow> hdata \<Rightarrow> (fs, unit) eff" where
  "dumpLocalData k data = keep_dump (kp_serial k) (VDict data) (localfilepath k)"

definition loadLocalData :: "('z) keep_scheme \<Rightarrow> (fs, val option) eff" where
  "loadLocalData k = load_file (kp_serial k) (localfilepath k)"

definition clearLocalData :: "('z) keep_scheme \<Rightarrow> (fs, unit) eff" where
  "clearLocalData k = clear_file (localfilepath k)"

section \<open>Remote data\<close>

definition dumpRemoteData :: "('z) keep_scheme \<Rightarrow> hdata \<Rightarrow> string \<Rightarrow> (fs, unit) eff" where
  "dumpRemoteData k data name = keep_dump (kp_serial k) (VDict data) (remotefilepath k name)"

definition dumpAllRemoteData :: "('z) keep_scheme \<Rightarrow> (string, hdata) odict \<Rightarrow> (fs, unit) eff" where
  "dumpAllRemoteData k datadict = efor datadict (\<lambda>(name, data). dumpRemoteData k data name)"

definition loadRemoteData :: "('z) keep_scheme \<Rightarrow> string \<Rightarrow> (fs, val option) eff" where
  "loadRemoteData k name = load_file (kp_serial k) (remotefilepath k name)"

definition clearRemoteData :: "('z) keep_scheme \<Rightarrow> string \<Rightarrow> (fs, unit) eff" where
  "clearRemoteData k name = clear_file (remotefilepath k name)"

text \<open>The name that a file of the directory is for, if its prefix and extension are the keep's.\<close>

definition file_subject :: "string \<Rightarrow> string \<Rightarrow> string option" where
  "file_subject prefix filename =
     (let (root, ext) = splitext filename in
      if ext \<noteq> ''.json'' \<and> ext \<noteq> ''.msgpack'' then None
      else let (p, sep, name) = partition_at root ''.'' in
        if name = [] \<or> p \<noteq> prefix then None else Some name)"

fun load_dir ::
    "serial \<Rightarrow> string \<Rightarrow> string \<Rightarrow> string list \<Rightarrow> (string, val option) odict \<Rightarrow>
     (fs, (string, val option) odict) eff" where
  "load_dir sr d prefix [] ks = eret ks"
| "load_dir sr d prefix (f # fs) ks =
     (case file_subject prefix f of
        None \<Rightarrow> load_dir sr d prefix fs ks
      | Some name \<Rightarrow>
          ebind (keep_load sr (path_join d f)) (\<lambda>v. load_dir sr d prefix fs (oset name v ks)))"

definition loadAllRemoteData :: "('z) keep_scheme \<Rightarrow> (fs, (string, val option) odict) eff" where
  "loadAllRemoteData k =
     ebind (eget (listdir (remotedirpath k))) (\<lambda>files.
       load_dir (kp_serial k) (remotedirpath k) (kp_prefix k) files [])"

definition clear_dir :: "string \<Rightarrow> string \<Rightarrow> string list \<Rightarrow> (fs, unit) eff" where
  "clear_dir d prefix files =
     efor files (\<lambda>f. case file_subject prefix f of
       None \<Rightarrow> eret ()
     | Some _ \<Rightarrow> clear_file (path_join d f))"

definition clearAllRemoteData :: "('z) keep_scheme \<Rightarrow> (fs, unit) eff" where
  "clearAllRemoteData k =
     ebind (eget (listdir (remotedirpath k))) (clear_dir (remotedirpath k) (kp_prefix k))"

section \<open>Objects\<close>

text \<open>The data that the base keep dumps for a lot: four fields, against the three it verifies.\<close>

definition LOCAL_FIELDS :: "string list" where
  "LOCAL_FIELDS = [''uid'', ''name'', ''ha'', ''sid'', ''puid'']"

definition REMOTE_FIELDS :: "string list" where
  "REMOTE_FIELDS = [''uid'', ''name'', ''ha'']"

definition dumpLocal :: "('z) keep_scheme \<Rightarrow> string \<Rightarrow> int \<Rightarrow> val \<Rightarrow> int \<Rightarrow> int \<Rightarrow> (fs, unit) eff" where
  "dumpLocal k name uid ha sid puid =
     (let data = [(''name'', VStr name), (''uid'', VInt uid), (''ha'', ha), (''sid'', VInt sid),
                  (''puid'', VInt puid)]
      in ewhen (verifyLocalData k data None) (dumpLocalData k data))"

definition dumpRemote :: "('z) keep_scheme \<Rightarrow> string \<Rightarrow> int \<Rightarrow> val \<Rightarrow> int \<Rightarrow> (fs, unit) eff" where
  "dumpRemote k name uid ha sid =
     (let data = [(''name'', VStr name), (''uid'', VInt uid), (''ha'', ha), (''sid'', VInt sid)]
      in ewhen (verifyRemoteData k data None) (dumpRemoteData k data name))"

end
