(* ===== verification/KeepStacking.thy ===== *)
theory KeepStacking
  imports Stacking Keeping Lotting
begin

text \<open>
  The stack with persistence, raet/stacking.py: a \<open>KeepStack\<close> adds the files of its keep to the
  stack's state, and each operation on remotes may also dump or clear the remote's file. Methods
  that subclasses override (\<open>dumpRemote\<close>, \<open>dumpLocal\<close>, the restores) are arguments of the
  operations that call them; the base versions, over lots, are given here too.
\<close>

record ('ha, 'm) keep_stack = "('ha, 'm) stack" +
  ks_fs :: fs
  ks_next :: nat

type_synonym ('ha, 'm, 'z, 'a) ks_eff = "(('ha, 'm, 'z) keep_stack_scheme, 'a) eff"

text \<open>An operation of the keep, on the files of the stack.\<close>

definition on_files :: "(fs, 'a) eff \<Rightarrow> ('ha, 'm, 'z, 'a) ks_eff" where
  "on_files m s = (case m (ks_fs s) of (r, fs) \<Rightarrow> (r, s\<lparr>ks_fs := fs\<rparr>))"

text \<open>A new object; references are given out in order.\<close>

definition new_lot :: "'ha lot \<Rightarrow> ('ha, 'm, 'z, nat) ks_eff" where
  "new_lot l s = (Inr (ks_next s), s\<lparr>st_lots := (st_lots s)(ks_next s := l), ks_next := Suc (ks_next s)\<rparr>)"

section \<open>Tables and files\<close>

definition ks_clearRemote :: "('k) keep_scheme \<Rightarrow> nat \<Rightarrow> ('ha, 'm, 'z, unit) ks_eff" where
  "ks_clearRemote k r = ebind (eget (\<lambda>s. remote_name s r)) (\<lambda>n. on_files (clearRemoteData k n))"

definition ks_addRemote ::
    "(nat \<Rightarrow> ('ha, 'm, 'z, unit) ks_eff) \<Rightarrow> nat \<Rightarrow> bool \<Rightarrow> ('ha, 'm, 'z, nat) ks_eff" where
  "ks_addRemote dumpr r dump =
     ethen (addRemote r) (ethen (ewhen dump (dumpr r)) (eret r))"

definition ks_moveRemote ::
    "('k) keep_scheme \<Rightarrow> (nat \<Rightarrow> ('ha, 'm, 'z, unit) ks_eff) \<Rightarrow> (int, nat) inserter \<Rightarrow>
     nat \<Rightarrow> int \<Rightarrow> bool \<Rightarrow> bool \<Rightarrow> ('ha, 'm, 'z, unit) ks_eff" where
  "ks_moveRemote k dumpr ins r new clear dump =
     ethen (moveRemote ins r new)
       (ethen (ewhen clear (ks_clearRemote k r)) (ewhen dump (dumpr r)))"

definition ks_renameRemote ::
    "('k) keep_scheme \<Rightarrow> (nat \<Rightarrow> ('ha, 'm, 'z, unit) ks_eff) \<Rightarrow> (string, nat) inserter \<Rightarrow>
     nat \<Rightarrow> string \<Rightarrow> bool \<Rightarrow> bool \<Rightarrow> ('ha, 'm, 'z, unit) ks_eff" where
  "ks_renameRemote k dumpr ins r new clear dump =
     ebind (eget (\<lambda>s. remote_name s r)) (\<lambda>old.
     ethen (renameRemote ins r new)
       (ethen (ewhen clear (on_files (clearRemoteData k old))) (ewhen dump (dumpr r))))"

definition ks_removeRemote :: "('k) keep_scheme \<Rightarrow> nat \<Rightarrow> bool \<Rightarrow> ('ha, 'm, 'z, unit) ks_eff" where
  "ks_removeRemote k r clear = ethen (removeRemote r) (ewhen clear (ks_clearRemote k r))"

definition ks_removeAllRemotes ::
    "(nat \<Rightarrow> bool \<Rightarrow> ('ha, 'm, 'z, unit) ks_eff) \<Rightarrow> bool \<Rightarrow> ('ha, 'm, 'z, unit) ks_eff" where
  "ks_removeAllRemotes remove clear =
     ebind (eget (ovalues \<circ> st_uidRemotes)) (\<lambda>rs. efor rs (\<lambda>r. remove r clear))"

text \<open>\<open>Keep.clearAllDir\<close>, on the files; \<open>KeepDirs\<close> has it with the directories, and for the road.\<close>

definition clearAllDir :: "('k) keep_scheme \<Rightarrow> ('ha, 'm, 'z, unit) ks_eff" where
  "clearAllDir k =
     on_files (emod (filter (\<lambda>(p, b). \<not> in_tree (kp_dirpath k) p)))"

definition clearLocalKeep :: "('k) keep_scheme \<Rightarrow> ('ha, 'm, 'z, unit) ks_eff" where
  "clearLocalKeep k = on_files (clearLocalData k)"

definition clearRemotes :: "('k) keep_scheme \<Rightarrow> ('ha, 'm, 'z, unit) ks_eff" where
  "clearRemotes k = ebind (eget (ovalues \<circ> st_uidRemotes)) (\<lambda>rs. efor rs (ks_clearRemote k))"

definition dumpRemotes ::
    "('k) keep_scheme \<Rightarrow> (nat \<Rightarrow> ('ha, 'm, 'z, unit) ks_eff) \<Rightarrow> bool \<Rightarrow> ('ha, 'm, 'z, unit) ks_eff" where
  "dumpRemotes k dumpr clear =
     ethen (ewhen clear (clearRemotes k))
       (ebind (eget (ovalues \<circ> st_uidRemotes)) (\<lambda>rs. efor rs dumpr))"

definition clearRemoteKeeps :: "('k) keep_scheme \<Rightarrow> ('ha, 'm, 'z, unit) ks_eff" where
  "clearRemoteKeeps k = on_files (clearAllRemoteData k)"

definition clearAllKeeps :: "('k) keep_scheme \<Rightarrow> ('ha, 'm, 'z, unit) ks_eff" where
  "clearAllKeeps k = ethen (clearLocalKeep k) (clearRemoteKeeps k)"

section \<open>Lots on disk\<close>

text \<open>
  A host address is kept as the JSON value that it was. Stored ids are integers and stored names
  are strings, as the dumps write them; the model refuses others with \<open>TypeError\<close>. A name that is
  empty is replaced by a generated one.
\<close>

definition ks_dumpLocal :: "('k) keep_scheme \<Rightarrow> (val, 'm, 'z, unit) ks_eff" where
  "ks_dumpLocal k =
     ebind (eget id) (\<lambda>s. let l = st_local s in
       on_files (dumpLocal k (lot_name l) (lot_uid l) (lot_ha l) (lot_sid l) (st_puid s)))"

definition ks_dumpRemote :: "('k) keep_scheme \<Rightarrow> nat \<Rightarrow> (val, 'm, 'z, unit) ks_eff" where
  "ks_dumpRemote k r =
     ebind (eget (\<lambda>s. st_lots s r)) (\<lambda>l.
       on_files (dumpRemote k (lot_name l) (lot_uid l) (lot_ha l) (lot_sid l)))"

fun val_int :: "val \<Rightarrow> int result" where
  "val_int (VInt i) = Inr i"
| "val_int _ = Inl TypeError"

fun val_name :: "string \<Rightarrow> val \<Rightarrow> string result" where
  "val_name gen (VStr s) = Inr (if s = [] then gen else s)"
| "val_name gen _ = Inl TypeError"

definition lot_of :: "string \<Rightarrow> hdata \<Rightarrow> val lot result" where
  "lot_of gen data =
     rbind (oitem data ''uid'') (\<lambda>u. rbind (oitem data ''name'') (\<lambda>n. rbind (oitem data ''ha'') (\<lambda>ha.
     rbind (oitem data ''sid'') (\<lambda>sid. rbind (val_name gen n) (\<lambda>name. rbind (val_int u) (\<lambda>uid.
     rbind (val_int sid) (\<lambda>sid.
     Inr \<lparr>lot_name = name, lot_uid = uid, lot_ha = ha, lot_sid = sid\<rparr>)))))))"

text \<open>\<open>if data: if verify(data): ... else: clear\<close>; data that is not a dictionary has no \<open>keys\<close>.\<close>

definition with_data ::
    "(hdata \<Rightarrow> bool) \<Rightarrow> val option \<Rightarrow> (hdata \<Rightarrow> ('ha, 'm, 'z, 'a) ks_eff) \<Rightarrow> ('ha, 'm, 'z, unit) ks_eff \<Rightarrow>
     ('ha, 'm, 'z, 'a option) ks_eff" where
  "with_data verify v use clear =
     (case v of
        None \<Rightarrow> eret None
      | Some w \<Rightarrow>
          if \<not> py_true w then eret None
          else case w of
            VDict data \<Rightarrow>
              if verify data then ebind (use data) (\<lambda>x. eret (Some x)) else ethen clear (eret None)
          | _ \<Rightarrow> eraise AttributeError)"

definition ks_restoreLocal :: "('k) keep_scheme \<Rightarrow> string \<Rightarrow> (val, 'm, 'z, val lot option) ks_eff" where
  "ks_restoreLocal k gen =
     ebind (on_files (loadLocalData k)) (\<lambda>v.
     with_data (\<lambda>d. verifyLocalData k d None) v
       (\<lambda>d. ebind (elift (lot_of gen d)) (\<lambda>l. ethen (emod (\<lambda>s. s\<lparr>st_local := l\<rparr>)) (eret l)))
       (on_files (clearLocalData k)))"

definition restore_lot :: "string \<Rightarrow> hdata \<Rightarrow> (val, 'm, 'z, nat) ks_eff" where
  "restore_lot gen d = ebind (elift (lot_of gen d)) (\<lambda>l. ebind (new_lot l) addRemote)"

definition ks_restoreRemote ::
    "('k) keep_scheme \<Rightarrow> string \<Rightarrow> string \<Rightarrow> (val, 'm, 'z, nat option) ks_eff" where
  "ks_restoreRemote k gen name =
     ebind (on_files (loadRemoteData k name)) (\<lambda>v.
     with_data (\<lambda>d. verifyRemoteData k d None) v (restore_lot gen) (on_files (clearRemoteData k name)))"

definition ks_restoreRemotes :: "('k) keep_scheme \<Rightarrow> string \<Rightarrow> (val, 'm, 'z, unit) ks_eff" where
  "ks_restoreRemotes k gen =
     ebind (on_files (loadAllRemoteData k)) (\<lambda>ks. efor ks (\<lambda>(name, v). case v of
       Some (VDict d) \<Rightarrow>
         if verifyRemoteData k d None then ebind (restore_lot gen d) (\<lambda>_. eret ())
         else on_files (clearRemoteData k name)
     | _ \<Rightarrow> eraise AttributeError))"

section \<open>Starting\<close>

text \<open>
  What \<open>KeepStack.__init__\<close> does with the files: a restored local replaces the given one, the
  stored remotes are added, each gets its next session id, and all is written back.
\<close>

definition advance_sids :: "('ha, 'm, 'z, unit) ks_eff" where
  "advance_sids =
     ebind (eget (ovalues \<circ> st_uidRemotes)) (\<lambda>rs.
       efor rs (\<lambda>r. emod (\<lambda>s. set_lot r (lot_sid_update nextSid) s)))"

definition keep_startup ::
    "('k) keep_scheme \<Rightarrow> ('ha, 'm, 'z, 'ha lot option) ks_eff \<Rightarrow> 'ha lot \<Rightarrow> ('ha, 'm, 'z, unit) ks_eff \<Rightarrow>
     ('ha, 'm, 'z, unit) ks_eff \<Rightarrow> (nat \<Rightarrow> ('ha, 'm, 'z, unit) ks_eff) \<Rightarrow> bool \<Rightarrow> bool \<Rightarrow>
     ('ha, 'm, 'z, unit) ks_eff" where
  "keep_startup k restorel local restorer dumpl dumpr clearl clearr =
     ethen (ewhen clearl (clearLocalKeep k))
    (ebind restorel (\<lambda>l.
     ethen (emod (\<lambda>s. s\<lparr>st_local := (case l of None \<Rightarrow> local | Some l \<Rightarrow> l)\<rparr>))
    (ethen (ewhen clearr (clearRemoteKeeps k))
    (ethen restorer
    (ethen advance_sids
    (ethen dumpl (dumpRemotes k dumpr True)))))))"

end
