(* ===== verification/RoadKeeping.thy ===== *)
theory RoadKeeping
  imports Keeping
begin

text \<open>
  Persistence of estates, raet/road/keeping.py: estate data goes to the files of the base keep, and
  the keys and acceptance status of each role to files of its own. \<open>statusRole\<close> decides whether
  the keys that a remote presents are accepted.
\<close>

record roadkeep = keep +
  rk_auto :: int
  rk_roledirpath :: string

definition ROAD_LOCAL_FIELDS :: "string list" where
  "ROAD_LOCAL_FIELDS =
     [''name'', ''uid'', ''ha'', ''iha'', ''natted'', ''fqdn'', ''dyned'', ''sid'', ''puid'', ''aha'',
      ''role'', ''sighex'', ''prihex'']"

definition LOCAL_DUMP_FIELDS :: "string list" where
  "LOCAL_DUMP_FIELDS =
     [''name'', ''uid'', ''ha'', ''iha'', ''natted'', ''fqdn'', ''dyned'', ''sid'', ''puid'', ''aha'',
      ''role'']"

definition LOCAL_ROLE_FIELDS :: "string list" where
  "LOCAL_ROLE_FIELDS = [''role'', ''sighex'', ''prihex'']"

definition ROAD_REMOTE_FIELDS :: "string list" where
  "ROAD_REMOTE_FIELDS =
     [''name'', ''uid'', ''fuid'', ''ha'', ''iha'', ''natted'', ''fqdn'', ''dyned'', ''sid'', ''main'',
      ''kind'', ''joined'', ''role'', ''acceptance'', ''verhex'', ''pubhex'']"

definition REMOTE_DUMP_FIELDS :: "string list" where
  "REMOTE_DUMP_FIELDS =
     [''name'', ''uid'', ''fuid'', ''ha'', ''iha'', ''natted'', ''fqdn'', ''dyned'', ''sid'', ''main'',
      ''kind'', ''joined'', ''role'']"

definition REMOTE_ROLE_FIELDS :: "string list" where
  "REMOTE_ROLE_FIELDS = [''role'', ''acceptance'', ''verhex'', ''pubhex'']"

text \<open>What the keep reads of a local and of a remote estate.\<close>

record local_estate =
  le_name :: string
  le_uid :: int
  le_ha :: val
  le_iha :: val
  le_natted :: val
  le_fqdn :: val
  le_dyned :: val
  le_sid :: int
  le_puid :: int
  le_aha :: val
  le_role :: string
  le_sighex :: string
  le_prihex :: string

record remote_estate =
  re_name :: string
  re_uid :: int
  re_fuid :: int
  re_ha :: val
  re_iha :: val
  re_natted :: val
  re_fqdn :: val
  re_dyned :: val
  re_sid :: int
  re_main :: val
  re_kind :: val
  re_joined :: val
  re_role :: string
  re_acceptance :: val
  re_verhex :: string
  re_pubhex :: string

section \<open>Role files\<close>

definition localrolepath :: "('z) roadkeep_scheme \<Rightarrow> string" where
  "localrolepath k = path_join (path_join (rk_roledirpath k) ''local'') (''role.'' @ kp_ext k)"

definition remoteroledirpath :: "('z) roadkeep_scheme \<Rightarrow> string" where
  "remoteroledirpath k = path_join (rk_roledirpath k) ''remote''"

definition rolefilepath :: "('z) roadkeep_scheme \<Rightarrow> string \<Rightarrow> string" where
  "rolefilepath k role = path_join (remoteroledirpath k) (dotted_name ''role'' role (kp_ext k))"

record roadkeep_args = keep_args +
  rka_auto :: "int option"
  rka_baseroledirpath :: string
  rka_roledirpath :: string

definition role_dir :: "dir_env \<Rightarrow> string \<Rightarrow> roadkeep_args \<Rightarrow> string result" where
  "role_dir D dirpath a =
     (let path = (if rka_roledirpath a \<noteq> [] then rka_roledirpath a
                  else if rka_baseroledirpath a \<noteq> []
                  then posix_join (posix_join (rka_baseroledirpath a) (ka_stackname a)) ''role''
                  else posix_join dirpath ''role'')
      in chosen_dir D [] path (posix_join (posix_join ALT_KEEP_DIR (ka_stackname a)) ''role''))"

definition RoadKeep_init :: "dir_env \<Rightarrow> serial \<Rightarrow> roadkeep_args \<Rightarrow> roadkeep result" where
  "RoadKeep_init D sr a =
     rbind (Keep_init D sr (ROAD_LOCAL_FIELDS, ROAD_REMOTE_FIELDS) (keep_args.truncate a)) (\<lambda>k.
     rbind (role_dir D (kp_dirpath k) a) (\<lambda>roledirpath.
     let rk = keep.extend k (roadkeep.fields
                (case rka_auto a of None \<Rightarrow> auto_value AutoNever | Some m \<Rightarrow> m) roledirpath)
     in rbind (existing_dir D [] (remoteroledirpath rk)) (\<lambda>_.
        rbind (existing_dir D [] (path_join roledirpath ''local'')) (\<lambda>_. Inr rk))))"

definition no_fields :: "string list \<Rightarrow> hdata" where
  "no_fields names = map (\<lambda>n. (n, VNone)) names"

text \<open>\<open>data.update(self.load(path))\<close>, where the load may have failed or given another kind of value.\<close>

definition update_loaded :: "hdata \<Rightarrow> val option \<Rightarrow> (fs, hdata) eff" where
  "update_loaded data v =
     (case v of Some (VDict d) \<Rightarrow> eret (oupdate data d) | _ \<Rightarrow> eraise TypeError)"

definition dumpLocalRoleData :: "('z) roadkeep_scheme \<Rightarrow> hdata \<Rightarrow> (fs, unit) eff" where
  "dumpLocalRoleData k data = keep_dump (kp_serial k) (VDict data) (localrolepath k)"

definition loadLocalRoleData :: "('z) roadkeep_scheme \<Rightarrow> (fs, hdata) eff" where
  "loadLocalRoleData k =
     (let data = no_fields LOCAL_ROLE_FIELDS in
      ebind (eget (\<lambda>fs. ohas fs (localrolepath k))) (\<lambda>b.
        if \<not> b then eret data
        else ebind (keep_load (kp_serial k) (localrolepath k)) (update_loaded data)))"

definition clearLocalRoleData :: "('z) roadkeep_scheme \<Rightarrow> (fs, unit) eff" where
  "clearLocalRoleData k = clear_file (localrolepath k)"

definition dumpRemoteRoleData :: "('z) roadkeep_scheme \<Rightarrow> hdata \<Rightarrow> string \<Rightarrow> (fs, unit) eff" where
  "dumpRemoteRoleData k data role = keep_dump (kp_serial k) (VDict data) (rolefilepath k role)"

definition dumpAllRemoteRoleData :: "('z) roadkeep_scheme \<Rightarrow> (string, hdata) odict \<Rightarrow> (fs, unit) eff" where
  "dumpAllRemoteRoleData k roles = efor roles (\<lambda>(role, data). dumpRemoteRoleData k data role)"

definition loadRemoteRoleData :: "('z) roadkeep_scheme \<Rightarrow> string \<Rightarrow> (fs, hdata) eff" where
  "loadRemoteRoleData k role =
     (let data = no_fields REMOTE_ROLE_FIELDS in
      ebind (eget (\<lambda>fs. ohas fs (rolefilepath k role))) (\<lambda>b.
        if \<not> b then eret (oset ''role'' (VStr role) data)
        else ebind (keep_load (kp_serial k) (rolefilepath k role)) (update_loaded data)))"

definition loadAllRemoteRoleData :: "('z) roadkeep_scheme \<Rightarrow> (fs, (string, val option) odict) eff" where
  "loadAllRemoteRoleData k =
     ebind (eget (listdir (remoteroledirpath k))) (\<lambda>files.
       load_dir (kp_serial k) (remoteroledirpath k) ''role'' files [])"

definition clearRemoteRoleData :: "('z) roadkeep_scheme \<Rightarrow> string \<Rightarrow> (fs, unit) eff" where
  "clearRemoteRoleData k role = clear_file (rolefilepath k role)"

definition clearAllRemoteRoleData :: "('z) roadkeep_scheme \<Rightarrow> (fs, unit) eff" where
  "clearAllRemoteRoleData k =
     ebind (eget (listdir (remoteroledirpath k))) (clear_dir (remoteroledirpath k) ''role'')"

section \<open>Estate data\<close>

text \<open>
  A loaded value that is false counts as absent; one that is not a dictionary has no \<open>update\<close>,
  and no item \<open>'role'\<close>.
\<close>

definition road_loadLocalData :: "('z) roadkeep_scheme \<Rightarrow> (fs, hdata option) eff" where
  "road_loadLocalData k =
     ebind (loadLocalData k) (\<lambda>v. case v of
       None \<Rightarrow> eret None
     | Some w \<Rightarrow>
         if \<not> py_true w then eret None
         else ebind (loadLocalRoleData k) (\<lambda>role. case w of
           VDict data \<Rightarrow>
             eret (Some (oupdate data [(''sighex'', oget_or role ''sighex'' VNone),
                                       (''prihex'', oget_or role ''prihex'' VNone)]))
         | _ \<Rightarrow> eraise AttributeError))"

text \<open>The role of loaded data, formatted into the name of its file.\<close>

definition role_text :: "serial \<Rightarrow> val \<Rightarrow> string" where
  "role_text sr v = (case v of VStr s \<Rightarrow> s | _ \<Rightarrow> sr_text sr v)"

definition road_loadRemoteData :: "('z) roadkeep_scheme \<Rightarrow> string \<Rightarrow> (fs, hdata option) eff" where
  "road_loadRemoteData k name =
     ebind (loadRemoteData k name) (\<lambda>v. case v of
       None \<Rightarrow> eret None
     | Some w \<Rightarrow>
         if \<not> py_true w then eret None
         else case w of
           VDict data \<Rightarrow>
             ebind (elift (oitem data ''role'')) (\<lambda>role.
             ebind (loadRemoteRoleData k (role_text (kp_serial k) role)) (\<lambda>rd.
             eret (Some (oupdate data [(''acceptance'', oget_or rd ''acceptance'' VNone),
                                       (''verhex'', oget_or rd ''verhex'' VNone),
                                       (''pubhex'', oget_or rd ''pubhex'' VNone)]))))
         | _ \<Rightarrow> eraise TypeError)"

definition role_entry :: "(string, val option) odict \<Rightarrow> val \<Rightarrow> val option result" where
  "role_entry roles role =
     (case role of
        VStr s \<Rightarrow> Inr (case oget roles s of
          None \<Rightarrow> Some (VDict (no_fields [''acceptance'', ''verhex'', ''pubhex'']))
        | Some v \<Rightarrow> v)
      | VList _ \<Rightarrow> Inl TypeError
      | VDict _ \<Rightarrow> Inl TypeError
      | _ \<Rightarrow> Inr (Some (VDict (no_fields [''acceptance'', ''verhex'', ''pubhex'']))))"

definition with_role :: "(string, val option) odict \<Rightarrow> val option \<Rightarrow> hdata result" where
  "with_role roles v =
     (case v of
        Some (VDict data) \<Rightarrow>
          rbind (oitem data ''role'') (\<lambda>role.
          rbind (role_entry roles role) (\<lambda>entry. case entry of
            Some (VDict rd) \<Rightarrow>
              rbind (oitem rd ''acceptance'') (\<lambda>a.
              rbind (oitem rd ''verhex'') (\<lambda>ver.
              rbind (oitem rd ''pubhex'') (\<lambda>pub.
              Inr (oupdate data [(''acceptance'', a), (''verhex'', ver), (''pubhex'', pub)]))))
          | _ \<Rightarrow> Inl TypeError))
      | _ \<Rightarrow> Inl TypeError)"

definition road_loadAllRemoteData :: "('z) roadkeep_scheme \<Rightarrow> (fs, (string, hdata) odict) eff" where
  "road_loadAllRemoteData k =
     ebind (loadAllRemoteData k) (\<lambda>ks.
     ebind (loadAllRemoteRoleData k) (\<lambda>roles.
     elift (mapM (\<lambda>(name, v). rbind (with_role roles v) (\<lambda>d. Inr (name, d))) ks)))"

definition dumpLocalRole :: "('z) roadkeep_scheme \<Rightarrow> local_estate \<Rightarrow> (fs, unit) eff" where
  "dumpLocalRole k e =
     (let data = [(''role'', VStr (le_role e)), (''sighex'', VStr (le_sighex e)),
                  (''prihex'', VStr (le_prihex e))]
      in ewhen (verifyLocalData k data (Some LOCAL_ROLE_FIELDS)) (dumpLocalRoleData k data))"

definition road_dumpLocal :: "('z) roadkeep_scheme \<Rightarrow> local_estate \<Rightarrow> (fs, unit) eff" where
  "road_dumpLocal k e =
     (let data = [(''name'', VStr (le_name e)), (''uid'', VInt (le_uid e)), (''ha'', le_ha e),
                  (''iha'', le_iha e), (''natted'', le_natted e), (''fqdn'', le_fqdn e),
                  (''dyned'', le_dyned e), (''sid'', VInt (le_sid e)), (''puid'', VInt (le_puid e)),
                  (''aha'', le_aha e), (''role'', VStr (le_role e))]
      in ethen (ewhen (verifyLocalData k data (Some LOCAL_DUMP_FIELDS)) (dumpLocalData k data))
           (dumpLocalRole k e))"

definition dumpRemoteRole :: "('z) roadkeep_scheme \<Rightarrow> remote_estate \<Rightarrow> (fs, unit) eff" where
  "dumpRemoteRole k e =
     (let data = [(''role'', VStr (re_role e)), (''acceptance'', re_acceptance e),
                  (''verhex'', VStr (re_verhex e)), (''pubhex'', VStr (re_pubhex e))]
      in ewhen (verifyRemoteData k data (Some REMOTE_ROLE_FIELDS))
           (dumpRemoteRoleData k data (re_role e)))"

definition road_dumpRemote :: "('z) roadkeep_scheme \<Rightarrow> remote_estate \<Rightarrow> (fs, unit) eff" where
  "road_dumpRemote k e =
     (let data = [(''name'', VStr (re_name e)), (''uid'', VInt (re_uid e)), (''fuid'', VInt (re_fuid e)),
                  (''ha'', re_ha e), (''iha'', re_iha e), (''natted'', re_natted e),
                  (''fqdn'', re_fqdn e), (''dyned'', re_dyned e), (''sid'', VInt (re_sid e)),
                  (''main'', re_main e), (''kind'', re_kind e), (''joined'', re_joined e),
                  (''role'', VStr (re_role e))]
      in ethen (ewhen (verifyRemoteData k data (Some REMOTE_DUMP_FIELDS))
                  (dumpRemoteData k data (re_name e)))
           (dumpRemoteRole k e))"

section \<open>Acceptance\<close>

definition keys_differ :: "hdata \<Rightarrow> string \<Rightarrow> string \<Rightarrow> bool" where
  "keys_differ data verhex pubhex \<longleftrightarrow>
     data \<noteq> [] \<and> (\<not> py_eq (VStr verhex) (oget_or data ''verhex'' VNone) \<or>
                 \<not> py_eq (VStr pubhex) (oget_or data ''pubhex'' VNone))"

text \<open>The status that the automatic mode gives, from the stored data of the role.\<close>

definition decide_status :: "int \<Rightarrow> hdata \<Rightarrow> string \<Rightarrow> string \<Rightarrow> val result" where
  "decide_status auto data verhex pubhex =
     (let status = (if data = [] then VNone else oget_or data ''acceptance'' VNone);
          accepted = VInt (acceptance_value Accepted);
          pending = VInt (acceptance_value Pending);
          rejected = VInt (acceptance_value Rejected)
      in if auto = auto_value AutoAlways then Inr accepted
         else if auto = auto_value AutoOnce then
           Inr (if status = VNone then accepted
                else if is_int status (acceptance_value Accepted) then
                  (if keys_differ data verhex pubhex then rejected else status)
                else if is_int status (acceptance_value Pending) then
                  (if keys_differ data verhex pubhex then rejected else accepted)
                else status)
         else if auto = auto_value AutoNever then
           Inr (if status = VNone then pending
                else if is_int status (acceptance_value Accepted) then
                  (if keys_differ data verhex pubhex then rejected else status)
                else if is_int status (acceptance_value Pending) then
                  (if keys_differ data verhex pubhex then rejected else status)
                else status)
         else Inl KeepError)"

text \<open>The stored data after the decision, and whether it changed.\<close>

definition put_changed :: "string \<Rightarrow> val \<Rightarrow> hdata \<times> bool \<Rightarrow> hdata \<times> bool" where
  "put_changed key v db =
     (case db of (data, dirty) \<Rightarrow>
      if \<not> py_eq v (oget_or data key VNone) then (oset key v data, True) else (data, dirty))"

definition note_status :: "hdata \<Rightarrow> val \<Rightarrow> string \<Rightarrow> string \<Rightarrow> hdata \<times> bool" where
  "note_status data status verhex pubhex =
     (if is_int status (acceptance_value Rejected) then (data, False)
      else let d1 = (if verhex \<noteq> [] then put_changed ''verhex'' (VStr verhex) (data, False)
                     else (data, False));
               d2 = (if pubhex \<noteq> [] then put_changed ''pubhex'' (VStr pubhex) d1 else d1)
           in put_changed ''acceptance'' status d2)"

definition statusRole ::
    "('z) roadkeep_scheme \<Rightarrow> string \<Rightarrow> string \<Rightarrow> string \<Rightarrow> bool \<Rightarrow> (fs, val) eff" where
  "statusRole k role verhex pubhex dump =
     ebind (loadRemoteRoleData k role) (\<lambda>data.
     ebind (elift (decide_status (rk_auto k) data verhex pubhex)) (\<lambda>status.
     ethen (ewhen dump
        (let (data', dirty) = note_status data status verhex pubhex in
         ewhen (dirty \<and> verifyRemoteData k data' (Some REMOTE_ROLE_FIELDS))
           (dumpRemoteRoleData k data' role)))
       (eret status)))"

text \<open>The remote's acceptance is set to the status.\<close>

definition statusRemote ::
    "('z) roadkeep_scheme \<Rightarrow> remote_estate \<Rightarrow> bool \<Rightarrow> (fs, remote_estate \<times> val) eff" where
  "statusRemote k e dump =
     ebind (statusRole k (re_role e) (re_verhex e) (re_pubhex e) dump) (\<lambda>status.
     eret (e\<lparr>re_acceptance := status\<rparr>, status))"

definition setAcceptance ::
    "('z) roadkeep_scheme \<Rightarrow> acceptance \<Rightarrow> remote_estate \<Rightarrow> (fs, remote_estate) eff" where
  "setAcceptance k a e =
     (let e' = e\<lparr>re_acceptance := VInt (acceptance_value a)\<rparr>
      in ethen (dumpRemoteRole k e') (eret e'))"

definition rejectRemote :: "('z) roadkeep_scheme \<Rightarrow> remote_estate \<Rightarrow> (fs, remote_estate) eff" where
  "rejectRemote k = setAcceptance k Rejected"

definition pendRemote :: "('z) roadkeep_scheme \<Rightarrow> remote_estate \<Rightarrow> (fs, remote_estate) eff" where
  "pendRemote k = setAcceptance k Pending"

definition acceptRemote :: "('z) roadkeep_scheme \<Rightarrow> remote_estate \<Rightarrow> (fs, remote_estate) eff" where
  "acceptRemote k = setAcceptance k Accepted"

definition clearAllKeep :: "('z) roadkeep_scheme \<Rightarrow> (fs, unit) eff" where
  "clearAllKeep k =
     ethen (clearLocalData k) (ethen (clearLocalRoleData k)
       (ethen (clearAllRemoteData k) (clearAllRemoteRoleData k)))"

end
