(* ===== verification/KeepDirs.thy ===== *)
theory KeepDirs
  imports RoadKeeping
begin

text \<open>
  The directories of keeps and their removal, raet/keeping.py and raet/road/keeping.py. Beside the
  files the state has the directories, by their absolute paths.
\<close>

record disk =
  dk_files :: fs
  dk_dirs :: "string list"

section \<open>Directories\<close>

text \<open>\<open>os.rmdir\<close> refuses a directory that has an entry; \<open>shutil.rmtree\<close> removes all below it, too.\<close>

definition empty_dir :: "string \<Rightarrow> disk \<Rightarrow> bool" where
  "empty_dir d k \<longleftrightarrow> \<not> list_ex (in_tree d) (okeys (dk_files k) @ dk_dirs k)"

definition rmdir :: "string \<Rightarrow> (disk, unit) eff" where
  "rmdir d =
     ebind (eget (empty_dir d)) (\<lambda>empty.
     if empty then emod (dk_dirs_update (filter (\<lambda>p. p \<noteq> d))) else eraise OSError)"

definition rmtree :: "string \<Rightarrow> (disk, unit) eff" where
  "rmtree d =
     emod (\<lambda>k. k\<lparr>dk_files := filter (\<lambda>(p, b). \<not> in_tree d p) (dk_files k),
                dk_dirs := filter (\<lambda>p. p \<noteq> d \<and> \<not> in_tree d p) (dk_dirs k)\<rparr>)"

definition if_dir :: "string \<Rightarrow> (disk, unit) eff \<Rightarrow> (disk, unit) eff" where
  "if_dir d m = ebind (eget (\<lambda>k. d \<in> set (dk_dirs k))) (\<lambda>there. ewhen there m)"

section \<open>Operations of the keeps\<close>

definition Keep_clearAllDir :: "('z) keep_scheme \<Rightarrow> (disk, unit) eff" where
  "Keep_clearAllDir k = if_dir (kp_dirpath k) (rmtree (kp_dirpath k))"

definition clearLocalDir :: "('z) keep_scheme \<Rightarrow> (disk, unit) eff" where
  "clearLocalDir k = if_dir (localdirpath k) (rmdir (localdirpath k))"

definition clearRemoteDir :: "('z) keep_scheme \<Rightarrow> (disk, unit) eff" where
  "clearRemoteDir k = if_dir (remotedirpath k) (rmdir (remotedirpath k))"

definition clearRoleDir :: "('z) roadkeep_scheme \<Rightarrow> (disk, unit) eff" where
  "clearRoleDir k = if_dir (rk_roledirpath k) (rmdir (rk_roledirpath k))"

definition RoadKeep_clearAllDir :: "('z) roadkeep_scheme \<Rightarrow> (disk, unit) eff" where
  "RoadKeep_clearAllDir k = ethen (Keep_clearAllDir k) (clearRoleDir k)"

definition localroledirpath :: "('z) roadkeep_scheme \<Rightarrow> string" where
  "localroledirpath k = path_join (rk_roledirpath k) ''local''"

definition clearLocalRoleDir :: "('z) roadkeep_scheme \<Rightarrow> (disk, unit) eff" where
  "clearLocalRoleDir k = if_dir (localroledirpath k) (rmdir (localroledirpath k))"

definition clearRemoteRoleDir :: "('z) roadkeep_scheme \<Rightarrow> (disk, unit) eff" where
  "clearRemoteRoleDir k = if_dir (remoteroledirpath k) (rmdir (remoteroledirpath k))"

section \<open>Facts\<close>

lemmas dir_defs = if_dir_def rmdir_def rmtree_def ebind_def ethen_def eget_def emod_def ewhen_def eraise_def eret_def

text \<open>The role directory has the directories of roles that the constructor makes: it is never empty.\<close>

lemma clearRoleDir_full:
  assumes "rk_roledirpath k \<in> set (dk_dirs s)" and "localroledirpath k \<in> set (dk_dirs s)"
  shows "clearRoleDir k s = (Inl OSError, s)"
proof -
  have "\<not> empty_dir (rk_roledirpath k) s"
    using assms(2) in_tree_file [of "rk_roledirpath k" "''local''"] unfolding empty_dir_def list_ex_iff localroledirpath_def by auto
  then show ?thesis using assms(1) by (simp add: clearRoleDir_def dir_defs)
qed

lemma clearAllDir_then_roles:
  "kp_dirpath k \<in> set (dk_dirs s) \<Longrightarrow> RoadKeep_clearAllDir k s = clearRoleDir k (snd (rmtree (kp_dirpath k) s))"
  by (simp add: RoadKeep_clearAllDir_def Keep_clearAllDir_def dir_defs)

text \<open>
  With the role directory in its usual place, below that of the keep, \<open>clearAllDir\<close> removes what is
  there. With a role directory somewhere else it removes the keep's and then raises.
\<close>

lemma clear_all_dir:
  assumes "kp_dirpath k \<in> set (dk_dirs s)" and "in_tree (kp_dirpath k) (rk_roledirpath k)"
  shows "RoadKeep_clearAllDir k s = (Inr (), snd (rmtree (kp_dirpath k) s))"
  unfolding clearAllDir_then_roles [OF assms(1)] clearRoleDir_def if_dir_def
  using assms(2) by (simp add: dir_defs)

theorem clear_all_dir_raises:
  assumes "kp_dirpath k \<in> set (dk_dirs s)" and "rk_roledirpath k \<in> set (dk_dirs s)" and "localroledirpath k \<in> set (dk_dirs s)"
    and "\<forall>d \<in> {rk_roledirpath k, localroledirpath k}. d \<noteq> kp_dirpath k \<and> \<not> in_tree (kp_dirpath k) d"
  shows "RoadKeep_clearAllDir k s = (Inl OSError, snd (rmtree (kp_dirpath k) s))"
  unfolding clearAllDir_then_roles [OF assms(1)]
  using assms(2-4) by (intro clearRoleDir_full) (simp_all add: dir_defs)

end
