(* ===== verification/Paging.thy ===== *)
theory Paging
  imports Packeting Segmenting Effects
begin

text \<open>
  Lane pages, raet/lane/paging.py: the head and body of a page, and books, which are messages and
  the pages they travel in. JSON and MessagePack come from the record \<open>codec\<close>.
\<close>

section \<open>Pages\<close>

record page =
  pg_data :: hdata
  pg_embody :: body
  pg_head :: bytes
  pg_body :: bytes
  pg_packed :: bytes

type_synonym pindex = "val \<times> val \<times> val \<times> val"

definition Page_init :: "hdata \<Rightarrow> body \<Rightarrow> page" where
  "Page_init data embody =
     \<lparr>pg_data = oupdate PAGE_DEFAULTS data, pg_embody = embody, pg_head = [], pg_body = [],
      pg_packed = []\<rparr>"

definition pg_size :: "page \<Rightarrow> nat" where
  "pg_size p = length (pg_packed p)"

text \<open>\<open>self.data.get('pc', 0) > 1\<close>.\<close>

definition paginated :: "hdata \<Rightarrow> bool result" where
  "paginated d =
     (case as_int (oget_or d ''pc'' (VInt 0)) of None \<Rightarrow> Inl TypeError | Some n \<Rightarrow> Inr (n > 1))"

definition page_index :: "string list \<Rightarrow> hdata \<Rightarrow> pindex result" where
  "page_index names d =
     (case names of
        [a, b] \<Rightarrow>
          rbind (oitem d a) (\<lambda>x. rbind (oitem d b) (\<lambda>y. rbind (oitem d ''si'') (\<lambda>si.
          rbind (oitem d ''bi'') (\<lambda>bi. Inr (x, y, si, bi)))))
      | _ \<Rightarrow> Inl TypeError)"

definition TxPage_index :: "hdata \<Rightarrow> pindex result" where
  "TxPage_index = page_index [''sn'', ''dn'']"

definition RxPage_index :: "hdata \<Rightarrow> pindex result" where
  "RxPage_index = page_index [''dn'', ''sn'']"

subsection \<open>Outgoing\<close>

definition page_line :: "codec \<Rightarrow> string \<times> val \<Rightarrow> string result" where
  "page_line c kv =
     rbind (oitem PAGE_FIELD_FORMATS (fst kv)) (\<lambda>f.
     rbind (format_val (float_text c) f (snd kv)) (\<lambda>t.
     Inr (fst kv @ [SP] @ t)))"

definition TxPageHead_pack :: "codec \<Rightarrow> page \<Rightarrow> page result" where
  "TxPageHead_pack c p =
     rbind (mapM (page_line c) (pg_data p)) (\<lambda>lines.
     Inr (p\<lparr>pg_head := join_with [NL] lines @ HEAD_END\<rparr>))"

definition TxPageBody_pack :: "codec \<Rightarrow> page \<Rightarrow> page result" where
  "TxPageBody_pack c p =
     rbind (oitem (pg_data p) ''pk'') (\<lambda>pk.
     rbind
      (if is_int pk (pack_value PackJson) then
         (if body_true (pg_embody p) then json_dumps c (pg_embody p) else Inr [])
       else if is_int pk (pack_value PackMsgpack) then
         (if body_true (pg_embody p) then
            (case msgpack c of None \<Rightarrow> Inl NameError | Some (dumps, _) \<Rightarrow> dumps (pg_embody p))
          else Inr [])
       else Inl PageError)
      (\<lambda>b. if length b > MAX_MESSAGE_SIZE then Inl PageError else Inr (p\<lparr>pg_body := b\<rparr>)))"

definition TxPage_prepack :: "codec \<Rightarrow> page \<Rightarrow> page result" where
  "TxPage_prepack c p =
     rbind (TxPageHead_pack c p) (\<lambda>p1. rbind (TxPageBody_pack c p1) (\<lambda>p2.
     Inr (p2\<lparr>pg_packed := pg_head p2 @ pg_body p2\<rparr>)))"

definition TxPage_pack :: "codec \<Rightarrow> page \<Rightarrow> page result" where
  "TxPage_pack c p =
     rbind (TxPage_prepack c p) (\<lambda>p1.
     if pg_size p1 > UXD_MAX_PACKET_SIZE then Inl PageError else Inr p1)"

subsection \<open>Incoming\<close>

definition page_field :: "codec \<Rightarrow> string \<Rightarrow> (string \<times> val) result" where
  "page_field c line =
     (case split_on SP line of
        [key, text] \<Rightarrow>
          if key \<notin> set PAGE_FIELDS then Inl PageError
          else rbind (oitem PAGE_FIELD_FORMATS key) (\<lambda>f.
               rbind (convert_val (parse_float c) f text) (\<lambda>v. Inr (key, v)))
      | _ \<Rightarrow> Inl ValueError)"

text \<open>
  \<open>parse\<close> leaves the page as it was when it raises \<open>PageError\<close>, apart from parts that are not used
  then.
\<close>

definition RxPageHead_parse :: "codec \<Rightarrow> page \<Rightarrow> page result" where
  "RxPageHead_parse c p =
     (if pg_packed p = [] then Inl PageError
      else if \<not> starts_with (''ri RAET'' @ [NL]) (pg_packed p) \<or> \<not> contains (pg_packed p) HEAD_END
      then Inl PageError
      else let (front, sep, rest) = partition_at (pg_packed p) HEAD_END in
        rbind (mapM (page_field c) (split_on NL front)) (\<lambda>kvs.
        Inr (p\<lparr>pg_head := front @ sep, pg_body := rest,
               pg_data := oupdate (pg_data p) (oupdate [] kvs)\<rparr>)))"

definition page_mapping :: "val option \<Rightarrow> body result" where
  "page_mapping v =
     (case v of
        None \<Rightarrow> Inl ValueError
      | Some (VDict d) \<Rightarrow> Inr (BData (VDict d))
      | Some _ \<Rightarrow> Inl PageError)"

definition RxPageBody_parse :: "codec \<Rightarrow> page \<Rightarrow> page result" where
  "RxPageBody_parse c p =
     rbind (oitem (pg_data p) ''pk'') (\<lambda>pkv.
     case Option.bind (as_int pkv) pack_of of
       None \<Rightarrow> Inl PageError
     | Some pk \<Rightarrow>
        rbind
         (if pg_body p = [] then Inr EMPTY_BODY
          else if pk = PackJson then page_mapping (json_loads c (pg_body p))
          else (case msgpack c of
                  None \<Rightarrow> Inl NameError
                | Some (_, loads) \<Rightarrow> page_mapping (loads (pg_body p))))
         (\<lambda>b. Inr (p\<lparr>pg_embody := b\<rparr>)))"

definition RxPage_init :: "hdata \<Rightarrow> bytes \<Rightarrow> page" where
  "RxPage_init data packed = (Page_init data EMPTY_BODY)\<lparr>pg_packed := packed\<rparr>"

definition RxPage_parse :: "codec \<Rightarrow> page \<Rightarrow> page result" where
  "RxPage_parse c p = rbind (RxPageHead_parse c p) (RxPageBody_parse c)"

section \<open>Books\<close>

record txbook =
  tb_data :: hdata
  tb_body :: body
  tb_packed :: bytes
  tb_pages :: "page list"

definition TxBook_init :: "hdata \<Rightarrow> body \<Rightarrow> txbook" where
  "TxBook_init data body =
     \<lparr>tb_data = oupdate PAGE_DEFAULTS data, tb_body = body, tb_packed = [], tb_pages = []\<rparr>"

definition section_page :: "codec \<Rightarrow> hdata \<Rightarrow> bytes \<Rightarrow> int \<Rightarrow> int \<Rightarrow> page result" where
  "section_page c data part i count =
     (let d = oset ''pc'' (VInt count) (oset ''pn'' (VInt i) data) in
      rbind (TxPageHead_pack c ((Page_init d EMPTY_BODY)\<lparr>pg_body := part\<rparr>)) (\<lambda>p.
      Inr (p\<lparr>pg_packed := pg_head p @ pg_body p\<rparr>)))"

definition TxBook_paginate :: "codec \<Rightarrow> txbook \<Rightarrow> nat \<Rightarrow> txbook result" where
  "TxBook_paginate c b headsize =
     (let extrasize = 2; hotelsize = headsize + extrasize;
          secsize = int UXD_MAX_PACKET_SIZE - int hotelsize
      in rbind (piece_count (int (length (tb_packed b))) secsize) (\<lambda>seccount.
      rbind (mapM (\<lambda>i. section_page c (tb_data b) (piece (tb_packed b) secsize seccount (int i))
                         (int i) seccount) [0..<nat seccount]) (\<lambda>ps.
      Inr (b\<lparr>tb_pages := tb_pages b @ ps\<rparr>))))"

definition TxBook_pack :: "codec \<Rightarrow> txbook \<Rightarrow> hdata \<Rightarrow> body option \<Rightarrow> txbook result" where
  "TxBook_pack c b data body =
     (let b1 = b\<lparr>tb_data := oupdate (tb_data b) data,
                 tb_body := (case body of None \<Rightarrow> tb_body b | Some x \<Rightarrow> x), tb_pages := []\<rparr>
      in rbind (TxPage_prepack c (Page_init (tb_data b1) (tb_body b1))) (\<lambda>p.
         let b2 = b1\<lparr>tb_packed := pg_body p\<rparr> in
         if pg_size p \<le> UXD_MAX_PACKET_SIZE then Inr (b2\<lparr>tb_pages := [p]\<rparr>)
         else TxBook_paginate c b2 (length (pg_head p))))"

text \<open>
  An incoming book stays with its remote when \<open>parse\<close> raises, so parsing is a computation on the
  book.
\<close>

record rxbook =
  rb_data :: hdata
  rb_body :: "body option"
  rb_packed :: bytes
  rb_sections :: "bytes option list"
  rb_complete :: bool

definition RxBook_init :: "hdata \<Rightarrow> rxbook" where
  "RxBook_init data =
     \<lparr>rb_data = oupdate PAGE_DEFAULTS data, rb_body = None, rb_packed = [], rb_sections = [],
      rb_complete = False\<rparr>"

definition RxBook_desectionize :: "codec \<Rightarrow> (rxbook, body) eff" where
  "RxBook_desectionize c =
     ethen (emod (\<lambda>b. b\<lparr>rb_packed := joined (rb_sections b)\<rparr>))
    (ebind (eget id) (\<lambda>b.
     ebind (elift (RxPageBody_parse c ((RxPage_init (rb_data b) [])\<lparr>pg_body := rb_packed b\<rparr>))) (\<lambda>p.
     ethen (emod (\<lambda>b. b\<lparr>rb_complete := True\<rparr>)) (eret (pg_embody p)))))"

definition page_int :: "hdata \<Rightarrow> string \<Rightarrow> int result" where
  "page_int d k =
     rbind (oitem d k) (\<lambda>v. case as_int v of None \<Rightarrow> Inl TypeError | Some i \<Rightarrow> Inr i)"

definition RxBook_parse :: "codec \<Rightarrow> page \<Rightarrow> (rxbook, body option) eff" where
  "RxBook_parse c p =
     ebind (elift (paginated (pg_data p))) (\<lambda>many.
     if \<not> many then
       ethen (emod (\<lambda>b. b\<lparr>rb_data := oupdate (rb_data b) (pg_data p)\<rparr>))
      (ebind (elift (RxPageBody_parse c p)) (\<lambda>p1.
       ethen (emod (\<lambda>b. b\<lparr>rb_body := Some (pg_embody p1), rb_complete := True\<rparr>))
         (eret (Some (pg_embody p1)))))
     else
       ebind (elift (page_int (pg_data p) ''pc'')) (\<lambda>pc.
       ebind (elift (page_int (pg_data p) ''pn'')) (\<lambda>pn.
       ethen (emod (\<lambda>b. if rb_sections b = []
                 then b\<lparr>rb_data := oupdate (rb_data b) (pg_data p),
                        rb_sections := replicate (nat pc) None\<rparr>
                 else b))
      (ebind (eget rb_sections) (\<lambda>secs.
       ebind (elift (place_piece secs pc pn (pg_body p))) (\<lambda>secs.
       ethen (emod (\<lambda>b. b\<lparr>rb_sections := secs\<rparr>))
        (if None \<in> set secs then eret None
         else ebind (RxBook_desectionize c) (\<lambda>body.
              ethen (emod (\<lambda>b. b\<lparr>rb_body := Some body\<rparr>)) (eret (Some body))))))))))"

definition RxBook_index :: "rxbook \<Rightarrow> pindex result" where
  "RxBook_index b = RxPage_index (rb_data b)"

definition TxBook_index :: "txbook \<Rightarrow> pindex result" where
  "TxBook_index b = TxPage_index (tb_data b)"

end
