(* ===== verification/PageRound.thy ===== *)
theory PageRound
  imports Paging HeadText Samples
begin

text \<open>
  Pages over the lane: the head of a page reads back as it was written, the pages of a book that
  arrive in any order give its message, and no page is longer than the transport takes.
\<close>

section \<open>Heads\<close>

definition NUMBER_FIELDS :: "string list" where
  "NUMBER_FIELDS = [''vn'', ''pk'', ''bi'', ''pn'', ''pc'']"

definition NAME_FIELDS :: "string list" where
  "NAME_FIELDS = [''sn'', ''dn'', ''si'']"

definition no_blank :: "string \<Rightarrow> bool" where
  "no_blank s \<longleftrightarrow> SP \<notin> set s \<and> NL \<notin> set s"

definition page_pair :: "string \<times> val \<Rightarrow> bool" where
  "page_pair kv \<longleftrightarrow>
     kv = (''ri'', VStr ''RAET'') \<or>
     (fst kv \<in> set NUMBER_FIELDS \<and> (\<exists>i \<ge> 0. snd kv = VInt i)) \<or>
     (fst kv \<in> set NAME_FIELDS \<and>
        (\<exists>s. snd kv = VStr s \<and> no_blank s \<and> (fst kv = ''si'' \<longrightarrow> length s \<le> 18)))"

text \<open>The data of a page as the lane stack makes it: the default fields, with values that fit.\<close>

definition page_ready :: "hdata \<Rightarrow> bool" where
  "page_ready d \<longleftrightarrow> okeys d = PAGE_FIELDS \<and> list_all page_pair d"

fun page_text :: "string \<times> val \<Rightarrow> string" where
  "page_text (k, VInt i) = fmt_hex (if k = ''pn'' \<or> k = ''pc'' then 4 else 0) i"
| "page_text (k, VStr s) = s"
| "page_text (k, _) = []"

definition page_line_of :: "string \<times> val \<Rightarrow> string" where
  "page_line_of kv = fst kv @ [SP] @ page_text kv"

definition page_head :: "hdata \<Rightarrow> bytes" where
  "page_head d = join_with [NL] (map page_line_of d) @ HEAD_END"

lemma page_formats:
  "list_all (\<lambda>k. oget PAGE_FIELD_FORMATS k = Some (FmtX (if k = ''pn'' \<or> k = ''pc'' then 4 else 0)) \<and>
     no_blank k \<and> k \<in> set PAGE_FIELDS) NUMBER_FIELDS"
  "list_all (\<lambda>k. oget PAGE_FIELD_FORMATS k = Some (if k = ''si'' then FmtPrec 18 else FmtS) \<and>
     no_blank k \<and> k \<in> set PAGE_FIELDS) NAME_FIELDS"
  "oget PAGE_FIELD_FORMATS ''ri'' = Some (FmtPrec 4)" "''ri'' \<in> set PAGE_FIELDS"
  by (code_simp, code_simp, code_simp, code_simp)

lemma number_format:
  "k \<in> set NUMBER_FIELDS \<Longrightarrow>
   oget PAGE_FIELD_FORMATS k = Some (FmtX (if k = ''pn'' \<or> k = ''pc'' then 4 else 0)) \<and>
   no_blank k \<and> k \<in> set PAGE_FIELDS"
  using page_formats(1) unfolding list_all_iff by blast

lemma name_format:
  "k \<in> set NAME_FIELDS \<Longrightarrow>
   oget PAGE_FIELD_FORMATS k = Some (if k = ''si'' then FmtPrec 18 else FmtS) \<and>
   no_blank k \<and> k \<in> set PAGE_FIELDS"
  using page_formats(2) unfolding list_all_iff by blast

lemma page_pair_cases:
  assumes "page_pair (k, v)"
  obtains "k = ''ri''" "v = VStr ''RAET''"
  | i where "k \<in> set NUMBER_FIELDS" "v = VInt i" "0 \<le> i"
  | s where "k \<in> set NAME_FIELDS" "v = VStr s" "no_blank s" "k = ''si'' \<Longrightarrow> length s \<le> 18"
  using assms by (auto simp: page_pair_def)

lemma page_line_pair: "page_pair kv \<Longrightarrow> page_line c kv = Inr (page_line_of kv)"
proof (cases kv)
  case (Pair k v)
  assume "page_pair kv"
  then have "page_pair (k, v)" by (simp add: Pair)
  then show ?thesis
  proof (cases rule: page_pair_cases)
    case (2 i)
    then show ?thesis
      using number_format [of k] by (simp add: Pair page_line_def page_line_of_def oitem_def)
  next
    case (3 s)
    then show ?thesis
      using name_format [of k] by (simp add: Pair page_line_def page_line_of_def oitem_def)
  qed (simp add: Pair page_line_def page_line_of_def oitem_def page_formats)
qed

lemma page_text_no_blank: "page_pair kv \<Longrightarrow> no_blank (fst kv) \<and> no_blank (page_text kv)"
proof (cases kv)
  case (Pair k v)
  assume "page_pair kv"
  then have "page_pair (k, v)" by (simp add: Pair)
  then show ?thesis
  proof (cases rule: page_pair_cases)
    case (2 i)
    then show ?thesis
      using number_format [of k] fmt_hex_no_space [of i] by (simp add: Pair no_blank_def)
  next
    case (3 s)
    then show ?thesis using name_format [of k] by (simp add: Pair)
  qed (simp add: Pair no_blank_def)
qed

lemma page_field_pair: "page_pair kv \<Longrightarrow> page_field c (page_line_of kv) = Inr kv"
proof (cases kv)
  case (Pair k v)
  assume p: "page_pair kv"
  then have split: "split_on SP (page_line_of kv) = [k, page_text kv]"
    unfolding page_line_of_def Pair using page_text_no_blank [OF p] Pair
    by (simp add: split_on_append split_on_plain no_blank_def del: page_text.simps)
  from p have "page_pair (k, v)" by (simp add: Pair)
  then show ?thesis
  proof (cases rule: page_pair_cases)
    case (2 i)
    then show ?thesis
      using number_format [of k] split
      by (simp add: Pair page_field_def oitem_def py_int16_fmt_hex)
  next
    case (3 s)
    then show ?thesis
      using name_format [of k] split by (simp add: Pair page_field_def oitem_def)
  qed (use split in \<open>simp add: Pair page_field_def oitem_def page_formats\<close>)
qed

lemma page_ready_lines:
  "page_ready d \<Longrightarrow> mapM (page_line c) d = Inr (map page_line_of d)"
  "page_ready d \<Longrightarrow> mapM (page_field c) (map page_line_of d) = Inr d"
proof -
  assume "page_ready d"
  then have d: "list_all page_pair d" by (simp add: page_ready_def)
  then show "mapM (page_line c) d = Inr (map page_line_of d)"
    by (intro mapM_Inr page_line_pair) (simp add: list_all_iff)
  show "mapM (page_field c) (map page_line_of d) = Inr d"
    using d by (induction d) (simp_all add: page_field_pair)
qed

lemma TxPageHead_pack_ready:
  "page_ready (pg_data p) \<Longrightarrow> TxPageHead_pack c p = Inr (p\<lparr>pg_head := page_head (pg_data p)\<rparr>)"
  by (simp add: TxPageHead_pack_def page_ready_lines page_head_def)

lemma oupdate_new: "owf d \<Longrightarrow> (\<forall>k \<in> set (okeys d). \<not> ohas e k) \<Longrightarrow> oupdate e d = e @ d"
proof (induction d arbitrary: e)
  case (Cons kv d)
  obtain k v where kv: "kv = (k, v)" by fastforce
  have "oupdate (e @ [(k, v)]) d = (e @ [(k, v)]) @ d"
    using Cons.prems by (intro Cons.IH) (auto simp: kv owf_def ohas_def)
  then show ?case using Cons.prems by (simp add: kv oset_absent)
qed simp

lemma page_ready_owf: "page_ready d \<Longrightarrow> owf d"
  by (simp add: page_ready_def owf_def PAGE_FIELDS_def)

lemma split_page_head:
  assumes "page_ready d"
  shows "split_on NL (join_with [NL] (map page_line_of d)) = map page_line_of d"
    and "partition_at (page_head d @ b) HEAD_END = (join_with [NL] (map page_line_of d), HEAD_END, b)"
    and "contains (page_head d @ b) HEAD_END"
    and "starts_with (''ri RAET'' @ [NL]) (page_head d @ b)"
    and "page_head d \<noteq> []"
proof -
  have d: "list_all page_pair d" "d \<noteq> []"
    using assms by (auto simp: page_ready_def PAGE_FIELDS_def)
  have lines: "\<forall>l \<in> set (map page_line_of d). NL \<notin> set l \<and> l \<noteq> []"
    using d page_text_no_blank by (auto simp: list_all_iff page_line_of_def no_blank_def)
  then show "split_on NL (join_with [NL] (map page_line_of d)) = map page_line_of d"
    using d(2) by (intro split_on_join) auto
  have "find_sub [NL, NL] (join_with [NL] (map page_line_of d) @ NL # NL # b) =
      Some (length (join_with [NL] (map page_line_of d)))"
    using lines d(2) by (intro join_no_blank) auto
  then show "partition_at (page_head d @ b) HEAD_END = (join_with [NL] (map page_line_of d), HEAD_END, b)"
    and "contains (page_head d @ b) HEAD_END"
    by (simp_all add: partition_at_def contains_def page_head_def HEAD_END_def)
  obtain kv1 kv2 rest where three: "d = kv1 # kv2 # rest" and "fst kv1 = ''ri''"
    using assms by (auto simp: page_ready_def PAGE_FIELDS_def okeys_def Cons_eq_map_conv map_eq_Cons_conv)
  moreover have "page_pair kv1" using d(1) three by simp
  ultimately have "kv1 = (''ri'', VStr ''RAET'')"
    by (auto simp: page_pair_def NUMBER_FIELDS_def NAME_FIELDS_def)
  then show "starts_with (''ri RAET'' @ [NL]) (page_head d @ b)"
    by (simp add: three page_head_def page_line_of_def)
  show "page_head d \<noteq> []" by (simp add: page_head_def HEAD_END_def)
qed

lemma RxPageHead_parse_ready:
  assumes "page_ready d"
  shows "RxPageHead_parse c (p\<lparr>pg_packed := page_head d @ b\<rparr>) =
    Inr (p\<lparr>pg_packed := page_head d @ b, pg_head := page_head d, pg_body := b,
           pg_data := oupdate (pg_data p) d\<rparr>)"
  using split_page_head [OF assms] page_ready_lines(2) [OF assms, of c]
    oupdate_new [OF page_ready_owf [OF assms], of "[]"]
  by (simp add: RxPageHead_parse_def page_head_def [symmetric])

lemma owf_as_map: "owf d \<Longrightarrow> d = map (\<lambda>k. (k, the (oget d k))) (okeys d)"
proof (induction d)
  case (Cons kv d)
  then have new: "fst kv \<notin> set (okeys d)" and d: "d = map (\<lambda>k. (k, the (oget d k))) (okeys d)"
    by (auto simp: owf_def)
  have "map (\<lambda>k. (k, the (oget (kv # d) k))) (okeys d) = map (\<lambda>k. (k, the (oget d k))) (okeys d)"
    using new by (cases kv) auto
  with d show ?case by (cases kv) simp
qed simp

lemma okeys_oupdate_same: "set (okeys d) \<subseteq> set (okeys e) \<Longrightarrow> okeys (oupdate e d) = okeys e"
proof (induction d arbitrary: e)
  case (Cons kv d)
  obtain k v where kv: "kv = (k, v)" by fastforce
  then have "okeys (oset k v e) = okeys e"
    using Cons.prems by (intro okeys_oset_present) (simp add: ohas_def)
  with Cons kv show ?case by simp
qed simp

lemma oupdate_same_keys: "owf d \<Longrightarrow> okeys e = okeys d \<Longrightarrow> oupdate e d = d"
proof -
  assume d: "owf d" and k: "okeys e = okeys d"
  have ks: "okeys (oupdate e d) = okeys d" using okeys_oupdate_same [of d e] k by simp
  moreover have "oget (oupdate e d) x = oget d x" if "x \<in> set (okeys d)" for x
    using oget_oupdate [OF d, of e x] that oget_None_iff [of d x] by (auto split: option.splits)
  ultimately have "map (\<lambda>x. (x, the (oget (oupdate e d) x))) (okeys (oupdate e d)) =
      map (\<lambda>x. (x, the (oget d x))) (okeys d)" by simp
  moreover have "owf (oupdate e d)" using d ks by (simp add: owf_def)
  ultimately show ?thesis using owf_as_map [of "oupdate e d"] owf_as_map [OF d] by simp
qed

lemma PAGE_DEFAULTS_keys: "okeys PAGE_DEFAULTS = PAGE_FIELDS"
  by (simp add: PAGE_DEFAULTS_def PAGE_FIELDS_def)

lemma page_ready_defaults: "page_ready d \<Longrightarrow> oupdate PAGE_DEFAULTS d = d"
  by (rule oupdate_same_keys) (simp_all add: page_ready_owf page_ready_def PAGE_DEFAULTS_keys)

lemma parse_page_head:
  assumes "page_ready d"
  shows "RxPageHead_parse c (RxPage_init [] (page_head d @ b)) =
    Inr \<lparr>pg_data = d, pg_embody = EMPTY_BODY, pg_head = page_head d, pg_body = b,
         pg_packed = page_head d @ b\<rparr>"
  using RxPageHead_parse_ready [OF assms, where p = "Page_init [] EMPTY_BODY" and c = c and b = b] page_ready_defaults [OF assms]
  by (simp add: RxPage_init_def Page_init_def)

lemma PAGE_DEFAULTS_owf: "owf PAGE_DEFAULTS"
  by code_simp

section \<open>Bodies\<close>

text \<open>What the library promises for one message: what it serialised, it loads.\<close>

definition lane_law :: "codec \<Rightarrow> codec \<Rightarrow> pack_kind \<Rightarrow> hdata \<Rightarrow> bool" where
  "lane_law c c' pk m \<longleftrightarrow>
     (case pk of
        PackJson \<Rightarrow> \<forall>t. json_dumps c (BData (VDict m)) = Inr t \<longrightarrow> t \<noteq> [] \<and> json_loads c' t = Some (VDict m)
      | PackMsgpack \<Rightarrow> \<exists>dumps loads dumps' loads'.
          msgpack c = Some (dumps, loads) \<and> msgpack c' = Some (dumps', loads') \<and>
          (\<forall>t. dumps (BData (VDict m)) = Inr t \<longrightarrow> t \<noteq> [] \<and> loads' t = Some (VDict m)))"

definition reads_body :: "codec \<Rightarrow> pack_kind \<Rightarrow> bytes \<Rightarrow> body \<Rightarrow> bool" where
  "reads_body c pk b m \<longleftrightarrow>
     (\<forall>p. oget (pg_data p) ''pk'' = Some (VInt (pack_value pk)) \<and> pg_body p = b \<longrightarrow>
        RxPageBody_parse c p = Inr (p\<lparr>pg_embody := m\<rparr>))"

lemma pack_of_value: "pack_of (pack_value pk) = Some pk"
  using pack_enum.of_value_value [of "pack_value pk" pk] by (simp add: pack_of_def)

lemma TxPageBody_pack_reads:
  assumes law: "lane_law c c' pk m" and pk: "oget (pg_data p) ''pk'' = Some (VInt (pack_value pk))"
    and em: "pg_embody p = BData (VDict m)" and pack: "TxPageBody_pack c p = Inr p'"
  obtains b where "p' = p\<lparr>pg_body := b\<rparr>" "length b \<le> MAX_MESSAGE_SIZE"
    "reads_body c' pk b (BData (VDict m))"
proof -
  have kinds: "(pack_value pk = pack_value PackJson) = (pk = PackJson)"
    "(pack_value pk = pack_value PackMsgpack) = (pk = PackMsgpack)"
    by (cases pk; simp)+
  from pack [unfolded TxPageBody_pack_def em] obtain b
    where b: "(if pk = PackJson then (if m \<noteq> [] then json_dumps c (BData (VDict m)) else Inr [])
        else (if m \<noteq> [] then (case msgpack c of None \<Rightarrow> Inl NameError | Some (dumps, _) \<Rightarrow>
          dumps (BData (VDict m))) else Inr [])) = Inr b"
      and len: "length b \<le> MAX_MESSAGE_SIZE" and p': "p' = p\<lparr>pg_body := b\<rparr>"
    using pk by (cases pk) (auto simp: oitem_def rbind_eq_Inr split: if_splits)
  have "reads_body c' pk b (BData (VDict m))"
    unfolding reads_body_def
  proof (intro allI impI)
    fix q :: page
    assume q: "oget (pg_data q) ''pk'' = Some (VInt (pack_value pk)) \<and> pg_body q = b"
    have "(if b = [] then Inr EMPTY_BODY
         else if pk = PackJson then page_mapping (json_loads c' b)
         else case msgpack c' of None \<Rightarrow> Inl NameError | Some (_, loads) \<Rightarrow> page_mapping (loads b)) =
        Inr (BData (VDict m))"
    proof (cases "m = []")
      case True
      then show ?thesis using b by (auto simp: EMPTY_BODY_def split: if_splits)
    next
      case False
      then show ?thesis
        using b law by (cases pk) (auto simp: lane_law_def page_mapping_def)
    qed
    moreover have "RxPageBody_parse c' q =
        rbind (if b = [] then Inr EMPTY_BODY
         else if pk = PackJson then page_mapping (json_loads c' b)
         else case msgpack c' of None \<Rightarrow> Inl NameError | Some (_, loads) \<Rightarrow> page_mapping (loads b))
        (\<lambda>b. Inr (q\<lparr>pg_embody := b\<rparr>))"
      using q by (auto simp: RxPageBody_parse_def oitem_def pack_of_value)
    ultimately show "RxPageBody_parse c' q = Inr (q\<lparr>pg_embody := BData (VDict m)\<rparr>)"
      by (simp only: rbind_simps)
  qed
  with p' len show thesis by (rule that)
qed

section \<open>Collecting a book\<close>

text \<open>A computation on a state, as a function from the state to the result and the new state.\<close>

definition run_on :: "('s, 'a) eff \<Rightarrow> 's \<Rightarrow> ('s \<times> 'a) result" where
  "run_on m s = (case m s of (Inl e, _) \<Rightarrow> Inl e | (Inr x, s') \<Rightarrow> Inr (s', x))"

record lane_message =
  lm_kind :: pack_kind
  lm_pieces :: "bytes list"
  lm_body :: body

definition page_num :: "page \<Rightarrow> nat" where
  "page_num p = (case oget (pg_data p) ''pn'' of Some (VInt i) \<Rightarrow> nat i | _ \<Rightarrow> 0)"

definition is_section :: "codec \<Rightarrow> lane_message \<Rightarrow> page \<Rightarrow> bool" where
  "is_section c m p \<longleftrightarrow>
     reads_body c (lm_kind m) (concat (lm_pieces m)) (lm_body m) \<and> 1 < length (lm_pieces m) \<and>
     owf (pg_data p) \<and> oget (pg_data p) ''pk'' = Some (VInt (pack_value (lm_kind m))) \<and>
     oget (pg_data p) ''pc'' = Some (VInt (int (length (lm_pieces m)))) \<and>
     oget (pg_data p) ''pn'' = Some (VInt (int (page_num p))) \<and> page_num p < length (lm_pieces m) \<and>
     pg_body p = lm_pieces m ! page_num p"

definition book_holds :: "lane_message \<Rightarrow> rxbook \<Rightarrow> nat set \<Rightarrow> bool" where
  "book_holds m b S \<longleftrightarrow>
     S \<subseteq> {..<length (lm_pieces m)} \<and> \<not> rb_complete b \<and> owf (rb_data b) \<and>
     ((S = {} \<and> rb_sections b = []) \<or>
      (rb_sections b = filled (lm_pieces m) S \<and>
       oget (rb_data b) ''pk'' = Some (VInt (pack_value (lm_kind m)))))"

lemma RxBook_parse_section:
  assumes p: "is_section c m p" and b: "book_holds m b S"
  obtains b3 where "rb_sections b3 = filled (lm_pieces m) (insert (page_num p) S)" "\<not> rb_complete b3"
    "owf (rb_data b3)" "oget (rb_data b3) ''pk'' = Some (VInt (pack_value (lm_kind m)))"
    "RxBook_parse c p b =
       (if None \<in> set (rb_sections b3) then eret None
        else ebind (RxBook_desectionize c) (\<lambda>body.
             ethen (emod (\<lambda>b. b\<lparr>rb_body := Some body\<rparr>)) (eret (Some body)))) b3"
proof -
  let ?n = "length (lm_pieces m)" let ?i = "page_num p"
  define b2 where "b2 = (if rb_sections b = []
      then b\<lparr>rb_data := oupdate (rb_data b) (pg_data p), rb_sections := replicate ?n None\<rparr> else b)"
  have n: "?n \<noteq> 0" "1 < ?n" "?i < ?n" using p by (auto simp: is_section_def)
  have slots: "rb_sections b = filled (lm_pieces m) S \<or> (rb_sections b = [] \<and> S = {})"
    using b by (auto simp: book_holds_def)
  moreover have "filled (lm_pieces m) S \<noteq> []" using n by (auto simp: filled_def)
  ultimately have b2: "rb_sections b2 = filled (lm_pieces m) S"
    by (auto simp: b2_def filled_empty)
  have place: "place_piece (rb_sections b2) (int ?n) (int ?i) (pg_body p) =
      Inr (filled (lm_pieces m) (insert ?i S))"
    using place_filled [OF n(3), of "rb_sections b2" S] b2 p by (simp add: is_section_def)
  have first: "(if rb_sections b = []
      then b\<lparr>rb_data := oupdate (rb_data b) (pg_data p), rb_sections := replicate (nat (int ?n)) None\<rparr>
      else b) = b2" by (simp add: b2_def)
  define b3 where "b3 = b2\<lparr>rb_sections := filled (lm_pieces m) (insert ?i S)\<rparr>"
  have "oget (rb_data b2) ''pk'' = Some (VInt (pack_value (lm_kind m)))"
    using b p by (auto simp: b2_def book_holds_def is_section_def oget_oupdate filled_def)
  then have "oget (rb_data b3) ''pk'' = Some (VInt (pack_value (lm_kind m)))" by (simp add: b3_def)
  moreover have "\<not> rb_complete b3" "owf (rb_data b3)"
    using b by (simp_all add: b3_def b2_def book_holds_def)
  moreover have "paginated (pg_data p) = Inr True"
    using p n by (simp add: paginated_def is_section_def oget_or_def)
  moreover have "page_int (pg_data p) ''pc'' = Inr (int ?n)" "page_int (pg_data p) ''pn'' = Inr (int ?i)"
    using p by (simp_all add: page_int_def is_section_def oitem_def)
  ultimately show thesis
    using place by (intro that [of b3]) (simp_all add: RxBook_parse_def run_simps first b3_def)
qed

lemma RxBook_desectionize_filled:
  assumes "reads_body c (lm_kind m) (concat (lm_pieces m)) (lm_body m)"
    and "oget (rb_data b) ''pk'' = Some (VInt (pack_value (lm_kind m)))" and "owf (rb_data b)"
    and "rb_sections b = filled (lm_pieces m) S" and "{..<length (lm_pieces m)} \<subseteq> S"
  shows "\<exists>b'. RxBook_desectionize c b = (Inr (lm_body m), b') \<and> rb_complete b'"
proof -
  let ?p = "(RxPage_init (rb_data b) [])\<lparr>pg_body := concat (lm_pieces m)\<rparr>"
  have "oget (pg_data ?p) ''pk'' = Some (VInt (pack_value (lm_kind m)))"
    using assms(2,3) by (simp add: RxPage_init_def Page_init_def oget_oupdate)
  then have "RxPageBody_parse c ?p = Inr (?p\<lparr>pg_embody := lm_body m\<rparr>)"
    using assms(1) by (simp add: reads_body_def)
  then show ?thesis
    using joined_filled [OF assms(5)] assms(4) by (simp add: RxBook_desectionize_def run_simps)
qed

text \<open>One page: the book goes on, or it is complete and holds the message.\<close>

lemma RxBook_parse_step:
  assumes p: "is_section c m p" and b: "book_holds m b S"
  shows "insert (page_num p) S \<noteq> {..<length (lm_pieces m)} \<Longrightarrow>
      \<exists>b'. RxBook_parse c p b = (Inr None, b') \<and> book_holds m b' (insert (page_num p) S)"
    and "insert (page_num p) S = {..<length (lm_pieces m)} \<Longrightarrow>
      \<exists>b'. RxBook_parse c p b = (Inr (Some (lm_body m)), b') \<and> rb_complete b' \<and>
        rb_body b' = Some (lm_body m)"
proof -
  obtain b3 where b3: "rb_sections b3 = filled (lm_pieces m) (insert (page_num p) S)"
    "\<not> rb_complete b3" "owf (rb_data b3)"
    "oget (rb_data b3) ''pk'' = Some (VInt (pack_value (lm_kind m)))"
    and parse: "RxBook_parse c p b =
       (if None \<in> set (rb_sections b3) then eret None
        else ebind (RxBook_desectionize c) (\<lambda>body.
             ethen (emod (\<lambda>b. b\<lparr>rb_body := Some body\<rparr>)) (eret (Some body)))) b3"
    by (rule RxBook_parse_section [OF p b])
  have sub: "insert (page_num p) S \<subseteq> {..<length (lm_pieces m)}"
    using p b by (auto simp: is_section_def book_holds_def)
  show "\<exists>b'. RxBook_parse c p b = (Inr None, b') \<and> book_holds m b' (insert (page_num p) S)"
    if "insert (page_num p) S \<noteq> {..<length (lm_pieces m)}"
    using that sub b3 parse by (auto simp: filled_complete book_holds_def run_simps)
  show "\<exists>b'. RxBook_parse c p b = (Inr (Some (lm_body m)), b') \<and> rb_complete b' \<and>
      rb_body b' = Some (lm_body m)" if full: "insert (page_num p) S = {..<length (lm_pieces m)}"
  proof -
    have "reads_body c (lm_kind m) (concat (lm_pieces m)) (lm_body m)"
      using p by (simp add: is_section_def)
    from RxBook_desectionize_filled [OF this b3(4,3,1)] full obtain b'
      where "RxBook_desectionize c b3 = (Inr (lm_body m), b')" "rb_complete b'" by auto
    moreover have "None \<notin> set (rb_sections b3)" by (simp add: b3(1) filled_complete full)
    ultimately show ?thesis by (simp add: parse run_simps)
  qed
qed

interpretation book: collector "\<lambda>b p. run_on (RxBook_parse c p) b" "book_holds m" "is_section c m"
  page_num "length (lm_pieces m)" "lm_body m" for c m
proof
  fix b S p
  assume h: "book_holds m b S" "is_section c m p"
  show "\<exists>b'. run_on (RxBook_parse c p) b = Inr (b', None) \<and> book_holds m b' (insert (page_num p) S)"
    if "insert (page_num p) S \<noteq> {..<length (lm_pieces m)}"
    using RxBook_parse_step(1) [OF h(2,1) that] by (auto simp: run_on_def)
  show "\<exists>b'. run_on (RxBook_parse c p) b = Inr (b', Some (lm_body m))"
    if "insert (page_num p) S = {..<length (lm_pieces m)}"
    using RxBook_parse_step(2) [OF h(2,1) that] by (auto simp: run_on_def)
qed

lemma RxBook_init_holds: "book_holds m (RxBook_init data) {}"
  by (simp add: book_holds_def RxBook_init_def PAGE_DEFAULTS_owf owf_oupdate)

section \<open>The pages of a message\<close>

lemma list_all_oset: "list_all P d \<Longrightarrow> P (k, v) \<Longrightarrow> list_all P (oset k v d)"
  by (induction d) auto

lemma page_ready_oset:
  assumes "page_ready d" and "k = ''pn'' \<or> k = ''pc''" and "0 \<le> i"
  shows "page_ready (oset k (VInt i) d)"
proof -
  have "ohas d k" using assms(1,2) by (auto simp: page_ready_def ohas_def PAGE_FIELDS_def)
  moreover have "page_pair (k, VInt i)" using assms(2,3) by (auto simp: page_pair_def NUMBER_FIELDS_def)
  ultimately show ?thesis
    using assms(1) by (simp add: page_ready_def okeys_oset_present list_all_oset)
qed

lemma page_head_oset_length:
  assumes "oget d k = Some v" and "length (page_text (k, v)) = length (page_text (k, w))"
  shows "length (page_head (oset k w d)) = length (page_head d)"
proof -
  have "map (length \<circ> page_line_of) (oset k w d) = map (length \<circ> page_line_of) d"
    using assms by (induction d) (auto simp: page_line_of_def split: if_splits)
  moreover from this have "length (oset k w d) = length d" by (metis length_map)
  ultimately show ?thesis by (simp add: page_head_def join_with_length)
qed

lemma page_number_text: "0 \<le> i \<Longrightarrow> i < 65536 \<Longrightarrow> k = ''pn'' \<or> k = ''pc'' \<Longrightarrow>
    length (page_text (k, VInt i)) = 4"
  using fmt_hex_length_eq [of i 4] by auto

text \<open>The data of page \<open>i\<close> of \<open>n\<close>.\<close>

definition numbered :: "hdata \<Rightarrow> int \<Rightarrow> int \<Rightarrow> hdata" where
  "numbered d i n = oset ''pc'' (VInt n) (oset ''pn'' (VInt i) d)"

lemma numbered_facts:
  assumes "page_ready d" and "0 \<le> i" and "0 \<le> n"
  shows "page_ready (numbered d i n)" "oget (numbered d i n) ''pn'' = Some (VInt i)"
    "oget (numbered d i n) ''pc'' = Some (VInt n)" "oget (numbered d i n) ''pk'' = oget d ''pk''"
  using assms by (simp_all add: numbered_def page_ready_oset)

lemma numbered_length:
  assumes "oget d ''pn'' = Some (VInt 0)" and "oget d ''pc'' = Some (VInt 1)"
    and "0 \<le> i" "i < 65536" "0 \<le> n" "n < 65536"
  shows "length (page_head (numbered d i n)) = length (page_head d)"
proof -
  have "length (page_head (oset ''pn'' (VInt i) d)) = length (page_head d)"
    by (rule page_head_oset_length [OF assms(1)]) (use assms in \<open>simp add: page_number_text del: page_text.simps\<close>)
  moreover have "length (page_head (numbered d i n)) = length (page_head (oset ''pn'' (VInt i) d))"
    unfolding numbered_def
    by (rule page_head_oset_length [of _ _ "VInt 1"])
      (use assms in \<open>simp_all add: page_number_text del: page_text.simps\<close>)
  ultimately show ?thesis by simp
qed

lemma section_page_ready:
  assumes "page_ready d" and "0 \<le> i" and "0 \<le> n"
  shows "\<exists>p. section_page c d part i n = Inr p \<and> pg_packed p = page_head (numbered d i n) @ part"
  using numbered_facts(1) [OF assms] page_ready_defaults [OF numbered_facts(1) [OF assms]]
  by (simp add: section_page_def numbered_def [symmetric] Page_init_def TxPageHead_pack_ready)

text \<open>What \<open>TxBook.pack\<close> makes of a message: one page with its body, or a page for each piece of it.\<close>

definition lane_pages :: "hdata \<Rightarrow> bytes list \<Rightarrow> bytes list" where
  "lane_pages d ps =
     map (\<lambda>i. page_head (numbered d (int i) (int (length ps))) @ ps ! i) [0..<length ps]"

lemma TxBook_pack_pages:
  assumes d: "d = oupdate PAGE_DEFAULTS data" "page_ready d"
    and pk: "oget d ''pk'' = Some (VInt (pack_value pk))"
    and one: "oget d ''pn'' = Some (VInt 0)" "oget d ''pc'' = Some (VInt 1)"
    and law: "lane_law c c' pk m" and short: "length (page_head d) \<le> 60000"
    and pack: "TxBook_pack c (TxBook_init data (BData (VDict m))) [] None = Inr b'"
  obtains ps where "map pg_packed (tb_pages b') = lane_pages d ps" "ps \<noteq> []"
    "reads_body c' pk (concat ps) (BData (VDict m))" "\<forall>q \<in> set (lane_pages d ps). length q \<le> 65535"
proof -
  let ?p0 = "Page_init d (BData (VDict m))"
  have dd: "oupdate PAGE_DEFAULTS d = d" by (rule page_ready_defaults [OF d(2)])
  have p0: "pg_data ?p0 = d" "pg_embody ?p0 = BData (VDict m)"
    by (simp_all add: Page_init_def dd)
  let ?p1 = "?p0\<lparr>pg_head := page_head d\<rparr>"
  have head: "TxPageHead_pack c ?p0 = Inr ?p1"
    using TxPageHead_pack_ready [of ?p0 c] d(2) p0 by simp
  from pack obtain p2 where p2: "TxPageBody_pack c ?p1 = Inr p2"
    and rest: "(let b2 = (TxBook_init data (BData (VDict m)))\<lparr>tb_pages := [], tb_packed := pg_body p2\<rparr> in
       if pg_size (p2\<lparr>pg_packed := pg_head p2 @ pg_body p2\<rparr>) \<le> UXD_MAX_PACKET_SIZE
       then Inr (b2\<lparr>tb_pages := [p2\<lparr>pg_packed := pg_head p2 @ pg_body p2\<rparr>]\<rparr>)
       else TxBook_paginate c b2 (length (pg_head p2))) = Inr b'"
    unfolding TxBook_pack_def TxPage_prepack_def
    by (auto simp: TxBook_init_def Let_def d(1) [symmetric] head rbind_eq_Inr cong del: if_weak_cong)
  obtain body where body: "p2 = ?p1\<lparr>pg_body := body\<rparr>" "length body \<le> MAX_MESSAGE_SIZE"
    "reads_body c' pk body (BData (VDict m))"
    by (rule TxPageBody_pack_reads [OF law _ _ p2]) (use p0 pk in simp_all)
  let ?h = "length (page_head d)"
  show thesis
  proof (cases "?h + length body \<le> 65535")
    case True
    have "numbered d 0 1 = d"
      using one by (simp add: numbered_def oset_same)
    moreover have "map pg_packed (tb_pages b') = [page_head d @ body]"
      using rest True by (auto simp: body(1) pg_size_def size_limits Let_def split: if_splits)
    ultimately show thesis
      using True body(3) by (intro that [of "[body]"]) (simp_all add: lane_pages_def)
  next
    case False
    define n where "n = 65535 - (?h + 2)"
    have n: "0 < n" "int 65535 - int (?h + 2) = int n" using short by (simp_all add: n_def)
    have "TxBook_paginate c ((TxBook_init data (BData (VDict m)))\<lparr>tb_pages := [], tb_packed := body\<rparr>) ?h = Inr b'"
      using rest False by (simp add: body(1) pg_size_def size_limits Let_def)
    then obtain count pgs where count: "piece_count (int (length body)) (int n) = Inr count"
      and pgs: "mapM (\<lambda>i. section_page c d (piece body (int n) count (int i)) (int i) count)
          [0..<nat count] = Inr pgs" "tb_pages b' = pgs"
      using n(2) by (auto simp: TxBook_paginate_def size_limits Let_def TxBook_init_def
          d(1) [symmetric] rbind_eq_Inr)
    note bounds = piece_count_bounds [OF count n(1)]
    define k where "k = nat count"
    have k: "count = int k" using bounds(1) by (simp add: k_def)
    let ?ps = "pieces body (int n) count"
    have len: "length ?ps = k" by (simp add: k_def)
    have big: "n < length body" using False short by (simp add: n_def)
    have "1 < k"
    proof (rule ccontr)
      assume "\<not> 1 < k"
      then have "int k * int n \<le> int n" using n(1) by (cases k) auto
      then show False using bounds(2) big unfolding k by simp
    qed
    have "k < 65536"
    proof -
      have "(int k - 1) * int n < 67107840"
        using bounds(3) body(2) gr_implies_not0 [OF big] unfolding k size_limits by linarith
      moreover have "(int k - 1) * 5533 \<le> (int k - 1) * int n"
        using \<open>1 < k\<close> short by (intro mult_left_mono) (simp_all add: n_def)
      ultimately have "(int k - 1) * 5533 < 67107840" by (rule le_less_trans [rotated])
      then show ?thesis by simp
    qed
    have packed: "map pg_packed (tb_pages b') = lane_pages d ?ps"
    proof (rule nth_equalityI)
      show l: "length (map pg_packed (tb_pages b')) = length (lane_pages d ?ps)"
        using mapM_Inr_length [OF pgs(1)] pgs(2) by (simp add: lane_pages_def)
      fix i
      assume "i < length (map pg_packed (tb_pages b'))"
      then have i: "i < nat count" using l by (simp add: lane_pages_def)
      then have "section_page c d (?ps ! i) (int i) count = Inr (tb_pages b' ! i)"
        using mapM_Inr_nth [OF pgs(1), of i] pgs(2) by (simp add: pieces_nth)
      moreover obtain p where "section_page c d (?ps ! i) (int i) count = Inr p"
        "pg_packed p = page_head (numbered d (int i) count) @ ?ps ! i"
        using section_page_ready [OF d(2), of "int i" count c] bounds(1) by auto
      ultimately show "map pg_packed (tb_pages b') ! i = lane_pages d ?ps ! i"
        using i l bounds(1) by (simp add: lane_pages_def)
    qed
    have fits: "length q \<le> 65535" if q: "q \<in> set (lane_pages d ?ps)" for q
    proof -
      from q obtain i where i: "i < k" "q = page_head (numbered d (int i) (int k)) @ ?ps ! i"
        unfolding lane_pages_def len by auto
      then have "length (?ps ! i) \<le> n"
        using piece_length [OF count n(1), of i] by (simp add: k_def)
      moreover have "length (page_head (numbered d (int i) (int k))) = ?h"
        using i \<open>k < 65536\<close> by (intro numbered_length one) auto
      ultimately show ?thesis using n by (simp add: i(2))
    qed
    have "concat ?ps = body" by (rule pieces_concat [OF count n(1)])
    moreover have "?ps \<noteq> []" using len \<open>1 < k\<close> by (metis list.size(3) not_one_less_zero)
    ultimately show thesis
      using packed fits body(3) by (intro that [of ?ps]) auto
  qed
qed

text \<open>Received in any order, the pages give the message.\<close>

lemma page_section:
  assumes d: "page_ready d" "oget d ''pk'' = Some (VInt (pack_value pk))"
    and ps: "reads_body c pk (concat ps) m" "1 < length ps" "i < length ps"
  shows "\<exists>p. RxPageHead_parse c (RxPage_init [] (lane_pages d ps ! i)) = Inr p \<and>
    is_section c \<lparr>lm_kind = pk, lm_pieces = ps, lm_body = m\<rparr> p \<and> page_num p = i \<and>
    pg_data p = numbered d (int i) (int (length ps)) \<and> pg_body p = ps ! i"
proof -
  let ?d = "numbered d (int i) (int (length ps))"
  have facts: "page_ready ?d" "oget ?d ''pn'' = Some (VInt (int i))"
    "oget ?d ''pc'' = Some (VInt (int (length ps)))" "oget ?d ''pk'' = Some (VInt (pack_value pk))"
    using numbered_facts [OF d(1), of "int i" "int (length ps)"] d(2) by auto
  have "lane_pages d ps ! i = page_head ?d @ ps ! i" using ps(3) by (simp add: lane_pages_def)
  then show ?thesis
    using parse_page_head [OF facts(1), of c "ps ! i"] facts ps page_ready_owf [OF facts(1)]
    by (simp add: is_section_def page_num_def)
qed

lemma single_page:
  assumes d: "page_ready d" "oget d ''pk'' = Some (VInt (pack_value pk))"
    and one: "oget d ''pn'' = Some (VInt 0)" "oget d ''pc'' = Some (VInt 1)"
    and b: "reads_body c pk b m"
  shows "lane_pages d [b] = [page_head d @ b]"
    and "\<exists>p. RxPageHead_parse c (RxPage_init [] (page_head d @ b)) = Inr p \<and>
      pg_data p = d \<and> paginated (pg_data p) = Inr False \<and>
      RxPageBody_parse c p = Inr (p\<lparr>pg_embody := m\<rparr>)"
proof -
  have "numbered d 0 1 = d" using one by (simp add: numbered_def oset_same)
  then show "lane_pages d [b] = [page_head d @ b]" by (simp add: lane_pages_def)
  show "\<exists>p. RxPageHead_parse c (RxPage_init [] (page_head d @ b)) = Inr p \<and>
      pg_data p = d \<and> paginated (pg_data p) = Inr False \<and>
      RxPageBody_parse c p = Inr (p\<lparr>pg_embody := m\<rparr>)"
    using parse_page_head [OF d(1), of c b] d(2) one b
    by (simp add: paginated_def oget_or_def reads_body_def)
qed

lemma mapM_nth_exists:
  "(\<forall>i < length xs. \<exists>y. f (xs ! i) = Inr y \<and> P i y) \<Longrightarrow>
   \<exists>ys. mapM f xs = Inr ys \<and> length ys = length xs \<and> (\<forall>i < length xs. P i (ys ! i))"
proof (induction xs arbitrary: P)
  case (Cons x xs)
  obtain y where y: "f x = Inr y" "P 0 y" using Cons.prems by force
  have "\<forall>i < length xs. \<exists>y. f (xs ! i) = Inr y \<and> P (Suc i) y" using Cons.prems by force
  from Cons.IH [OF this] obtain ys where ys: "mapM f xs = Inr ys" "length ys = length xs"
    "\<forall>i < length xs. P (Suc i) (ys ! i)" by blast
  have "\<forall>i < length (x # xs). P i ((y # ys) ! i)" using y ys by (auto simp: nth_Cons split: nat.split)
  with y ys show ?case by (intro exI [of _ "y # ys"]) simp
qed simp

text \<open>
  C26: A message given to \<open>TxBook.pack\<close> goes out as one page or as the pages of a book, none
  longer than the transport takes, and the receiver reads the head of each. Given to
  \<open>RxBook.parse\<close> in any order, repeated or not, the pages yield the message that was packed, and
  they yield nothing as long as one is missing.
\<close>

theorem book_any_order:
  assumes d: "d = oupdate PAGE_DEFAULTS data" "page_ready d"
    and pk: "oget d ''pk'' = Some (VInt (pack_value pk))"
    and one: "oget d ''pn'' = Some (VInt 0)" "oget d ''pc'' = Some (VInt 1)"
    and law: "lane_law c c' pk m" and short: "length (page_head d) \<le> 60000"
    and pack: "TxBook_pack c (TxBook_init data (BData (VDict m))) [] None = Inr b'"
  shows "\<exists>rs. mapM (\<lambda>q. RxPageHead_parse c' (RxPage_init [] (pg_packed q))) (tb_pages b') = Inr rs \<and>
      (\<forall>q \<in> set (tb_pages b'). pg_size q \<le> UXD_MAX_PACKET_SIZE) \<and>
      (\<forall>ps. set ps = set rs \<longrightarrow>
         (\<exists>st. feed (\<lambda>b p. run_on (RxBook_parse c' p) b) (RxBook_init rdata) ps =
            Inr (st, Some (BData (VDict m))))) \<and>
      (\<forall>ps. set ps \<subset> set rs \<longrightarrow>
         (\<exists>st. feed (\<lambda>b p. run_on (RxBook_parse c' p) b) (RxBook_init rdata) ps = Inr (st, None)))"
proof -
  obtain ps where packed: "map pg_packed (tb_pages b') = lane_pages d ps" and ps: "ps \<noteq> []"
    and reads: "reads_body c' pk (concat ps) (BData (VDict m))"
    and fits: "\<forall>q \<in> set (lane_pages d ps). length q \<le> 65535"
    by (rule TxBook_pack_pages [OF d pk one law short pack])
  have "length (map pg_packed (tb_pages b')) = length (lane_pages d ps)" by (simp only: packed)
  then have len: "length (tb_pages b') = length ps" by (simp add: lane_pages_def)
  have nth: "pg_packed (tb_pages b' ! i) = lane_pages d ps ! i" if "i < length ps" for i
    using packed that len by (metis nth_map)
  have small: "\<forall>q \<in> set (tb_pages b'). pg_size q \<le> UXD_MAX_PACKET_SIZE"
  proof
    fix q
    assume "q \<in> set (tb_pages b')"
    then have "pg_packed q \<in> set (map pg_packed (tb_pages b'))" by simp
    then show "pg_size q \<le> UXD_MAX_PACKET_SIZE"
      using fits unfolding packed by (simp add: pg_size_def size_limits)
  qed
  let ?parse = "\<lambda>q. RxPageHead_parse c' (RxPage_init [] (pg_packed q))"
  let ?feed = "feed (\<lambda>b p. run_on (RxBook_parse c' p) b) (RxBook_init rdata)"
  show ?thesis
  proof (cases "length ps = 1")
    case True
    then obtain b where b: "ps = [b]" by (cases ps) auto
    from single_page [OF d(2) pk one, of c' b] reads b obtain p
      where p: "RxPageHead_parse c' (RxPage_init [] (page_head d @ b)) = Inr p"
        "paginated (pg_data p) = Inr False"
        "RxPageBody_parse c' p = Inr (p\<lparr>pg_embody := BData (VDict m)\<rparr>)"
        and pages: "lane_pages d [b] = [page_head d @ b]" by auto
    obtain q where q: "tb_pages b' = [q]" "pg_packed q = page_head d @ b"
      using packed b pages by auto
    have "\<exists>b2. run_on (RxBook_parse c' p) bk = Inr (b2, Some (BData (VDict m)))" for bk
      using p(2,3) by (simp add: RxBook_parse_def run_on_def run_simps)
    then have all: "\<forall>l. set l = set [p] \<longrightarrow> (\<exists>st. ?feed l = Inr (st, Some (BData (VDict m))))"
      by (intro allI impI feed_whole [where r = p]) simp_all
    have "l = []" if "set l \<subset> {p}" for l :: "page list" using that by (cases l) auto
    then have none: "\<forall>l. set l \<subset> set [p] \<longrightarrow> (\<exists>st. ?feed l = Inr (st, None))" by fastforce
    have "mapM ?parse (tb_pages b') = Inr [p]" using p(1) by (simp add: q)
    with small all none show ?thesis by blast
  next
    case False
    then have many: "1 < length ps" using ps by (cases ps) auto
    let ?m = "\<lparr>lm_kind = pk, lm_pieces = ps, lm_body = BData (VDict m)\<rparr>"
    have "\<forall>i < length (tb_pages b'). \<exists>p. ?parse (tb_pages b' ! i) = Inr p \<and>
        (is_section c' ?m p \<and> page_num p = i)"
      using page_section [OF d(2) pk reads many] nth len by metis
    from mapM_nth_exists [OF this] obtain rs where rs: "mapM ?parse (tb_pages b') = Inr rs"
      "length rs = length ps" "\<forall>i < length ps. is_section c' ?m (rs ! i) \<and> page_num (rs ! i) = i"
      using len by auto
    then have "\<forall>i < length (lm_pieces ?m). is_section c' ?m (rs ! i) \<and> page_num (rs ! i) = i"
      "length rs = length (lm_pieces ?m)" "rs \<noteq> []" using ps by auto
    from book.feed_set [OF RxBook_init_holds this] rs(1) small show ?thesis by auto
  qed
qed

definition sample_page_data :: hdata where
  "sample_page_data =
     [(''ri'', VStr ''RAET''), (''vn'', VInt 0), (''pk'', VInt 0), (''sn'', VStr ''alpha''),
      (''dn'', VStr ''beta''), (''si'', VStr ''00f3a1b2c3d4e5f607''), (''bi'', VInt 3),
      (''pn'', VInt 0), (''pc'', VInt 1)]"

theorem book_any_order_witness:
  "\<exists>b' rs. TxBook_pack sample_codec (TxBook_init sample_page_data (BData (VDict sample_dict))) [] None
        = Inr b' \<and>
     mapM (\<lambda>q. RxPageHead_parse sample_codec (RxPage_init [] (pg_packed q))) (tb_pages b') = Inr rs \<and>
     (\<exists>st. feed (\<lambda>b p. run_on (RxBook_parse sample_codec p) b) (RxBook_init []) (rs @ rs) =
        Inr (st, Some (BData (VDict sample_dict))))"
proof -
  have "case TxBook_pack sample_codec (TxBook_init sample_page_data (BData (VDict sample_dict))) [] None
      of Inr _ \<Rightarrow> True | Inl _ \<Rightarrow> False" by code_simp
  then obtain b' where b': "TxBook_pack sample_codec
      (TxBook_init sample_page_data (BData (VDict sample_dict))) [] None = Inr b'"
    by (auto split: sum.splits)
  have ready: "sample_page_data = oupdate PAGE_DEFAULTS sample_page_data" "page_ready sample_page_data"
    by (code_simp, simp add: page_ready_def sample_page_data_def PAGE_FIELDS_def page_pair_def
        NUMBER_FIELDS_def NAME_FIELDS_def no_blank_def)
  have pk: "oget sample_page_data ''pk'' = Some (VInt (pack_value PackJson))"
    "oget sample_page_data ''pn'' = Some (VInt 0)" "oget sample_page_data ''pc'' = Some (VInt 1)"
    by (simp_all add: sample_page_data_def)
  have law: "lane_law sample_codec sample_codec PackJson sample_dict"
    by (simp add: lane_law_def sample_codec_def sample_json_def)
  have "int (length (page_head sample_page_data)) \<le> 200" by code_simp
  then have short: "length (page_head sample_page_data) \<le> 60000" by simp
  from book_any_order [OF ready pk law short b'] obtain rs where
    rs: "mapM (\<lambda>q. RxPageHead_parse sample_codec (RxPage_init [] (pg_packed q))) (tb_pages b') = Inr rs"
    and all: "\<forall>ps. set ps = set rs \<longrightarrow> (\<exists>st. feed (\<lambda>b p. run_on (RxBook_parse sample_codec p) b)
        (RxBook_init []) ps = Inr (st, Some (BData (VDict sample_dict))))" by blast
  have "set (rs @ rs) = set rs" by simp
  with all have "\<exists>st. feed (\<lambda>b p. run_on (RxBook_parse sample_codec p) b) (RxBook_init []) (rs @ rs) =
      Inr (st, Some (BData (VDict sample_dict)))" by blast
  with b' rs show ?thesis by blast
qed

end
