(* ===== verification/Encoding.thy ===== *)
theory Encoding
  imports Effects Numerals
begin

text \<open>
  The encoders of raet/encoding.py, with what they use of Python's \<open>binascii\<close> and \<open>base64\<close>. An
  input that is not decoded raises \<open>binascii.Error\<close>, a \<open>ValueError\<close>.
\<close>

section \<open>Hexadecimal\<close>

definition hex_pair :: "char \<Rightarrow> string" where
  "hex_pair c = (let n = of_char c :: nat in [digit_char (n div 16), digit_char (n mod 16)])"

definition hexlify :: "bytes \<Rightarrow> bytes" where
  "hexlify s = concat (map hex_pair s)"

fun unhexlify :: "bytes \<Rightarrow> bytes result" where
  "unhexlify [] = Inr []"
| "unhexlify [c] = Inl ValueError"
| "unhexlify (a # b # s) =
     (case (digit_value a, digit_value b) of
        (Some m, Some n) \<Rightarrow> rbind (unhexlify s) (\<lambda>t. Inr (char_of (16 * m + n) # t))
      | _ \<Rightarrow> Inl ValueError)"

definition upper_char :: "char \<Rightarrow> char" where
  "upper_char c =
     (let n = of_char c :: nat in if 97 \<le> n \<and> n \<le> 122 then char_of (n - 32) else c)"

definition is_lower :: "char \<Rightarrow> bool" where
  "is_lower c \<longleftrightarrow> (let n = of_char c :: nat in 97 \<le> n \<and> n \<le> 122)"

section \<open>Base 32 and 64\<close>

definition B32 :: string where
  "B32 = ''ABCDEFGHIJKLMNOPQRSTUVWXYZ234567''"

definition B64 :: string where
  "B64 = ''ABCDEFGHIJKLMNOPQRSTUVWXYZabcdefghijklmnopqrstuvwxyz0123456789+/''"

definition PAD :: char where "PAD = CHR ''=''"

fun position :: "char \<Rightarrow> string \<Rightarrow> nat option" where
  "position c [] = None"
| "position c (x # xs) = (if x = c then Some 0 else map_option Suc (position c xs))"

fun b64encode :: "bytes \<Rightarrow> bytes" where
  "b64encode [] = []"
| "b64encode [a] =
     (let x = of_char a in [B64 ! (x div 4), B64 ! (x mod 4 * 16), PAD, PAD])"
| "b64encode [a, b] =
     (let x = of_char a; y = of_char b in
      [B64 ! (x div 4), B64 ! (x mod 4 * 16 + y div 16), B64 ! (y mod 16 * 4), PAD])"
| "b64encode (a # b # c # s) =
     (let x = of_char a; y = of_char b; z = of_char c in
      [B64 ! (x div 4), B64 ! (x mod 4 * 16 + y div 16), B64 ! (y mod 16 * 4 + z div 64), B64 ! (z mod 64)]
      @ b64encode s)"

text \<open>
  \<open>a2b_base64\<close>: \<open>quad\<close> is the place in a group of four, \<open>left\<close> the bits that are not yet put out and
  \<open>pads\<close> the number of pads in the group. Other characters are skipped; what follows a padded group
  is not read.
\<close>

fun b64_loop :: "nat \<Rightarrow> nat \<Rightarrow> nat \<Rightarrow> bytes \<Rightarrow> bytes result" where
  "b64_loop quad left pads [] = (if quad = 0 then Inr [] else Inl ValueError)"
| "b64_loop quad left pads (c # s) =
     (if c = PAD then
        if 2 \<le> quad then if 4 \<le> quad + pads + 1 then Inr [] else b64_loop quad left (pads + 1) s
        else b64_loop quad left pads s
      else case position c B64 of
        None \<Rightarrow> b64_loop quad left pads s
      | Some v \<Rightarrow>
          if quad = 0 then b64_loop 1 v 0 s
          else if quad = 1 then rbind (b64_loop 2 (v mod 16) 0 s) (\<lambda>t. Inr (char_of (left * 4 + v div 16) # t))
          else if quad = 2 then rbind (b64_loop 3 (v mod 4) 0 s) (\<lambda>t. Inr (char_of (left * 16 + v div 4) # t))
          else rbind (b64_loop 0 0 0 s) (\<lambda>t. Inr (char_of (left * 64 + v) # t)))"

definition b64decode :: "bytes \<Rightarrow> bytes result" where
  "b64decode s = b64_loop 0 0 0 s"

text \<open>\<open>int.from_bytes\<close> and \<open>to_bytes\<close>, for any base.\<close>

definition big_value :: "int \<Rightarrow> int list \<Rightarrow> int" where
  "big_value base = foldl (\<lambda>acc d. acc * base + d) 0"

fun big_digits :: "int \<Rightarrow> nat \<Rightarrow> int \<Rightarrow> int list" where
  "big_digits base 0 n = []"
| "big_digits base (Suc k) n = big_digits base k (n div base) @ [n mod base]"

text \<open>The pads of a last group of \<open>n\<close> bytes.\<close>

definition b32_pads :: "nat \<Rightarrow> nat" where
  "b32_pads n = (if n = 1 then 6 else if n = 2 then 4 else if n = 3 then 3 else if n = 4 then 1 else 0)"

definition b32_group :: "bytes \<Rightarrow> int list" where
  "b32_group q = big_digits 32 8 (big_value 256 (map of_char q @ replicate (5 - length q) 0))"

definition b32_char :: "int \<Rightarrow> char" where
  "b32_char v = B32 ! nat v"

function b32encode :: "bytes \<Rightarrow> bytes" where
  "b32encode s =
     (if s = [] then []
      else let q = take 5 s; pads = b32_pads (length q) in
        map b32_char (take (8 - pads) (b32_group q)) @ replicate pads PAD @ b32encode (drop 5 s))"
  by pat_completeness auto
termination by (relation "measure length") auto

declare b32encode.simps [simp del]

function b32_accs :: "int list \<Rightarrow> int list" where
  "b32_accs vs = (if vs = [] then [] else big_value 32 (take 8 vs) # b32_accs (drop 8 vs))"
  by pat_completeness auto
termination by (relation "measure length") auto

declare b32_accs.simps [simp del]

definition b32_bytes :: "int \<Rightarrow> bytes" where
  "b32_bytes acc = map char_of (big_digits 256 5 acc)"

definition b32_values :: "int list \<Rightarrow> nat \<Rightarrow> bytes" where
  "b32_values vs pads =
     (let accs = b32_accs vs in
      if pads \<noteq> 0 \<and> accs \<noteq> []
      then concat (map b32_bytes (butlast accs)) @ take ((43 - 5 * pads) div 8) (b32_bytes (last accs * 32 ^ pads))
      else concat (map b32_bytes accs))"

definition b32decode :: "bytes \<Rightarrow> bytes result" where
  "b32decode s =
     (if length s mod 8 \<noteq> 0 then Inl ValueError
      else
        let t = rev (dropWhile (\<lambda>c. c = PAD) (rev s)); pads = length s - length t in
        rbind (mapM (\<lambda>c. case position c B32 of None \<Rightarrow> Inl ValueError | Some v \<Rightarrow> Inr (int v)) t) (\<lambda>vs.
        if pads \<notin> {0, 1, 3, 4, 6} then Inl ValueError else Inr (b32_values vs pads)))"

section \<open>Encoders\<close>

datatype encoder = RawEncoder | HexEncoder | Base16Encoder | Base32Encoder | Base64Encoder

fun encode :: "encoder \<Rightarrow> bytes \<Rightarrow> bytes" where
  "encode RawEncoder data = data"
| "encode HexEncoder data = hexlify data"
| "encode Base16Encoder data = map upper_char (hexlify data)"
| "encode Base32Encoder data = b32encode data"
| "encode Base64Encoder data = b64encode data"

fun decode :: "encoder \<Rightarrow> bytes \<Rightarrow> bytes result" where
  "decode RawEncoder data = Inr data"
| "decode HexEncoder data = unhexlify data"
| "decode Base16Encoder data = (if list_ex is_lower data then Inl ValueError else unhexlify data)"
| "decode Base32Encoder data = b32decode data"
| "decode Base64Encoder data = b64decode data"

end
