(* ===== verification/Nacling.thy ===== *)
theory Nacling
  imports Encoding Packeting
begin

text \<open>
  Keys, signatures and encryption, raet/nacling.py. The primitives of libnacl are a parameter of the
  definitions, a record of functions over the state of its random source.
\<close>

section \<open>Keys\<close>

record 'r nacl =
  crypto_box_PUBLICKEYBYTES :: nat
  crypto_box_SECRETKEYBYTES :: nat
  crypto_box_NONCEBYTES :: nat
  crypto_sign_PUBLICKEYBYTES :: nat
  crypto_sign_SEEDBYTES :: nat
  crypto_sign_BYTES :: nat
  crypto_scalarmult_base :: "bytes \<Rightarrow> bytes result"
  crypto_box_beforenm :: "bytes \<Rightarrow> bytes \<Rightarrow> bytes result"
  crypto_box_afternm :: "bytes \<Rightarrow> bytes \<Rightarrow> bytes \<Rightarrow> bytes result"
  crypto_box_open_afternm :: "bytes \<Rightarrow> bytes \<Rightarrow> bytes \<Rightarrow> bytes result"
  crypto_sign_seed_keypair :: "bytes \<Rightarrow> (bytes \<times> bytes) result"
  crypto_sign :: "bytes \<Rightarrow> bytes \<Rightarrow> bytes result"
  crypto_sign_open :: "bytes \<Rightarrow> bytes \<Rightarrow> bytes result"
  randombytes :: "nat \<Rightarrow> 'r \<Rightarrow> bytes \<times> 'r"

definition random :: "'r nacl \<Rightarrow> nat \<Rightarrow> ('r, bytes) eff" where
  "random N n r = (case randombytes N n r of (b, r') \<Rightarrow> (Inr b, r'))"

datatype public_key = PublicKey (pub_bytes: bytes)
datatype verify_key = VerifyKey (ver_bytes: bytes)

record private_key =
  priv_bytes :: bytes
  priv_public :: public_key

record signing_key =
  sig_seed :: bytes
  sig_secret :: bytes
  sig_verify :: verify_key

definition PublicKey_init :: "'r nacl \<Rightarrow> bytes \<Rightarrow> encoder \<Rightarrow> public_key result" where
  "PublicKey_init N key enc =
     rbind (decode enc key) (\<lambda>k.
     if length k \<noteq> crypto_box_PUBLICKEYBYTES N then Inl ValueError else Inr (PublicKey k))"

definition PrivateKey_init :: "'r nacl \<Rightarrow> bytes \<Rightarrow> encoder \<Rightarrow> private_key result" where
  "PrivateKey_init N key enc =
     rbind (decode enc key) (\<lambda>k.
     if length k \<noteq> crypto_box_SECRETKEYBYTES N then Inl ValueError
     else rbind (crypto_scalarmult_base N k) (\<lambda>raw.
          rbind (PublicKey_init N raw RawEncoder) (\<lambda>pub.
          Inr \<lparr>priv_bytes = k, priv_public = pub\<rparr>)))"

definition PrivateKey_generate :: "'r nacl \<Rightarrow> ('r, private_key) eff" where
  "PrivateKey_generate N =
     ebind (random N (crypto_box_SECRETKEYBYTES N)) (\<lambda>b. elift (PrivateKey_init N b RawEncoder))"

definition VerifyKey_init :: "'r nacl \<Rightarrow> bytes \<Rightarrow> encoder \<Rightarrow> verify_key result" where
  "VerifyKey_init N key enc =
     rbind (decode enc key) (\<lambda>k.
     if length k \<noteq> crypto_sign_PUBLICKEYBYTES N then Inl ValueError else Inr (VerifyKey k))"

definition VerifyKey_verify ::
    "'r nacl \<Rightarrow> verify_key \<Rightarrow> bytes \<Rightarrow> bytes option \<Rightarrow> encoder \<Rightarrow> bytes result" where
  "VerifyKey_verify N key smessage signature enc =
     (let smessage' = (case signature of None \<Rightarrow> smessage | Some sg \<Rightarrow> sg @ smessage) in
      rbind (decode enc smessage') (\<lambda>sm. crypto_sign_open N sm (ver_bytes key)))"

definition SigningKey_init :: "'r nacl \<Rightarrow> bytes \<Rightarrow> encoder \<Rightarrow> signing_key result" where
  "SigningKey_init N seed enc =
     rbind (decode enc seed) (\<lambda>sd.
     if length sd \<noteq> crypto_sign_SEEDBYTES N then Inl ValueError
     else rbind (crypto_sign_seed_keypair N sd) (\<lambda>(pub, sec).
          rbind (VerifyKey_init N pub RawEncoder) (\<lambda>ver.
          Inr \<lparr>sig_seed = sd, sig_secret = sec, sig_verify = ver\<rparr>)))"

definition SigningKey_generate :: "'r nacl \<Rightarrow> ('r, signing_key) eff" where
  "SigningKey_generate N =
     ebind (random N (crypto_sign_SEEDBYTES N)) (\<lambda>b. elift (SigningKey_init N b RawEncoder))"

text \<open>A signed message and its two parts, each encoded.\<close>

record signed_message =
  sm_signature :: bytes
  sm_message :: bytes
  sm_combined :: bytes

definition SigningKey_sign :: "'r nacl \<Rightarrow> signing_key \<Rightarrow> bytes \<Rightarrow> encoder \<Rightarrow> signed_message result" where
  "SigningKey_sign N key message enc =
     rbind (crypto_sign N message (sig_secret key)) (\<lambda>raw.
     Inr \<lparr>sm_signature = encode enc (take (crypto_sign_BYTES N) raw),
          sm_message = encode enc (drop (crypto_sign_BYTES N) raw),
          sm_combined = encode enc raw\<rparr>)"

section \<open>Boxes\<close>

text \<open>A box is its shared key, absent in one made of no keys.\<close>

definition Box_init :: "'r nacl \<Rightarrow> (private_key \<times> public_key) option \<Rightarrow> bytes option result" where
  "Box_init N keys =
     (case keys of
        None \<Rightarrow> Inr None
      | Some (priv, pub) \<Rightarrow>
          rbind (crypto_box_beforenm N (encode RawEncoder (pub_bytes pub))
                   (encode RawEncoder (priv_bytes priv))) (\<lambda>k. Inr (Some k)))"

definition Box_decode :: "bytes \<Rightarrow> encoder \<Rightarrow> bytes option result" where
  "Box_decode encoded enc = rbind (decode enc encoded) (\<lambda>k. Inr (Some k))"

record encrypted_message =
  em_nonce :: bytes
  em_ciphertext :: bytes
  em_combined :: bytes

text \<open>libnacl raises \<open>TypeError\<close> when the shared key is \<open>None\<close>.\<close>

definition Box_encrypt ::
    "'r nacl \<Rightarrow> bytes option \<Rightarrow> bytes \<Rightarrow> bytes \<Rightarrow> encoder \<Rightarrow> encrypted_message result" where
  "Box_encrypt N box plaintext nonce enc =
     (if length nonce \<noteq> crypto_box_NONCEBYTES N then Inl ValueError
      else case box of
        None \<Rightarrow> Inl TypeError
      | Some k \<Rightarrow>
          rbind (crypto_box_afternm N plaintext nonce k) (\<lambda>c.
          Inr \<lparr>em_nonce = encode enc nonce, em_ciphertext = encode enc c,
               em_combined = encode enc (nonce @ c)\<rparr>))"

definition Box_decrypt ::
    "'r nacl \<Rightarrow> bytes option \<Rightarrow> bytes \<Rightarrow> bytes option \<Rightarrow> encoder \<Rightarrow> bytes result" where
  "Box_decrypt N box ciphertext nonce enc =
     rbind (decode enc ciphertext) (\<lambda>ct.
     let (n, c) = (case nonce of
           None \<Rightarrow> (take (crypto_box_NONCEBYTES N) ct, drop (crypto_box_NONCEBYTES N) ct)
         | Some n \<Rightarrow> (n, ct))
     in if length n \<noteq> crypto_box_NONCEBYTES N then Inl ValueError
        else case box of None \<Rightarrow> Inl TypeError | Some k \<Rightarrow> crypto_box_open_afternm N c n k)"

section \<open>Signer, verifier, publican and privateer\<close>

text \<open>The \<open>key\<close> argument: absent, the bytes of a key, or a key object.\<close>

datatype 'k key_arg = NoKey | KeyBytes bytes | KeyObject 'k

text \<open>A key of 32 characters is raw, any other is taken to be hexadecimal.\<close>

definition key_encoder :: "bytes \<Rightarrow> encoder" where
  "key_encoder b = (if length b = 32 then RawEncoder else HexEncoder)"

definition key_of :: "(bytes \<Rightarrow> encoder \<Rightarrow> 'k result) \<Rightarrow> 'k key_arg \<Rightarrow> 'k option result" where
  "key_of init a =
     (case a of
        NoKey \<Rightarrow> Inr None
      | KeyBytes b \<Rightarrow> if b = [] then Inr None else rbind (init b (key_encoder b)) (Inr \<circ> Some)
      | KeyObject k \<Rightarrow> Inr (Some k))"

record signer =
  sr_key :: signing_key
  sr_keyhex :: bytes
  sr_keyraw :: bytes
  sr_verhex :: bytes
  sr_verraw :: bytes

definition signer_of :: "signing_key \<Rightarrow> signer" where
  "signer_of k =
     \<lparr>sr_key = k, sr_keyhex = encode HexEncoder (sig_seed k), sr_keyraw = encode RawEncoder (sig_seed k),
      sr_verhex = encode HexEncoder (ver_bytes (sig_verify k)),
      sr_verraw = encode RawEncoder (ver_bytes (sig_verify k))\<rparr>"

definition Signer_init :: "'r nacl \<Rightarrow> signing_key key_arg \<Rightarrow> ('r, signer) eff" where
  "Signer_init N a =
     ebind (elift (key_of (SigningKey_init N) a)) (\<lambda>k.
     ebind (case k of None \<Rightarrow> SigningKey_generate N | Some key \<Rightarrow> eret key) (\<lambda>key.
     eret (signer_of key)))"

definition Signer_sign :: "'r nacl \<Rightarrow> signer \<Rightarrow> bytes \<Rightarrow> signed_message result" where
  "Signer_sign N s msg = SigningKey_sign N (sr_key s) msg RawEncoder"

definition Signer_signature :: "'r nacl \<Rightarrow> signer \<Rightarrow> bytes \<Rightarrow> bytes result" where
  "Signer_signature N s msg =
     rbind (SigningKey_sign N (sr_key s) msg RawEncoder) (\<lambda>sm. Inr (sm_signature sm))"

record verifier =
  vf_key :: "verify_key option"
  vf_keyhex :: bytes
  vf_keyraw :: bytes

definition Verifier_init :: "'r nacl \<Rightarrow> verify_key key_arg \<Rightarrow> verifier result" where
  "Verifier_init N a =
     rbind (key_of (VerifyKey_init N) a) (\<lambda>k.
     Inr (case k of
       None \<Rightarrow> \<lparr>vf_key = None, vf_keyhex = [], vf_keyraw = []\<rparr>
     | Some key \<Rightarrow> \<lparr>vf_key = Some key, vf_keyhex = encode HexEncoder (ver_bytes key),
                    vf_keyraw = encode RawEncoder (ver_bytes key)\<rparr>))"

text \<open>Only a \<open>ValueError\<close> means that the signature is bad; other exceptions go on.\<close>

definition Verifier_verify :: "'r nacl \<Rightarrow> verifier \<Rightarrow> bytes \<Rightarrow> bytes \<Rightarrow> bool result" where
  "Verifier_verify N v signature msg =
     (case vf_key v of
        None \<Rightarrow> Inr False
      | Some key \<Rightarrow>
          (case VerifyKey_verify N key (signature @ msg) None RawEncoder of
             Inl e \<Rightarrow> if e = ValueError then Inr False else Inl e
           | Inr _ \<Rightarrow> Inr True))"

record publican =
  pb_key :: "public_key option"
  pb_keyhex :: bytes
  pb_keyraw :: bytes

definition Publican_init :: "'r nacl \<Rightarrow> public_key key_arg \<Rightarrow> publican result" where
  "Publican_init N a =
     rbind (key_of (PublicKey_init N) a) (\<lambda>k.
     Inr (case k of
       None \<Rightarrow> \<lparr>pb_key = None, pb_keyhex = [], pb_keyraw = []\<rparr>
     | Some key \<Rightarrow> \<lparr>pb_key = Some key, pb_keyhex = encode HexEncoder (pub_bytes key),
                    pb_keyraw = encode RawEncoder (pub_bytes key)\<rparr>))"

record privateer =
  pv_key :: private_key
  pv_keyhex :: bytes
  pv_keyraw :: bytes
  pv_pubhex :: bytes
  pv_pubraw :: bytes

definition privateer_of :: "private_key \<Rightarrow> privateer" where
  "privateer_of k =
     \<lparr>pv_key = k, pv_keyhex = encode HexEncoder (priv_bytes k),
      pv_keyraw = encode RawEncoder (priv_bytes k),
      pv_pubhex = encode HexEncoder (pub_bytes (priv_public k)),
      pv_pubraw = encode RawEncoder (pub_bytes (priv_public k))\<rparr>"

definition Privateer_init :: "'r nacl \<Rightarrow> private_key key_arg \<Rightarrow> ('r, privateer) eff" where
  "Privateer_init N a =
     ebind (elift (key_of (PrivateKey_init N) a)) (\<lambda>k.
     ebind (case k of None \<Rightarrow> PrivateKey_generate N | Some key \<Rightarrow> eret key) (\<lambda>key.
     eret (privateer_of key)))"

definition Privateer_nonce :: "'r nacl \<Rightarrow> ('r, bytes) eff" where
  "Privateer_nonce N = random N (crypto_box_NONCEBYTES N)"

text \<open>The public key of the other side: \<open>None\<close> has no length.\<close>

definition peer_key :: "'r nacl \<Rightarrow> public_key key_arg \<Rightarrow> public_key result" where
  "peer_key N a =
     (case a of
        NoKey \<Rightarrow> Inl TypeError
      | KeyBytes b \<Rightarrow> PublicKey_init N b (key_encoder b)
      | KeyObject k \<Rightarrow> Inr k)"

definition Privateer_encrypt ::
    "'r nacl \<Rightarrow> privateer \<Rightarrow> bytes \<Rightarrow> public_key key_arg \<Rightarrow> bool \<Rightarrow> ('r, bytes \<times> bytes) eff" where
  "Privateer_encrypt N p msg pubkey enhex =
     ebind (elift (peer_key N pubkey)) (\<lambda>pub.
     ebind (elift (Box_init N (Some (pv_key p, pub)))) (\<lambda>box.
     ebind (Privateer_nonce N) (\<lambda>nonce.
     ebind (elift (Box_encrypt N box msg nonce (if enhex then HexEncoder else RawEncoder))) (\<lambda>em.
     eret (em_ciphertext em, em_nonce em)))))"

definition Privateer_decrypt ::
    "'r nacl \<Rightarrow> privateer \<Rightarrow> bytes \<Rightarrow> bytes \<Rightarrow> public_key key_arg \<Rightarrow> bool \<Rightarrow> bytes result" where
  "Privateer_decrypt N p cipher nonce pubkey dehex =
     rbind (peer_key N pubkey) (\<lambda>pub.
     rbind (Box_init N (Some (pv_key p, pub))) (\<lambda>box.
     let decoder = (if dehex then HexEncoder else RawEncoder) in
     rbind (if dehex \<and> length nonce \<noteq> crypto_box_NONCEBYTES N then decode decoder nonce
            else Inr nonce) (\<lambda>n.
     Box_decrypt N box cipher (Some n) decoder)))"

section \<open>Unique ids\<close>

text \<open>The time is in microseconds; a negative count of random bytes is refused.\<close>

definition uuid :: "'r nacl \<Rightarrow> int \<Rightarrow> int \<Rightarrow> ('r, string) eff" where
  "uuid N micros sz =
     (let n = max sz 16;
          front = fmt_hex 0 micros;
          extra = n - int (length front);
          count = extra div 2 + extra mod 2
      in if count < 0 then eraise ValueError
         else ebind (random N (nat count)) (\<lambda>b. eret (take (nat n) (front @ hexlify b))))"

end
