(* ===== verification/RoadState.thy ===== *)
theory RoadState
  imports KeepStacking RoadKeeping Nacling Traying
begin

text \<open>
  The state of a road stack, raet/road/stacking.py: what a \<open>KeepStack\<close> has, and the objects of the
  road, estates and transactions, that refer to each other. A transaction is a reference into
  \<open>rs_trans\<close>, a remote estate one into \<open>st_lots\<close> (its name, uid, host address and session id) and
  \<open>rs_remotes\<close> (the rest). Host addresses are pairs, \<open>VList [host, port]\<close>.

  What RAET takes from elsewhere is gathered in \<open>road_env\<close>: ioflo's timers and dictionaries, the
  resolver, the generator of names, libnacl, the serializers; with it the settings of the stack
  that do not change.
\<close>

section \<open>Environment\<close>

record 'r road_env =
  rv_keep :: roadkeep
  rv_codec :: codec
  rv_nacl :: "'r nacl"
  rv_main :: bool
  rv_mutable :: bool
  rv_period :: rat
  rv_offset :: rat
  rv_interim :: rat
  rv_burst :: int
  rv_joinent_timeout :: rat
  rv_insert_uid :: "(int, nat) inserter"
  rv_insert_name :: "(string, nat) inserter"
  rv_expired :: "timer \<Rightarrow> rat \<Rightarrow> bool"
  rv_visits :: "(int \<times> timer) list \<Rightarrow> (int \<times> timer) list"
  rv_getaddrinfo :: "bool \<Rightarrow> string \<Rightarrow> string list option"
  rv_getfqdn :: "string \<Rightarrow> string"
  rv_guid :: "nat \<Rightarrow> string"

section \<open>Objects\<close>

text \<open>
  The last packet that a transaction sent: one of its own, or a segment of its tray, which is the
  same object as in the tray.
\<close>

datatype sent_packet = OwnPacket txpacket | Segment nat

datatype trns_class =
    JoinerT | JoinentT | AllowerT | AllowentT | AliverT | AliventT | MessengerT | MessengentT

text \<open>A transaction, with the attributes of all classes.\<close>

record transaction =
  tr_class :: trns_class
  tr_remote :: nat
  tr_kind :: int
  tr_timeout :: rat
  tr_timer :: timer
  tr_rmt :: bool
  tr_bcst :: val
  tr_sid :: int
  tr_tid :: int
  tr_txData :: hdata
  tr_txPacket :: "sent_packet option"
  tr_rxPacket :: "rxpacket option"
  tr_redoTimeoutMin :: rat
  tr_redoTimeoutMax :: rat
  tr_redoTimer :: timer
  tr_cascade :: bool
  tr_vacuous :: bool
  tr_renewal :: bool
  tr_pended :: bool
  tr_oreo :: "bytes option"
  tr_burst :: int
  tr_misseds :: "nat list"
  tr_acked :: bool
  tr_tray :: txtray
  tr_wait :: val
  tr_lowest :: "int option"
  tr_rxtray :: rxtray

record estate =
  es_tid :: int
  es_iha :: val
  es_natted :: val
  es_fqdn :: string
  es_dyned :: val
  es_role :: string

record local_part = estate +
  lo_signer :: signer
  lo_priver :: privateer

record remote_part = estate +
  rm_transactions :: "(tindex, nat) odict"
  rm_doneTransactions :: "(int, timer) odict"
  rm_fuid :: int
  rm_main :: val
  rm_kind :: val
  rm_joined :: val
  rm_allowed :: "bool option"
  rm_alived :: "bool option"
  rm_reaped :: "bool option"
  rm_acceptance :: val
  rm_privee :: privateer
  rm_publee :: publican
  rm_verfer :: verifier
  rm_pubber :: publican
  rm_rsid :: int
  rm_timer :: timer
  rm_reapTimer :: timer
  rm_messages :: "body list"

type_synonym road_msg = "body \<times> int option \<times> rat option"

record 'r road_stack = "(val, road_msg) keep_stack" +
  rs_local :: local_part
  rs_remotes :: "nat \<Rightarrow> remote_part"
  rs_trans :: "nat \<Rightarrow> transaction"
  rs_newTrans :: nat
  rs_aha :: val
  rs_kind :: "int option"
  rs_joinees :: "(val, nat) odict"
  rs_alloweds :: "(string, nat) odict"
  rs_aliveds :: "(string, nat) odict"
  rs_reapeds :: "(string, nat) odict"
  rs_availables :: "string list"
  rs_changeds :: "string list \<times> string list"
  rs_rand :: 'r
  rs_guids :: nat

type_synonym ('r, 'a) road = "('r road_stack, 'a) eff"

section \<open>Access\<close>

definition rget :: "nat \<Rightarrow> (remote_part \<Rightarrow> 'a) \<Rightarrow> ('r, 'a) road" where
  "rget r f = eget (\<lambda>s. f (rs_remotes s r))"

definition rmod :: "nat \<Rightarrow> (remote_part \<Rightarrow> remote_part) \<Rightarrow> ('r, unit) road" where
  "rmod r f = emod (\<lambda>s. s\<lparr>rs_remotes := (rs_remotes s)(r := f (rs_remotes s r))\<rparr>)"

definition tget :: "nat \<Rightarrow> (transaction \<Rightarrow> 'a) \<Rightarrow> ('r, 'a) road" where
  "tget t f = eget (\<lambda>s. f (rs_trans s t))"

definition tmod :: "nat \<Rightarrow> (transaction \<Rightarrow> transaction) \<Rightarrow> ('r, unit) road" where
  "tmod t f = emod (\<lambda>s. s\<lparr>rs_trans := (rs_trans s)(t := f (rs_trans s t))\<rparr>)"

definition on_random :: "('r, 'a) eff \<Rightarrow> ('r, 'a) road" where
  "on_random m s = (case m (rs_rand s) of (x, r) \<Rightarrow> (x, s\<lparr>rs_rand := r\<rparr>))"

definition new_transaction :: "transaction \<Rightarrow> ('r, nat) road" where
  "new_transaction tr s =
     (Inr (rs_newTrans s),
      s\<lparr>rs_trans := (rs_trans s)(rs_newTrans s := tr), rs_newTrans := Suc (rs_newTrans s)\<rparr>)"

section \<open>Timers\<close>

text \<open>\<open>StoreTimer(store, duration)\<close> and \<open>restart\<close>, which keeps the duration unless one is given.\<close>

definition new_timer :: "rat \<Rightarrow> 'r road_stack \<Rightarrow> timer" where
  "new_timer d s = \<lparr>tm_start = st_stamp s, tm_duration = d\<rparr>"

definition restarted :: "rat option \<Rightarrow> 'r road_stack \<Rightarrow> timer \<Rightarrow> timer" where
  "restarted d s t =
     \<lparr>tm_start = st_stamp s, tm_duration = (case d of None \<Rightarrow> tm_duration t | Some x \<Rightarrow> x)\<rparr>"

section \<open>Sending and checking packets\<close>

text \<open>
  The keys that the packets of a stack are signed, sealed and opened with: its own signer, and for
  each remote the verifier and the short term keys.
\<close>

definition peer_public :: "remote_part \<Rightarrow> public_key key_arg" where
  "peer_public m = (case pb_key (rm_publee m) of None \<Rightarrow> NoKey | Some k \<Rightarrow> KeyObject k)"

definition remote_verify :: "'r nacl \<Rightarrow> remote_part \<Rightarrow> bytes \<Rightarrow> bytes \<Rightarrow> bool" where
  "remote_verify N m sg msg \<longleftrightarrow> Verifier_verify N (rm_verfer m) sg msg = Inr True"

definition remote_encrypt :: "'r nacl \<Rightarrow> 'r \<Rightarrow> remote_part \<Rightarrow> bytes \<Rightarrow> (bytes \<times> bytes) result" where
  "remote_encrypt N rand m msg = fst (Privateer_encrypt N (rm_privee m) msg (peer_public m) False rand)"

definition remote_decrypt :: "'r nacl \<Rightarrow> remote_part \<Rightarrow> bytes \<Rightarrow> bytes \<Rightarrow> bytes result" where
  "remote_decrypt N m cipher nonce = Privateer_decrypt N (rm_privee m) cipher nonce (peer_public m) False"

definition remote_keys :: "'r road_env \<Rightarrow> 'r road_stack \<Rightarrow> nat \<Rightarrow> remote_crypt" where
  "remote_keys E s r =
     \<lparr>rc_verify = remote_verify (rv_nacl E) (rs_remotes s r),
      rc_encrypt = remote_encrypt (rv_nacl E) (rs_rand s) (rs_remotes s r),
      rc_decrypt = remote_decrypt (rv_nacl E) (rs_remotes s r)\<rparr>"

definition local_sign :: "'r nacl \<Rightarrow> signer \<Rightarrow> bytes \<Rightarrow> bytes" where
  "local_sign N sg m = (case Signer_signature N sg m of Inr b \<Rightarrow> b | Inl _ \<Rightarrow> [])"

definition road_codec :: "'r road_env \<Rightarrow> 'r road_stack \<Rightarrow> codec" where
  "road_codec E s =
     (rv_codec E)\<lparr>
       local_signature := local_sign (rv_nacl E) (lo_signer (rs_local s)),
       remotes_crypt := map (\<lambda>(uid, r). (uid, remote_keys E s r)) (st_uidRemotes s)\<rparr>"

text \<open>Sealing a packet takes a nonce from the random source.\<close>

definition take_nonce :: "'r road_env \<Rightarrow> codec \<Rightarrow> txpacket \<Rightarrow> ('r, unit) road" where
  "take_nonce E c p =
     (case TxBody_pack c p of
        Inl _ \<Rightarrow> eret ()
      | Inr p1 \<Rightarrow>
          if is_int (oget_or (tp_data p) ''ck'' VNone) (coat_value CkNacl) \<and> tp_body p1 \<noteq> []
          then ebind (on_random (Privateer_nonce (rv_nacl E))) (\<lambda>_. eret ())
          else eret ())"

text \<open>
  \<open>try: packet.pack() except PacketError\<close>: the failure is counted, other exceptions go on.
\<close>

definition count_packet_error :: "txpacket result \<Rightarrow> ('r, txpacket option) road" where
  "count_packet_error q =
     (case q of
        Inr p \<Rightarrow> eret (Some p)
      | Inl e \<Rightarrow>
          if is_packet_error e then ethen (incStat ''packing_error'' 1) (eret None) else eraise e)"

definition pack_packet :: "'r road_env \<Rightarrow> txpacket \<Rightarrow> ('r, txpacket option) road" where
  "pack_packet E p =
     ebind (eget (road_codec E)) (\<lambda>c.
     ethen (take_nonce E c p) (count_packet_error (TxPacket_pack c p)))"

definition make_packet :: "'r road_env \<Rightarrow> pckt_kind \<Rightarrow> body \<Rightarrow> hdata \<Rightarrow> ('r, txpacket option) road" where
  "make_packet E pk b data =
     ebind (elift (TxPacket_init data (Some (pckt_value pk)) b)) (pack_packet E)"

end
