(* ===== verification/Estating.thy ===== *)
theory Estating
  imports RoadState
begin

text \<open>
  Estates, raet/road/estating.py: their creation with normalised host addresses, ids of sessions and
  transactions, the table of the transactions of a remote, its presence and reaping, and the saved
  messages. What a remote calls on its stack or on its transactions is an argument here.
\<close>

section \<open>Creation\<close>

definition first_address :: "string list \<Rightarrow> string result" where
  "first_address info = (case info of [] \<Rightarrow> Inl EstateError | a # _ \<Rightarrow> Inr a)"

definition normalizeHost :: "'r road_env \<Rightarrow> string \<Rightarrow> string result" where
  "normalizeHost E host =
     (let h = (if host = [] then ''0.0.0.0'' else host) in
      case rv_getaddrinfo E False h of
        Some info \<Rightarrow> first_address info
      | None \<Rightarrow>
          (case rv_getaddrinfo E True (if h \<in> {'''', ''0.0.0.0''} then ''::'' else h) of
             None \<Rightarrow> Inl OSError
           | Some info \<Rightarrow> first_address info))"

definition loopback :: "string \<Rightarrow> string" where
  "loopback h =
     (if h = ''0.0.0.0'' then ''127.0.0.1''
      else if h = ''::'' \<or> h = ''0:0:0:0:0:0:0:0'' then ''::1'' else h)"

definition normal_ha :: "'r road_env \<Rightarrow> val \<Rightarrow> val result" where
  "normal_ha E ha =
     (if \<not> py_true ha then Inr ha
      else case ha of
        VList [VStr host, port] \<Rightarrow>
          rbind (normalizeHost E host) (\<lambda>h. Inr (VList [VStr (loopback h), port]))
      | VList xs \<Rightarrow> Inl (if length xs = 2 then TypeError else ValueError)
      | _ \<Rightarrow> Inl TypeError)"

definition full_name :: "'r road_env \<Rightarrow> string \<Rightarrow> string \<Rightarrow> ('r, string) road" where
  "full_name E prefix name s =
     (if name \<noteq> [] then (Inr name, s)
      else (Inr (prefix @ ''_'' @ rv_guid E (rs_guids s)), s\<lparr>rs_guids := Suc (rs_guids s)\<rparr>))"

definition ha_host :: "val \<Rightarrow> string" where
  "ha_host ha = (case ha of VList (VStr h # _) \<Rightarrow> h | _ \<Rightarrow> [])"

definition full_fqdn :: "'r road_env \<Rightarrow> string \<Rightarrow> val \<Rightarrow> string" where
  "full_fqdn E fqdn ha =
     (if py_true ha then (if fqdn \<noteq> [] then fqdn else rv_getfqdn E (ha_host ha)) else [])"

text \<open>The keyword arguments of \<open>RemoteEstate\<close>, and their defaults.\<close>

record remote_args =
  ra_name :: string
  ra_uid :: "int option"
  ra_ha :: val
  ra_iha :: val
  ra_natted :: val
  ra_fqdn :: string
  ra_dyned :: val
  ra_sid :: int
  ra_role :: "string option"
  ra_fuid :: int
  ra_main :: val
  ra_kind :: val
  ra_joined :: val
  ra_acceptance :: val
  ra_verkey :: string
  ra_pubkey :: string

definition remote_args :: "int \<Rightarrow> int \<Rightarrow> val \<Rightarrow> remote_args" where
  "remote_args fuid sid ha =
     \<lparr>ra_name = [], ra_uid = None, ra_ha = ha, ra_iha = VNone, ra_natted = VNone, ra_fqdn = [],
      ra_dyned = VNone, ra_sid = sid, ra_role = None, ra_fuid = fuid, ra_main = VBool False,
      ra_kind = VInt 0, ra_joined = VNone, ra_acceptance = VNone, ra_verkey = [], ra_pubkey = []\<rparr>"

definition no_publican :: publican where
  "no_publican = \<lparr>pb_key = None, pb_keyhex = [], pb_keyraw = []\<rparr>"

definition RemoteEstate_init :: "'r road_env \<Rightarrow> remote_args \<Rightarrow> ('r, nat) road" where
  "RemoteEstate_init E a =
     ebind (case ra_uid a of None \<Rightarrow> new_uid | Some u \<Rightarrow> eret u) (\<lambda>uid.
     ebind (full_name E ''estate'' (ra_name a)) (\<lambda>name.
     ebind (elift (normal_ha E (ra_ha a))) (\<lambda>ha.
     ebind (elift (normal_ha E (ra_iha a))) (\<lambda>iha.
     ebind (on_random (Privateer_init (rv_nacl E) NoKey)) (\<lambda>privee.
     ebind (elift (Verifier_init (rv_nacl E) (KeyBytes (ra_verkey a)))) (\<lambda>verfer.
     ebind (elift (Publican_init (rv_nacl E) (KeyBytes (ra_pubkey a)))) (\<lambda>pubber.
     ebind (new_lot \<lparr>lot_name = name, lot_uid = uid, lot_ha = ha, lot_sid = ra_sid a\<rparr>) (\<lambda>r.
     ebind (eget (new_timer (if rv_main E then rv_period E else rv_period E + rv_offset E))) (\<lambda>timer.
     ebind (eget (new_timer (rv_interim E))) (\<lambda>reap.
     ethen (rmod r (\<lambda>_.
       \<lparr>es_tid = 0, es_iha = iha, es_natted = ra_natted a, es_fqdn = full_fqdn E (ra_fqdn a) ha,
        es_dyned = ra_dyned a, es_role = (case ra_role a of None \<Rightarrow> name | Some role \<Rightarrow> role),
        rm_transactions = [], rm_doneTransactions = [], rm_fuid = ra_fuid a, rm_main = ra_main a,
        rm_kind = ra_kind a, rm_joined = ra_joined a, rm_allowed = None, rm_alived = None,
        rm_reaped = None, rm_acceptance = ra_acceptance a, rm_privee = privee,
        rm_publee = no_publican, rm_verfer = verfer, rm_pubber = pubber, rm_rsid = 0,
        rm_timer = timer, rm_reapTimer = reap, rm_messages = []\<rparr>))
      (eret r)))))))))))"

text \<open>The local estate: the part that every lot has, and the rest.\<close>

definition LocalEstate_init ::
    "'r road_env \<Rightarrow> remote_args \<Rightarrow> string \<Rightarrow> string \<Rightarrow> ('r, val lot \<times> local_part) road" where
  "LocalEstate_init E a sigkey prikey =
     ebind (full_name E ''estate'' (ra_name a)) (\<lambda>name.
     ebind (case ra_uid a of None \<Rightarrow> nextUid | Some u \<Rightarrow> eret u) (\<lambda>uid.
     ebind (elift (normal_ha E (ra_ha a))) (\<lambda>ha.
     ebind (elift (normal_ha E (ra_iha a))) (\<lambda>iha.
     ebind (on_random (Signer_init (rv_nacl E) (KeyBytes sigkey))) (\<lambda>signer.
     ebind (on_random (Privateer_init (rv_nacl E) (KeyBytes prikey))) (\<lambda>priver.
     eret (\<lparr>lot_name = name, lot_uid = uid, lot_ha = ha, lot_sid = ra_sid a\<rparr>,
           \<lparr>es_tid = 0, es_iha = iha, es_natted = ra_natted a, es_fqdn = full_fqdn E (ra_fqdn a) ha,
            es_dyned = ra_dyned a, es_role = (case ra_role a of None \<Rightarrow> name | Some role \<Rightarrow> role),
            lo_signer = signer, lo_priver = priver\<rparr>)))))))"

section \<open>Ids\<close>

definition nextTid :: "nat \<Rightarrow> ('r, int) road" where
  "nextTid r =
     ethen (rmod r (\<lambda>m. m\<lparr>es_tid := (if es_tid m + 1 > 0xffffffff then 1 else es_tid m + 1)\<rparr>))
       (rget r es_tid)"

definition next_sid :: "nat \<Rightarrow> ('r, unit) road" where
  "next_sid r = emod (set_lot r (lot_sid_update nextSid))"

definition validRsid :: "remote_part \<Rightarrow> int \<Rightarrow> bool" where
  "validRsid m rsid = validateSid rsid (rm_rsid m)"

section \<open>Transactions of a remote\<close>

text \<open>
  Indexes are compared as Python compares tuples: \<open>True\<close> and \<open>1\<close> are the same.
\<close>

fun canon :: "val \<Rightarrow> val" where
  "canon (VBool b) = VInt (of_bool b)"
| "canon v = v"

fun canon_eid :: "eid \<Rightarrow> eid" where
  "canon_eid (Uid v) = Uid (canon v)"
| "canon_eid (Ha h p) = Ha (canon h) (canon p)"

definition canon_index :: "tindex \<Rightarrow> tindex" where
  "canon_index i =
     (case i of (rf, le, re, si, ti, bf) \<Rightarrow>
       (canon rf, canon le, canon_eid re, canon si, canon ti, canon bf))"

text \<open>The index of a transaction by its remote's ids.\<close>

definition own_index :: "'r road_stack \<Rightarrow> nat \<Rightarrow> tindex" where
  "own_index s t =
     (let tr = rs_trans s t; r = tr_remote tr in
      canon_index (VBool (tr_rmt tr), VInt (remote_uid s r), Uid (VInt (rm_fuid (rs_remotes s r))),
        VInt (tr_sid tr), VInt (tr_tid tr), tr_bcst tr))"

definition addTransaction :: "nat \<Rightarrow> tindex \<Rightarrow> nat \<Rightarrow> ('r, unit) road" where
  "addTransaction r i t =
     ebind (rget r rm_transactions) (\<lambda>ts.
     if ohas ts i then eraise EstateError
     else ethen (rmod r (\<lambda>m. m\<lparr>rm_transactions := oset i t (rm_transactions m)\<rparr>))
            (tmod t (\<lambda>tr. tr\<lparr>tr_remote := r\<rparr>)))"

text \<open>The entry at the index, if it is this transaction, or else wherever the transaction is found.\<close>

definition without_transaction ::
    "tindex \<Rightarrow> nat option \<Rightarrow> (tindex, nat) odict \<Rightarrow> (tindex, nat) odict" where
  "without_transaction i t ts =
     (if ohas ts i \<and> (t = None \<or> oget ts i = t) then odel i ts
      else case t of None \<Rightarrow> ts | Some t \<Rightarrow> filter (\<lambda>e. snd e \<noteq> t) ts)"

definition removeTransaction :: "nat \<Rightarrow> tindex \<Rightarrow> nat option \<Rightarrow> ('r, unit) road" where
  "removeTransaction r i t =
     rmod r (\<lambda>m. m\<lparr>rm_transactions := without_transaction i t (rm_transactions m)\<rparr>)"

definition MsgStaleTimeout :: rat where "MsgStaleTimeout = 600"

definition addDoneTransaction :: "nat \<Rightarrow> int \<Rightarrow> ('r, unit) road" where
  "addDoneTransaction r tid =
     ebind (eget (new_timer MsgStaleTimeout)) (\<lambda>timer.
     rmod r (\<lambda>m. m\<lparr>rm_doneTransactions := oset tid timer (rm_doneTransactions m)\<rparr>))"

text \<open>
  Entries are deleted while the dictionary is iterated: \<open>rv_visits\<close> tells which ones the iterator
  then yields.
\<close>

definition cleanupDoneTransactions :: "'r road_env \<Rightarrow> nat \<Rightarrow> ('r, unit) road" where
  "cleanupDoneTransactions E r =
     ebind (eget st_stamp) (\<lambda>now.
     ebind (rget r rm_doneTransactions) (\<lambda>done.
     efor (takeWhile (\<lambda>(i, timer). rv_expired E timer now) (rv_visits E done)) (\<lambda>(i, timer).
       rmod r (\<lambda>m. m\<lparr>rm_doneTransactions := odel i (rm_doneTransactions m)\<rparr>))))"

definition estate_process :: "'r road_env \<Rightarrow> (nat \<Rightarrow> ('r, unit) road) \<Rightarrow> nat \<Rightarrow> ('r, unit) road" where
  "estate_process E process r =
     ebind (rget r (ovalues \<circ> rm_transactions)) (\<lambda>ts.
     ethen (efor ts process) (cleanupDoneTransactions E r))"

definition of_kind :: "trns_kind \<Rightarrow> nat \<Rightarrow> 'r road_stack \<Rightarrow> nat list" where
  "of_kind k r s =
     filter (\<lambda>t. tr_kind (rs_trans s t) = trns_value k) (ovalues (rm_transactions (rs_remotes s r)))"

definition allowInProcess :: "nat \<Rightarrow> ('r, nat list) road" where
  "allowInProcess r = eget (of_kind TkAllow r)"

definition joinInProcess :: "nat \<Rightarrow> ('r, nat list) road" where
  "joinInProcess r = eget (of_kind TkJoin r)"

section \<open>Presence\<close>

definition rekey_remote :: "'r road_env \<Rightarrow> nat \<Rightarrow> ('r, unit) road" where
  "rekey_remote E r =
     ethen (rmod r (\<lambda>m. m\<lparr>rm_allowed := None\<rparr>))
    (ebind (on_random (Privateer_init (rv_nacl E) NoKey)) (\<lambda>privee.
     rmod r (\<lambda>m. m\<lparr>rm_privee := privee, rm_publee := no_publican\<rparr>)))"

definition reap :: "'r road_env \<Rightarrow> nat \<Rightarrow> ('r, unit) road" where
  "reap E r =
     ewhen (rv_main E) (ethen (incStat ''remote_reap'' 1) (rmod r (\<lambda>m. m\<lparr>rm_reaped := Some True\<rparr>)))"

definition unreap :: "'r road_env \<Rightarrow> nat \<Rightarrow> ('r, unit) road" where
  "unreap E r =
     ewhen (rv_main E) (ethen (incStat ''remote_unreap'' 1) (rmod r (\<lambda>m. m\<lparr>rm_reaped := Some False\<rparr>)))"

definition refresh :: "'r road_env \<Rightarrow> bool option \<Rightarrow> nat \<Rightarrow> ('r, unit) road" where
  "refresh E alived r =
     ebind (eget (restarted (Some (rv_period E)))) (\<lambda>again.
     ethen (rmod r (\<lambda>m. m\<lparr>rm_timer := again (rm_timer m)\<rparr>))
      (case alived of
         None \<Rightarrow> eret ()
       | Some a \<Rightarrow>
           ebind (rget r id) (\<lambda>m.
           ethen (ewhen (rm_alived m = Some True \<or> a)
              (ebind (eget (restarted None)) (\<lambda>again.
               ethen (rmod r (\<lambda>m. m\<lparr>rm_reapTimer := again (rm_reapTimer m)\<rparr>))
                 (ewhen (rm_reaped m = Some True) (unreap E r)))))
            (rmod r (\<lambda>m. m\<lparr>rm_alived := Some a\<rparr>)))))"

definition remote_manage ::
    "'r road_env \<Rightarrow> (int \<Rightarrow> bool \<Rightarrow> ('r, unit) road) \<Rightarrow> bool \<Rightarrow> bool \<Rightarrow> nat \<Rightarrow> ('r, unit) road" where
  "remote_manage E alive cascade immediate r =
     ebind (rget r id) (\<lambda>m.
     ewhen (rm_reaped m \<noteq> Some True)
      (ebind (eget st_stamp) (\<lambda>now.
       ethen (ewhen (immediate \<or> rv_expired E (rm_timer m) now)
               (ebind (eget (\<lambda>s. remote_uid s r)) (\<lambda>uid. alive uid cascade)))
         (ebind (rget r rm_reapTimer) (\<lambda>timer.
          ewhen (rv_interim E > 0 \<and> rv_expired E timer now) (reap E r))))))"

section \<open>Stale transactions and saved messages\<close>

text \<open>The transactions are those of the table as it was; \<open>nack\<close> may change it.\<close>

definition index_sid :: "tindex \<Rightarrow> val" where
  "index_sid i = (case i of (rf, le, re, si, ti, bf) \<Rightarrow> si)"

definition index_rmt :: "tindex \<Rightarrow> bool" where
  "index_rmt i = (case i of (rf, le, re, si, ti, bf) \<Rightarrow> py_true rf)"

definition stale_sid :: "val \<Rightarrow> int \<Rightarrow> bool result" where
  "stale_sid si old = (case as_int si of None \<Rightarrow> Inl TypeError | Some i \<Rightarrow> Inr (\<not> validateSid i old))"

definition removeStaleCorrespondents ::
    "(nat \<Rightarrow> ('r, unit) road) \<Rightarrow> nat \<Rightarrow> ('r, unit) road" where
  "removeStaleCorrespondents nack r =
     ebind (rget r rm_transactions) (\<lambda>ts.
     ethen (efor ts (\<lambda>(i, t).
        ewhen (index_rmt i)
         (ebind (rget r rm_rsid) (\<lambda>rsid.
          ebind (elift (stale_sid (index_sid i) rsid)) (\<lambda>stale.
          ewhen stale
           (ethen (nack t)
           (ethen (removeTransaction r i None)
             (incStat ''stale_correspondent'' 1))))))))
      (rmod r (\<lambda>m. m\<lparr>rm_doneTransactions := []\<rparr>)))"

definition saveMessage :: "nat \<Rightarrow> nat \<Rightarrow> ('r, unit) road" where
  "saveMessage r t =
     ebind (tget t (tt_body \<circ> tr_tray)) (\<lambda>b.
     if is_mapping b then rmod r (\<lambda>m. m\<lparr>rm_messages := rm_messages m @ [b]\<rparr>)
     else eraise TypeError)"

definition replaceStaleInitiators ::
    "(nat \<Rightarrow> ('r, unit) road) \<Rightarrow> nat \<Rightarrow> ('r, unit) road" where
  "replaceStaleInitiators nack r =
     ebind (rget r rm_transactions) (\<lambda>ts.
     efor ts (\<lambda>(i, t).
       ewhen (\<not> index_rmt i)
        (ebind (eget (\<lambda>s. lot_sid (st_lots s r))) (\<lambda>sid.
         ebind (elift (stale_sid (index_sid i) sid)) (\<lambda>stale.
         ewhen stale
          (ebind (tget t tr_kind) (\<lambda>k.
           ethen (ewhen (k = trns_value TkMessage) (saveMessage r t))
           (ethen (nack t)
           (ethen (removeTransaction r i None)
             (incStat ''stale_initiator'' 1))))))))))"

text \<open>
  \<open>while self.messages\<close>: sending one adds none, so there are as many turns as messages.
\<close>

definition send_saved :: "(body \<Rightarrow> int \<Rightarrow> ('r, unit) road) \<Rightarrow> nat \<Rightarrow> ('r, unit) road" where
  "send_saved message r =
     ebind (rget r rm_messages) (\<lambda>q. case q of
       [] \<Rightarrow> eret ()
     | b # rest \<Rightarrow>
         ethen (rmod r (\<lambda>m. m\<lparr>rm_messages := rest\<rparr>))
           (ebind (eget (\<lambda>s. remote_uid s r)) (message b)))"

definition sendSavedMessages :: "(body \<Rightarrow> int \<Rightarrow> ('r, unit) road) \<Rightarrow> nat \<Rightarrow> ('r, unit) road" where
  "sendSavedMessages message r =
     ebind (rget r (length \<circ> rm_messages)) (\<lambda>n.
       drain n (\<lambda>s. rm_messages (rs_remotes s r) \<noteq> []) (send_saved message r))"

end
