(* ===== verification/Transacting.thy ===== *)
theory Transacting
  imports Estating
begin

text \<open>
  What all transactions share, raet/road/transacting.py: their construction, their place in the table
  of their remote, sending with the redo timer, and the packets that end a transaction. With them
  come the operations of raet/road/stacking.py that transactions call while they end.
\<close>

section \<open>Header fields\<close>

definition head_is :: "hdata \<Rightarrow> string \<Rightarrow> int \<Rightarrow> bool" where
  "head_is d k i \<longleftrightarrow> is_int (oget_or d k VNone) i"

definition is_trns :: "hdata \<Rightarrow> trns_kind \<Rightarrow> bool" where
  "is_trns d k \<longleftrightarrow> head_is d ''tk'' (trns_value k)"

definition is_pckt :: "hdata \<Rightarrow> pckt_kind \<Rightarrow> bool" where
  "is_pckt d k \<longleftrightarrow> head_is d ''pk'' (pckt_value k)"

definition source_ha :: "hdata \<Rightarrow> val" where
  "source_ha d = VList [oget_or d ''sh'' VNone, oget_or d ''sp'' VNone]"

definition ha_pair :: "val \<Rightarrow> (val \<times> val) result" where
  "ha_pair ha =
     (case ha of VList (a # b # _) \<Rightarrow> Inr (a, b) | VList _ \<Rightarrow> Inl IndexError | _ \<Rightarrow> Inl TypeError)"

text \<open>Python's order on strings.\<close>

fun str_less :: "string \<Rightarrow> string \<Rightarrow> bool" where
  "str_less xs [] = False"
| "str_less [] (y # ys) = True"
| "str_less (x # xs) (y # ys) =
     (let m = of_char x :: nat; n = of_char y in m < n \<or> (m = n \<and> str_less xs ys))"

section \<open>Construction\<close>

definition no_timer :: timer where "no_timer = \<lparr>tm_start = 0, tm_duration = 0\<rparr>"

text \<open>The attributes of \<open>Transaction.__init__\<close>; the subclasses set the others.\<close>

definition Transaction_init ::
    "trns_class \<Rightarrow> nat \<Rightarrow> trns_kind \<Rightarrow> rat \<Rightarrow> bool \<Rightarrow> val \<Rightarrow> int \<Rightarrow> int \<Rightarrow> rxpacket option \<Rightarrow>
     'r road_stack \<Rightarrow> transaction" where
  "Transaction_init cls r kind timeout rmt bcst sid tid rx s =
     \<lparr>tr_class = cls, tr_remote = r, tr_kind = trns_value kind, tr_timeout = timeout,
      tr_timer = new_timer timeout s, tr_rmt = rmt, tr_bcst = bcst, tr_sid = sid, tr_tid = tid,
      tr_txData = [], tr_txPacket = None, tr_rxPacket = rx, tr_redoTimeoutMin = 0,
      tr_redoTimeoutMax = 0, tr_redoTimer = no_timer, tr_cascade = False, tr_vacuous = False,
      tr_renewal = False, tr_pended = False, tr_oreo = None, tr_burst = 0, tr_misseds = [],
      tr_acked = False, tr_tray = TxTray_init [] (BData VNone), tr_wait = VBool False,
      tr_lowest = None, tr_rxtray = RxTray_init []\<rparr>"

definition with_redo :: "rat \<Rightarrow> rat \<Rightarrow> rat \<Rightarrow> 'r road_stack \<Rightarrow> transaction \<Rightarrow> transaction" where
  "with_redo lo hi start s tr =
     tr\<lparr>tr_redoTimeoutMin := lo, tr_redoTimeoutMax := hi, tr_redoTimer := new_timer start s\<rparr>"

text \<open>\<open>prep\<close>: the header of the packets to the remote, by its address and ids.\<close>

definition prep_remote :: "hdata \<Rightarrow> 'r road_stack \<Rightarrow> transaction \<Rightarrow> hdata result" where
  "prep_remote data s tr =
     rbind (ha_pair (lot_ha (st_lots s (tr_remote tr)))) (\<lambda>(h, p).
     Inr (oupdate data
       [(''dh'', h), (''dp'', p), (''se'', VInt (remote_uid s (tr_remote tr))),
        (''de'', VInt (rm_fuid (rs_remotes s (tr_remote tr)))), (''tk'', VInt (tr_kind tr)),
        (''cf'', VBool (tr_rmt tr)), (''bf'', tr_bcst tr), (''si'', VInt (tr_sid tr)),
        (''ti'', VInt (tr_tid tr))]))"

text \<open>Neither encrypted nor signed, as long as the keys are not agreed on.\<close>

definition plain_kinds :: hdata where
  "plain_kinds = [(''ck'', VInt (coat_value CkNada)), (''fk'', VInt (foot_value FkNada))]"

text \<open>The header of replies to a packet: its addresses and ids turned around.\<close>

definition prep_reply ::
    "hdata \<Rightarrow> val \<Rightarrow> hdata \<Rightarrow> int \<Rightarrow> bool \<Rightarrow> val \<Rightarrow> int \<Rightarrow> int \<Rightarrow> hdata" where
  "prep_reply data se rx kind rmt bcst sid tid =
     oupdate data
       ([(''dh'', oget_or rx ''sh'' VNone), (''dp'', oget_or rx ''sp'' VNone), (''se'', se),
         (''de'', oget_or rx ''se'' VNone), (''tk'', VInt kind), (''cf'', VBool rmt), (''bf'', bcst),
         (''si'', VInt sid), (''ti'', VInt tid)] @ plain_kinds)"

section \<open>The table of the remote\<close>

fun class_name :: "trns_class \<Rightarrow> string" where
  "class_name JoinerT = ''joiner''"
| "class_name JoinentT = ''joinent''"
| "class_name AllowerT = ''allower''"
| "class_name AllowentT = ''allowent''"
| "class_name AliverT = ''aliver''"
| "class_name AliventT = ''alivent''"
| "class_name MessengerT = ''messenger''"
| "class_name MessengentT = ''messengent''"

definition statKey :: "trns_class \<Rightarrow> string" where
  "statKey cls = class_name cls @ ''_transaction_failure''"

definition count_failure :: "nat \<Rightarrow> ('r, unit) road" where
  "count_failure t = ebind (tget t tr_class) (\<lambda>cls. incStat (statKey cls) 1)"

definition join_class :: "trns_class \<Rightarrow> bool" where
  "join_class cls \<longleftrightarrow> cls = JoinerT \<or> cls = JoinentT"

text \<open>A vacuous join is also kept by the address of its remote.\<close>

definition enter_joinees :: "nat \<Rightarrow> ('r, unit) road" where
  "enter_joinees t =
     ebind (tget t id) (\<lambda>tr.
     ewhen (join_class (tr_class tr) \<and> tr_vacuous tr)
       (emod (\<lambda>s. s\<lparr>rs_joinees := oset (lot_ha (st_lots s (tr_remote tr))) (tr_remote tr) (rs_joinees s)\<rparr>)))"

definition leave_joinees :: "nat \<Rightarrow> ('r, unit) road" where
  "leave_joinees t =
     ebind (tget t id) (\<lambda>tr.
     ewhen (join_class (tr_class tr) \<and> tr_vacuous tr)
      (ebind (rget (tr_remote tr) rm_transactions) (\<lambda>ts.
       ewhen (ts = [])
         (emod (\<lambda>s. s\<lparr>rs_joinees := odel (lot_ha (st_lots s (tr_remote tr))) (rs_joinees s)\<rparr>)))))"

definition trans_add :: "nat \<Rightarrow> tindex \<Rightarrow> ('r, unit) road" where
  "trans_add t i =
     ebind (tget t tr_remote) (\<lambda>r.
     ethen (addTransaction r (canon_index i) t) (enter_joinees t))"

definition trans_remove :: "nat \<Rightarrow> tindex \<Rightarrow> ('r, unit) road" where
  "trans_remove t i =
     ebind (tget t id) (\<lambda>tr.
     ethen (ewhen (tr_class tr = MessengentT) (addDoneTransaction (tr_remote tr) (tr_tid tr)))
     (ethen (removeTransaction (tr_remote tr) (canon_index i) (Some t))
       (leave_joinees t)))"

definition add_self :: "nat \<Rightarrow> ('r, unit) road" where
  "add_self t = ebind (eget (\<lambda>s. own_index s t)) (trans_add t)"

definition remove_self :: "nat \<Rightarrow> ('r, unit) road" where
  "remove_self t = ebind (eget (\<lambda>s. own_index s t)) (trans_remove t)"

section \<open>Sending\<close>

definition packet_of :: "transaction \<Rightarrow> sent_packet \<Rightarrow> txpacket result" where
  "packet_of tr sp =
     (case sp of
        OwnPacket p \<Rightarrow> Inr p
      | Segment i \<Rightarrow>
          if i < length (tt_packets (tr_tray tr)) then Inr (tt_packets (tr_tray tr) ! i)
          else Inl IndexError)"

definition restart_redo :: "nat \<Rightarrow> rat option \<Rightarrow> ('r, unit) road" where
  "restart_redo t d =
     ebind (eget (restarted d)) (\<lambda>again.
     tmod t (\<lambda>tr. tr\<lparr>tr_redoTimer := again (tr_redoTimer tr)\<rparr>))"

text \<open>
  The remote may have left the stack, then the transaction ends; only \<open>Alivent\<close> has no redo timer.
\<close>

definition trans_transmit :: "nat \<Rightarrow> sent_packet \<Rightarrow> ('r, unit) road" where
  "trans_transmit t sp =
     ebind (tget t id) (\<lambda>tr.
     ebind (elift (packet_of tr sp)) (\<lambda>p.
     ebind (eget (\<lambda>s. remote_uid s (tr_remote tr))) (\<lambda>uid.
     ebind (etry (\<lambda>e. e = StackError) (ethen (tx (tp_packed p) uid) (eret True)) (eret False)) (\<lambda>ok.
     ethen
      (if ok then tmod t (\<lambda>tr. tr\<lparr>tr_txPacket := Some sp\<rparr>)
       else ethen (count_failure t) (ebind (elift (TxPacket_index (tp_data p))) (trans_remove t)))
      (ewhen (tr_class tr \<noteq> AliventT) (restart_redo t None))))))"

text \<open>\<open>self.txPacket.index\<close> and \<open>self.rxPacket.index\<close>.\<close>

definition tx_index :: "nat \<Rightarrow> ('r, tindex) road" where
  "tx_index t =
     ebind (tget t id) (\<lambda>tr. case tr_txPacket tr of
       None \<Rightarrow> eraise AttributeError
     | Some sp \<Rightarrow> ebind (elift (packet_of tr sp)) (\<lambda>p. elift (TxPacket_index (tp_data p))))"

definition rx_index :: "nat \<Rightarrow> ('r, tindex) road" where
  "rx_index t =
     ebind (tget t tr_rxPacket) (\<lambda>rx. case rx of
       None \<Rightarrow> eraise AttributeError
     | Some p \<Rightarrow> elift (RxPacket_index (rp_data p)))"

definition tx_is :: "transaction \<Rightarrow> pckt_kind \<Rightarrow> bool" where
  "tx_is tr k \<longleftrightarrow>
     (case tr_txPacket tr of
        None \<Rightarrow> False
      | Some sp \<Rightarrow> (case packet_of tr sp of Inl _ \<Rightarrow> False | Inr p \<Rightarrow> is_pckt (tp_data p) k))"

text \<open>\<open>self.transmit(self.txPacket)\<close>.\<close>

definition transmit_again :: "nat \<Rightarrow> ('r, unit) road" where
  "transmit_again t =
     ebind (tget t tr_txPacket) (\<lambda>sp. case sp of
       None \<Rightarrow> eraise AttributeError | Some sp \<Rightarrow> trans_transmit t sp)"

definition trans_data :: "nat \<Rightarrow> ('r, hdata) road" where
  "trans_data t = tget t tr_txData"

definition rx_data :: "nat \<Rightarrow> ('r, hdata) road" where
  "rx_data t =
     ebind (tget t tr_rxPacket) (\<lambda>rx. case rx of None \<Rightarrow> eraise AttributeError | Some p \<Rightarrow> eret (rp_data p))"

text \<open>Packs a packet of the transaction: what to do if that fails, and what to do with it.\<close>

definition packing ::
    "'r road_env \<Rightarrow> nat \<Rightarrow> pckt_kind \<Rightarrow> body \<Rightarrow> ('r, unit) road \<Rightarrow> (txpacket \<Rightarrow> ('r, unit) road) \<Rightarrow>
     ('r, unit) road" where
  "packing E t pk b failed use =
     ebind (trans_data t) (\<lambda>data.
     ebind (make_packet E pk b data) (\<lambda>q. case q of None \<Rightarrow> failed | Some p \<Rightarrow> use p))"

section \<open>Ending a transaction\<close>

definition RAW_BODY :: body where "RAW_BODY = BRaw []"

definition remove_tx :: "nat \<Rightarrow> ('r, unit) road" where
  "remove_tx t = ebind (tx_index t) (trans_remove t)"

definition remove_rx :: "nat \<Rightarrow> ('r, unit) road" where
  "remove_rx t = ebind (rx_index t) (trans_remove t)"

definition Joiner_nack :: "'r road_env \<Rightarrow> pckt_kind \<Rightarrow> nat \<Rightarrow> ('r, unit) road" where
  "Joiner_nack E pk t =
     packing E t pk EMPTY_BODY (remove_tx t) (\<lambda>p.
       ethen (count_failure t)
       (ethen (trans_transmit t (OwnPacket p)) (remove_tx t)))"

text \<open>
  A joinent may refuse a remote that the stack does not have, so it answers the address that the
  packet came from.
\<close>

definition Joinent_nack :: "'r road_env \<Rightarrow> pckt_kind \<Rightarrow> nat \<Rightarrow> ('r, unit) road" where
  "Joinent_nack E pk t =
     ebind (rx_data t) (\<lambda>d.
     packing E t pk EMPTY_BODY (remove_rx t) (\<lambda>p.
       ethen (count_failure t)
       (ethen (emod (\<lambda>s. s\<lparr>st_txes := st_txes s @ [(tp_packed p, source_ha d)]\<rparr>))
         (remove_rx t))))"

definition Allower_nack :: "'r road_env \<Rightarrow> pckt_kind \<Rightarrow> nat \<Rightarrow> ('r, unit) road" where
  "Allower_nack E pk t =
     packing E t pk RAW_BODY (remove_self t) (\<lambda>p.
       ethen (remove_self t)
       (ethen (count_failure t) (trans_transmit t (OwnPacket p))))"

definition Allowent_nack :: "'r road_env \<Rightarrow> pckt_kind \<Rightarrow> nat \<Rightarrow> ('r, unit) road" where
  "Allowent_nack E pk t =
     packing E t pk RAW_BODY (remove_self t) (\<lambda>p.
       ethen (remove_self t)
       (ethen (trans_transmit t (OwnPacket p)) (count_failure t)))"

definition Alivent_nack :: "'r road_env \<Rightarrow> pckt_kind \<Rightarrow> nat \<Rightarrow> ('r, unit) road" where
  "Alivent_nack E pk t =
     packing E t pk EMPTY_BODY (remove_self t) (\<lambda>p.
       ethen (trans_transmit t (OwnPacket p))
       (ethen (remove_self t) (count_failure t)))"

definition Messenger_nack :: "'r road_env \<Rightarrow> nat \<Rightarrow> ('r, unit) road" where
  "Messenger_nack E t =
     packing E t PkNack EMPTY_BODY (remove_self t) (\<lambda>p.
       ethen (trans_transmit t (OwnPacket p))
       (ethen (incStat ''message_nack_tx'' 1)
       (ethen (remove_self t) (count_failure t))))"

definition Messengent_nack :: "'r road_env \<Rightarrow> nat \<Rightarrow> ('r, unit) road" where
  "Messengent_nack E t =
     packing E t PkNack EMPTY_BODY (remove_self t) (\<lambda>p.
       ethen (trans_transmit t (OwnPacket p))
       (ethen (remove_self t) (count_failure t)))"

text \<open>\<open>transaction.nack()\<close>, by the class of the transaction; an \<open>Aliver\<close> sends nothing.\<close>

definition trans_nack :: "'r road_env \<Rightarrow> nat \<Rightarrow> ('r, unit) road" where
  "trans_nack E t =
     ebind (tget t tr_class) (\<lambda>cls. case cls of
       JoinerT \<Rightarrow> Joiner_nack E PkNack t
     | JoinentT \<Rightarrow> Joinent_nack E PkNack t
     | AllowerT \<Rightarrow> Allower_nack E PkNack t
     | AllowentT \<Rightarrow> Allowent_nack E PkNack t
     | AliverT \<Rightarrow> eret ()
     | AliventT \<Rightarrow> Alivent_nack E PkNack t
     | MessengerT \<Rightarrow> Messenger_nack E t
     | MessengentT \<Rightarrow> Messengent_nack E t)"

section \<open>Remotes and their files\<close>

definition remote_view :: "'r road_stack \<Rightarrow> nat \<Rightarrow> remote_estate" where
  "remote_view s r =
     (let l = st_lots s r; m = rs_remotes s r in
      \<lparr>re_name = lot_name l, re_uid = lot_uid l, re_fuid = rm_fuid m, re_ha = lot_ha l,
       re_iha = es_iha m, re_natted = es_natted m, re_fqdn = VStr (es_fqdn m),
       re_dyned = es_dyned m, re_sid = lot_sid l, re_main = rm_main m, re_kind = rm_kind m,
       re_joined = rm_joined m, re_role = es_role m, re_acceptance = rm_acceptance m,
       re_verhex = vf_keyhex (rm_verfer m), re_pubhex = pb_keyhex (rm_pubber m)\<rparr>)"

definition local_view :: "'r road_stack \<Rightarrow> local_estate" where
  "local_view s =
     (let l = st_local s; m = rs_local s in
      \<lparr>le_name = lot_name l, le_uid = lot_uid l, le_ha = lot_ha l, le_iha = es_iha m,
       le_natted = es_natted m, le_fqdn = VStr (es_fqdn m), le_dyned = es_dyned m,
       le_sid = lot_sid l, le_puid = st_puid s, le_aha = rs_aha s, le_role = es_role m,
       le_sighex = sr_keyhex (lo_signer m), le_prihex = pv_keyhex (lo_priver m)\<rparr>)"

definition dump_remote :: "'r road_env \<Rightarrow> nat \<Rightarrow> ('r, unit) road" where
  "dump_remote E r =
     ebind (eget (\<lambda>s. remote_view s r)) (\<lambda>v. on_files (road_dumpRemote (rv_keep E) v))"

definition dump_local :: "'r road_env \<Rightarrow> ('r, unit) road" where
  "dump_local E = ebind (eget local_view) (\<lambda>v. on_files (road_dumpLocal (rv_keep E) v))"

definition status_remote :: "'r road_env \<Rightarrow> nat \<Rightarrow> ('r, val) road" where
  "status_remote E r =
     ebind (eget (\<lambda>s. remote_view s r)) (\<lambda>v.
     ebind (on_files (statusRemote (rv_keep E) v True)) (\<lambda>(v', status).
     ethen (rmod r (\<lambda>m. m\<lparr>rm_acceptance := re_acceptance v'\<rparr>)) (eret status)))"

definition status_role :: "'r road_env \<Rightarrow> string \<Rightarrow> string \<Rightarrow> string \<Rightarrow> ('r, val) road" where
  "status_role E role verhex pubhex = on_files (statusRole (rv_keep E) role verhex pubhex True)"

definition rename_remote :: "'r road_env \<Rightarrow> nat \<Rightarrow> string \<Rightarrow> ('r, unit) road" where
  "rename_remote E r new =
     ks_renameRemote (rv_keep E) (dump_remote E) (rv_insert_name E) r new True False"

text \<open>
  All remotes have the stack's store, so the check of \<open>RoadStack.addRemote\<close> does not fail.
\<close>

definition add_remote :: "'r road_env \<Rightarrow> nat \<Rightarrow> bool \<Rightarrow> ('r, nat) road" where
  "add_remote E r dump = ks_addRemote (dump_remote E) r dump"

definition remove_remote :: "'r road_env \<Rightarrow> nat \<Rightarrow> bool \<Rightarrow> ('r, unit) road" where
  "remove_remote E r clear =
     ethen (ks_removeRemote (rv_keep E) r clear)
      (ebind (rget r (ovalues \<circ> rm_transactions)) (\<lambda>ts. efor ts (trans_nack E)))"

definition retrieveRemote :: "int option \<Rightarrow> ('r, nat option) road" where
  "retrieveRemote uid =
     eget (\<lambda>s. case uid of
       Some u \<Rightarrow> oget (st_uidRemotes s) u
     | None \<Rightarrow> (case ovalues (st_uidRemotes s) of [] \<Rightarrow> None | r # _ \<Rightarrow> Some r))"

text \<open>Whether the body could be opened: then the received packet has it.\<close>

definition parse_inner :: "'r road_env \<Rightarrow> nat \<Rightarrow> ('r, bool) road" where
  "parse_inner E t =
     ebind (eget (road_codec E)) (\<lambda>c.
     ebind (tget t tr_rxPacket) (\<lambda>rx. case rx of
       None \<Rightarrow> eraise AttributeError
     | Some p \<Rightarrow>
         (case RxPacket_parseInner c p of
            Inr p1 \<Rightarrow> ethen (tmod t (\<lambda>tr. tr\<lparr>tr_rxPacket := Some p1\<rparr>)) (eret True)
          | Inl e \<Rightarrow>
              if is_packet_error e then ethen (incStat ''parsing_inner_error'' 1) (eret False)
              else eraise e)))"

text \<open>\<open>if not self.stack.parseInner(self.rxPacket): return\<close>.\<close>

definition when_parsed :: "'r road_env \<Rightarrow> nat \<Rightarrow> ('r, unit) road \<Rightarrow> ('r, unit) road" where
  "when_parsed E t m = ebind (parse_inner E t) (\<lambda>ok. ewhen ok m)"

definition rx_body :: "nat \<Rightarrow> ('r, body) road" where
  "rx_body t =
     ebind (tget t tr_rxPacket) (\<lambda>rx. case rx of None \<Rightarrow> eraise AttributeError | Some p \<Rightarrow> eret (rp_embody p))"

section \<open>Timeouts\<close>

definition timed_out :: "'r road_env \<Rightarrow> nat \<Rightarrow> ('r, bool) road" where
  "timed_out E t =
     eget (\<lambda>s. tr_timeout (rs_trans s t) > 0 \<and> rv_expired E (tr_timer (rs_trans s t)) (st_stamp s))"

definition redo_due :: "'r road_env \<Rightarrow> nat \<Rightarrow> ('r, bool) road" where
  "redo_due E t = eget (\<lambda>s. rv_expired E (tr_redoTimer (rs_trans s t)) (st_stamp s))"

text \<open>The redo interval doubles within its bounds.\<close>

definition longer :: "transaction \<Rightarrow> rat" where
  "longer tr =
     min (max (tr_redoTimeoutMin tr) (tm_duration (tr_redoTimer tr) * 2)) (tr_redoTimeoutMax tr)"

definition back_off :: "nat \<Rightarrow> ('r, unit) road" where
  "back_off t = ebind (tget t longer) (\<lambda>d. restart_redo t (Some d))"

end
