(* ===== verification/Structs.thy ===== *)
theory Structs
  imports Raeting
begin

text \<open>
  Python's \<open>struct\<close> module, as far as the bodies of the allow handshake use it: byte strings of fixed
  size and unsigned 32-bit numbers in network order.
\<close>

datatype sfield = FBytes bytes | FLong int

definition long_bytes :: "int \<Rightarrow> bytes" where
  "long_bytes i =
     map (\<lambda>k. char_of (nat (i div 256 ^ k mod 256))) [3, 2, 1, 0]"

definition bytes_long :: "bytes \<Rightarrow> int" where
  "bytes_long s = foldl (\<lambda>n c. n * 256 + int (of_char c)) 0 s"

text \<open>\<open>'32s'\<close> cuts a longer string and fills a shorter one with zero bytes.\<close>

definition fill :: "char \<Rightarrow> nat \<Rightarrow> bytes \<Rightarrow> bytes" where
  "fill c n s = take n s @ replicate (n - length s) c"

fun pack_item :: "struct_item \<Rightarrow> sfield \<Rightarrow> bytes result" where
  "pack_item (SBytes n) (FBytes s) = Inr (fill (CHR 0x00) n s)"
| "pack_item SULong (FLong i) = (if 0 \<le> i \<and> i < 2 ^ 32 then Inr (long_bytes i) else Inl StructError)"
| "pack_item _ _ = Inl StructError"

fun struct_pack :: "struct_item list \<Rightarrow> sfield list \<Rightarrow> bytes result" where
  "struct_pack [] [] = Inr []"
| "struct_pack (i # is) (f # fs) =
     rbind (pack_item i f) (\<lambda>a. rbind (struct_pack is fs) (\<lambda>b. Inr (a @ b)))"
| "struct_pack _ _ = Inl StructError"

fun unpack_item :: "struct_item \<Rightarrow> bytes \<Rightarrow> sfield" where
  "unpack_item (SBytes n) s = FBytes s"
| "unpack_item SULong s = FLong (bytes_long s)"

fun unpack_items :: "struct_item list \<Rightarrow> bytes \<Rightarrow> sfield list" where
  "unpack_items [] s = []"
| "unpack_items (i # is) s = unpack_item i (take (item_size i) s) # unpack_items is (drop (item_size i) s)"

definition struct_unpack :: "struct_item list \<Rightarrow> bytes \<Rightarrow> sfield list result" where
  "struct_unpack fmt s = (if length s = struct_size fmt then Inr (unpack_items fmt s) else Inl StructError)"

section \<open>Round trip\<close>

text \<open>What fits its item comes back as it was.\<close>

fun fits_item :: "struct_item \<Rightarrow> sfield \<Rightarrow> bool" where
  "fits_item (SBytes n) (FBytes s) \<longleftrightarrow> length s = n"
| "fits_item SULong (FLong i) \<longleftrightarrow> 0 \<le> i \<and> i < 2 ^ 32"
| "fits_item _ _ \<longleftrightarrow> False"

lemma length_long_bytes [simp]: "length (long_bytes i) = 4"
  by (simp add: long_bytes_def)

lemma of_char_byte: "int (of_char (char_of (nat (x mod 256)))) = x mod 256"
proof -
  have "nat (x mod 256) < 256" by (simp add: nat_less_iff)
  then have "(of_char (char_of (nat (x mod 256))) :: nat) = nat (x mod 256)"
    unfolding of_char_of by (rule mod_less)
  then show ?thesis by (simp only: int_nat_eq) simp
qed

lemma bytes_long_bytes:
  assumes "0 \<le> i" "i < 2 ^ 32"
  shows "bytes_long (long_bytes i) = i"
proof -
  define a where "a = i div 256"
  define b where "b = a div 256"
  define c where "c = b div 256"
  have ds: "i div 256 ^ 2 = b" "i div 256 ^ 3 = c" "i div 256 ^ 1 = a" "i div 256 ^ 0 = i"
    by (simp_all add: a_def b_def c_def flip: zdiv_zmult2_eq)
  have "bytes_long (long_bytes i) =
      ((c mod 256 * 256 + b mod 256) * 256 + a mod 256) * 256 + i mod 256"
    unfolding bytes_long_def long_bytes_def by (simp only: list.map foldl.simps ds of_char_byte) simp
  moreover have "c mod 256 = c"
    using assms by (simp add: c_def b_def a_def flip: zdiv_zmult2_eq)
  moreover have "c * 256 + b mod 256 = b" "b * 256 + a mod 256 = a" "a * 256 + i mod 256 = i"
    by (simp_all add: a_def b_def c_def)
  ultimately show ?thesis by (simp only:)
qed

lemma fill_same [simp]: "length s = n \<Longrightarrow> fill c n s = s"
  by (simp add: fill_def)

lemma length_fill [simp]: "length (fill c n s) = n"
  by (simp add: fill_def)

lemma pack_item_fits:
  assumes "fits_item i f"
  obtains s where "pack_item i f = Inr s" "length s = item_size i" "unpack_item i s = f"
  using assms by (cases i; cases f) (auto simp: bytes_long_bytes)

lemma struct_round:
  assumes "list_all2 fits_item fmt fs"
  shows "\<exists>s. struct_pack fmt fs = Inr s \<and> struct_unpack fmt s = Inr fs \<and> length s = struct_size fmt"
  using assms
proof (induction fmt fs rule: list_all2_induct)
  case (Cons i fmt f fs)
  obtain a where a: "pack_item i f = Inr a" "length a = item_size i" "unpack_item i a = f"
    using pack_item_fits [OF Cons.hyps(1)] .
  obtain s where s: "struct_pack fmt fs = Inr s" "struct_unpack fmt s = Inr fs" "length s = struct_size fmt"
    using Cons.IH by blast
  then show ?case using a by (auto simp: struct_unpack_def struct_size_def split: if_splits)
qed (simp add: struct_unpack_def struct_size_def)

end
