(* ===== verification/Initiating.thy ===== *)
theory Initiating
  imports Transacting Structs
begin

text \<open>
  Starting transactions, raet/road/transacting.py and raet/road/stacking.py: a join, an allow, an
  alive and a message to a remote. An alive without a join or an allow starts these first, and an
  allow without a join starts that.
\<close>

section \<open>Settings of the stack's classes\<close>

definition stack_hk :: "string \<times> val" where "stack_hk = (''hk'', VInt (head_value HkRaet))"
definition stack_bk :: "string \<times> val" where "stack_bk = (''bk'', VInt (body_value BkJson))"
definition raw_bk :: "string \<times> val" where "raw_bk = (''bk'', VInt (body_value BkRaw))"
definition stack_fk :: "string \<times> val" where "stack_fk = (''fk'', VInt (foot_value FkNacl))"
definition stack_ck :: "string \<times> val" where "stack_ck = (''ck'', VInt (coat_value CkNacl))"

definition JoinerTimeout :: rat where "JoinerTimeout = 5"
definition JoinentTimeout :: rat where "JoinentTimeout = 5"
definition AllowTimeout :: rat where "AllowTimeout = 4"
definition AliverTimeout :: rat where "AliverTimeout = 2"
definition AliventTimeout :: rat where "AliventTimeout = 10"
definition MessageTimeout :: rat where "MessageTimeout = 0"
definition PendRedoTimeout :: rat where "PendRedoTimeout = 60"

definition given_or :: "rat option \<Rightarrow> rat \<Rightarrow> rat" where
  "given_or x d = (case x of None \<Rightarrow> d | Some y \<Rightarrow> y)"

section \<open>Join\<close>

definition Joiner_init ::
    "'r road_env \<Rightarrow> nat \<Rightarrow> rat \<Rightarrow> bool \<Rightarrow> bool \<Rightarrow> ('r, nat) road" where
  "Joiner_init E r timeout cascade renewal =
     ebind (nextTid r) (\<lambda>tid.
     ebind (eget (\<lambda>s. with_redo 1 4 1 s
         (Transaction_init JoinerT r TkJoin timeout False (VBool False) 0 tid None s)
           \<lparr>tr_cascade := cascade, tr_renewal := renewal,
            tr_vacuous := (rm_fuid (rs_remotes s r) = 0)\<rparr>)) (\<lambda>tr.
     ebind (eget (\<lambda>s. prep_remote [stack_hk, stack_bk] s tr)) (\<lambda>d.
     ebind (elift d) (\<lambda>data.
     new_transaction (tr\<lparr>tr_txData := oupdate data plain_kinds\<rparr>)))))"

definition text_or_none :: "string \<Rightarrow> val" where
  "text_or_none s = (if s = [] then VNone else VStr s)"

text \<open>
  What an estate says of itself in a join; the correspondent adds the id it gives to the other side.
  The application kind must fit one byte, and is zero if it was not set.
\<close>

definition operation_mode :: "'r road_env \<Rightarrow> int" where
  "operation_mode E = pack_byte (rv_codec E) FMT8 [0, 0, 0, 0, 0, 0, 0, of_bool (rv_main E)]"

definition own_identity :: "'r road_env \<Rightarrow> int \<Rightarrow> hdata \<Rightarrow> 'r road_stack \<Rightarrow> hdata" where
  "own_identity E kind extra s =
     (let m = rs_local s in
      [(''name'', VStr (lot_name (st_local s))), (''mode'', VInt (operation_mode E)),
       (''kind'', VInt kind)] @ extra @
      [(''verhex'', text_or_none (sr_verhex (lo_signer m))),
       (''pubhex'', text_or_none (pv_pubhex (lo_priver m))), (''role'', VStr (es_role m))])"

definition with_kind :: "(int \<Rightarrow> ('r, unit) road) \<Rightarrow> ('r, unit) road" where
  "with_kind use =
     ebind (eget rs_kind) (\<lambda>k. case k of
       None \<Rightarrow> ethen (emod (\<lambda>s. s\<lparr>rs_kind := Some 0\<rparr>)) (use 0)
     | Some k \<Rightarrow> ewhen (0 \<le> k \<and> k \<le> 255) (use k))"

definition Joiner_join :: "'r road_env \<Rightarrow> nat \<Rightarrow> ('r, unit) road" where
  "Joiner_join E t =
     ebind (tget t tr_remote) (\<lambda>r.
     ebind (joinInProcess r) (\<lambda>joins.
     ewhen (joins = [])
      (ethen (rmod r (\<lambda>m. m\<lparr>rm_joined := VNone\<rparr>))
        (with_kind (\<lambda>kind.
         ebind (eget (own_identity E kind [])) (\<lambda>b.
         packing E t PkRequest (BData (VDict b)) (remove_self t) (\<lambda>p.
           ethen (trans_transmit t (OwnPacket p))
             (ebind (tx_index t) (trans_add t)))))))))"

definition with_remote :: "string \<Rightarrow> int option \<Rightarrow> (nat \<Rightarrow> ('r, unit) road) \<Rightarrow> ('r, unit) road" where
  "with_remote stat uid use =
     ebind (retrieveRemote uid) (\<lambda>r. case r of None \<Rightarrow> incStat stat 1 | Some r \<Rightarrow> use r)"

definition stack_join ::
    "'r road_env \<Rightarrow> int option \<Rightarrow> rat option \<Rightarrow> bool \<Rightarrow> bool \<Rightarrow> ('r, unit) road" where
  "stack_join E uid timeout cascade renewal =
     with_remote ''invalid_remote_eid'' uid (\<lambda>r.
       ebind (Joiner_init E r (given_or timeout JoinerTimeout) cascade renewal) (Joiner_join E))"

text \<open>\<open>self.stack.join(uid=self.remote.uid, cascade=self.cascade, timeout=self.timeout)\<close>.\<close>

definition then_start ::
    "(int option \<Rightarrow> rat option \<Rightarrow> bool \<Rightarrow> ('r, unit) road) \<Rightarrow> nat \<Rightarrow> ('r, unit) road" where
  "then_start start t =
     ebind (tget t id) (\<lambda>tr.
     ebind (eget (\<lambda>s. remote_uid s (tr_remote tr))) (\<lambda>uid.
     start (Some uid) (Some (tr_timeout tr)) (tr_cascade tr)))"

definition start_join :: "'r road_env \<Rightarrow> nat \<Rightarrow> ('r, unit) road" where
  "start_join E = then_start (\<lambda>uid timeout cascade. stack_join E uid timeout cascade False)"

section \<open>Allow\<close>

text \<open>An initiator in the remote's session.\<close>

definition session_init ::
    "trns_class \<Rightarrow> trns_kind \<Rightarrow> hdata \<Rightarrow> rat \<Rightarrow> rat \<Rightarrow> nat \<Rightarrow> rat \<Rightarrow> (transaction \<Rightarrow> transaction) \<Rightarrow>
     ('r, nat) road" where
  "session_init cls kind data lo hi r timeout further =
     ebind (nextTid r) (\<lambda>tid.
     ebind (eget (\<lambda>s. further (with_redo lo hi lo s
         (Transaction_init cls r kind timeout False (VBool False) (lot_sid (st_lots s r)) tid None s)))) (\<lambda>tr.
     ebind (eget (\<lambda>s. prep_remote data s tr)) (\<lambda>d.
     ebind (elift d) (\<lambda>data.
     new_transaction (tr\<lparr>tr_txData := data\<rparr>)))))"

definition Allower_init :: "nat \<Rightarrow> rat option \<Rightarrow> bool \<Rightarrow> ('r, nat) road" where
  "Allower_init r timeout cascade =
     session_init AllowerT TkAllow [stack_hk, raw_bk, stack_fk] (1 / 4) 1 r
       (given_or timeout AllowTimeout) (\<lambda>tr. tr\<lparr>tr_cascade := cascade\<rparr>)"

text \<open>64 zero digits, sealed with the new short term key for the long term key of the remote.\<close>

definition HELLO_PLAIN :: bytes where
  "HELLO_PLAIN = hexlify (replicate 32 (CHR 0x00))"

definition key_peer :: "publican \<Rightarrow> public_key key_arg" where
  "key_peer p = (case pb_key p of None \<Rightarrow> NoKey | Some k \<Rightarrow> KeyObject k)"

definition seal ::
    "'r road_env \<Rightarrow> privateer \<Rightarrow> bytes \<Rightarrow> publican \<Rightarrow> ('r, bytes \<times> bytes) road" where
  "seal E priv msg pub = on_random (Privateer_encrypt (rv_nacl E) priv msg (key_peer pub) False)"

definition Allower_hello :: "'r road_env \<Rightarrow> nat \<Rightarrow> ('r, unit) road" where
  "Allower_hello E t =
     ebind (tget t tr_remote) (\<lambda>r.
     ebind (joinInProcess r) (\<lambda>joins.
     if joins \<noteq> [] then incStat ''invalid_allow_attempt'' 1
     else ebind (allowInProcess r) (\<lambda>allows.
     if allows \<noteq> [] then eret ()
     else ethen (rmod r (\<lambda>m. m\<lparr>rm_allowed := None\<rparr>))
      (ebind (rget r rm_joined) (\<lambda>joined.
       if \<not> py_true joined then ethen (incStat ''unjoined_remote'' 1) (start_join E t)
       else
         ethen (rekey_remote E r)
        (ethen (add_self t)
        (ebind (rget r id) (\<lambda>m.
         ebind (seal E (rm_privee m) HELLO_PLAIN (rm_pubber m)) (\<lambda>(cipher, nonce).
         ebind (elift (struct_pack HELLO_PACKER
             [FBytes HELLO_PLAIN, FBytes (pv_pubraw (rm_privee m)), FBytes cipher, FBytes nonce])) (\<lambda>b.
         packing E t PkHello (BRaw b) (remove_self t) (\<lambda>p. trans_transmit t (OwnPacket p))))))))))))"

definition stack_allow ::
    "'r road_env \<Rightarrow> int option \<Rightarrow> rat option \<Rightarrow> bool \<Rightarrow> ('r, unit) road" where
  "stack_allow E uid timeout cascade =
     with_remote ''invalid_remote_eid'' uid (\<lambda>r.
       ebind (Allower_init r timeout cascade) (Allower_hello E))"

definition start_allow :: "'r road_env \<Rightarrow> nat \<Rightarrow> ('r, unit) road" where
  "start_allow E = then_start (stack_allow E)"

section \<open>Alive\<close>

definition Aliver_init :: "nat \<Rightarrow> rat option \<Rightarrow> bool \<Rightarrow> ('r, nat) road" where
  "Aliver_init r timeout cascade =
     session_init AliverT TkAlive [stack_hk, stack_bk, stack_fk, stack_ck] (1 / 4) 1 r
       (given_or timeout AliverTimeout) (\<lambda>tr. tr\<lparr>tr_cascade := cascade\<rparr>)"

definition Aliver_alive :: "'r road_env \<Rightarrow> nat \<Rightarrow> ('r, unit) road" where
  "Aliver_alive E t =
     ebind (tget t tr_remote) (\<lambda>r.
     ebind (rget r id) (\<lambda>m.
     if \<not> py_true (rm_joined m) then ethen (incStat ''unjoined_remote'' 1) (start_join E t)
     else if rm_allowed m \<noteq> Some True then ethen (incStat ''unallowed_remote'' 1) (start_allow E t)
     else
       ethen (refresh E None r)
      (ethen (add_self t)
        (packing E t PkRequest EMPTY_BODY (remove_self t) (\<lambda>p. trans_transmit t (OwnPacket p))))))"

definition stack_alive ::
    "'r road_env \<Rightarrow> int option \<Rightarrow> rat option \<Rightarrow> bool \<Rightarrow> ('r, unit) road" where
  "stack_alive E uid timeout cascade =
     with_remote ''invalid_remote_eid'' uid (\<lambda>r.
       ebind (Aliver_init r timeout cascade) (Aliver_alive E))"

section \<open>Message\<close>

definition Messenger_init :: "'r road_env \<Rightarrow> nat \<Rightarrow> rat option \<Rightarrow> ('r, nat) road" where
  "Messenger_init E r timeout =
     session_init MessengerT TkMessage [stack_hk, stack_bk, stack_fk, stack_ck] (1 / 5) (1 / 2) r
       (given_or timeout MessageTimeout) (\<lambda>tr. tr\<lparr>tr_burst := max 0 (rv_burst E)\<rparr>)"

text \<open>The message is packed for the remote; a failure to do so is counted.\<close>

definition pack_tray :: "'r road_env \<Rightarrow> nat \<Rightarrow> body option \<Rightarrow> ('r, bool) road" where
  "pack_tray E t b =
     ebind (eget (road_codec E)) (\<lambda>c.
     ebind (tget t id) (\<lambda>tr.
     let tray = tr_tray tr; msg = (case b of None \<Rightarrow> tt_body tray | Some b \<Rightarrow> b) in
     ebind (elift (TxPacket_init (oupdate (tt_data tray) (tr_txData tr)) (Some (pckt_value PkMessage)) msg)) (\<lambda>p.
     ethen (take_nonce E c p)
      (case TxTray_pack c tray (tr_txData tr) b of
         Inr tray' \<Rightarrow> ethen (tmod t (\<lambda>tr. tr\<lparr>tr_tray := tray'\<rparr>)) (eret True)
       | Inl e \<Rightarrow>
           if is_packet_error e then ethen (incStat ''packing_error'' 1) (eret False) else eraise e))))"

text \<open>Flags of a segment that are to change, and its repacking.\<close>

definition reflag_segment :: "'r road_env \<Rightarrow> nat \<Rightarrow> nat \<Rightarrow> hdata \<Rightarrow> ('r, unit) road" where
  "reflag_segment E t i flags =
     ebind (tget t id) (\<lambda>tr.
     ebind (elift (packet_of tr (Segment i))) (\<lambda>p.
     let p1 = p\<lparr>tp_data := oupdate (tp_data p) flags\<rparr>;
         put = (\<lambda>q. tmod t (\<lambda>tr. tr\<lparr>tr_tray := (tr_tray tr)\<lparr>tt_packets := (tt_packets (tr_tray tr))[i := q]\<rparr>\<rparr>))
     in ethen (put p1)
       (ebind (eget (road_codec E)) (\<lambda>c. ebind (elift (TxPacket_repack c p1)) put))))"

definition send_segment :: "nat \<Rightarrow> nat \<Rightarrow> ('r, unit) road" where
  "send_segment t i =
     ethen (trans_transmit t (Segment i))
    (ethen (tmod t (\<lambda>tr. tr\<lparr>tr_tray := (tr_tray tr)\<lparr>tt_last := tt_current (tr_tray tr),
                                              tt_current := tt_current (tr_tray tr) + 1\<rparr>\<rparr>))
      (incStat ''message_segment_tx'' 1))"

definition send_burst :: "'r road_env \<Rightarrow> nat \<Rightarrow> ('r, unit) road" where
  "send_burst E t =
     ebind (tget t id) (\<lambda>tr.
     let n = length (tt_packets (tr_tray tr)); current = tt_current (tr_tray tr);
         rest = int n - current;
         burst = (if tr_burst tr \<noteq> 0 then min (tr_burst tr) rest else rest);
         segments = py_slice [0..<n] current (current + burst)
     in ethen (ewhen (segments \<noteq> []) (reflag_segment E t (last segments) [(''wf'', VBool True)]))
          (efor segments (send_segment t)))"

text \<open>
  A transaction at the index that is another one would make the code call a method that does not
  exist.
\<close>

definition add_if_missing :: "nat \<Rightarrow> ('r, unit) road" where
  "add_if_missing t =
     ebind (eget (\<lambda>s. (own_index s t, rm_transactions (rs_remotes s (tr_remote (rs_trans s t)))))) (\<lambda>(i, ts).
     if \<not> ohas ts i then add_self t
     else if oget ts i \<noteq> Some t then eraise AttributeError
     else eret ())"

definition Messenger_message :: "'r road_env \<Rightarrow> body option \<Rightarrow> nat \<Rightarrow> ('r, unit) road" where
  "Messenger_message E b t =
     ebind (tget t id) (\<lambda>tr.
     ebind (rget (tr_remote tr) rm_allowed) (\<lambda>allowed.
     if allowed \<noteq> Some True then ethen (incStat ''unallowed_remote'' 1) (remove_self t)
     else
       ebind (if tt_packets (tr_tray tr) = [] then pack_tray E t b else eret True) (\<lambda>packed.
       if \<not> packed then remove_self t
       else
         ebind (tget t tr_tray) (\<lambda>tray.
         if tt_current tray \<ge> int (length (tt_packets tray)) then remove_self t
         else ethen (add_if_missing t) (send_burst E t)))))"

definition stack_message :: "'r road_env \<Rightarrow> body \<Rightarrow> int option \<Rightarrow> rat option \<Rightarrow> ('r, unit) road" where
  "stack_message E b uid timeout =
     with_remote ''invalid_remote_uid'' uid (\<lambda>r.
       ebind (Messenger_init E r timeout) (Messenger_message E (Some b)))"

definition resend_saved :: "'r road_env \<Rightarrow> nat \<Rightarrow> ('r, unit) road" where
  "resend_saved E r = sendSavedMessages (\<lambda>b uid. stack_message E b (Some uid) None) r"

end
