(* ===== verification/Joining.thy ===== *)
theory Joining
  imports Initiating
begin

text \<open>
  The join transaction, \<open>Joiner\<close> and \<open>Joinent\<close> of raet/road/transacting.py: two estates exchange
  names, addresses, roles and keys, and each decides whether to accept the other. A join is vacuous
  if the initiator does not know its id at the correspondent.

  Names, roles, keys and ids in the bodies of join packets are strings and integers; the model
  raises \<open>TypeError\<close> for JSON values of other types, which the code would store.
\<close>

section \<open>What the other side says of itself\<close>

record join_info =
  ji_name :: string
  ji_main :: bool
  ji_kind :: val
  ji_uid :: int
  ji_verhex :: string
  ji_pubhex :: string
  ji_role :: string

definition body_dict :: "body \<Rightarrow> hdata result" where
  "body_dict b = (case b of BData (VDict d) \<Rightarrow> Inr d | _ \<Rightarrow> Inl AttributeError)"

text \<open>A field that must be there: \<open>None\<close> if it is false.\<close>

definition text_field :: "hdata \<Rightarrow> string \<Rightarrow> string option result" where
  "text_field d k =
     (let v = oget_or d k VNone in
      if \<not> py_true v then Inr None else case v of VStr s \<Rightarrow> Inr (Some s) | _ \<Rightarrow> Inl TypeError)"

definition uid_field :: "hdata \<Rightarrow> string \<Rightarrow> int option result" where
  "uid_field d k =
     (let v = oget_or d k VNone in
      if \<not> py_true v then Inr None
      else case as_int v of Some i \<Rightarrow> Inr (Some i) | None \<Rightarrow> Inl TypeError)"

definition mode_field :: "hdata \<Rightarrow> int option" where
  "mode_field d =
     (case as_int (oget_or d ''mode'' VNone) of
        None \<Rightarrow> None
      | Some m \<Rightarrow> if m < 0 \<or> m > 255 then None else Some m)"

definition main_flag :: "codec \<Rightarrow> int \<Rightarrow> bool result" where
  "main_flag c mode =
     (let flags = unpack_byte c FMT8 mode in
      if 7 < length flags then Inr (flags ! 7) else Inl IndexError)"

definition ifSome :: "'a option result \<Rightarrow> ('a \<Rightarrow> 'b option result) \<Rightarrow> 'b option result" where
  "ifSome r f = rbind r (\<lambda>x. case x of None \<Rightarrow> Inr None | Some y \<Rightarrow> f y)"

definition join_info :: "codec \<Rightarrow> bool \<Rightarrow> hdata \<Rightarrow> join_info option result" where
  "join_info c with_uid d =
     ifSome (text_field d ''name'') (\<lambda>name.
     ifSome (Inr (mode_field d)) (\<lambda>mode.
     rbind (main_flag c mode) (\<lambda>main.
     let kind = oget_or d ''kind'' VNone in
     if kind = VNone then Inr None
     else
       ifSome (if with_uid then uid_field d ''uid'' else Inr (Some 0)) (\<lambda>uid.
       ifSome (text_field d ''verhex'') (\<lambda>verhex.
       ifSome (text_field d ''pubhex'') (\<lambda>pubhex.
       ifSome (text_field d ''role'') (\<lambda>role.
       Inr (Some \<lparr>ji_name = name, ji_main = main, ji_kind = kind, ji_uid = uid,
                  ji_verhex = verhex, ji_pubhex = pubhex, ji_role = role\<rparr>))))))))"

definition same_role_keys :: "join_info \<Rightarrow> remote_part \<Rightarrow> bool" where
  "same_role_keys j m \<longleftrightarrow>
     ji_role j = es_role m \<and> ji_verhex j = vf_keyhex (rm_verfer m) \<and>
     ji_pubhex j = pb_keyhex (rm_pubber m)"

definition same_all :: "join_info \<Rightarrow> val \<Rightarrow> int \<Rightarrow> val lot \<Rightarrow> remote_part \<Rightarrow> bool" where
  "same_all j rha fuid l m \<longleftrightarrow>
     same_role_keys j m \<and> ji_name j = lot_name l \<and> rha = lot_ha l \<and> fuid = rm_fuid m \<and>
     py_eq (VBool (ji_main j)) (rm_main m) \<and> py_eq (ji_kind j) (rm_kind m)"

definition set_name :: "nat \<Rightarrow> string \<Rightarrow> ('r, unit) road" where
  "set_name r name = emod (set_lot r (lot_name_update (\<lambda>_. name)))"

definition set_ha :: "nat \<Rightarrow> val \<Rightarrow> ('r, unit) road" where
  "set_ha r ha = emod (set_lot r (lot_ha_update (\<lambda>_. ha)))"

text \<open>All that a remote is told of its other side, except its name and address.\<close>

definition take_identity :: "'r road_env \<Rightarrow> nat \<Rightarrow> join_info \<Rightarrow> ('r, unit) road" where
  "take_identity E r j =
     ethen (rmod r (\<lambda>m. m\<lparr>rm_main := VBool (ji_main j), rm_kind := ji_kind j, es_role := ji_role j\<rparr>))
    (ebind (elift (Verifier_init (rv_nacl E) (KeyBytes (ji_verhex j)))) (\<lambda>v.
     ethen (rmod r (\<lambda>m. m\<lparr>rm_verfer := v\<rparr>))
    (ebind (elift (Publican_init (rv_nacl E) (KeyBytes (ji_pubhex j)))) (\<lambda>p.
     rmod r (\<lambda>m. m\<lparr>rm_pubber := p\<rparr>)))))"

text \<open>Only the keys that differ are made anew.\<close>

definition change_identity :: "'r road_env \<Rightarrow> nat \<Rightarrow> val \<Rightarrow> int \<Rightarrow> join_info \<Rightarrow> ('r, unit) road" where
  "change_identity E r rha fuid j =
     ethen (set_ha r rha)
    (ethen (rmod r (\<lambda>m. m\<lparr>rm_fuid := fuid,
        rm_main := (if py_eq (VBool (ji_main j)) (rm_main m) then rm_main m else VBool (ji_main j)),
        rm_kind := (if py_eq (ji_kind j) (rm_kind m) then rm_kind m else ji_kind j),
        es_role := ji_role j\<rparr>))
    (ebind (rget r id) (\<lambda>m.
     ethen (ewhen (ji_verhex j \<noteq> vf_keyhex (rm_verfer m))
        (ebind (elift (Verifier_init (rv_nacl E) (KeyBytes (ji_verhex j)))) (\<lambda>v.
         rmod r (\<lambda>m. m\<lparr>rm_verfer := v\<rparr>))))
      (ewhen (ji_pubhex j \<noteq> pb_keyhex (rm_pubber m))
        (ebind (elift (Publican_init (rv_nacl E) (KeyBytes (ji_pubhex j)))) (\<lambda>p.
         rmod r (\<lambda>m. m\<lparr>rm_pubber := p\<rparr>)))))))"

text \<open>\<open>try: renameRemote except StackError\<close>: whether it went well.\<close>

definition try_rename :: "'r road_env \<Rightarrow> nat \<Rightarrow> string \<Rightarrow> ('r, bool) road" where
  "try_rename E r name =
     etry (\<lambda>e. e = StackError) (ethen (rename_remote E r name) (eret True)) (eret False)"

definition name_taken :: "nat \<Rightarrow> string \<Rightarrow> ('r, bool) road" where
  "name_taken r name =
     eget (\<lambda>s. case oget (st_nameRemotes s) name of None \<Rightarrow> False | Some r' \<Rightarrow> r' \<noteq> r)"

text \<open>The session of a remote after a join.\<close>

definition start_session :: "'r road_env \<Rightarrow> nat \<Rightarrow> ('r, unit) road" where
  "start_session E t =
     ebind (tget t id) (\<lambda>tr. let r = tr_remote tr in
     ebind (eget (\<lambda>s. lot_sid (st_lots s r))) (\<lambda>sid.
     ethen (ewhen (sid = 0) (ethen (next_sid r) (replaceStaleInitiators (trans_nack E) r)))
    (ethen (ewhen (tr_vacuous tr) (rmod r (\<lambda>m. m\<lparr>rm_rsid := 0\<rparr>)))
    (ethen (rmod r (\<lambda>m. m\<lparr>rm_joined := VBool True\<rparr>))
    (ethen (dump_remote E r) (dump_local E))))))"

section \<open>Joiner\<close>

definition Joiner_ackAccept :: "'r road_env \<Rightarrow> nat \<Rightarrow> ('r, unit) road" where
  "Joiner_ackAccept E t =
     packing E t PkAck EMPTY_BODY (remove_tx t) (\<lambda>p.
       ethen (incStat ''join_initiate_complete'' 1)
      (ethen (trans_transmit t (OwnPacket p))
      (ethen (remove_tx t)
        (ebind (tget t tr_cascade) (\<lambda>cascade. ewhen cascade (start_allow E t))))))"

definition Joiner_completify :: "'r road_env \<Rightarrow> nat \<Rightarrow> ('r, unit) road" where
  "Joiner_completify E t = ethen (start_session E t) (Joiner_ackAccept E t)"

definition Joiner_ackPend :: "'r road_env \<Rightarrow> nat \<Rightarrow> ('r, unit) road" where
  "Joiner_ackPend E t =
     packing E t PkPend EMPTY_BODY (remove_tx t) (\<lambda>p. trans_transmit t (OwnPacket p))"

definition Joiner_pendify :: "'r road_env \<Rightarrow> nat \<Rightarrow> ('r, unit) road" where
  "Joiner_pendify E t = ebind (tget t tr_remote) (\<lambda>r. ethen (dump_remote E r) (Joiner_ackPend E t))"

definition Joiner_refuse :: "'r road_env \<Rightarrow> nat \<Rightarrow> ('r, unit) road" where
  "Joiner_refuse E t = when_parsed E t (ethen (count_failure t) (remove_tx t))"

definition Joiner_reject :: "'r road_env \<Rightarrow> nat \<Rightarrow> ('r, unit) road" where
  "Joiner_reject E t =
     when_parsed E t
       (ethen (count_failure t)
       (ethen (remove_tx t)
         (ebind (tget t tr_remote) (\<lambda>r. remove_remote E r True))))"

definition Joiner_renew :: "'r road_env \<Rightarrow> nat \<Rightarrow> ('r, unit) road" where
  "Joiner_renew E t =
     (if \<not> rv_mutable E then ethen (incStat ''join_renew_unallowed'' 1) (Joiner_refuse E t)
      else
        ethen (incStat ''join_renew_attempt'' 1)
       (ethen (remove_tx t)
         (ebind (tget t id) (\<lambda>tr. let r = tr_remote tr in
          ethen (rmod r (\<lambda>m. m\<lparr>rm_fuid := 0\<rparr>))
         (ethen (dump_remote E r)
           (ebind (eget (\<lambda>s. remote_uid s r)) (\<lambda>uid.
            stack_join E (Some uid) (Some (tr_timeout tr)) False True)))))))"

definition Joiner_pend :: "'r road_env \<Rightarrow> nat \<Rightarrow> ('r, unit) road" where
  "Joiner_pend E t = when_parsed E t (tmod t (\<lambda>tr. tr\<lparr>tr_pended := True\<rparr>))"

text \<open>
  In a vacuous join that is not a renewal the remote takes over what the correspondent says of
  itself; it gives whether to go on.
\<close>

definition Joiner_vacuous :: "'r road_env \<Rightarrow> nat \<Rightarrow> nat \<Rightarrow> join_info \<Rightarrow> ('r, bool) road" where
  "Joiner_vacuous E t r j =
     ethen (rmod r (\<lambda>m. m\<lparr>rm_fuid := ji_uid j\<rparr>))
      (ebind (tget t tr_renewal) (\<lambda>renewal.
       if renewal then eret True
       else
         ebind (eget (\<lambda>s. (remote_name s r, ohas (st_nameRemotes s) (ji_name j)))) (\<lambda>(name, taken).
         if ji_name j \<noteq> name \<and> taken then ethen (Joiner_nack E PkReject t) (eret False)
         else
           ebind (if ji_name j \<noteq> name then try_rename E r (ji_name j) else eret True) (\<lambda>ok.
           if \<not> ok then ethen (count_failure t) (ethen (remove_tx t) (eret False))
           else ethen (take_identity E r j) (eret True)))))"

text \<open>The change of a remote on a mutable road; it gives whether to go on.\<close>

definition Joiner_change :: "'r road_env \<Rightarrow> nat \<Rightarrow> nat \<Rightarrow> val \<Rightarrow> join_info \<Rightarrow> ('r, bool) road" where
  "Joiner_change E t r rha j =
     ebind (name_taken r (ji_name j)) (\<lambda>taken.
     if taken then ethen (Joiner_nack E PkReject t) (eret False)
     else
       ebind (eget (\<lambda>s. remote_name s r)) (\<lambda>name.
       ebind (if ji_name j \<noteq> name then try_rename E r (ji_name j) else eret True) (\<lambda>ok.
       if \<not> ok then ethen (count_failure t) (ethen (remove_tx t) (eret False))
       else ethen (change_identity E r rha (ji_uid j) j) (eret True))))"

definition Joiner_accepted :: "'r road_env \<Rightarrow> nat \<Rightarrow> nat \<Rightarrow> val \<Rightarrow> join_info \<Rightarrow> ('r, unit) road" where
  "Joiner_accepted E t r rha j =
     ebind (eget (\<lambda>s. (st_lots s r, rs_remotes s r))) (\<lambda>(l, m).
     let same_keys = same_role_keys j m; same = same_all j rha (ji_uid j) l m in
     if \<not> same \<and> \<not> rv_mutable E then ethen (Joiner_nack E PkReject t) (remove_tx t)
     else
       ebind (status_role E (ji_role j) (ji_verhex j) (ji_pubhex j)) (\<lambda>status.
       if is_int status (acceptance_value Rejected) then
         (if same_keys then remove_remote E r True else Joiner_nack E PkReject t)
       else
         ethen (rmod r (\<lambda>m. m\<lparr>rm_acceptance := status\<rparr>))
          (ebind (if same then eret True else Joiner_change E t r rha j) (\<lambda>ok.
           ewhen ok
            (if is_int status (acceptance_value Accepted) then Joiner_completify E t
             else Joiner_pendify E t)))))"

definition Joiner_response :: "'r road_env \<Rightarrow> nat \<Rightarrow> hdata \<Rightarrow> ('r, unit) road" where
  "Joiner_response E t d =
     ebind (rx_body t) (\<lambda>b.
     ebind (elift (rbind (body_dict b) (join_info (rv_codec E) True))) (\<lambda>info. case info of
       None \<Rightarrow> ethen (incStat ''invalid_accept'' 1) (remove_tx t)
     | Some j \<Rightarrow>
         ebind (tget t id) (\<lambda>tr. let r = tr_remote tr in
         ebind (if tr_vacuous tr then Joiner_vacuous E t r j else eret True) (\<lambda>ok.
         ewhen ok (Joiner_accepted E t r (source_ha d) j)))))"

definition Joiner_accept :: "'r road_env \<Rightarrow> nat \<Rightarrow> ('r, unit) road" where
  "Joiner_accept E t = when_parsed E t (ebind (rx_data t) (Joiner_response E t))"

definition Joiner_receive :: "'r road_env \<Rightarrow> nat \<Rightarrow> rxpacket \<Rightarrow> ('r, unit) road" where
  "Joiner_receive E t p =
     ethen (tmod t (\<lambda>tr. tr\<lparr>tr_rxPacket := Some p\<rparr>))
      (let d = rp_data p in
       ewhen (is_trns d TkJoin)
        (if is_pckt d PkPend then ethen (incStat ''joiner_rx_pend'' 1) (Joiner_pend E t)
         else if is_pckt d PkResponse then ethen (incStat ''joiner_rx_response'' 1) (Joiner_accept E t)
         else if is_pckt d PkNack then ethen (incStat ''joiner_rx_nack'' 1) (Joiner_refuse E t)
         else if is_pckt d PkRefuse then ethen (incStat ''joiner_rx_refuse'' 1) (Joiner_refuse E t)
         else if is_pckt d PkRenew then ethen (incStat ''joiner_rx_renew'' 1) (Joiner_renew E t)
         else if is_pckt d PkReject then ethen (incStat ''joiner_rx_reject'' 1) (Joiner_reject E t)
         else eret ()))"

text \<open>The redo interval of a join; a pended one waits longer.\<close>

definition join_back_off :: "nat \<Rightarrow> ('r, unit) road" where
  "join_back_off t =
     ebind (tget t (\<lambda>tr. if tr_pended tr then PendRedoTimeout else longer tr)) (\<lambda>d.
     restart_redo t (Some d))"

text \<open>The acceptance of the remote may have changed on disk since the other side asked.\<close>

definition check_status :: "'r road_env \<Rightarrow> nat \<Rightarrow> ('r, unit) road \<Rightarrow> ('r, unit) road" where
  "check_status E t accepted =
     ebind (tget t tr_remote) (\<lambda>r.
     ebind (status_remote E r) (\<lambda>status.
     if is_int status (acceptance_value Accepted) then accepted
     else if is_int status (acceptance_value Rejected) then remove_remote E r True
     else eret ()))"

definition Joiner_process :: "'r road_env \<Rightarrow> nat \<Rightarrow> ('r, unit) road" where
  "Joiner_process E t =
     ebind (timed_out E t) (\<lambda>late.
     if late then
       ebind (tget t id) (\<lambda>tr. if tx_is tr PkRequest then remove_tx t else remove_self t)
     else
       ebind (redo_due E t) (\<lambda>due.
       ewhen due
        (ethen (join_back_off t)
          (ebind (tget t id) (\<lambda>tr.
           if tx_is tr PkRequest then ethen (transmit_again t) (incStat ''joiner_tx_join_redo'' 1)
           else check_status E t (Joiner_completify E t))))))"

section \<open>Joinent\<close>

definition Joinent_init :: "'r road_env \<Rightarrow> nat \<Rightarrow> rat \<Rightarrow> rxpacket \<Rightarrow> ('r, nat) road" where
  "Joinent_init E r timeout p =
     (let d = rp_data p in
      ebind (elift (int_item d ''si'')) (\<lambda>sid.
      ebind (elift (int_item d ''ti'')) (\<lambda>tid.
      ebind (eget (\<lambda>s. with_redo (1 / 10) 2 0 s
          (Transaction_init JoinentT r TkJoin timeout True (VBool False) sid tid (Some p) s))) (\<lambda>tr.
      new_transaction (tr\<lparr>tr_txData :=
        prep_reply [stack_hk, stack_bk] (oget_or d ''de'' VNone) d (tr_kind tr) True (VBool False) sid tid\<rparr>)))))"

definition Joinent_ackPend :: "'r road_env \<Rightarrow> nat \<Rightarrow> ('r, unit) road" where
  "Joinent_ackPend E t =
     packing E t PkPend EMPTY_BODY (remove_rx t) (\<lambda>p. trans_transmit t (OwnPacket p))"

definition Joinent_pendify :: "'r road_env \<Rightarrow> nat \<Rightarrow> ('r, unit) road" where
  "Joinent_pendify E t = ebind (tget t tr_remote) (\<lambda>r. ethen (dump_remote E r) (Joinent_ackPend E t))"

definition Joinent_ackAccept :: "'r road_env \<Rightarrow> nat \<Rightarrow> ('r, unit) road" where
  "Joinent_ackAccept E t =
     with_kind (\<lambda>kind.
       ebind (tget t tr_remote) (\<lambda>r.
       ebind (eget (\<lambda>s. own_identity E kind [(''uid'', VInt (remote_uid s r))] s)) (\<lambda>b.
       packing E t PkResponse (BData (VDict b)) (remove_rx t) (\<lambda>p. trans_transmit t (OwnPacket p)))))"

text \<open>
  The joins in process with the remote: this one again, another correspondent, or an initiator, with
  which it is in a race. It gives whether to go on.
\<close>

fun Joinent_race :: "'r road_env \<Rightarrow> nat \<Rightarrow> string \<Rightarrow> nat list \<Rightarrow> ('r, bool) road" where
  "Joinent_race E t name [] = eret True"
| "Joinent_race E t name (j # js) =
     (if j = t then ethen (incStat ''duplicate_join_attempt'' 1) (eret False)
      else
        ebind (eget (\<lambda>s. (rs_trans s t, rs_trans s j, lot_name (st_local s)))) (\<lambda>(tr, jr, own).
        if tr_rmt jr \<or> (tr_vacuous tr \<and> \<not> tr_vacuous jr) \<or>
           (tr_vacuous tr = tr_vacuous jr \<and> str_less own name)
        then ethen (incStat ''redundant_join_attempt'' 1)
              (ethen (Joinent_nack E PkRefuse t) (eret False))
        else ethen (Joiner_nack E PkRefuse j) (Joinent_race E t name js)))"

text \<open>
  A vacuous join is for a main estate. A remote of that name takes the place of the one made for the
  packet; otherwise that one takes over what the packet says.
\<close>

definition Joinent_vacuous :: "'r road_env \<Rightarrow> nat \<Rightarrow> int \<Rightarrow> join_info \<Rightarrow> ('r, bool) road" where
  "Joinent_vacuous E t reid j =
     (if \<not> rv_main E then ethen (Joinent_nack E PkReject t) (eret False)
      else
        ebind (eget (\<lambda>s. oget (st_nameRemotes s) (ji_name j))) (\<lambda>known. case known of
          Some r \<Rightarrow> ethen (tmod t (\<lambda>tr. tr\<lparr>tr_remote := r\<rparr>)) (eret True)
        | None \<Rightarrow>
            ebind (tget t tr_remote) (\<lambda>r.
            ethen (set_name r (ji_name j))
           (ethen (take_identity E r j)
             (ebind (rget r rm_fuid) (\<lambda>fuid.
              if fuid = reid then eret True
              else if fuid = 0 then ethen (rmod r (\<lambda>m. m\<lparr>rm_fuid := reid\<rparr>)) (eret True)
              else ethen (Joinent_nack E PkReject t) (eret False)))))))"

definition Joinent_known :: "'r road_env \<Rightarrow> nat \<Rightarrow> int \<Rightarrow> ('r, bool) road" where
  "Joinent_known E t leid =
     ebind (eget (\<lambda>s. oget (st_uidRemotes s) leid)) (\<lambda>known. case known of
       None \<Rightarrow> eraise KeyError
     | Some r' \<Rightarrow>
         ebind (tget t tr_remote) (\<lambda>r.
         if r \<noteq> r' then ethen (Joinent_nack E PkReject t) (eret False) else eret True))"

text \<open>The remote joins the road, or is changed on a mutable one; it gives whether to go on.\<close>

definition Joinent_place ::
    "'r road_env \<Rightarrow> nat \<Rightarrow> nat \<Rightarrow> val \<Rightarrow> int \<Rightarrow> join_info \<Rightarrow> bool \<Rightarrow> ('r, bool) road" where
  "Joinent_place E t r rha reid j same =
     (if same then
        ebind (eget (\<lambda>s. ohas (st_uidRemotes s) (remote_uid s r))) (\<lambda>present.
        if present then eret True
        else
          ebind (etry (\<lambda>e. e = StackError) (ethen (add_remote E r False) (eret True)) (eret False)) (\<lambda>ok.
          ethen (ewhen (\<not> ok) (count_failure t)) (eret ok)))
      else
        ebind (name_taken r (ji_name j)) (\<lambda>taken.
        if taken then ethen (Joinent_nack E PkReject t) (eret False)
        else
          ebind (eget (\<lambda>s. remote_name s r)) (\<lambda>name.
          ebind (if ji_name j \<noteq> name then try_rename E r (ji_name j) else eret True) (\<lambda>ok.
          if \<not> ok then ethen (count_failure t) (eret False)
          else ethen (change_identity E r rha reid j) (eret True)))))"

definition Joinent_admit :: "'r road_env \<Rightarrow> nat \<Rightarrow> val \<Rightarrow> int \<Rightarrow> join_info \<Rightarrow> ('r, unit) road" where
  "Joinent_admit E t rha reid j =
     ebind (tget t tr_remote) (\<lambda>r.
     ebind (eget (\<lambda>s. (st_lots s r, rs_remotes s r))) (\<lambda>(l, m).
     let same_keys = same_role_keys j m; same = same_all j rha reid l m in
     if \<not> same \<and> \<not> rv_mutable E then Joinent_nack E PkReject t
     else
       ebind (status_role E (ji_role j) (ji_verhex j) (ji_pubhex j)) (\<lambda>status.
       if is_int status (acceptance_value Rejected) then
         ebind (eget (\<lambda>s. ohas (st_uidRemotes s) (remote_uid s r))) (\<lambda>present.
         if same_keys \<and> present then remove_remote E r True else Joinent_nack E PkReject t)
       else
         ethen (rmod r (\<lambda>m. m\<lparr>rm_acceptance := status\<rparr>))
          (ebind (Joinent_place E t r rha reid j same) (\<lambda>ok.
           ewhen ok
            (ethen (ebind (rx_index t) (trans_add t))
            (ethen (rmod r (\<lambda>m. m\<lparr>rm_joined := VNone\<rparr>))
              (if is_int status (acceptance_value Accepted)
               then ethen (back_off t) (Joinent_ackAccept E t)
               else Joinent_pendify E t))))))))"

definition Joinent_proceed ::
    "'r road_env \<Rightarrow> nat \<Rightarrow> val \<Rightarrow> int \<Rightarrow> join_info \<Rightarrow> int \<Rightarrow> ('r, unit) road" where
  "Joinent_proceed E t rha reid j leid =
     ethen (tmod t (\<lambda>tr. tr\<lparr>tr_vacuous := (leid = 0)\<rparr>))
      (ebind (tget t tr_remote) (\<lambda>r.
       ebind (joinInProcess r) (\<lambda>joins.
       ebind (Joinent_race E t (ji_name j) joins) (\<lambda>go.
       ewhen go
        (ebind (if leid = 0 then Joinent_vacuous E t reid j else Joinent_known E t leid) (\<lambda>ok.
         ewhen ok (Joinent_admit E t rha reid j)))))))"

definition Joinent_request :: "'r road_env \<Rightarrow> nat \<Rightarrow> hdata \<Rightarrow> ('r, unit) road" where
  "Joinent_request E t d =
     ebind (rx_body t) (\<lambda>b.
     ebind (elift (rbind (body_dict b) (join_info (rv_codec E) False))) (\<lambda>info. case info of
       None \<Rightarrow> ethen (incStat ''invalid_join'' 1) (remove_rx t)
     | Some j \<Rightarrow>
         ebind (elift (int_item d ''se'')) (\<lambda>reid.
         ebind (elift (int_item d ''de'')) (Joinent_proceed E t (source_ha d) reid j))))"

definition Joinent_join :: "'r road_env \<Rightarrow> nat \<Rightarrow> ('r, unit) road" where
  "Joinent_join E t = when_parsed E t (ebind (rx_data t) (Joinent_request E t))"

definition Joinent_pend :: "'r road_env \<Rightarrow> nat \<Rightarrow> ('r, unit) road" where
  "Joinent_pend E t = when_parsed E t (tmod t (\<lambda>tr. tr\<lparr>tr_pended := True\<rparr>))"

definition Joinent_complete :: "'r road_env \<Rightarrow> nat \<Rightarrow> ('r, unit) road" where
  "Joinent_complete E t =
     when_parsed E t
       (ethen (incStat ''join_correspond_complete'' 1)
       (ethen (start_session E t) (remove_rx t)))"

definition Joinent_reject :: "'r road_env \<Rightarrow> nat \<Rightarrow> ('r, unit) road" where
  "Joinent_reject E t =
     when_parsed E t
       (ethen (count_failure t)
       (ethen (remove_rx t)
         (ebind (tget t tr_remote) (\<lambda>r. remove_remote E r True))))"

definition Joinent_refuse :: "'r road_env \<Rightarrow> nat \<Rightarrow> ('r, unit) road" where
  "Joinent_refuse E t = when_parsed E t (ethen (count_failure t) (remove_rx t))"

definition Joinent_receive :: "'r road_env \<Rightarrow> nat \<Rightarrow> rxpacket \<Rightarrow> ('r, unit) road" where
  "Joinent_receive E t p =
     ethen (tmod t (\<lambda>tr. tr\<lparr>tr_rxPacket := Some p\<rparr>))
      (let d = rp_data p in
       ewhen (is_trns d TkJoin)
        (if is_pckt d PkRequest then ethen (incStat ''joinent_rx_request'' 1) (Joinent_join E t)
         else if is_pckt d PkPend then ethen (incStat ''joinent_rx_pend'' 1) (Joinent_pend E t)
         else if is_pckt d PkAck then ethen (incStat ''joinent_rx_ack'' 1) (Joinent_complete E t)
         else if is_pckt d PkNack then ethen (incStat ''joinent_rx_nack'' 1) (Joinent_refuse E t)
         else if is_pckt d PkRefuse then ethen (incStat ''joinent_rx_refuse'' 1) (Joinent_refuse E t)
         else if is_pckt d PkReject then ethen (incStat ''joinent_rx_reject'' 1) (Joinent_reject E t)
         else eret ()))"

definition Joinent_process :: "'r road_env \<Rightarrow> nat \<Rightarrow> ('r, unit) road" where
  "Joinent_process E t =
     ebind (timed_out E t) (\<lambda>late.
     if late then Joinent_nack E PkNack t
     else
       ebind (redo_due E t) (\<lambda>due.
       ewhen due
        (ethen (join_back_off t)
          (ebind (tget t id) (\<lambda>tr.
           if tx_is tr PkResponse then ethen (transmit_again t) (incStat ''joinent_tx_accept_redo'' 1)
           else check_status E t (Joinent_ackAccept E t))))))"

definition stack_replyJoin :: "'r road_env \<Rightarrow> rxpacket \<Rightarrow> nat \<Rightarrow> rat option \<Rightarrow> ('r, unit) road" where
  "stack_replyJoin E p r timeout =
     ebind (Joinent_init E r (given_or timeout (rv_joinent_timeout E)) p) (Joinent_join E)"

end
