(* ===== verification/Allowing.thy ===== *)
theory Allowing
  imports Initiating
begin

text \<open>
  The allow transaction, \<open>Allower\<close> and \<open>Allowent\<close> of raet/road/transacting.py: the CurveCP
  handshake of hello, cookie and initiate, which gives both sides short term keys for the session.
\<close>

section \<open>Opening bodies\<close>

definition open_box :: "'r road_env \<Rightarrow> privateer \<Rightarrow> bytes \<Rightarrow> bytes \<Rightarrow> publican \<Rightarrow> bytes result" where
  "open_box E priv cipher nonce pub =
     Privateer_decrypt (rv_nacl E) priv cipher nonce (key_peer pub) False"

definition raw_body :: "nat \<Rightarrow> body \<Rightarrow> bytes option" where
  "raw_body n b = (case b of BRaw s \<Rightarrow> if length s = n then Some s else None | _ \<Rightarrow> None)"

text \<open>A body that is not as it should be ends the transaction.\<close>

definition bad_body :: "string \<Rightarrow> ('r, unit) road \<Rightarrow> ('r, unit) road" where
  "bad_body stat nack = ethen (incStat stat 1) nack"

definition ascii_only :: "string \<Rightarrow> bytes" where
  "ascii_only s = filter (\<lambda>c. (of_char c :: nat) < 128) s"

definition set_oreo :: "nat \<Rightarrow> bytes \<Rightarrow> ('r, unit) road" where
  "set_oreo t oreo = tmod t (\<lambda>tr. tr\<lparr>tr_oreo := Some (hexlify oreo)\<rparr>)"

definition set_publee :: "'r road_env \<Rightarrow> nat \<Rightarrow> bytes \<Rightarrow> ('r, unit) road" where
  "set_publee E r key =
     ebind (elift (Publican_init (rv_nacl E) (KeyBytes key))) (\<lambda>p. rmod r (\<lambda>m. m\<lparr>rm_publee := p\<rparr>))"

definition get_priver :: "('r, privateer) road" where
  "get_priver = eget (lo_priver \<circ> rs_local)"

definition set_allowed :: "nat \<Rightarrow> ('r, unit) road" where
  "set_allowed r = rmod r (\<lambda>m. m\<lparr>rm_allowed := Some True, rm_alived := Some True\<rparr>)"

section \<open>Allower\<close>

definition Allower_initiate :: "'r road_env \<Rightarrow> nat \<Rightarrow> ('r, unit) road" where
  "Allower_initiate E t =
     ebind (tget t id) (\<lambda>tr.
     ebind (rget (tr_remote tr) id) (\<lambda>m.
     ebind get_priver (\<lambda>priver.
     ebind (seal E priver (pv_pubraw (rm_privee m)) (rm_pubber m)) (\<lambda>(vcipher, vnonce).
     ebind (elift (struct_pack INITIATESTUFF_PACKER
         [FBytes (pv_pubraw priver), FBytes vcipher, FBytes vnonce,
          FBytes (fill (CHR '' '') 128 (ascii_only (es_fqdn m)))])) (\<lambda>stuff.
     ebind (seal E (rm_privee m) stuff (rm_publee m)) (\<lambda>(cipher, nonce).
     ebind (elift (case tr_oreo tr of None \<Rightarrow> Inl TypeError | Some o' \<Rightarrow> unhexlify o')) (\<lambda>oreo.
     ebind (elift (struct_pack INITIATE_PACKER
         [FBytes (pv_pubraw (rm_privee m)), FBytes oreo, FBytes cipher, FBytes nonce])) (\<lambda>b.
     packing E t PkInitiate (BRaw b) (remove_self t) (\<lambda>p. trans_transmit t (OwnPacket p))))))))))"

text \<open>
  A cookie must open with the new short term key and the long term key of the remote, and be meant
  for the two ids.
\<close>

definition Allower_cookie :: "'r road_env \<Rightarrow> nat \<Rightarrow> ('r, unit) road" where
  "Allower_cookie E t =
     (let bad = bad_body ''invalid_cookie'' (Allower_nack E PkReject t) in
      when_parsed E t
       (ebind (rx_body t) (\<lambda>b. case raw_body (struct_size COOKIE_PACKER) b of
          None \<Rightarrow> bad
        | Some s \<Rightarrow>
            ebind (tget t tr_remote) (\<lambda>r.
            ebind (eget (\<lambda>s. (rs_remotes s r, remote_uid s r))) (\<lambda>(m, nuid).
            case struct_unpack COOKIE_PACKER s of
              Inr [FBytes cipher, FBytes nonce] \<Rightarrow>
                (case open_box E (rm_privee m) cipher nonce (rm_pubber m) of
                   Inl e \<Rightarrow> if e = ValueError then bad else eraise e
                 | Inr msg \<Rightarrow>
                     (case struct_unpack COOKIESTUFF_PACKER msg of
                        Inr [FBytes shortraw, FLong seid, FLong deid, FBytes oreo] \<Rightarrow>
                          if seid \<noteq> rm_fuid m \<or> deid \<noteq> nuid then bad
                          else ethen (set_oreo t oreo)
                              (ethen (set_publee E r shortraw) (Allower_initiate E t))
                      | _ \<Rightarrow> bad))
            | _ \<Rightarrow> eraise StructError)))))"

definition Allower_ackFinal :: "'r road_env \<Rightarrow> nat \<Rightarrow> ('r, unit) road" where
  "Allower_ackFinal E t =
     packing E t PkAck RAW_BODY (remove_self t) (\<lambda>p.
       ethen (remove_self t)
      (ethen (trans_transmit t (OwnPacket p))
      (ethen (incStat ''allow_initiate_complete'' 1)
        (ebind (tget t id) (\<lambda>tr. let r = tr_remote tr in
         ethen (next_sid r)
        (ethen (replaceStaleInitiators (trans_nack E) r)
        (ethen (dump_remote E r)
        (ethen (resend_saved E r)
          (ewhen (tr_cascade tr) (then_start (stack_alive E) t))))))))))"

definition Allower_allow :: "'r road_env \<Rightarrow> nat \<Rightarrow> ('r, unit) road" where
  "Allower_allow E t =
     when_parsed E t
       (ethen (ebind (tget t tr_remote) set_allowed) (Allower_ackFinal E t))"

definition Allower_refuse :: "'r road_env \<Rightarrow> nat \<Rightarrow> ('r, unit) road" where
  "Allower_refuse E t = when_parsed E t (ethen (remove_self t) (count_failure t))"

definition Allower_reject :: "'r road_env \<Rightarrow> nat \<Rightarrow> ('r, unit) road" where
  "Allower_reject E t =
     when_parsed E t
       (ethen (ebind (tget t tr_remote) (\<lambda>r. rmod r (\<lambda>m. m\<lparr>rm_allowed := Some False\<rparr>)))
       (ethen (remove_self t) (count_failure t)))"

definition Allower_unjoin :: "'r road_env \<Rightarrow> nat \<Rightarrow> ('r, unit) road" where
  "Allower_unjoin E t =
     when_parsed E t
       (ethen (ebind (tget t tr_remote) (\<lambda>r. rmod r (\<lambda>m. m\<lparr>rm_joined := VBool False\<rparr>)))
       (ethen (remove_self t)
       (ethen (count_failure t) (start_join E t))))"

definition Allower_receive :: "'r road_env \<Rightarrow> nat \<Rightarrow> rxpacket \<Rightarrow> ('r, unit) road" where
  "Allower_receive E t p =
     ethen (tmod t (\<lambda>tr. tr\<lparr>tr_rxPacket := Some p\<rparr>))
      (let d = rp_data p in
       ewhen (is_trns d TkAllow)
        (if is_pckt d PkCookie then Allower_cookie E t
         else if is_pckt d PkAck then Allower_allow E t
         else if is_pckt d PkNack then Allower_refuse E t
         else if is_pckt d PkRefuse then Allower_refuse E t
         else if is_pckt d PkReject then Allower_reject E t
         else if is_pckt d PkUnjoined then Allower_unjoin E t
         else eret ()))"

definition resend_if :: "nat \<Rightarrow> pckt_kind \<Rightarrow> string \<Rightarrow> ('r, unit) road" where
  "resend_if t k stat =
     ebind (tget t id) (\<lambda>tr. ewhen (tx_is tr k) (ethen (transmit_again t) (incStat stat 1)))"

definition Allower_process :: "'r road_env \<Rightarrow> nat \<Rightarrow> ('r, unit) road" where
  "Allower_process E t =
     ebind (timed_out E t) (\<lambda>late.
     if late then remove_self t
     else
       ebind (redo_due E t) (\<lambda>due.
       ewhen due
        (ethen (back_off t)
        (ethen (resend_if t PkHello ''redo_hello'')
        (ethen (resend_if t PkInitiate ''redo_initiate'')
          (resend_if t PkAck ''redo_final''))))))"

section \<open>Allowent\<close>

text \<open>A correspondent in the session that the packet names.\<close>

definition reply_init ::
    "trns_class \<Rightarrow> trns_kind \<Rightarrow> hdata \<Rightarrow> rat \<Rightarrow> rat \<Rightarrow> val \<Rightarrow> nat \<Rightarrow> rat \<Rightarrow> rxpacket \<Rightarrow> ('r, nat) road" where
  "reply_init cls kind data lo hi bcst r timeout p =
     ebind (elift (int_item (rp_data p) ''si'')) (\<lambda>sid.
     ebind (elift (int_item (rp_data p) ''ti'')) (\<lambda>tid.
     ebind (eget (\<lambda>s. with_redo lo hi lo s
         (Transaction_init cls r kind timeout True bcst sid tid (Some p) s))) (\<lambda>tr.
     ebind (eget (\<lambda>s. prep_remote data s tr)) (\<lambda>d.
     ebind (elift d) (\<lambda>data. new_transaction (tr\<lparr>tr_txData := data\<rparr>))))))"

definition Allowent_init :: "nat \<Rightarrow> rxpacket \<Rightarrow> ('r, nat) road" where
  "Allowent_init r p =
     reply_init AllowentT TkAllow [stack_hk, raw_bk, stack_fk] (1 / 4) 1 (VBool False) r AllowTimeout p"

definition Allowent_cookie :: "'r road_env \<Rightarrow> nat \<Rightarrow> ('r, unit) road" where
  "Allowent_cookie E t =
     ebind (on_random (Privateer_nonce (rv_nacl E))) (\<lambda>oreo.
     ethen (set_oreo t oreo)
      (ebind (tget t tr_remote) (\<lambda>r.
       ebind (eget (\<lambda>s. (rs_remotes s r, remote_uid s r))) (\<lambda>(m, nuid).
       ebind (elift (struct_pack COOKIESTUFF_PACKER
           [FBytes (pv_pubraw (rm_privee m)), FLong nuid, FLong (rm_fuid m), FBytes oreo])) (\<lambda>stuff.
       ebind get_priver (\<lambda>priver.
       ebind (seal E priver stuff (rm_publee m)) (\<lambda>(cipher, nonce).
       ebind (elift (struct_pack COOKIE_PACKER [FBytes cipher, FBytes nonce])) (\<lambda>b.
       packing E t PkCookie (BRaw b) (remove_self t) (\<lambda>p. trans_transmit t (OwnPacket p))))))))))"

text \<open>The allows in process with the remote; it gives whether to go on.\<close>

fun Allowent_race :: "'r road_env \<Rightarrow> nat \<Rightarrow> nat list \<Rightarrow> ('r, bool) road" where
  "Allowent_race E t [] = eret True"
| "Allowent_race E t (a # as) =
     (if a = t then ethen (incStat ''duplicate_allow_attempt'' 1) (eret False)
      else
        ebind (eget (\<lambda>s. (rs_trans s a, lot_name (st_local s), remote_name s (tr_remote (rs_trans s t)))))
          (\<lambda>(ar, own, name).
        if tr_rmt ar \<or> str_less own name
        then ethen (incStat ''redundant_allow_attempt'' 1)
              (ethen (Allowent_nack E PkRefuse t) (eret False))
        else ethen (Allower_nack E PkRefuse a) (Allowent_race E t as)))"

text \<open>
  After refusing because of a join in process the code goes on. A hello that does not open raises
  \<open>ValueError\<close>, which is not caught.
\<close>

definition Allowent_open :: "'r road_env \<Rightarrow> nat \<Rightarrow> ('r, unit) road" where
  "Allowent_open E t =
     (let bad = bad_body ''invalid_hello'' (Allowent_nack E PkReject t) in
      ebind (rx_body t) (\<lambda>b. case raw_body (struct_size HELLO_PACKER) b of
        None \<Rightarrow> bad
      | Some s \<Rightarrow>
          (case struct_unpack HELLO_PACKER s of
             Inr [FBytes plain, FBytes shortraw, FBytes cipher, FBytes nonce] \<Rightarrow>
               ebind (tget t tr_remote) (\<lambda>r.
               ethen (set_publee E r shortraw)
                (ebind (rget r rm_publee) (\<lambda>publee.
                 ebind get_priver (\<lambda>priver.
                 ebind (elift (open_box E priver cipher nonce publee)) (\<lambda>msg.
                 if msg \<noteq> plain then bad else Allowent_cookie E t)))))
           | _ \<Rightarrow> eraise StructError)))"

definition Allowent_hello :: "'r road_env \<Rightarrow> nat \<Rightarrow> ('r, unit) road" where
  "Allowent_hello E t =
     when_parsed E t
      (ebind (tget t tr_remote) (\<lambda>r.
       ebind (joinInProcess r) (\<lambda>joins.
       ethen (ewhen (joins \<noteq> [])
          (ethen (incStat ''invalid_allow_attempt'' 1) (Allowent_nack E PkRefuse t)))
        (ebind (allowInProcess r) (\<lambda>allows.
         ebind (Allowent_race E t allows) (\<lambda>go.
         ewhen go
          (ethen (rmod r (\<lambda>m. m\<lparr>rm_allowed := None\<rparr>))
            (ebind (rget r rm_joined) (\<lambda>joined.
             if \<not> py_true joined
             then ethen (incStat ''unjoined_allow_attempt'' 1) (Allowent_nack E PkUnjoined t)
             else ethen (rekey_remote E r) (ethen (add_self t) (Allowent_open E t)))))))))))"

definition Allowent_allow :: "'r road_env \<Rightarrow> nat \<Rightarrow> ('r, unit) road" where
  "Allowent_allow E t =
     ebind (tget t tr_remote) (\<lambda>r.
     ethen (set_allowed r)
    (ethen (next_sid r)
    (ethen (replaceStaleInitiators (trans_nack E) r) (dump_remote E r))))"

definition Allowent_ackInitiate :: "'r road_env \<Rightarrow> nat \<Rightarrow> ('r, unit) road" where
  "Allowent_ackInitiate E t =
     packing E t PkAck RAW_BODY (remove_self t) (\<lambda>p.
       ethen (trans_transmit t (OwnPacket p)) (Allowent_allow E t))"

text \<open>
  The initiate must name the short term key of the hello and the cookie that was sent, open with the
  short term keys, name the long term key of the remote and carry that key's voucher for the short
  term one. The domain name in it is only compared for a message.
\<close>

definition vouched ::
    "'r road_env \<Rightarrow> privateer \<Rightarrow> remote_part \<Rightarrow> bytes \<Rightarrow> bytes \<Rightarrow> bool result" where
  "vouched E priver m shortraw msg =
     (case struct_unpack INITIATESTUFF_PACKER msg of
        Inr [FBytes pubraw, FBytes vcipher, FBytes vnonce, FBytes fqdn] \<Rightarrow>
          if pubraw \<noteq> pb_keyraw (rm_pubber m) then Inr False
          else rbind (open_box E priver vcipher vnonce (rm_pubber m)) (\<lambda>vouch.
               Inr (vouch = pb_keyraw (rm_publee m) \<and> vouch = shortraw))
      | _ \<Rightarrow> Inr False)"

definition Allowent_initiate :: "'r road_env \<Rightarrow> nat \<Rightarrow> ('r, unit) road" where
  "Allowent_initiate E t =
     (let bad = bad_body ''invalid_initiate'' (Allowent_nack E PkReject t) in
      when_parsed E t
       (ebind (rx_body t) (\<lambda>b. case raw_body (struct_size INITIATE_PACKER) b of
          None \<Rightarrow> bad
        | Some s \<Rightarrow>
            (case struct_unpack INITIATE_PACKER s of
               Inr [FBytes shortraw, FBytes oreo, FBytes cipher, FBytes nonce] \<Rightarrow>
                 ebind (tget t id) (\<lambda>tr.
                 ebind (rget (tr_remote tr) id) (\<lambda>m.
                 if shortraw \<noteq> pb_keyraw (rm_publee m) then bad
                 else if Some (hexlify oreo) \<noteq> tr_oreo tr then bad
                 else
                   ebind (elift (open_box E (rm_privee m) cipher nonce (rm_publee m))) (\<lambda>msg.
                   ebind get_priver (\<lambda>priver.
                   ebind (elift (vouched E priver m shortraw msg)) (\<lambda>ok.
                   if \<not> ok then bad else Allowent_ackInitiate E t)))))
             | _ \<Rightarrow> eraise StructError))))"

definition Allowent_final :: "'r road_env \<Rightarrow> nat \<Rightarrow> ('r, unit) road" where
  "Allowent_final E t =
     when_parsed E t
       (ethen (remove_self t)
       (ethen (incStat ''allow_correspond_complete'' 1)
         (ebind (tget t tr_remote) (resend_saved E))))"

definition Allowent_refuse :: "'r road_env \<Rightarrow> nat \<Rightarrow> ('r, unit) road" where
  "Allowent_refuse E t = when_parsed E t (ethen (remove_self t) (count_failure t))"

definition Allowent_reject :: "'r road_env \<Rightarrow> nat \<Rightarrow> ('r, unit) road" where
  "Allowent_reject E t =
     when_parsed E t
       (ethen (ebind (tget t tr_remote) (\<lambda>r. rmod r (\<lambda>m. m\<lparr>rm_allowed := Some False\<rparr>)))
       (ethen (remove_self t) (count_failure t)))"

definition Allowent_receive :: "'r road_env \<Rightarrow> nat \<Rightarrow> rxpacket \<Rightarrow> ('r, unit) road" where
  "Allowent_receive E t p =
     ethen (tmod t (\<lambda>tr. tr\<lparr>tr_rxPacket := Some p\<rparr>))
      (let d = rp_data p in
       ewhen (is_trns d TkAllow)
        (if is_pckt d PkHello then Allowent_hello E t
         else if is_pckt d PkInitiate then Allowent_initiate E t
         else if is_pckt d PkAck then Allowent_final E t
         else if is_pckt d PkNack then Allowent_refuse E t
         else if is_pckt d PkRefuse then Allowent_refuse E t
         else if is_pckt d PkReject then Allowent_reject E t
         else eret ()))"

definition Allowent_process :: "'r road_env \<Rightarrow> nat \<Rightarrow> ('r, unit) road" where
  "Allowent_process E t =
     ebind (timed_out E t) (\<lambda>late.
     if late then Allowent_nack E PkRefuse t
     else
       ebind (redo_due E t) (\<lambda>due.
       ewhen due
        (ethen (back_off t)
        (ethen (resend_if t PkCookie ''redo_cookie'')
          (resend_if t PkAck ''redo_allow'')))))"

definition stack_replyAllow :: "'r road_env \<Rightarrow> rxpacket \<Rightarrow> nat \<Rightarrow> ('r, unit) road" where
  "stack_replyAllow E p r = ebind (Allowent_init r p) (Allowent_hello E)"

end
