(* ===== verification/Aliving.thy ===== *)
theory Aliving
  imports Allowing
begin

text \<open>
  The alive transaction, \<open>Aliver\<close> and \<open>Alivent\<close> of raet/road/transacting.py: a request and its
  acknowledgement, which tell both sides that the other one is there.
\<close>

section \<open>Aliver\<close>

text \<open>How a refusal ends an alive: what the remote's presence becomes, and what else changes.\<close>

definition Aliver_end ::
    "'r road_env \<Rightarrow> nat \<Rightarrow> bool option \<Rightarrow> (remote_part \<Rightarrow> remote_part) \<Rightarrow> ('r, unit) road \<Rightarrow> ('r, unit) road" where
  "Aliver_end E t alived change after =
     when_parsed E t
      (ebind (tget t tr_remote) (\<lambda>r.
       ethen (refresh E alived r)
      (ethen (rmod r change)
      (ethen (remove_self t) after))))"

definition Aliver_complete :: "'r road_env \<Rightarrow> nat \<Rightarrow> ('r, unit) road" where
  "Aliver_complete E t = Aliver_end E t (Some True) id (incStat ''alive_complete'' 1)"

definition Aliver_refuse :: "'r road_env \<Rightarrow> nat \<Rightarrow> ('r, unit) road" where
  "Aliver_refuse E t = Aliver_end E t None id (count_failure t)"

definition Aliver_reject :: "'r road_env \<Rightarrow> nat \<Rightarrow> ('r, unit) road" where
  "Aliver_reject E t = Aliver_end E t (Some False) id (count_failure t)"

definition Aliver_unjoin :: "'r road_env \<Rightarrow> nat \<Rightarrow> ('r, unit) road" where
  "Aliver_unjoin E t =
     Aliver_end E t None (\<lambda>m. m\<lparr>rm_joined := VBool False\<rparr>)
       (ethen (count_failure t) (start_join E t))"

definition Aliver_unallow :: "'r road_env \<Rightarrow> nat \<Rightarrow> ('r, unit) road" where
  "Aliver_unallow E t =
     Aliver_end E t None (\<lambda>m. m\<lparr>rm_allowed := Some False\<rparr>)
       (ethen (count_failure t) (start_allow E t))"

definition Aliver_receive :: "'r road_env \<Rightarrow> nat \<Rightarrow> rxpacket \<Rightarrow> ('r, unit) road" where
  "Aliver_receive E t p =
     ethen (tmod t (\<lambda>tr. tr\<lparr>tr_rxPacket := Some p\<rparr>))
      (let d = rp_data p in
       ewhen (is_trns d TkAlive)
        (if is_pckt d PkAck then Aliver_complete E t
         else if is_pckt d PkNack then Aliver_refuse E t
         else if is_pckt d PkRefuse then Aliver_refuse E t
         else if is_pckt d PkUnjoined then Aliver_unjoin E t
         else if is_pckt d PkUnallowed then Aliver_unallow E t
         else if is_pckt d PkReject then Aliver_reject E t
         else eret ()))"

text \<open>A remote that does not answer in time is taken to be dead.\<close>

definition Aliver_process :: "'r road_env \<Rightarrow> nat \<Rightarrow> ('r, unit) road" where
  "Aliver_process E t =
     ebind (timed_out E t) (\<lambda>late.
     if late then ethen (remove_self t) (ebind (tget t tr_remote) (refresh E (Some False)))
     else
       ebind (redo_due E t) (\<lambda>due.
       ewhen due (ethen (back_off t) (resend_if t PkRequest ''redo_alive''))))"

section \<open>Alivent\<close>

definition Alivent_init :: "nat \<Rightarrow> rxpacket \<Rightarrow> ('r, nat) road" where
  "Alivent_init r p =
     reply_init AliventT TkAlive [stack_hk, stack_bk, stack_fk, stack_ck] 0 0
       (oget_or (rp_data p) ''bf'' VNone) r AliventTimeout p"

definition Alivent_alive :: "'r road_env \<Rightarrow> nat \<Rightarrow> ('r, unit) road" where
  "Alivent_alive E t =
     when_parsed E t
      (ebind (tget t tr_remote) (\<lambda>r.
       ebind (rget r id) (\<lambda>m.
       if \<not> py_true (rm_joined m) then
         ethen (refresh E None r)
        (ethen (incStat ''unjoined_alive_attempt'' 1) (Alivent_nack E PkUnjoined t))
       else if rm_allowed m \<noteq> Some True then
         ethen (refresh E None r)
        (ethen (incStat ''unallowed_alive_attempt'' 1) (Alivent_nack E PkUnallowed t))
       else
         ethen (add_self t)
          (packing E t PkAck EMPTY_BODY (remove_self t) (\<lambda>p.
            ethen (trans_transmit t (OwnPacket p))
           (ethen (refresh E (Some True) r)
           (ethen (remove_self t) (incStat ''alive_complete'' 1))))))))"

definition Alivent_receive :: "'r road_env \<Rightarrow> nat \<Rightarrow> rxpacket \<Rightarrow> ('r, unit) road" where
  "Alivent_receive E t p =
     ethen (tmod t (\<lambda>tr. tr\<lparr>tr_rxPacket := Some p\<rparr>))
      (ewhen (is_trns (rp_data p) TkAlive \<and> is_pckt (rp_data p) PkRequest) (Alivent_alive E t))"

definition Alivent_process :: "'r road_env \<Rightarrow> nat \<Rightarrow> ('r, unit) road" where
  "Alivent_process E t = ebind (timed_out E t) (\<lambda>late. ewhen late (Alivent_nack E PkNack t))"

definition stack_replyAlive :: "'r road_env \<Rightarrow> rxpacket \<Rightarrow> nat \<Rightarrow> ('r, unit) road" where
  "stack_replyAlive E p r = ebind (Alivent_init r p) (Alivent_alive E)"

end
