(* ===== verification/Messaging.thy ===== *)
theory Messaging
  imports Allowing
begin

text \<open>
  The message transaction, \<open>Messenger\<close> and \<open>Messengent\<close> of raet/road/transacting.py: the segments of
  a message go out in bursts, the last of a burst waits for an acknowledgement, and what is missing
  is asked for again until the message is complete.
\<close>

section \<open>Messenger\<close>

definition flag_of :: "txpacket \<Rightarrow> string \<Rightarrow> bool" where
  "flag_of p k = py_true (oget_or (tp_data p) k VNone)"

text \<open>
  The flags that a resent segment needs: it is sent again, and only the last of a burst waits. It is
  repacked if that changes one.
\<close>

definition resend_flags :: "bool \<Rightarrow> txpacket \<Rightarrow> hdata" where
  "resend_flags wait p =
     (if flag_of p ''af'' then [] else [(''af'', VBool True)]) @
     (if flag_of p ''wf'' = wait then [] else [(''wf'', VBool wait)])"

definition reflag_missed :: "'r road_env \<Rightarrow> nat \<Rightarrow> bool \<Rightarrow> nat \<Rightarrow> ('r, unit) road" where
  "reflag_missed E t wait i =
     ebind (tget t id) (\<lambda>tr.
     ebind (elift (packet_of tr (Segment i))) (\<lambda>p.
     ewhen (resend_flags wait p \<noteq> []) (reflag_segment E t i (resend_flags wait p))))"

definition resend_segment :: "nat \<Rightarrow> nat \<Rightarrow> ('r, unit) road" where
  "resend_segment t i =
     ethen (trans_transmit t (Segment i))
    (ethen (incStat ''message_segment_tx'' 1)
      (tmod t (\<lambda>tr. tr\<lparr>tr_misseds := filter (\<lambda>j. j \<noteq> i) (tr_misseds tr)\<rparr>)))"

definition sendMisseds :: "'r road_env \<Rightarrow> nat \<Rightarrow> ('r, unit) road" where
  "sendMisseds E t =
     ebind (tget t id) (\<lambda>tr.
     let all = tr_misseds tr; n = length all;
         burst = (if tr_burst tr \<noteq> 0 then min (nat (tr_burst tr)) n else n);
         misseds = take burst all
     in ewhen (misseds \<noteq> [])
         (ethen (efor (butlast misseds) (reflag_missed E t False))
         (ethen (reflag_missed E t True (last misseds))
           (efor misseds (resend_segment t)))))"

definition Messenger_another :: "'r road_env \<Rightarrow> nat \<Rightarrow> ('r, unit) road" where
  "Messenger_another E t =
     when_parsed E t
      (ebind (tget t id) (\<lambda>tr.
       ethen (refresh E (Some True) (tr_remote tr))
      (ethen (incStat ''message_ack_rx'' 1)
        (if tr_misseds tr \<noteq> [] then sendMisseds E t
         else
           ebind (rx_data t) (\<lambda>d.
           ebind (elift (int_item d ''sn'')) (\<lambda>sn.
           ethen (ewhen (tt_current (tr_tray tr) > sn + 1)
              (tmod t (\<lambda>tr. tr\<lparr>tr_tray := (tr_tray tr)\<lparr>tt_current := sn + 1, tt_last := sn\<rparr>\<rparr>)))
            (ebind (tget t tr_tray) (\<lambda>tray.
             ewhen (tt_current tray < int (length (tt_packets tray))) (Messenger_message E None t)))))))))"

text \<open>
  The numbers that the other side misses: each adds its segment to the ones to send, once. A number
  that no segment has ends the handling.
\<close>

fun add_misseds :: "nat \<Rightarrow> val list \<Rightarrow> ('r, bool) road" where
  "add_misseds t [] = eret True"
| "add_misseds t (v # vs) =
     ebind (tget t (length \<circ> tt_packets \<circ> tr_tray)) (\<lambda>n.
     case as_int v of
       None \<Rightarrow> eraise TypeError
     | Some m \<Rightarrow>
         if - int n \<le> m \<and> m < int n then
           let i = nat (m mod int n) in
           ethen (tmod t (\<lambda>tr. tr\<lparr>tr_misseds :=
               (if i \<in> set (tr_misseds tr) then tr_misseds tr else tr_misseds tr @ [i])\<rparr>))
             (add_misseds t vs)
         else ethen (incStat ''invalid_misseds'' 1) (eret False))"

definition Messenger_resend :: "'r road_env \<Rightarrow> nat \<Rightarrow> ('r, unit) road" where
  "Messenger_resend E t =
     when_parsed E t
      (ebind (tget t id) (\<lambda>tr.
       ethen (refresh E (Some True) (tr_remote tr))
      (ethen (incStat ''message_resend_rx'' 1)
        (ebind (rx_body t) (\<lambda>b. case b of
           BData (VDict d) \<Rightarrow>
             let misseds = oget_or d ''misseds'' VNone in
             ewhen (py_true misseds)
              (if tt_packets (tr_tray tr) = [] then incStat ''invalid_resend'' 1
               else case misseds of
                 VList vs \<Rightarrow> ebind (add_misseds t vs) (\<lambda>ok. ewhen ok (sendMisseds E t))
               | _ \<Rightarrow> eraise TypeError)
         | _ \<Rightarrow> eraise AttributeError)))))"

definition Messenger_complete :: "'r road_env \<Rightarrow> nat \<Rightarrow> ('r, unit) road" where
  "Messenger_complete E t =
     when_parsed E t
      (ebind (tget t tr_remote) (\<lambda>r.
       ethen (refresh E (Some True) r)
      (ethen (incStat ''message_complete_rx'' 1)
      (ethen (remove_self t) (incStat ''message_initiate_complete'' 1)))))"

definition Messenger_reject :: "'r road_env \<Rightarrow> nat \<Rightarrow> ('r, unit) road" where
  "Messenger_reject E t =
     when_parsed E t
      (ebind (tget t tr_remote) (\<lambda>r.
       ethen (refresh E (Some True) r)
      (ethen (incStat ''message_reject_rx'' 1)
      (ethen (remove_self t) (count_failure t)))))"

definition Messenger_receive :: "'r road_env \<Rightarrow> nat \<Rightarrow> rxpacket \<Rightarrow> ('r, unit) road" where
  "Messenger_receive E t p =
     ethen (tmod t (\<lambda>tr. tr\<lparr>tr_rxPacket := Some p\<rparr>))
      (let d = rp_data p; acked = tmod t (\<lambda>tr. tr\<lparr>tr_acked := True\<rparr>) in
       ewhen (is_trns d TkMessage)
        (if is_pckt d PkAck then ethen acked (Messenger_another E t)
         else if is_pckt d PkResend then ethen acked (Messenger_resend E t)
         else if is_pckt d PkDone then ethen acked (Messenger_complete E t)
         else if is_pckt d PkNack then Messenger_reject E t
         else eret ()))"

text \<open>A segment that is sent once more after an answer came is marked so.\<close>

definition redo_segment :: "'r road_env \<Rightarrow> nat \<Rightarrow> ('r, unit) road" where
  "redo_segment E t =
     ebind (tget t id) (\<lambda>tr.
     ewhen (tx_is tr PkMessage)
      (ethen
        (case tr_txPacket tr of
           Some (Segment i) \<Rightarrow>
             ebind (elift (packet_of tr (Segment i))) (\<lambda>p.
             ewhen (tr_acked tr \<and> \<not> flag_of p ''af'') (reflag_segment E t i [(''af'', VBool True)]))
         | _ \<Rightarrow> eret ())
      (ethen (transmit_again t) (incStat ''redo_segment'' 1))))"

definition Messenger_process :: "'r road_env \<Rightarrow> nat \<Rightarrow> ('r, unit) road" where
  "Messenger_process E t =
     ebind (timed_out E t) (\<lambda>late.
     if late then remove_self t
     else
       ebind (redo_due E t) (\<lambda>due.
       ewhen due (ethen (back_off t) (redo_segment E t))))"

section \<open>Messengent\<close>

definition Messengent_init :: "nat \<Rightarrow> rxpacket \<Rightarrow> ('r, nat) road" where
  "Messengent_init r p =
     ebind (reply_init MessengentT TkMessage [stack_hk, stack_bk, stack_fk, stack_ck] (1 / 5) (1 / 2)
       (oget_or (rp_data p) ''bf'' VNone) r MessageTimeout p) (\<lambda>t.
     ethen (tmod t (\<lambda>tr. tr\<lparr>tr_txData :=
         oset ''wf'' (oget_or (rp_data p) ''wf'' VNone) (tr_txData tr)\<rparr>))
       (eret t))"

text \<open>What is left of the tray when its \<open>parse\<close> raises.\<close>

definition tray_after_error :: "codec \<Rightarrow> rxtray \<Rightarrow> rxpacket \<Rightarrow> rxtray" where
  "tray_after_error c t p =
     (case (int_item (rp_data p) ''sc'', int_item (rp_data p) ''sn'') of
        (Inr sc, Inr sn) \<Rightarrow>
          let t1 = (if sn > rt_highest t then t\<lparr>rt_highest := sn\<rparr> else t);
              new = rt_segments t1 = [];
              t2 = (if new then t1\<lparr>rt_data := oupdate (rt_data t1) (rp_data p)\<rparr> else t1);
              slots = (if new then replicate (nat sc) None else rt_segments t1)
          in if sc = 1 then t1\<lparr>rt_data := oupdate (rt_data t1) (rp_data p)\<rparr>
             else
               (case RxPacket_unpackInner p of
                  Inl _ \<Rightarrow> t2\<lparr>rt_segments := slots\<rparr>
                | Inr p1 \<Rightarrow>
                    (case place_piece (rt_segments t1) sc sn (rp_coat p1) of
                       Inl _ \<Rightarrow> t2\<lparr>rt_segments := slots\<rparr>
                     | Inr segs \<Rightarrow> t2\<lparr>rt_segments := segs, rt_packed := joined segs\<rparr>))
      | _ \<Rightarrow> t)"

text \<open>A \<open>PacketError\<close> is caught, but what is then called does not exist.\<close>

definition parse_tray :: "'r road_env \<Rightarrow> nat \<Rightarrow> ('r, unit) road" where
  "parse_tray E t =
     ebind (eget (road_codec E)) (\<lambda>c.
     ebind (tget t id) (\<lambda>tr. case tr_rxPacket tr of
       None \<Rightarrow> eraise AttributeError
     | Some p \<Rightarrow>
         (case RxTray_parse c (tr_rxtray tr) p of
            Inr (tray, b) \<Rightarrow> tmod t (\<lambda>tr. tr\<lparr>tr_rxtray := tray\<rparr>)
          | Inl e \<Rightarrow>
              ethen (tmod t (\<lambda>tr. tr\<lparr>tr_rxtray := tray_after_error c (tr_rxtray tr) p\<rparr>))
                (eraise (if is_packet_error e then AttributeError else e)))))"

definition Messengent_ack :: "'r road_env \<Rightarrow> nat \<Rightarrow> ('r, unit) road" where
  "Messengent_ack E t =
     ebind (tget t id) (\<lambda>tr.
     ebind (make_packet E PkAck EMPTY_BODY
        (oset ''sn'' (VInt (rt_highest (tr_rxtray tr))) (tr_txData tr))) (\<lambda>q. case q of
       None \<Rightarrow> remove_self t
     | Some p \<Rightarrow> ethen (trans_transmit t (OwnPacket p)) (incStat ''message_more_ack'' 1)))"

text \<open>At most 64 numbers go into one packet.\<close>

function Messengent_resend :: "'r road_env \<Rightarrow> nat \<Rightarrow> int list \<Rightarrow> ('r, unit) road" where
  "Messengent_resend E t misseds =
     (if misseds = [] then eret ()
      else
        packing E t PkResend (BData (VDict [(''misseds'', VList (map VInt (take 64 misseds)))]))
          (remove_self t) (\<lambda>p.
          ethen (trans_transmit t (OwnPacket p))
         (ethen (incStat ''message_resend_tx'' 1)
           (Messengent_resend E t (drop 64 misseds)))))"
  by pat_completeness auto
termination by (relation "measure (\<lambda>(E, t, misseds). length misseds)") auto

declare Messengent_resend.simps [simp del]

definition Messengent_done :: "'r road_env \<Rightarrow> nat \<Rightarrow> ('r, unit) road" where
  "Messengent_done E t =
     packing E t PkDone EMPTY_BODY (remove_self t) (\<lambda>p.
       ethen (trans_transmit t (OwnPacket p)) (incStat ''message_complete_ack'' 1))"

definition Messengent_complete :: "'r road_env \<Rightarrow> nat \<Rightarrow> ('r, unit) road" where
  "Messengent_complete E t =
     ethen (Messengent_done E t)
      (ebind (tget t id) (\<lambda>tr.
       let b = (case rt_body (tr_rxtray tr) of None \<Rightarrow> BData VNone | Some b \<Rightarrow> b) in
       ethen (emod (\<lambda>s. s\<lparr>st_rxMsgs := st_rxMsgs s @ [(b, remote_name s (tr_remote tr))]\<rparr>))
      (ethen (remove_self t) (incStat ''messagent_correspond_complete'' 1))))"

text \<open>Asks for the missing segments below the highest one, or else for more.\<close>

definition ask_missing :: "'r road_env \<Rightarrow> nat \<Rightarrow> ('r, unit) road" where
  "ask_missing E t =
     ebind (tget t id) (\<lambda>tr.
     ebind (elift (RxTray_missing (tr_rxtray tr) (tr_lowest tr) None)) (\<lambda>misseds. case misseds of
       [] \<Rightarrow> Messengent_ack E t
     | m # _ \<Rightarrow>
         ethen (tmod t (\<lambda>tr. tr\<lparr>tr_lowest := Some m\<rparr>)) (Messengent_resend E t misseds)))"

definition Messengent_message :: "'r road_env \<Rightarrow> nat \<Rightarrow> ('r, unit) road" where
  "Messengent_message E t =
     ebind (tget t tr_remote) (\<lambda>r.
     ebind (rget r rm_allowed) (\<lambda>allowed.
     if allowed \<noteq> Some True then ethen (incStat ''unallowed_message_attempt'' 1) (Messengent_nack E t)
     else
       ethen (parse_tray E t)
      (ethen (add_if_missing t)
      (ethen (refresh E (Some True) r)
      (ethen (incStat ''message_segment_rx'' 1)
        (ebind (rx_data t) (\<lambda>d.
         ethen (tmod t (\<lambda>tr. tr\<lparr>tr_wait := oget_or d ''wf'' VNone\<rparr>))
          (ebind (tget t id) (\<lambda>tr.
           if rt_complete (tr_rxtray tr) then Messengent_complete E t
           else ewhen (py_true (tr_wait tr)) (ask_missing E t))))))))))"

definition Messengent_reject :: "'r road_env \<Rightarrow> nat \<Rightarrow> ('r, unit) road" where
  "Messengent_reject E t =
     when_parsed E t
      (ebind (tget t tr_remote) (\<lambda>r.
       ethen (refresh E (Some True) r)
      (ethen (incStat ''message_reject_nack'' 1)
      (ethen (remove_self t) (count_failure t)))))"

definition Messengent_receive :: "'r road_env \<Rightarrow> nat \<Rightarrow> rxpacket \<Rightarrow> ('r, unit) road" where
  "Messengent_receive E t p =
     ethen (tmod t (\<lambda>tr. tr\<lparr>tr_rxPacket := Some p\<rparr>))
      (let d = rp_data p in
       ewhen (is_trns d TkMessage)
        (if is_pckt d PkMessage then Messengent_message E t
         else if is_pckt d PkNack then Messengent_reject E t
         else eret ()))"

definition Messengent_process :: "'r road_env \<Rightarrow> nat \<Rightarrow> ('r, unit) road" where
  "Messengent_process E t =
     ebind (timed_out E t) (\<lambda>late.
     if late then Messengent_nack E t
     else
       ebind (redo_due E t) (\<lambda>due.
       ewhen due
        (ethen (back_off t)
          (ebind (tget t (rt_complete \<circ> tr_rxtray)) (\<lambda>complete.
           if complete then Messengent_complete E t else ask_missing E t)))))"

definition stack_replyMessage :: "'r road_env \<Rightarrow> rxpacket \<Rightarrow> nat \<Rightarrow> ('r, unit) road" where
  "stack_replyMessage E p r = ebind (Messengent_init r p) (Messengent_message E)"

end
