(* ===== verification/RoadStacking.thy ===== *)
theory RoadStacking
  imports Joining Aliving Messaging
begin

text \<open>
  The road stack, raet/road/stacking.py: which transaction a received packet goes to, which packets
  are dropped or answered with a nack, how a transaction of the other side is taken up, and the
  service of remotes, packets and messages.

  Ids in headers are integers, as headers in the RAET format have them; a header in JSON with other
  values makes the model raise \<open>TypeError\<close>.
\<close>

section \<open>Dispatch\<close>

definition trans_receive :: "'r road_env \<Rightarrow> nat \<Rightarrow> rxpacket \<Rightarrow> ('r, unit) road" where
  "trans_receive E t p =
     ebind (tget t tr_class) (\<lambda>cls. case cls of
       JoinerT \<Rightarrow> Joiner_receive E t p
     | JoinentT \<Rightarrow> Joinent_receive E t p
     | AllowerT \<Rightarrow> Allower_receive E t p
     | AllowentT \<Rightarrow> Allowent_receive E t p
     | AliverT \<Rightarrow> Aliver_receive E t p
     | AliventT \<Rightarrow> Alivent_receive E t p
     | MessengerT \<Rightarrow> Messenger_receive E t p
     | MessengentT \<Rightarrow> Messengent_receive E t p)"

definition trans_process :: "'r road_env \<Rightarrow> nat \<Rightarrow> ('r, unit) road" where
  "trans_process E t =
     ebind (tget t tr_class) (\<lambda>cls. case cls of
       JoinerT \<Rightarrow> Joiner_process E t
     | JoinentT \<Rightarrow> Joinent_process E t
     | AllowerT \<Rightarrow> Allower_process E t
     | AllowentT \<Rightarrow> Allowent_process E t
     | AliverT \<Rightarrow> Aliver_process E t
     | AliventT \<Rightarrow> Alivent_process E t
     | MessengerT \<Rightarrow> Messenger_process E t
     | MessengentT \<Rightarrow> Messengent_process E t)"

definition transactions :: "'r road_stack \<Rightarrow> nat list" where
  "transactions s = concat (map (\<lambda>r. ovalues (rm_transactions (rs_remotes s r))) (ovalues (st_uidRemotes s)))"

section \<open>Remotes\<close>

text \<open>A remote for a vacuous join to an address.\<close>

definition createRemote :: "'r road_env \<Rightarrow> val \<Rightarrow> ('r, nat option) road" where
  "createRemote E ha =
     (if \<not> py_true ha then ethen (incStat ''failed_createremote'' 1) (eret None)
      else
        ebind (RemoteEstate_init E (remote_args 0 0 ha)) (\<lambda>r.
        ebind (etry (\<lambda>e. e = StackError) (ethen (add_remote E r False) (eret True)) (eret False)) (\<lambda>ok.
        if ok then eret (Some r) else ethen (incStat ''failed_addremote'' 1) (eret None))))"

section \<open>Stale packets\<close>

definition ends_transaction :: "hdata \<Rightarrow> pckt_kind list \<Rightarrow> bool" where
  "ends_transaction d ks \<longleftrightarrow> list_ex (is_pckt d) ks"

text \<open>
  The nack of a packet for which there is no transaction: it goes to the address that the packet
  came from, neither signed nor encrypted.
\<close>

definition answer_stale ::
    "'r road_env \<Rightarrow> val \<Rightarrow> bool \<Rightarrow> pckt_kind \<Rightarrow> string \<times> string \<times> string \<Rightarrow> rxpacket \<Rightarrow> ('r, unit) road" where
  "answer_stale E se rmt pk stats p =
     (case stats of (attempt, unknown, nacked) \<Rightarrow>
      let d = rp_data p in
      ebind (elift (int_item d ''tk'')) (\<lambda>tk.
      ebind (elift (int_item d ''si'')) (\<lambda>si.
      ebind (elift (int_item d ''ti'')) (\<lambda>ti.
      ebind (elift (int_item d ''se'')) (\<lambda>fuid.
      let data = prep_reply [stack_hk, stack_bk] se d tk rmt (VBool False) si ti in
      ethen (incStat attempt 1)
     (ethen (ebind (eget (\<lambda>s. ohas (st_uidRemotes s) fuid)) (\<lambda>known. ewhen (\<not> known) (incStat unknown 1)))
       (ebind (make_packet E pk EMPTY_BODY data) (\<lambda>q. case q of
          None \<Rightarrow> eret ()
        | Some q \<Rightarrow>
            ethen (emod (\<lambda>s. s\<lparr>st_txes := st_txes s @ [(tp_packed q, source_ha d)]\<rparr>))
              (incStat nacked 1)))))))))"

definition Staler_nack :: "'r road_env \<Rightarrow> nat \<Rightarrow> rxpacket \<Rightarrow> ('r, unit) road" where
  "Staler_nack E r p =
     ebind (eget (\<lambda>s. remote_uid s r)) (\<lambda>nuid.
     answer_stale E (VInt nuid) False PkNack
       (''stale_correspondent_attempt'', ''unknown_correspondent_uid'', ''stale_correspondent_nack'') p)"

definition Stalent_nack :: "'r road_env \<Rightarrow> pckt_kind \<Rightarrow> rxpacket \<Rightarrow> ('r, unit) road" where
  "Stalent_nack E pk p =
     answer_stale E (oget_or (rp_data p) ''de'' VNone) True pk
       (''stale_initiator_attempt'', ''unknown_initiator_uid'', ''stale_initiator_nack'') p"

definition stack_stale :: "'r road_env \<Rightarrow> rxpacket \<Rightarrow> ('r, unit) road" where
  "stack_stale E p =
     ewhen (\<not> ends_transaction (rp_data p) [PkNack, PkUnjoined, PkUnallowed, PkRenew, PkRefuse, PkReject])
      (ebind (elift (int_item (rp_data p) ''de'')) (\<lambda>uid.
       with_remote ''invalid_remote_eid'' (Some uid) (\<lambda>r. Staler_nack E r p)))"

definition stack_replyStale :: "'r road_env \<Rightarrow> rxpacket \<Rightarrow> bool \<Rightarrow> ('r, unit) road" where
  "stack_replyStale E p renew =
     ewhen (\<not> ends_transaction (rp_data p) [PkNack, PkUnjoined, PkUnallowed, PkRefuse, PkReject])
       (Stalent_nack E (if renew then PkRenew else PkNack) p)"

section \<open>Receiving\<close>

text \<open>A transaction that the other side starts.\<close>

definition correspond :: "'r road_env \<Rightarrow> rxpacket \<Rightarrow> nat \<Rightarrow> ('r, unit) road" where
  "correspond E p r =
     (let d = rp_data p in
      if is_trns d TkJoin \<and> is_pckt d PkRequest then stack_replyJoin E p r None
      else if is_trns d TkAllow \<and> is_pckt d PkHello then stack_replyAllow E p r
      else if is_trns d TkAlive \<and> is_pckt d PkRequest then stack_replyAlive E p r
      else if is_trns d TkMessage \<and> is_pckt d PkMessage then
        ebind (elift (int_item d ''ti'')) (\<lambda>ti.
        ebind (rget r rm_doneTransactions) (\<lambda>done.
        if py_true (oget_or d ''af'' VNone) \<or> ohas done ti then stack_replyStale E p False
        else stack_replyMessage E p r))
      else incStat ''stale_packet'' 1)"

text \<open>
  What a packet means for the stack: it is dropped, with a count, or it concerns a remote, which may
  not exist. A join is matched by the id of its remote, or, while there is none, by its address.
\<close>

datatype rx_target = Drop string | Target "nat option"

definition join_correspondent :: "int \<Rightarrow> int \<Rightarrow> val \<Rightarrow> 'r road_stack \<Rightarrow> rx_target" where
  "join_correspondent de se sha s =
     (if de = 0 then Drop ''join_invalid_nuid''
      else if se = 0 then
        (case oget (rs_joinees s) sha of
           None \<Rightarrow> Target None
         | Some r \<Rightarrow> if remote_uid s r \<noteq> de then Drop ''join_mismatch_nuid'' else Target (Some r))
      else Target (oget (st_uidRemotes s) de))"

definition drop_packet :: "string \<Rightarrow> ('r, rx_target option) road" where
  "drop_packet stat = ethen (incStat stat 1) (eret None)"

definition new_remote :: "'r road_env \<Rightarrow> int \<Rightarrow> int \<Rightarrow> val \<Rightarrow> ('r, nat) road" where
  "new_remote E fuid sid ha = RemoteEstate_init E (remote_args fuid sid ha)"

text \<open>
  The remote of a join that the other side starts, as an option of what to go on with. A remote of
  another far id at that address is stale. A join for an id that is not there is told to renew.
\<close>

definition join_initiator ::
    "'r road_env \<Rightarrow> rxpacket \<Rightarrow> int \<Rightarrow> int \<Rightarrow> val \<Rightarrow> ('r, rx_target option) road" where
  "join_initiator E p de se sha =
     (if se = 0 then drop_packet ''join_invalid_fuid''
      else if de = 0 then
        ebind (eget (\<lambda>s. map_option (\<lambda>r. (r, rm_fuid (rs_remotes s r))) (oget (rs_joinees s) sha))) (\<lambda>prior.
        let stale = (case prior of None \<Rightarrow> False | Some (r, fuid) \<Rightarrow> fuid \<noteq> se \<and> fuid \<noteq> 0) in
        ethen (ewhen stale (emod (\<lambda>s. s\<lparr>rs_joinees := odel sha (rs_joinees s)\<rparr>)))
         (case (if stale then None else prior) of
            Some (r, _) \<Rightarrow> eret (Some (Target (Some r)))
          | None \<Rightarrow>
              if \<not> is_pckt (rp_data p) PkRequest then drop_packet ''join_stale''
              else ebind (new_remote E 0 0 sha) (\<lambda>r. eret (Some (Target (Some r))))))
      else
        ebind (eget (\<lambda>s. oget (st_uidRemotes s) de)) (\<lambda>known. case known of
          Some r \<Rightarrow> eret (Some (Target (Some r)))
        | None \<Rightarrow>
            ethen (incStat ''stale_nuid'' 1)
           (ethen (ebind (new_remote E se 0 sha) (\<lambda>_. stack_replyStale E p True))
             (eret None))))"

text \<open>
  Other transactions need the ids of both sides and a session. A packet of a transaction that the
  other side started must be of its present session or a later one, which becomes the present one.
  The message for zero ids names a variable that has no value there: \<open>NameError\<close>.
\<close>

definition in_session :: "'r road_env \<Rightarrow> rxpacket \<Rightarrow> nat \<Rightarrow> int \<Rightarrow> bool \<Rightarrow> ('r, bool) road" where
  "in_session E p r rsid cf =
     ebind (rget r id) (\<lambda>m.
     if \<not> cf \<and> \<not> validRsid m rsid then
       ethen (incStat ''stale_sid'' 1) (ethen (stack_replyStale E p False) (eret False))
     else
       ethen (ewhen (\<not> cf \<and> rsid \<noteq> rm_rsid m)
          (ethen (rmod r (\<lambda>m. m\<lparr>rm_rsid := rsid\<rparr>)) (removeStaleCorrespondents (trans_nack E) r)))
      (ethen (ebind (rget r rm_reaped) (\<lambda>reaped. ewhen (reaped = Some True) (unreap E r)))
        (eret True)))"

definition nonjoin_remote ::
    "'r road_env \<Rightarrow> rxpacket \<Rightarrow> int \<Rightarrow> int \<Rightarrow> int \<Rightarrow> bool \<Rightarrow> ('r, rx_target option) road" where
  "nonjoin_remote E p de se rsid cf =
     (if rsid = 0 then drop_packet ''invalid_sid''
      else if de = 0 \<or> se = 0 then eraise NameError
      else
        ebind (eget (\<lambda>s. oget (st_uidRemotes s) de)) (\<lambda>known. case known of
          None \<Rightarrow> eret (Some (Target None))
        | Some r \<Rightarrow>
            ebind (in_session E p r rsid cf) (\<lambda>ok.
            eret (if ok then Some (Target (Some r)) else None))))"

definition find_remote :: "'r road_env \<Rightarrow> rxpacket \<Rightarrow> ('r, rx_target option) road" where
  "find_remote E p =
     (let d = rp_data p; sha = source_ha d; cf = py_true (oget_or d ''cf'' VNone) in
      ebind (elift (int_item d ''de'')) (\<lambda>de.
      ebind (elift (int_item d ''se'')) (\<lambda>se.
      ebind (elift (int_item d ''si'')) (\<lambda>rsid.
      if is_trns d TkJoin then
        (if rsid \<noteq> 0 then drop_packet ''join_invalid_sid''
         else if cf then
           ebind (eget (join_correspondent de se sha)) (\<lambda>x. case x of
             Drop stat \<Rightarrow> drop_packet stat | Target r \<Rightarrow> eret (Some (Target r)))
         else join_initiator E p de se sha)
      else nonjoin_remote E p de se rsid cf))))"

definition processRx :: "'r road_env \<Rightarrow> rxpacket \<Rightarrow> ('r, unit) road" where
  "processRx E p =
     (let d = rp_data p in
      ewhen (\<not> py_true (oget_or d ''bf'' VNone))
       (ebind (find_remote E p) (\<lambda>x. case x of
          Some (Target target) \<Rightarrow>
            ebind (elift (RxPacket_index d)) (\<lambda>i.
            ebind (eget (\<lambda>s. case target of
                None \<Rightarrow> None
              | Some r \<Rightarrow> oget (rm_transactions (rs_remotes s r)) (canon_index i))) (\<lambda>t. case t of
              Some t \<Rightarrow> trans_receive E t p
            | None \<Rightarrow>
                if py_true (oget_or d ''cf'' VNone) then stack_stale E p
                else case target of
                  None \<Rightarrow> incStat ''unknown_destination_uid'' 1
                | Some r \<Rightarrow> correspond E p r))
        | _ \<Rightarrow> eret ())))"

definition handle_rx :: "'r road_env \<Rightarrow> ('r, unit) road" where
  "handle_rx E =
     ebind (eget st_rxes) (\<lambda>q. case q of
       [] \<Rightarrow> eraise IndexError
     | (raw, sa) # rest \<Rightarrow>
         ethen (emod (\<lambda>s. s\<lparr>st_rxes := rest\<rparr>))
          (ebind (eget (road_codec E)) (\<lambda>c.
           case RxPacket_parseOuter c (RxPacket_init [] raw) of
             Inl e \<Rightarrow> if is_packet_error e then incStat ''parsing_outer_error'' 1 else eraise e
           | Inr p \<Rightarrow>
               (case sa of
                  VList [sh, sp] \<Rightarrow>
                    processRx E (p\<lparr>rp_data := oupdate (rp_data p) [(''sh'', sh), (''sp'', sp)]\<rparr>)
                | _ \<Rightarrow> eraise ValueError))))"

section \<open>Service\<close>

definition stack_process :: "'r road_env \<Rightarrow> ('r, unit) road" where
  "stack_process E =
     ebind (eget (ovalues \<circ> st_uidRemotes)) (\<lambda>rs. efor rs (estate_process E (trans_process E)))"

text \<open>The remotes by status; those that became alive, and those that ceased to be.\<close>

definition by_name :: "('r road_stack \<Rightarrow> nat \<Rightarrow> bool) \<Rightarrow> 'r road_stack \<Rightarrow> (string, nat) odict \<Rightarrow> nat \<Rightarrow> (string, nat) odict" where
  "by_name status s d r = (if status s r then oset (remote_name s r) r d else d)"

fun manage_remotes ::
    "'r road_env \<Rightarrow> bool \<Rightarrow> bool \<Rightarrow> nat list \<Rightarrow>
     (string, nat) odict \<times> (string, nat) odict \<times> (string, nat) odict \<Rightarrow>
     ('r, (string, nat) odict \<times> (string, nat) odict \<times> (string, nat) odict) road" where
  "manage_remotes E cascade immediate [] acc = eret acc"
| "manage_remotes E cascade immediate (r # rs) (al, av, re) =
     ethen (remote_manage E (\<lambda>uid c. stack_alive E (Some uid) None c) cascade immediate r)
      (ebind (eget (\<lambda>s.
          (by_name (\<lambda>s r. rm_allowed (rs_remotes s r) = Some True) s al r,
           by_name (\<lambda>s r. rm_alived (rs_remotes s r) = Some True) s av r,
           by_name (\<lambda>s r. rm_reaped (rs_remotes s r) = Some True) s re r)))
        (manage_remotes E cascade immediate rs))"

definition stack_manage :: "'r road_env \<Rightarrow> bool \<Rightarrow> bool \<Rightarrow> ('r, unit) road" where
  "stack_manage E cascade immediate =
     ebind (eget (ovalues \<circ> st_uidRemotes)) (\<lambda>rs.
     ebind (manage_remotes E cascade immediate rs ([], [], [])) (\<lambda>(al, av, re).
     emod (\<lambda>s.
       let old = okeys (rs_aliveds s); current = okeys av in
       s\<lparr>rs_availables := current,
         rs_changeds := (filter (\<lambda>n. n \<notin> set old) current, filter (\<lambda>n. n \<notin> set current) old),
         rs_alloweds := al, rs_aliveds := av, rs_reapeds := re\<rparr>)))"

definition road_transmit :: "body \<Rightarrow> int option \<Rightarrow> rat option \<Rightarrow> ('r, unit) road" where
  "road_transmit msg uid timeout = transmit (\<lambda>b u. (b, Some u, timeout)) msg uid"

definition handle_tx_msg :: "'r road_env \<Rightarrow> ('r, unit) road" where
  "handle_tx_msg E = handleOneTxMsg (\<lambda>(b, uid, timeout). stack_message E b uid timeout)"

definition service_rx :: "'r road_env \<Rightarrow> ('r, unit) road" where
  "service_rx E = serviceAllRx (handle_rx E) (stack_process E)"

definition service_tx :: "'r road_env \<Rightarrow> val network \<Rightarrow> ('r, unit) road" where
  "service_tx E net = serviceAllTx net (\<lambda>(b, uid, timeout). stack_message E b uid timeout)"

definition service_all :: "'r road_env \<Rightarrow> val network \<Rightarrow> ('r, unit) road" where
  "service_all E net = ethen (service_rx E) (service_tx E net)"

end
