(* ===== verification/RoadFrames.thy ===== *)
theory RoadFrames
  imports RoadStacking
begin

text \<open>
  What the operations of the road leave as it is. A \<open>quiet\<close> predicate of the state does not depend
  on the statistics, the packets to send and the random source; a \<open>bookkeeping\<close> one does not depend
  on the transactions and their tables either. Packing a packet and answering a stale one preserve
  the first kind, sending and ending a transaction the second kind.
\<close>

section \<open>More rules for computations\<close>

lemma keeps_trns_class [keeps_intros]:
  "keeps P a \<Longrightarrow> keeps P b \<Longrightarrow> keeps P c \<Longrightarrow> keeps P d \<Longrightarrow> keeps P e \<Longrightarrow> keeps P f \<Longrightarrow> keeps P g \<Longrightarrow>
   keeps P h \<Longrightarrow>
   keeps P (case x of JoinerT \<Rightarrow> a | JoinentT \<Rightarrow> b | AllowerT \<Rightarrow> c | AllowentT \<Rightarrow> d | AliverT \<Rightarrow> e
     | AliventT \<Rightarrow> f | MessengerT \<Rightarrow> g | MessengentT \<Rightarrow> h)"
  by (cases x) auto

lemma keeps_sent_packet [keeps_intros]:
  "(\<And>p. x = OwnPacket p \<Longrightarrow> keeps P (f p)) \<Longrightarrow> (\<And>i. x = Segment i \<Longrightarrow> keeps P (g i)) \<Longrightarrow>
   keeps P (case x of OwnPacket p \<Rightarrow> f p | Segment i \<Rightarrow> g i)"
  by (cases x) auto

lemma keeps_access [keeps_intros, simp]: "keeps P (rget r f)" "keeps P (tget t f')"
  by (simp_all add: rget_def tget_def)

lemma keeps_index [keeps_intros, simp]: "keeps P (tx_index t)" "keeps P (rx_index t)"
  unfolding tx_index_def rx_index_def by (intro keeps_intros)+

lemma keeps_packet [keeps_intros, simp]: "keeps P (rx_data t)" "keeps P (rx_body t)"
  unfolding rx_data_def rx_body_def by (intro keeps_intros)+

section \<open>Quiet operations\<close>

locale quiet =
  fixes P :: "'r road_stack \<Rightarrow> bool"
  assumes stats: "P s \<Longrightarrow> P (s\<lparr>st_stats := x\<rparr>)"
    and txes: "P s \<Longrightarrow> P (s\<lparr>st_txes := y\<rparr>)"
    and rand: "P s \<Longrightarrow> P (s\<lparr>rs_rand := z\<rparr>)"
begin

lemma incStat [keeps_intros]: "keeps P (incStat k n)"
  unfolding incStat_def by (intro keeps_emod stats)

lemma on_random [keeps_intros]: "keeps P (on_random m)"
  by (rule keepsI) (auto simp: on_random_def rand split: prod.split)

lemma take_nonce [keeps_intros]: "keeps P (take_nonce E c p)"
  unfolding take_nonce_def by (intro keeps_intros)

lemma count_packet_error [keeps_intros]: "keeps P (count_packet_error q)"
  unfolding count_packet_error_def by (intro keeps_intros)

lemma make_packet [keeps_intros]: "keeps P (make_packet E pk b data)"
  unfolding make_packet_def pack_packet_def by (intro keeps_intros)

lemma packing [keeps_intros]:
  "keeps P m \<Longrightarrow> (\<And>p. keeps P (use p)) \<Longrightarrow> keeps P (packing E t pk b m use)"
  unfolding packing_def trans_data_def by (intro keeps_intros)

lemma tx [keeps_intros]: "keeps P (tx b uid)"
  unfolding tx_def by (intro keeps_intros txes)

lemma queue_packet [keeps_intros]: "keeps P (emod (\<lambda>s. s\<lparr>st_txes := st_txes s @ ys\<rparr>))"
  by (intro keeps_emod txes)

lemma count_failure [keeps_intros]: "keeps P (count_failure t)"
  unfolding count_failure_def by (intro keeps_intros)

lemma with_remote [keeps_intros]: "(\<And>r. keeps P (use r)) \<Longrightarrow> keeps P (with_remote k uid use)"
  unfolding with_remote_def retrieveRemote_def by (intro keeps_intros)

lemma answer_stale [keeps_intros]: "keeps P (answer_stale E se rmt pk st p)"
  unfolding answer_stale_def Let_def by (intro keeps_intros)

lemma stack_stale [keeps_intros]: "keeps P (stack_stale E p)"
  unfolding stack_stale_def Staler_nack_def by (intro keeps_intros)

lemma stack_replyStale [keeps_intros]: "keeps P (stack_replyStale E p renew)"
  unfolding stack_replyStale_def Stalent_nack_def by (intro keeps_intros)

end

section \<open>Sending and ending transactions\<close>

text \<open>
  Sending changes the last packet sent and the redo timer of a transaction, ending it the tables in
  which it is. \<open>sending\<close> predicates do not depend on these.
\<close>

locale sending = quiet +
  assumes sent: "P s \<Longrightarrow> P (s\<lparr>rs_trans := (rs_trans s)(t := (rs_trans s t)\<lparr>tr_txPacket := sp\<rparr>)\<rparr>)"
    and redo: "P s \<Longrightarrow> P (s\<lparr>rs_trans := (rs_trans s)(t := (rs_trans s t)\<lparr>tr_redoTimer := timer\<rparr>)\<rparr>)"
    and table: "P s \<Longrightarrow>
      P (s\<lparr>rs_remotes := (rs_remotes s)(r := (rs_remotes s r)\<lparr>rm_transactions := ts\<rparr>)\<rparr>)"
    and done_table: "P s \<Longrightarrow>
      P (s\<lparr>rs_remotes := (rs_remotes s)(r := (rs_remotes s r)\<lparr>rm_doneTransactions := ds\<rparr>)\<rparr>)"
    and joinees: "P s \<Longrightarrow> P (s\<lparr>rs_joinees := js\<rparr>)"
begin

lemma set_sent [keeps_intros]: "keeps P (tmod t (\<lambda>tr. tr\<lparr>tr_txPacket := sp\<rparr>))"
  unfolding tmod_def by (intro keeps_emod sent)

lemma removeTransaction [keeps_intros]: "keeps P (removeTransaction r i t)"
  unfolding removeTransaction_def rmod_def by (intro keeps_intros table)

lemma addDoneTransaction [keeps_intros]: "keeps P (addDoneTransaction r tid)"
  unfolding addDoneTransaction_def rmod_def by (intro keeps_intros done_table)

lemma enter_joinees [keeps_intros]: "keeps P (enter_joinees t)"
  unfolding enter_joinees_def by (intro keeps_intros joinees)

lemma trans_remove [keeps_intros]: "keeps P (trans_remove t i)"
  unfolding trans_remove_def leave_joinees_def by (intro keeps_intros joinees)

lemma remove_self [keeps_intros]: "keeps P (remove_self t)"
  unfolding remove_self_def by (intro keeps_intros)

lemma remove_sent [keeps_intros]: "keeps P (remove_tx t)" "keeps P (remove_rx t)"
  unfolding remove_tx_def remove_rx_def tx_index_def rx_index_def by (intro keeps_intros)+

lemma restart_redo [keeps_intros]: "keeps P (restart_redo t d)"
  unfolding restart_redo_def tmod_def by (intro keeps_intros redo)

lemma trans_transmit [keeps_intros]: "keeps P (trans_transmit t sp)"
  unfolding trans_transmit_def by (intro keeps_intros)

lemma back_offs [keeps_intros]: "keeps P (back_off t)" "keeps P (join_back_off t)"
  unfolding back_off_def join_back_off_def by (intro keeps_intros)+

lemma transmit_again [keeps_intros]: "keeps P (transmit_again t)"
  unfolding transmit_again_def by (intro keeps_intros)

lemma resend_if [keeps_intros]: "keeps P (resend_if t k st)"
  unfolding resend_if_def by (intro keeps_intros)

lemma Joiner_nack [keeps_intros]: "keeps P (Joiner_nack E pk t)"
  unfolding Joiner_nack_def by (intro keeps_intros)

lemma Joinent_nack [keeps_intros]: "keeps P (Joinent_nack E pk t)"
  unfolding Joinent_nack_def rx_data_def by (intro keeps_intros)

lemma Allower_nack [keeps_intros]: "keeps P (Allower_nack E pk t)"
  unfolding Allower_nack_def by (intro keeps_intros)

lemma Allowent_nack [keeps_intros]: "keeps P (Allowent_nack E pk t)"
  unfolding Allowent_nack_def by (intro keeps_intros)

lemma Alivent_nack [keeps_intros]: "keeps P (Alivent_nack E pk t)"
  unfolding Alivent_nack_def by (intro keeps_intros)

lemma message_nacks [keeps_intros]: "keeps P (Messenger_nack E t)" "keeps P (Messengent_nack E t)"
  unfolding Messenger_nack_def Messengent_nack_def by (intro keeps_intros)+

lemma trans_nack [keeps_intros]: "keeps P (trans_nack E t)"
  unfolding trans_nack_def by (intro keeps_intros)

lemma removeStaleCorrespondents [keeps_intros]: "keeps P (removeStaleCorrespondents (trans_nack E) r)"
  unfolding removeStaleCorrespondents_def rmod_def by (intro keeps_intros done_table)

end

section \<open>Bookkeeping of transactions\<close>

locale bookkeeping = sending +
  assumes trans: "P s \<Longrightarrow> P (s\<lparr>rs_trans := x\<rparr>)"
begin

lemma tmod [keeps_intros]: "keeps P (tmod t f)"
  unfolding tmod_def by (intro keeps_emod trans)

lemma addTransaction [keeps_intros]: "keeps P (addTransaction r i t)"
  unfolding addTransaction_def rmod_def by (intro keeps_intros table)

lemma trans_add [keeps_intros]: "keeps P (trans_add t i)"
  unfolding trans_add_def by (intro keeps_intros)

lemma add_self [keeps_intros]: "keeps P (add_self t)"
  unfolding add_self_def by (intro keeps_intros)

lemma parse_inner [keeps_intros]: "keeps P (parse_inner E t)"
  unfolding parse_inner_def by (intro keeps_intros)

lemma when_parsed [keeps_intros]: "keeps P m \<Longrightarrow> keeps P (when_parsed E t m)"
  unfolding when_parsed_def by (intro keeps_intros)

end

section \<open>Sessions\<close>

text \<open>
  A \<open>session\<close> predicate depends neither on the transactions nor on what joining, allowing and
  presence set in a remote, as its session ids, short term keys, status and timers, nor on the
  files and the tables of remotes. Starting transactions preserves it.
\<close>

locale session = bookkeeping +
  assumes tid: "P s \<Longrightarrow> P (s\<lparr>rs_remotes := (rs_remotes s)(r := (rs_remotes s r)\<lparr>es_tid := i\<rparr>)\<rparr>)"
    and joined: "P s \<Longrightarrow> P (s\<lparr>rs_remotes := (rs_remotes s)(r := (rs_remotes s r)\<lparr>rm_joined := v\<rparr>)\<rparr>)"
    and allowed: "P s \<Longrightarrow> P (s\<lparr>rs_remotes := (rs_remotes s)(r := (rs_remotes s r)\<lparr>rm_allowed := b\<rparr>)\<rparr>)"
    and alived: "P s \<Longrightarrow> P (s\<lparr>rs_remotes := (rs_remotes s)(r := (rs_remotes s r)\<lparr>rm_alived := b\<rparr>)\<rparr>)"
    and reaped: "P s \<Longrightarrow> P (s\<lparr>rs_remotes := (rs_remotes s)(r := (rs_remotes s r)\<lparr>rm_reaped := b\<rparr>)\<rparr>)"
    and acceptance: "P s \<Longrightarrow> P (s\<lparr>rs_remotes := (rs_remotes s)(r := (rs_remotes s r)\<lparr>rm_acceptance := v\<rparr>)\<rparr>)"
    and privee: "P s \<Longrightarrow> P (s\<lparr>rs_remotes := (rs_remotes s)(r := (rs_remotes s r)\<lparr>rm_privee := k\<rparr>)\<rparr>)"
    and publee: "P s \<Longrightarrow> P (s\<lparr>rs_remotes := (rs_remotes s)(r := (rs_remotes s r)\<lparr>rm_publee := l\<rparr>)\<rparr>)"
    and rsid: "P s \<Longrightarrow> P (s\<lparr>rs_remotes := (rs_remotes s)(r := (rs_remotes s r)\<lparr>rm_rsid := i\<rparr>)\<rparr>)"
    and timers: "P s \<Longrightarrow> P (s\<lparr>rs_remotes := (rs_remotes s)(r := (rs_remotes s r)\<lparr>rm_timer := t1\<rparr>)\<rparr>)"
      "P s \<Longrightarrow> P (s\<lparr>rs_remotes := (rs_remotes s)(r := (rs_remotes s r)\<lparr>rm_reapTimer := t1\<rparr>)\<rparr>)"
    and messages: "P s \<Longrightarrow> P (s\<lparr>rs_remotes := (rs_remotes s)(r := (rs_remotes s r)\<lparr>rm_messages := bs\<rparr>)\<rparr>)"
    and sids: "P s \<Longrightarrow> P (s\<lparr>st_lots := (st_lots s)(r := (st_lots s r)\<lparr>lot_sid := i\<rparr>)\<rparr>)"
    and files: "P s \<Longrightarrow> P (s\<lparr>ks_fs := fs\<rparr>)"
    and app_kind: "P s \<Longrightarrow> P (s\<lparr>rs_kind := ak\<rparr>)"
    and new_trans: "P s \<Longrightarrow> P (s\<lparr>rs_newTrans := n\<rparr>)"
    and uids: "P s \<Longrightarrow> P (s\<lparr>st_uidRemotes := us\<rparr>)"
    and names: "P s \<Longrightarrow> P (s\<lparr>st_nameRemotes := ns\<rparr>)"
begin

lemma on_files [keeps_intros]: "keeps P (on_files m)"
  by (rule keepsI) (auto simp: on_files_def files split: prod.split)

lemma dumps [keeps_intros]: "keeps P (dump_remote E r)" "keeps P (dump_local E)"
  unfolding dump_remote_def dump_local_def by (intro keeps_intros)+

lemma status_remote [keeps_intros]: "keeps P (status_remote E r)"
  unfolding status_remote_def rmod_def by (intro keeps_intros acceptance)

lemma status_role [keeps_intros]: "keeps P (status_role E role vk pk)"
  unfolding status_role_def by (intro keeps_intros)

lemma new_transaction [keeps_intros]: "keeps P (new_transaction tr)"
proof (rule keepsI)
  fix s assume "P s"
  then have "P (s\<lparr>rs_trans := (rs_trans s)(rs_newTrans s := tr), rs_newTrans := Suc (rs_newTrans s)\<rparr>)"
    by (intro new_trans trans)
  then show "P (snd (new_transaction tr s))" by (simp add: new_transaction_def)
qed

lemma nextTid [keeps_intros]: "keeps P (nextTid r)"
  unfolding nextTid_def rmod_def by (intro keeps_intros tid)

lemma next_sid [keeps_intros]: "keeps P (next_sid r)"
proof -
  have set_sid: "set_lot r (lot_sid_update f) s = s\<lparr>st_lots := (st_lots s)(r := (st_lots s r)\<lparr>lot_sid := f (lot_sid (st_lots s r))\<rparr>)\<rparr>"
    for f s by (cases "st_lots s r") (simp add: set_lot_def)
  show ?thesis unfolding next_sid_def set_sid by (intro keeps_emod sids)
qed

lemma joinInProcess [keeps_intros]: "keeps P (joinInProcess r)" "keeps P (allowInProcess r)"
  unfolding joinInProcess_def allowInProcess_def by (intro keeps_intros)+

lemma set_joined [keeps_intros]: "keeps P (rmod r (\<lambda>m. m\<lparr>rm_joined := v\<rparr>))"
  unfolding rmod_def by (intro keeps_emod joined)

lemma set_allowed_flag [keeps_intros]: "keeps P (rmod r (\<lambda>m. m\<lparr>rm_allowed := b\<rparr>))"
  unfolding rmod_def by (intro keeps_emod allowed)

lemma set_acceptance [keeps_intros]: "keeps P (rmod r (\<lambda>m. m\<lparr>rm_acceptance := v\<rparr>))"
  unfolding rmod_def by (intro keeps_emod acceptance)

lemma set_rsid [keeps_intros]: "keeps P (rmod r (\<lambda>m. m\<lparr>rm_rsid := i\<rparr>))"
  unfolding rmod_def by (intro keeps_emod rsid)

lemma rekey_remote [keeps_intros]: "keeps P (rekey_remote E r)"
proof -
  have "P s \<Longrightarrow> P (s\<lparr>rs_remotes := (rs_remotes s)(r := (rs_remotes s r)\<lparr>rm_privee := k, rm_publee := l\<rparr>)\<rparr>)"
    for s k l using publee [OF privee, of s r k r l] by simp
  then show ?thesis unfolding rekey_remote_def rmod_def by (intro keeps_intros allowed)
qed

lemma set_publee [keeps_intros]: "keeps P (set_publee E r k)"
  unfolding set_publee_def rmod_def by (intro keeps_intros publee)

lemma set_reaped [keeps_intros]: "keeps P (rmod r (\<lambda>m. m\<lparr>rm_reaped := b\<rparr>))"
  unfolding rmod_def by (intro keeps_emod reaped)

lemma reaping [keeps_intros]: "keeps P (reap E r)" "keeps P (unreap E r)"
  unfolding reap_def unreap_def by (intro keeps_intros)+

lemma refresh [keeps_intros]: "keeps P (refresh E a r)"
  unfolding refresh_def rmod_def by (intro keeps_intros timers alived)

lemma saveMessage [keeps_intros]: "keeps P (saveMessage r t)"
  unfolding saveMessage_def rmod_def by (intro keeps_intros messages)

lemma replaceStaleInitiators [keeps_intros]: "keeps P (replaceStaleInitiators (trans_nack E) r)"
  unfolding replaceStaleInitiators_def by (intro keeps_intros)

lemma with_kind [keeps_intros]: "(\<And>k. keeps P (use k)) \<Longrightarrow> keeps P (with_kind use)"
  unfolding with_kind_def by (intro keeps_intros app_kind)

lemma then_start [keeps_intros]: "(\<And>uid d c. keeps P (start uid d c)) \<Longrightarrow> keeps P (then_start start t)"
  unfolding then_start_def by (intro keeps_intros)

lemma stack_join [keeps_intros]: "keeps P (stack_join E uid d c renewal)"
  unfolding stack_join_def Joiner_join_def Joiner_init_def by (intro keeps_intros)

lemma start_join [keeps_intros]: "keeps P (start_join E t)"
  unfolding start_join_def by (intro keeps_intros)

lemma session_init [keeps_intros]: "keeps P (session_init cls kind data lo hi r d g)"
  unfolding session_init_def by (intro keeps_intros)

lemma Allower_hello [keeps_intros]: "keeps P (Allower_hello E t)"
  unfolding Allower_hello_def seal_def by (intro keeps_intros)

lemma stack_allow [keeps_intros]: "keeps P (stack_allow E uid d c)"
  unfolding stack_allow_def Allower_init_def by (intro keeps_intros)

lemma start_allow [keeps_intros]: "keeps P (start_allow E t)"
  unfolding start_allow_def by (intro keeps_intros)

lemma removeRemote [keeps_intros]: "keeps P (removeRemote r)"
  unfolding removeRemote_def Let_def by (intro keeps_intros uids names)

lemma remove_remote [keeps_intros]: "keeps P (remove_remote E r clear)"
  unfolding remove_remote_def ks_removeRemote_def ks_clearRemote_def by (intro keeps_intros)

lemma add_remote [keeps_intros]: "keeps P (add_remote E r dump)"
proof -
  have "P s \<Longrightarrow> P (s\<lparr>st_uidRemotes := us, st_nameRemotes := ns\<rparr>)" for s us ns by (intro uids names)
  then show ?thesis unfolding add_remote_def ks_addRemote_def addRemote_def Let_def by (intro keeps_intros)
qed

lemma start_session [keeps_intros]: "keeps P (start_session E t)"
  unfolding start_session_def Let_def by (intro keeps_intros)

end

end
