(* ===== verification/RoadFacts.thy ===== *)
theory RoadFacts
  imports RoadFrames
begin

text \<open>
  Properties of the road: what packets from outside can change and what they need to, the races of
  transactions that both sides start, the timers.
\<close>

section \<open>Running computations\<close>

lemma access_run [run_simps]:
  "rget r f s = (Inr (f (rs_remotes s r)), s)"
  "tget t g s = (Inr (g (rs_trans s t)), s)"
  "rmod r h s = (Inr (), s\<lparr>rs_remotes := (rs_remotes s)(r := h (rs_remotes s r))\<rparr>)"
  "tmod t k s = (Inr (), s\<lparr>rs_trans := (rs_trans s)(t := k (rs_trans s t))\<rparr>)"
  by (simp_all add: rget_def tget_def rmod_def tmod_def run_simps)

lemma parse_inner_run [run_simps]:
  "parse_inner E t s =
     (case tr_rxPacket (rs_trans s t) of
        None \<Rightarrow> (Inl AttributeError, s)
      | Some p \<Rightarrow>
          (case RxPacket_parseInner (road_codec E s) p of
             Inr q \<Rightarrow> (Inr True, s\<lparr>rs_trans := (rs_trans s)(t := (rs_trans s t)\<lparr>tr_rxPacket := Some q\<rparr>)\<rparr>)
           | Inl e \<Rightarrow> if is_packet_error e then ethen (incStat ''parsing_inner_error'' 1) (eret False) s
                      else (Inl e, s)))"
  by (simp add: parse_inner_def run_simps split: option.split sum.split)

lemma rx_body_run [run_simps]:
  "rx_body t s = (case tr_rxPacket (rs_trans s t) of
     None \<Rightarrow> (Inl AttributeError, s) | Some p \<Rightarrow> (Inr (rp_embody p), s))"
  by (simp add: rx_body_def run_simps split: option.split)

section \<open>Packets that are dropped\<close>

text \<open>
  The state up to the statistics, the packets to send and the random source.
\<close>

definition same_road :: "'r road_stack \<Rightarrow> 'r road_stack \<Rightarrow> bool" where
  "same_road s s' \<longleftrightarrow>
     s'\<lparr>st_stats := st_stats s, st_txes := st_txes s, rs_rand := rs_rand s\<rparr> = s"

interpretation dropped: quiet "same_road s0" for s0
  by unfold_locales (auto simp: same_road_def)

text \<open>
  A packet that a road stack has no use for: a broadcast; a join with a session or from an
  initiator or to a correspondent without an id; any other transaction without a session or an id,
  for a remote that does not exist, or started by the other side in an older session.
\<close>

definition unwelcome :: "'r road_stack \<Rightarrow> hdata \<Rightarrow> bool" where
  "unwelcome s d \<longleftrightarrow>
     py_true (oget_or d ''bf'' VNone) \<or>
     (case (int_item d ''de'', int_item d ''se'', int_item d ''si'') of
        (Inr de, Inr se, Inr si) \<Rightarrow>
          let from_correspondent = py_true (oget_or d ''cf'' VNone) in
          if is_trns d TkJoin then si \<noteq> 0 \<or> (if from_correspondent then de = 0 else se = 0)
          else si = 0 \<or> de = 0 \<or> se = 0 \<or>
            (case oget (st_uidRemotes s) de of
               None \<Rightarrow> True
             | Some r \<Rightarrow> \<not> from_correspondent \<and> \<not> validRsid (rs_remotes s r) si)
      | _ \<Rightarrow> True)"

lemma same_road_refl [simp]: "same_road s s"
  by (simp add: same_road_def)

lemma drop_packet_run: "drop_packet k s = (Inr None, snd (incStat k 1 s))"
  by (simp add: drop_packet_def incStat_def run_simps)

lemma in_session_stale:
  assumes "\<not> validRsid (rs_remotes s r) rsid"
  shows "\<exists>x s'. in_session E p r rsid False s = (x, s') \<and> same_road s s' \<and> (x = Inr False \<or> (\<exists>e. x = Inl e))"
proof -
  let ?m = "ethen (incStat ''stale_sid'' 1) (ethen (stack_replyStale E p False) (eret False))"
  have "in_session E p r rsid False s = ?m s"
    using assms by (simp add: in_session_def run_simps)
  moreover have "keeps (same_road s) ?m"
    by (intro keeps_intros)
  then have "same_road s (snd (?m s))" by (rule keepsD) simp
  moreover have "fst (?m s) = Inr False \<or> (\<exists>e. fst (?m s) = Inl e)"
    by (auto simp: run_simps split: prod.splits sum.splits)
  ultimately show ?thesis by (cases "?m s") auto
qed

lemma find_remote_unwelcome:
  assumes "unwelcome s (rp_data p)" "\<not> py_true (oget_or (rp_data p) ''bf'' VNone)"
    "find_remote E p s = (x, s')"
  shows "same_road s s' \<and> (\<forall>y. x = Inr y \<longrightarrow> y = None \<or> y = Some (Target None))"
proof -
  let ?d = "rp_data p"
  have drop: "same_road s (snd (incStat k 1 s))" for k
    by (rule keepsD [OF dropped.incStat]) simp
  show ?thesis
  proof (cases "int_item ?d ''de''")
    case (Inl e)
    then show ?thesis using assms by (auto simp: find_remote_def run_simps Let_def)
  next
    case de: (Inr de)
    show ?thesis
    proof (cases "int_item ?d ''se''")
      case (Inl e)
      then show ?thesis using assms de by (auto simp: find_remote_def run_simps Let_def)
    next
      case se: (Inr se)
      show ?thesis
      proof (cases "int_item ?d ''si''")
        case (Inl e)
        then show ?thesis using assms de se by (auto simp: find_remote_def run_simps Let_def)
      next
        case si: (Inr si)
        note known = assms de se si drop
        show ?thesis
        proof (cases "is_trns ?d TkJoin")
          case True
          then show ?thesis using known
            by (auto simp: find_remote_def unwelcome_def run_simps drop_packet_run Let_def
                  join_correspondent_def join_initiator_def split: if_splits)
        next
          case False
          then consider "si = 0" | "si \<noteq> 0" "de = 0 \<or> se = 0"
            | "si \<noteq> 0" "\<not> (de = 0 \<or> se = 0)" "oget (st_uidRemotes s) de = None"
            | r where "si \<noteq> 0" "\<not> (de = 0 \<or> se = 0)" "oget (st_uidRemotes s) de = Some r"
                "\<not> py_true (oget_or ?d ''cf'' VNone)" "\<not> validRsid (rs_remotes s r) si"
            using known by (auto simp: unwelcome_def Let_def split: option.splits)
          then show ?thesis
          proof cases
            case 4
            then show ?thesis
              using known False in_session_stale [OF 4(5), of E p]
              by (auto simp: find_remote_def nonjoin_remote_def run_simps Let_def)
          qed (use known False in
              \<open>auto simp: find_remote_def nonjoin_remote_def run_simps drop_packet_run Let_def\<close>)
        qed
      qed
    qed
  qed
qed


definition with_rx :: "nat \<Rightarrow> rxpacket \<Rightarrow> 'r road_stack \<Rightarrow> 'r road_stack" where
  "with_rx t q s = s\<lparr>rs_trans := (rs_trans s)(t := (rs_trans s t)\<lparr>tr_rxPacket := Some q\<rparr>)\<rparr>"

lemma with_rx_simps [simp]:
  "st_uidRemotes (with_rx t q s) = st_uidRemotes s" "st_nameRemotes (with_rx t q s) = st_nameRemotes s"
  "st_rxMsgs (with_rx t q s) = st_rxMsgs s" "st_lots (with_rx t q s) = st_lots s"
  "rs_remotes (with_rx t q s) = rs_remotes s" "st_local (with_rx t q s) = st_local s"
  "rs_trans (with_rx t q s) u = (if u = t then (rs_trans s t)\<lparr>tr_rxPacket := Some q\<rparr> else rs_trans s u)"
  by (simp_all add: with_rx_def)

text \<open>
  A handler that opens the body first: what it does to a state is what it does once the body is
  open, or next to nothing.
\<close>

lemma when_parsed_from:
  assumes "\<And>p q. tr_rxPacket (rs_trans s t) = Some p \<Longrightarrow> RxPacket_parseInner (road_codec E s) p = Inr q \<Longrightarrow>
      P (snd (m (with_rx t q s)))"
    and "\<And>s'. same_road s s' \<Longrightarrow> P s'"
  shows "P (snd (when_parsed E t m s))"
proof (cases "tr_rxPacket (rs_trans s t)")
  case (Some p)
  show ?thesis
  proof (cases "RxPacket_parseInner (road_codec E s) p")
    case (Inl e)
    then show ?thesis using Some assms(2)
      by (simp add: when_parsed_def run_simps incStat_def same_road_def)
  next
    case (Inr q)
    then show ?thesis using Some assms(1) by (simp add: when_parsed_def run_simps with_rx_def)
  qed
qed (use assms(2) in \<open>simp add: when_parsed_def run_simps same_road_def\<close>)

lemma rx_data_bind: "ebind (rx_data t) f (with_rx t q s) = f (rp_data q) (with_rx t q s)"
  by (simp add: rx_data_def run_simps)

lemma tget_bind: "ebind (tget t g) f s = f (g (rs_trans s t)) s"
  by (simp add: run_simps)

section \<open>What an allow needs\<close>

interpretation unallowed: bookkeeping "\<lambda>s. rm_allowed (rs_remotes s r) \<noteq> Some True" for r
  by unfold_locales auto

text \<open>
  What was sealed with the short term keys names the long term key of the remote and holds a voucher
  that opens with the long term keys and is the short term key of the remote.
\<close>

definition vouches_for :: "'r road_env \<Rightarrow> privateer \<Rightarrow> remote_part \<Rightarrow> bytes \<Rightarrow> bytes \<Rightarrow> bool" where
  "vouches_for E priver m shortraw msg \<longleftrightarrow>
     (case struct_unpack INITIATESTUFF_PACKER msg of
        Inr [FBytes pubraw, FBytes vcipher, FBytes vnonce, FBytes fqdn] \<Rightarrow>
          pubraw = pb_keyraw (rm_pubber m) \<and>
          open_box E priver vcipher vnonce (rm_pubber m) = Inr shortraw \<and> shortraw = pb_keyraw (rm_publee m)
      | _ \<Rightarrow> False)"

lemma vouched_iff: "vouched E priver m shortraw msg = Inr True \<longleftrightarrow> vouches_for E priver m shortraw msg"
  by (auto simp: vouched_def vouches_for_def rbind_def split: sum.splits list.splits sfield.splits if_splits)

text \<open>
  An initiate that opens and vouches for its short term key: the body of a received packet of
  transaction \<open>t\<close>, with the keys that the stack has of the remote.
\<close>

definition proves_identity :: "'r road_env \<Rightarrow> 'r road_stack \<Rightarrow> nat \<Rightarrow> bytes \<Rightarrow> bool" where
  "proves_identity E s t b \<longleftrightarrow>
     (let m = rs_remotes s (tr_remote (rs_trans s t)) in
      case struct_unpack INITIATE_PACKER b of
        Inr [FBytes shortraw, FBytes oreo, FBytes cipher, FBytes nonce] \<Rightarrow>
          shortraw = pb_keyraw (rm_publee m) \<and> tr_oreo (rs_trans s t) = Some (hexlify oreo) \<and>
          (case open_box E (rm_privee m) cipher nonce (rm_publee m) of
             Inl _ \<Rightarrow> False
           | Inr msg \<Rightarrow> vouches_for E (lo_priver (rs_local s)) m shortraw msg)
      | _ \<Rightarrow> False)"

lemma bad_initiate_keeps:
  "keeps (\<lambda>s. rm_allowed (rs_remotes s r) \<noteq> Some True)
     (bad_body ''invalid_initiate'' (Allowent_nack E PkReject t))"
  unfolding bad_body_def by (intro keeps_intros)

lemma raw_bodyD: "raw_body n b = Some x \<Longrightarrow> b = BRaw x"
  by (cases b) (auto simp: raw_body_def split: if_splits)

text \<open>The handler, once the packet is open.\<close>

lemma Allowent_initiate_run:
  assumes "tr_rxPacket (rs_trans s t) = Some p" "RxPacket_parseInner (road_codec E s) p = Inr q"
    and "x = s\<lparr>rs_trans := (rs_trans s)(t := (rs_trans s t)\<lparr>tr_rxPacket := Some q\<rparr>)\<rparr>"
  shows "Allowent_initiate E t s = (case raw_body (struct_size INITIATE_PACKER) (rp_embody q) of
      None \<Rightarrow> bad_body ''invalid_initiate'' (Allowent_nack E PkReject t) x
    | Some b \<Rightarrow> (case struct_unpack INITIATE_PACKER b of
          Inr [FBytes shortraw, FBytes oreo, FBytes cipher, FBytes nonce] \<Rightarrow>
            if shortraw \<noteq> pb_keyraw (rm_publee (rs_remotes s (tr_remote (rs_trans s t)))) \<or>
               Some (hexlify oreo) \<noteq> tr_oreo (rs_trans s t)
            then bad_body ''invalid_initiate'' (Allowent_nack E PkReject t) x
            else (case open_box E (rm_privee (rs_remotes s (tr_remote (rs_trans s t)))) cipher nonce
                    (rm_publee (rs_remotes s (tr_remote (rs_trans s t)))) of
                Inl e \<Rightarrow> (Inl e, x)
              | Inr msg \<Rightarrow>
                  (case vouched E (lo_priver (rs_local s)) (rs_remotes s (tr_remote (rs_trans s t))) shortraw msg of
                     Inl e \<Rightarrow> (Inl e, x)
                   | Inr ok \<Rightarrow> if \<not> ok then bad_body ''invalid_initiate'' (Allowent_nack E PkReject t) x
                              else Allowent_ackInitiate E t x))
        | _ \<Rightarrow> (Inl StructError, x)))"
  by (simp add: Allowent_initiate_def when_parsed_def run_simps assms Let_def get_priver_def
        split: option.split sum.split list.split sfield.split)

lemma Allowent_initiate_unproved:
  assumes rx: "tr_rxPacket (rs_trans s t) = Some p" "RxPacket_parseInner (road_codec E s) p = Inr q"
    and no: "\<not> (\<exists>b. rp_embody q = BRaw b \<and> proves_identity E s t b)"
    and before: "rm_allowed (rs_remotes s r) \<noteq> Some True"
  shows "rm_allowed (rs_remotes (snd (Allowent_initiate E t s)) r) \<noteq> Some True"
proof -
  let ?s = "s\<lparr>rs_trans := (rs_trans s)(t := (rs_trans s t)\<lparr>tr_rxPacket := Some q\<rparr>)\<rparr>"
  have "rm_allowed (rs_remotes ?s r) \<noteq> Some True" using before by simp
  note bad = keepsD [OF bad_initiate_keeps, of ?s r, OF this]
  note run = Allowent_initiate_run [OF rx refl]
  have never: "vouched E (lo_priver (rs_local s)) (rs_remotes s (tr_remote (rs_trans s t))) shortraw msg \<noteq> Inr True"
    if "raw_body (struct_size INITIATE_PACKER) (rp_embody q) = Some b"
      "struct_unpack INITIATE_PACKER b = Inr [FBytes shortraw, FBytes oreo, FBytes cipher, FBytes nonce]"
      "shortraw = pb_keyraw (rm_publee (rs_remotes s (tr_remote (rs_trans s t))))"
      "Some (hexlify oreo) = tr_oreo (rs_trans s t)"
      "open_box E (rm_privee (rs_remotes s (tr_remote (rs_trans s t)))) cipher nonce
         (rm_publee (rs_remotes s (tr_remote (rs_trans s t)))) = Inr msg"
    for b shortraw oreo cipher nonce msg
    using no that raw_bodyD [OF that(1)] by (auto simp: proves_identity_def vouched_iff Let_def)
  show ?thesis unfolding run using bad before never
    by (auto split: option.split sum.split list.split sfield.split if_splits)
qed

text \<open>Only the remote of the transaction is set to allowed.\<close>

definition other_unallowed :: "nat \<Rightarrow> nat \<Rightarrow> nat \<Rightarrow> 'r road_stack \<Rightarrow> bool" where
  "other_unallowed t r0 r s \<longleftrightarrow> tr_remote (rs_trans s t) = r0 \<and> rm_allowed (rs_remotes s r) \<noteq> Some True"

interpretation others: sending "other_unallowed t r0 r" for t r0 r
  by unfold_locales (auto simp: other_unallowed_def)

lemma others_sets [keeps_intros]:
  "keeps (other_unallowed t r0 r) (saveMessage r' u)"
  "keeps (other_unallowed t r0 r) (next_sid r')"
  "keeps (other_unallowed t r0 r) (dump_remote E r')"
  "r \<noteq> r' \<Longrightarrow> keeps (other_unallowed t r0 r) (set_allowed r')"
proof -
  show "keeps (other_unallowed t r0 r) (saveMessage r' u)"
    unfolding saveMessage_def rmod_def by (intro keeps_intros) (auto simp: other_unallowed_def)
  show "keeps (other_unallowed t r0 r) (next_sid r')"
    unfolding next_sid_def by (rule keeps_emod) (simp add: set_lot_def other_unallowed_def)
  show "keeps (other_unallowed t r0 r) (dump_remote E r')"
    unfolding dump_remote_def
    by (intro keeps_intros) (simp add: keeps_def on_files_def other_unallowed_def split: prod.split)
  show "r \<noteq> r' \<Longrightarrow> keeps (other_unallowed t r0 r) (set_allowed r')"
    unfolding set_allowed_def rmod_def by (rule keeps_emod) (simp add: other_unallowed_def)
qed

lemma Allowent_allow_others:
  assumes "r \<noteq> r0"
  shows "keeps (other_unallowed t r0 r) (Allowent_allow E t)"
proof (rule keepsI)
  fix s :: "'a road_stack"
  assume s: "other_unallowed t r0 r s"
  have "keeps (other_unallowed t r0 r) (ethen (set_allowed r0) (ethen (next_sid r0)
      (ethen (replaceStaleInitiators (trans_nack E) r0) (dump_remote E r0))))"
    unfolding replaceStaleInitiators_def using assms by (intro keeps_intros)
  from keepsD [OF this s] show "other_unallowed t r0 r (snd (Allowent_allow E t s))"
    using s by (simp add: Allowent_allow_def tget_bind other_unallowed_def)
qed

lemma Allowent_ackInitiate_others:
  "r \<noteq> r0 \<Longrightarrow> keeps (other_unallowed t r0 r) (Allowent_ackInitiate E t)"
  unfolding Allowent_ackInitiate_def by (intro keeps_intros Allowent_allow_others)

lemma Allowent_initiate_others:
  assumes rx: "tr_rxPacket (rs_trans s t) = Some p" "RxPacket_parseInner (road_codec E s) p = Inr q"
    and other: "r \<noteq> tr_remote (rs_trans s t)" and before: "rm_allowed (rs_remotes s r) \<noteq> Some True"
  shows "rm_allowed (rs_remotes (snd (Allowent_initiate E t s)) r) \<noteq> Some True"
proof -
  let ?r0 = "tr_remote (rs_trans s t)"
  obtain x where x: "x = s\<lparr>rs_trans := (rs_trans s)(t := (rs_trans s t)\<lparr>tr_rxPacket := Some q\<rparr>)\<rparr>" by simp
  then have start: "other_unallowed t ?r0 r x" using before by (simp add: other_unallowed_def)
  have "keeps (other_unallowed t ?r0 r) (bad_body ''invalid_initiate'' (Allowent_nack E PkReject t))"
    unfolding bad_body_def by (intro keeps_intros)
  note bad = keepsD [OF this start] and ack = keepsD [OF Allowent_ackInitiate_others [OF other] start, of E]
  have "other_unallowed t ?r0 r (snd (Allowent_initiate E t s))"
    unfolding Allowent_initiate_run [OF rx x] using bad ack start
    by (auto split: option.split sum.split list.split sfield.split)
  then show ?thesis by (simp add: other_unallowed_def)
qed

text \<open>
  C6: The handling of an initiate packet by a correspondent's allow makes a remote allowed that was
  not, only if it is the transaction's remote and the packet holds the short term key and the cookie
  of this transaction and opens with the short term keys, and what is inside names the long term key
  of the remote and a voucher, made with that key, for the short term key.
\<close>

theorem allow_needs_proof:
  assumes "rm_allowed (rs_remotes s r) \<noteq> Some True"
    and "rm_allowed (rs_remotes (snd (Allowent_initiate E t s)) r) = Some True"
  shows "r = tr_remote (rs_trans s t) \<and>
    (\<exists>p q b. tr_rxPacket (rs_trans s t) = Some p \<and>
      RxPacket_parseInner (road_codec E s) p = Inr q \<and> rp_embody q = BRaw b \<and> proves_identity E s t b)"
proof (cases "tr_rxPacket (rs_trans s t)")
  case None
  then have "snd (Allowent_initiate E t s) = s"
    by (simp add: Allowent_initiate_def when_parsed_def run_simps Let_def)
  then show ?thesis using assms by simp
next
  case (Some p)
  show ?thesis
  proof (cases "RxPacket_parseInner (road_codec E s) p")
    case (Inl e)
    then have "rm_allowed (rs_remotes (snd (Allowent_initiate E t s)) r) = rm_allowed (rs_remotes s r)"
      using Some by (simp add: Allowent_initiate_def when_parsed_def run_simps Let_def incStat_def)
    then show ?thesis using assms by simp
  next
    case (Inr q)
    then show ?thesis
      using Some assms Allowent_initiate_unproved [OF Some Inr] Allowent_initiate_others [OF Some Inr] by blast
  qed
qed

end
