(* ===== verification/RoadStarting.thy ===== *)
theory RoadStarting
  imports RoadStacking
begin

text \<open>
  Starting a road stack, raet/road/stacking.py: estates are made again from what the keep has of
  them, and a new stack takes up its own estate and its remotes before it serves.

  Stored values are of the types that the dumps write; the model refuses others with \<open>TypeError\<close>.
\<close>

section \<open>Estates from stored data\<close>

text \<open>\<open>tuple(ha) if ha else ha\<close>: pairs are lists in the model.\<close>

fun stored_ha :: "val \<Rightarrow> val result" where
  "stored_ha (VList xs) = Inr (VList xs)"
| "stored_ha v = (if py_true v then Inl TypeError else Inr v)"

fun stored_text :: "val \<Rightarrow> string result" where
  "stored_text (VStr s) = Inr s"
| "stored_text VNone = Inr []"
| "stored_text _ = Inl TypeError"

fun stored_role :: "val \<Rightarrow> string option result" where
  "stored_role (VStr s) = Inr (Some s)"
| "stored_role VNone = Inr None"
| "stored_role _ = Inl TypeError"

fun stored_uid :: "val \<Rightarrow> int option result" where
  "stored_uid (VInt i) = Inr (Some i)"
| "stored_uid VNone = Inr None"
| "stored_uid _ = Inl TypeError"

definition item_as :: "(val \<Rightarrow> 'a result) \<Rightarrow> hdata \<Rightarrow> string \<Rightarrow> 'a result" where
  "item_as f d key = rbind (oitem d key) f"

text \<open>The arguments that local and remote estates share.\<close>

definition estate_args :: "hdata \<Rightarrow> remote_args result" where
  "estate_args d =
     rbind (item_as stored_ha d ''ha'') (\<lambda>ha.
     rbind (item_as stored_ha d ''iha'') (\<lambda>iha.
     rbind (item_as stored_uid d ''uid'') (\<lambda>uid.
     rbind (item_as stored_text d ''name'') (\<lambda>name.
     rbind (oitem d ''natted'') (\<lambda>natted.
     rbind (item_as stored_text d ''fqdn'') (\<lambda>fqdn.
     rbind (oitem d ''dyned'') (\<lambda>dyned.
     rbind (item_as val_int d ''sid'') (\<lambda>sid.
     rbind (item_as stored_role d ''role'') (\<lambda>role.
     Inr \<lparr>ra_name = name, ra_uid = uid, ra_ha = ha, ra_iha = iha, ra_natted = natted, ra_fqdn = fqdn,
          ra_dyned = dyned, ra_sid = sid, ra_role = role, ra_fuid = 0, ra_main = VBool False, ra_kind = VInt 0,
          ra_joined = VNone, ra_acceptance = VNone, ra_verkey = [], ra_pubkey = []\<rparr>)))))))))"

definition stored_args :: "hdata \<Rightarrow> remote_args result" where
  "stored_args d =
     rbind (estate_args d) (\<lambda>a.
     rbind (item_as val_int d ''fuid'') (\<lambda>fuid.
     rbind (oitem d ''main'') (\<lambda>main.
     rbind (oitem d ''kind'') (\<lambda>kind.
     rbind (oitem d ''joined'') (\<lambda>joined.
     rbind (oitem d ''acceptance'') (\<lambda>acceptance.
     rbind (item_as stored_text d ''verhex'') (\<lambda>verhex.
     rbind (item_as stored_text d ''pubhex'') (\<lambda>pubhex.
     Inr (a\<lparr>ra_fuid := fuid, ra_main := main, ra_kind := kind, ra_joined := joined,
            ra_acceptance := acceptance, ra_verkey := verhex, ra_pubkey := pubhex\<rparr>)))))))))"

definition restore_estate :: "'r road_env \<Rightarrow> hdata \<Rightarrow> ('r, nat) road" where
  "restore_estate E d =
     ebind (elift (stored_args d)) (\<lambda>a. ebind (RemoteEstate_init E a) (\<lambda>r. add_remote E r False))"

section \<open>Restoring\<close>

definition road_restoreRemote :: "'r road_env \<Rightarrow> string \<Rightarrow> ('r, nat option) road" where
  "road_restoreRemote E name =
     ebind (on_files (road_loadRemoteData (rv_keep E) name)) (\<lambda>v. case v of
       None \<Rightarrow> eret None
     | Some d \<Rightarrow>
         if d = [] then eret None
         else if verifyRemoteData (rv_keep E) d None then
           ebind (restore_estate E d) (\<lambda>r. eret (Some r))
         else ethen (on_files (clearRemoteData (rv_keep E) name)) (eret None))"

definition road_restoreRemotes :: "'r road_env \<Rightarrow> ('r, unit) road" where
  "road_restoreRemotes E =
     ebind (on_files (road_loadAllRemoteData (rv_keep E))) (\<lambda>ks. efor ks (\<lambda>(name, d).
       if verifyRemoteData (rv_keep E) d None then ebind (restore_estate E d) (\<lambda>_. eret ())
       else on_files (clearRemoteData (rv_keep E) name)))"

definition road_restoreLocal :: "'r road_env \<Rightarrow> ('r, val lot option) road" where
  "road_restoreLocal E =
     ebind (on_files (road_loadLocalData (rv_keep E))) (\<lambda>v. case v of
       None \<Rightarrow> eret None
     | Some d \<Rightarrow>
         if d = [] then eret None
         else if \<not> verifyLocalData (rv_keep E) d None then
           ethen (on_files (clearLocalData (rv_keep E))) (eret None)
         else
           ebind (elift (item_as stored_ha d ''aha'')) (\<lambda>aha.
           ebind (elift (estate_args d)) (\<lambda>a.
           ebind (elift (item_as stored_text d ''sighex'')) (\<lambda>sighex.
           ebind (elift (item_as stored_text d ''prihex'')) (\<lambda>prihex.
           ebind (LocalEstate_init E a sighex prihex) (\<lambda>(l, m).
           ebind (elift (item_as val_int d ''puid'')) (\<lambda>puid.
           ethen (emod (\<lambda>s. s\<lparr>st_puid := puid, rs_aha := aha, st_local := l, rs_local := m\<rparr>))
             (eret (Some l)))))))))"

section \<open>Role files\<close>

definition dump_local_role :: "'r road_env \<Rightarrow> ('r, unit) road" where
  "dump_local_role E = ebind (eget local_view) (\<lambda>v. on_files (dumpLocalRole (rv_keep E) v))"

definition dump_remote_role :: "'r road_env \<Rightarrow> nat \<Rightarrow> ('r, unit) road" where
  "dump_remote_role E r =
     ebind (eget (\<lambda>s. remote_view s r)) (\<lambda>v. on_files (dumpRemoteRole (rv_keep E) v))"

definition clearLocalRoleKeep :: "'r road_env \<Rightarrow> ('r, unit) road" where
  "clearLocalRoleKeep E = on_files (clearLocalRoleData (rv_keep E))"

definition clearRemoteRoleKeeps :: "'r road_env \<Rightarrow> ('r, unit) road" where
  "clearRemoteRoleKeeps E = on_files (clearAllRemoteRoleData (rv_keep E))"

definition road_clearAllKeeps :: "'r road_env \<Rightarrow> ('r, unit) road" where
  "road_clearAllKeeps E =
     ethen (clearAllKeeps (rv_keep E)) (ethen (clearLocalRoleKeep E) (clearRemoteRoleKeeps E))"

section \<open>Starting\<close>

text \<open>What stands for the objects that do not exist yet.\<close>

definition empty_remote :: remote_part where
  "empty_remote =
     \<lparr>es_tid = 0, es_iha = VNone, es_natted = VNone, es_fqdn = [], es_dyned = VNone, es_role = [],
      rm_transactions = [], rm_doneTransactions = [], rm_fuid = 0, rm_main = VNone, rm_kind = VNone,
      rm_joined = VNone, rm_allowed = None, rm_alived = None, rm_reaped = None, rm_acceptance = VNone,
      rm_privee = \<lparr>pv_key = \<lparr>priv_bytes = [], priv_public = PublicKey []\<rparr>, pv_keyhex = [],
        pv_keyraw = [], pv_pubhex = [], pv_pubraw = []\<rparr>,
      rm_publee = no_publican, rm_verfer = \<lparr>vf_key = None, vf_keyhex = [], vf_keyraw = []\<rparr>, rm_pubber = no_publican,
      rm_rsid = 0, rm_timer = \<lparr>tm_start = 0, tm_duration = 0\<rparr>, rm_reapTimer = \<lparr>tm_start = 0, tm_duration = 0\<rparr>,
      rm_messages = []\<rparr>"

definition empty_transaction :: transaction where
  "empty_transaction =
     \<lparr>tr_class = AliverT, tr_remote = 0, tr_kind = 0, tr_timeout = 0, tr_timer = \<lparr>tm_start = 0, tm_duration = 0\<rparr>, tr_rmt = False,
      tr_bcst = VNone, tr_sid = 0, tr_tid = 0, tr_txData = [], tr_txPacket = None, tr_rxPacket = None,
      tr_redoTimeoutMin = 0, tr_redoTimeoutMax = 0, tr_redoTimer = \<lparr>tm_start = 0, tm_duration = 0\<rparr>, tr_cascade = False,
      tr_vacuous = False, tr_renewal = False, tr_pended = False, tr_oreo = None, tr_burst = 0,
      tr_misseds = [], tr_acked = False, tr_tray = TxTray_init [] EMPTY_BODY, tr_wait = VBool False,
      tr_lowest = None, tr_rxtray = RxTray_init []\<rparr>"

definition empty_local :: local_part where
  "empty_local =
     \<lparr>es_tid = 0, es_iha = VNone, es_natted = VNone, es_fqdn = [], es_dyned = VNone, es_role = [],
      lo_signer = signer_of \<lparr>sig_seed = [], sig_secret = [], sig_verify = VerifyKey []\<rparr>,
      lo_priver = privateer_of \<lparr>priv_bytes = [], priv_public = PublicKey []\<rparr>\<rparr>"

text \<open>The attributes of a stack that has no estates yet.\<close>

definition new_road :: "int \<Rightarrow> val \<Rightarrow> int option \<Rightarrow> fs \<Rightarrow> 'r \<Rightarrow> 'r road_stack" where
  "new_road puid aha kind fs rand =
     \<lparr>st_stamp = 0, st_puid = puid, st_local = \<lparr>lot_name = [], lot_uid = 0, lot_ha = VNone, lot_sid = 0\<rparr>,
      st_lots = (\<lambda>_. \<lparr>lot_name = [], lot_uid = 0, lot_ha = VNone, lot_sid = 0\<rparr>), st_uidRemotes = [],
      st_nameRemotes = [], st_server = False, st_inbox = [], st_rxes = [], st_txes = [], st_rxMsgs = [],
      st_txMsgs = [], st_stats = [], st_statTimer = \<lparr>tm_start = 0, tm_duration = 0\<rparr>, st_attempts = [],
      st_sent = [], ks_fs = fs, ks_next = 0, rs_local = empty_local, rs_remotes = (\<lambda>_. empty_remote),
      rs_trans = (\<lambda>_. empty_transaction), rs_newTrans = 0, rs_aha = aha, rs_kind = kind, rs_joinees = [],
      rs_alloweds = [], rs_aliveds = [], rs_reapeds = [], rs_availables = [], rs_changeds = ([], []),
      rs_rand = rand, rs_guids = 0\<rparr>"

text \<open>
  \<open>reopen\<close> gives the address of the opened server,
  or \<open>None\<close> if it could not be opened.
\<close>

definition open_server :: "(val \<Rightarrow> val option) \<Rightarrow> ('r, unit) road" where
  "open_server reopen =
     ebind (eget rs_aha) (\<lambda>aha. case reopen aha of
       None \<Rightarrow> eraise StackError
     | Some ha \<Rightarrow> emod (\<lambda>s. s\<lparr>rs_aha := ha, st_server := True\<rparr>))"

definition RoadStack_init ::
    "'r road_env \<Rightarrow> (val \<Rightarrow> val option) \<Rightarrow> remote_args \<Rightarrow> string \<Rightarrow> string \<Rightarrow> bool \<Rightarrow> bool \<Rightarrow> ('r, unit) road" where
  "RoadStack_init E reopen a sigkey prikey cleanlocal cleanremote =
     ebind (LocalEstate_init E a sigkey prikey) (\<lambda>(l, m).
     ethen (emod (\<lambda>s. s\<lparr>rs_local := m\<rparr>))
       (keep_startup (rv_keep E)
         (ebind (road_restoreLocal E) (\<lambda>restored. ethen (open_server reopen) (eret restored)))
         l (road_restoreRemotes E) (dump_local E) (dump_remote E) cleanlocal cleanremote))"

end
