(* ===== verification/KeepFacts.thy ===== *)
theory KeepFacts
  imports Keeping
begin

text \<open>
  What the keep promises: the files of the remotes behave as a map from names to data. The
  relation \<open>keep_holds\<close> ties a file system to such a map; dumping, clearing and loading follow
  the map's update, removal and lookup.
\<close>

section \<open>Paths\<close>

definition file_part :: "string \<Rightarrow> bool" where
  "file_part s \<longleftrightarrow> s \<noteq> [] \<and> CHR ''/'' \<notin> set s \<and> CHR '' '' \<notin> set s"

definition plain_part :: "string \<Rightarrow> bool" where
  "plain_part s \<longleftrightarrow> file_part s \<and> CHR ''.'' \<notin> set s"

lemma plain_part_dots: "plain_part s \<Longrightarrow> \<exists>c \<in> set s. c \<noteq> CHR ''.''"
  by (cases s) (auto simp: plain_part_def file_part_def)

lemma dotted_name_ext:
  assumes "plain_part prefix" and "file_part name" and "plain_part ext"
  shows "snd (splitext (path_join d (dotted_name prefix name ext))) = ''.'' @ ext"
    and "file_subject prefix (dotted_name prefix name ext) =
      (if ext = ''json'' \<or> ext = ''msgpack'' then Some name else None)"
proof -
  let ?root = "prefix @ ''.'' @ name"
  have c: "CHR ''/'' \<notin> set (?root @ ext)" "CHR ''.'' \<notin> set ext" "\<exists>c \<in> set ?root. c \<noteq> CHR ''.''"
    using assms plain_part_dots [OF assms(1)] by (auto simp: plain_part_def file_part_def)
  show "snd (splitext (path_join d (dotted_name prefix name ext))) = ''.'' @ ext"
    using splitext_file(1) [OF c, of d] by (simp add: path_join_def dotted_name_def)
  have "splitext (dotted_name prefix name ext) = (?root, ''.'' @ ext)"
    using splitext_file(2) [OF c] by (simp add: dotted_name_def)
  moreover have "partition_at ?root ''.'' = (prefix, ''.'', name)"
    using find_sub_char [of "CHR ''.''" prefix name] assms(1)
    by (simp add: partition_at_def plain_part_def)
  ultimately show "file_subject prefix (dotted_name prefix name ext) =
      (if ext = ''json'' \<or> ext = ''msgpack'' then Some name else None)"
    using assms(2) by (auto simp: file_subject_def file_part_def)
qed

lemma dotted_name_inj: "dotted_name p n e = dotted_name p n' e \<longleftrightarrow> n = n'"
  by (simp add: dotted_name_def)

lemma path_join_inj: "path_join d f = path_join d f' \<longleftrightarrow> f = f'"
  by (simp add: path_join_def)

section \<open>Serialisation\<close>

text \<open>
  What the keeps write: a dictionary of scalars, and addresses as lists of scalars. The law of a
  serialiser is that these are read back as they were written.
\<close>

fun scalar :: "val \<Rightarrow> bool" where
  "scalar (VList vs) = False"
| "scalar (VDict d) = False"
| "scalar _ = True"

fun storable :: "val \<Rightarrow> bool" where
  "storable (VList vs) = list_all scalar vs"
| "storable (VDict d) = False"
| "storable _ = True"

definition plain_data :: "hdata \<Rightarrow> bool" where
  "plain_data d \<longleftrightarrow> owf d \<and> list_all (\<lambda>(k, v). storable v) d"

definition reads_back :: "(val \<Rightarrow> bytes result) \<Rightarrow> (bytes \<Rightarrow> val option) \<Rightarrow> bool" where
  "reads_back dump load \<longleftrightarrow>
     (\<forall>d. plain_data d \<longrightarrow> (\<exists>b. dump (VDict d) = Inr b \<and> load b = Some (VDict d)))"

text \<open>The serialiser that the keep's extension selects.\<close>

definition dumper :: "serial \<Rightarrow> string \<Rightarrow> val \<Rightarrow> bytes result" where
  "dumper sr ext v =
     (if ext = ''json'' then sr_json_dump sr v
      else case sr_msgpack sr of None \<Rightarrow> Inl KeepError | Some (dump, _) \<Rightarrow> dump v)"

definition loader :: "serial \<Rightarrow> string \<Rightarrow> bytes \<Rightarrow> val option" where
  "loader sr ext b =
     (if ext = ''json'' then sr_json_load sr b
      else case sr_msgpack sr of None \<Rightarrow> None | Some (_, load) \<Rightarrow> load b)"

definition keep_ok :: "('z) keep_scheme \<Rightarrow> bool" where
  "keep_ok k \<longleftrightarrow>
     (kp_ext k = ''json'' \<or> (kp_ext k = ''msgpack'' \<and> sr_msgpack (kp_serial k) \<noteq> None)) \<and>
     reads_back (dumper (kp_serial k) (kp_ext k)) (loader (kp_serial k) (kp_ext k)) \<and>
     plain_part (kp_prefix k) \<and> CHR '' '' \<notin> set (kp_dirpath k)"

lemma keep_ext_part: "keep_ok k \<Longrightarrow> plain_part (kp_ext k)"
  by (auto simp: keep_ok_def plain_part_def file_part_def)

lemma keep_dump_path:
  assumes "keep_ok k" and "snd (splitext p) = ''.'' @ kp_ext k" and "CHR '' '' \<notin> set p"
  shows "keep_dump (kp_serial k) v p =
    ebind (elift (dumper (kp_serial k) (kp_ext k) v)) (\<lambda>b. emod (oset p b))"
  using assms by (auto simp: keep_dump_def keep_ok_def dumper_def)

lemma keep_load_path:
  assumes "keep_ok k" and "snd (splitext p) = ''.'' @ kp_ext k" and "oget fs p = Some b"
  shows "keep_load (kp_serial k) p fs = (Inr (loader (kp_serial k) (kp_ext k) b), fs)"
  using assms by (auto simp: keep_load_def keep_ok_def loader_def run_simps)

section \<open>Files as a map\<close>

definition in_dir :: "string \<Rightarrow> string \<Rightarrow> bool" where
  "in_dir d p \<longleftrightarrow> (\<exists>f. p = path_join d f \<and> CHR ''/'' \<notin> set f)"

definition keep_holds :: "('z) keep_scheme \<Rightarrow> fs \<Rightarrow> (string \<Rightarrow> hdata option) \<Rightarrow> bool" where
  "keep_holds k fs m \<longleftrightarrow>
     owf fs \<and>
     (\<forall>n d. m n = Some d \<longrightarrow> file_part n \<and> plain_data d \<and>
        (\<exists>b. oget fs (remotefilepath k n) = Some b \<and>
           loader (kp_serial k) (kp_ext k) b = Some (VDict d))) \<and>
     (\<forall>p \<in> set (okeys fs). in_dir (remotedirpath k) p \<longrightarrow> (\<exists>n. m n \<noteq> None \<and> p = remotefilepath k n))"

lemma remotefilepath_facts:
  assumes "keep_ok k" and "file_part n"
  shows "snd (splitext (remotefilepath k n)) = ''.'' @ kp_ext k" "CHR '' '' \<notin> set (remotefilepath k n)"
    "in_dir (remotedirpath k) (remotefilepath k n)"
    "file_subject (kp_prefix k) (dotted_name (kp_prefix k) n (kp_ext k)) = Some n"
proof -
  have p: "plain_part (kp_prefix k)" using assms(1) by (simp add: keep_ok_def)
  note e = keep_ext_part [OF assms(1)]
  show "snd (splitext (remotefilepath k n)) = ''.'' @ kp_ext k"
    unfolding remotefilepath_def by (rule dotted_name_ext(1) [OF p assms(2) e])
  show "CHR '' '' \<notin> set (remotefilepath k n)"
    using p e assms
    by (auto simp: remotefilepath_def path_join_def dotted_name_def remotedirpath_def plain_part_def
        file_part_def keep_ok_def)
  have "CHR ''/'' \<notin> set (dotted_name (kp_prefix k) n (kp_ext k))"
    using p e assms(2) by (auto simp: dotted_name_def plain_part_def file_part_def)
  then show "in_dir (remotedirpath k) (remotefilepath k n)"
    by (auto simp: in_dir_def remotefilepath_def)
  show "file_subject (kp_prefix k) (dotted_name (kp_prefix k) n (kp_ext k)) = Some n"
    using dotted_name_ext(2) [OF p assms(2) e] assms(1) by (auto simp: keep_ok_def)
qed

lemma remotefilepath_inj: "remotefilepath k n = remotefilepath k n' \<longleftrightarrow> n = n'"
  by (simp add: remotefilepath_def path_join_inj dotted_name_inj)

lemma keep_holdsD:
  assumes "keep_holds k fs m"
  shows "owf fs"
    and "m n = Some d \<Longrightarrow> file_part n"
    and "m n = Some d \<Longrightarrow> plain_data d"
    and "m n = Some d \<Longrightarrow> \<exists>b. oget fs (remotefilepath k n) = Some b \<and>
           loader (kp_serial k) (kp_ext k) b = Some (VDict d)"
    and "p \<in> set (okeys fs) \<Longrightarrow> in_dir (remotedirpath k) p \<Longrightarrow>
           \<exists>n. m n \<noteq> None \<and> p = remotefilepath k n"
  using assms unfolding keep_holds_def by blast+

lemma keep_holdsI:
  assumes "owf fs"
    and "\<And>n d. m n = Some d \<Longrightarrow> file_part n \<and> plain_data d \<and>
        (\<exists>b. oget fs (remotefilepath k n) = Some b \<and>
           loader (kp_serial k) (kp_ext k) b = Some (VDict d))"
    and "\<And>p. p \<in> set (okeys fs) \<Longrightarrow> in_dir (remotedirpath k) p \<Longrightarrow>
        \<exists>n. m n \<noteq> None \<and> p = remotefilepath k n"
  shows "keep_holds k fs m"
  using assms unfolding keep_holds_def by blast

lemma dumpRemoteData_holds:
  assumes "keep_ok k" and "keep_holds k fs m" and "file_part n" and "plain_data d"
  shows "\<exists>fs'. dumpRemoteData k d n fs = (Inr (), fs') \<and> keep_holds k fs' (m(n \<mapsto> d)) \<and>
    (\<forall>p. p \<noteq> remotefilepath k n \<longrightarrow> oget fs' p = oget fs p)"
proof -
  obtain b where b: "dumper (kp_serial k) (kp_ext k) (VDict d) = Inr b"
    "loader (kp_serial k) (kp_ext k) b = Some (VDict d)"
    using assms(1,4) unfolding keep_ok_def reads_back_def by blast
  let ?p = "remotefilepath k n"
  have "dumpRemoteData k d n fs = (Inr (), oset ?p b fs)"
    using keep_dump_path [OF assms(1) remotefilepath_facts(1,2) [OF assms(1,3)]] b(1)
    by (simp add: dumpRemoteData_def run_simps)
  moreover have "keep_holds k (oset ?p b fs) (m(n \<mapsto> d))"
  proof (rule keep_holdsI)
    show "owf (oset ?p b fs)" by (simp add: keep_holdsD(1) [OF assms(2)])
    fix n' d'
    assume "(m(n \<mapsto> d)) n' = Some d'"
    then show "file_part n' \<and> plain_data d' \<and>
        (\<exists>b'. oget (oset ?p b fs) (remotefilepath k n') = Some b' \<and>
           loader (kp_serial k) (kp_ext k) b' = Some (VDict d'))"
      using keep_holdsD(2-4) [OF assms(2), of n' d'] b(2) assms(3,4)
      by (auto simp: remotefilepath_inj split: if_splits)
  next
    fix p
    assume "p \<in> set (okeys (oset ?p b fs))" "in_dir (remotedirpath k) p"
    then show "\<exists>n'. (m(n \<mapsto> d)) n' \<noteq> None \<and> p = remotefilepath k n'"
      using keep_holdsD(5) [OF assms(2), of p] by (cases "p = ?p") fastforce+
  qed
  ultimately show ?thesis by simp
qed

lemma clearRemoteData_holds:
  assumes "keep_holds k fs m"
  shows "\<exists>fs'. clearRemoteData k n fs = (Inr (), fs') \<and> keep_holds k fs' (m(n := None)) \<and>
    (\<forall>p. p \<noteq> remotefilepath k n \<longrightarrow> oget fs' p = oget fs p)"
proof -
  have "keep_holds k (odel (remotefilepath k n) fs) (m(n := None))"
  proof (rule keep_holdsI)
    show "owf (odel (remotefilepath k n) fs)" by (simp add: keep_holdsD(1) [OF assms])
    fix n' d'
    assume "(m(n := None)) n' = Some d'"
    then show "file_part n' \<and> plain_data d' \<and>
        (\<exists>b'. oget (odel (remotefilepath k n) fs) (remotefilepath k n') = Some b' \<and>
           loader (kp_serial k) (kp_ext k) b' = Some (VDict d'))"
      using keep_holdsD(2-4) [OF assms, of n' d'] by (auto simp: remotefilepath_inj split: if_splits)
  next
    fix p
    assume p: "p \<in> set (okeys (odel (remotefilepath k n) fs))" "in_dir (remotedirpath k) p"
    then obtain n' where "m n' \<noteq> None" "p = remotefilepath k n'"
      using keep_holdsD(5) [OF assms, of p] by auto
    moreover from this p have "n' \<noteq> n" by auto
    ultimately show "\<exists>n'. (m(n := None)) n' \<noteq> None \<and> p = remotefilepath k n'" by auto
  qed
  then show ?thesis by (simp add: clearRemoteData_def clear_file_def run_simps)
qed

lemma loadRemoteData_holds:
  assumes "keep_ok k" and "keep_holds k fs m" and "file_part n"
  shows "loadRemoteData k n fs = (Inr (map_option VDict (m n)), fs)"
proof (cases "m n")
  case None
  have "oget fs (remotefilepath k n) = None"
  proof (rule ccontr)
    assume "oget fs (remotefilepath k n) \<noteq> None"
    then have "remotefilepath k n \<in> set (okeys fs)" by (simp add: oget_None_iff)
    from keep_holdsD(5) [OF assms(2) this remotefilepath_facts(3) [OF assms(1,3)]] None
    show False by (auto simp: remotefilepath_inj)
  qed
  then show ?thesis using None by (simp add: loadRemoteData_def load_file_def run_simps ohas_iff)
next
  case (Some d)
  from keep_holdsD(4) [OF assms(2) Some] obtain b where b: "oget fs (remotefilepath k n) = Some b"
    "loader (kp_serial k) (kp_ext k) b = Some (VDict d)" by blast
  show ?thesis
    using keep_load_path [OF assms(1) remotefilepath_facts(1) [OF assms(1,3)] b(1)] b Some
    by (simp add: loadRemoteData_def load_file_def run_simps ohas_iff)
qed

section \<open>All files of the directory\<close>

lemma starts_with_join: "starts_with (d @ ''/'') p \<longleftrightarrow> p = path_join d (drop (length d + 1) p)"
proof -
  have "starts_with (d @ ''/'') p \<longleftrightarrow> take (length d + 1) p = d @ ''/''"
    by (simp add: starts_with_def)
  also have "\<dots> \<longleftrightarrow> p = (d @ ''/'') @ drop (length d + 1) p"
    by (metis append_take_drop_id append_same_eq)
  finally show ?thesis by (simp add: path_join_def)
qed

lemma set_listdir:
  "f \<in> set (listdir d fs) \<longleftrightarrow> CHR ''/'' \<notin> set f \<and> path_join d f \<in> set (okeys fs)"
proof
  assume "f \<in> set (listdir d fs)"
  then obtain p where "p \<in> set (okeys fs)" "starts_with (d @ ''/'') p" "f = drop (length d + 1) p"
    "CHR ''/'' \<notin> set f" by (auto simp: listdir_def)
  then show "CHR ''/'' \<notin> set f \<and> path_join d f \<in> set (okeys fs)"
    by (simp add: starts_with_join)
next
  assume f: "CHR ''/'' \<notin> set f \<and> path_join d f \<in> set (okeys fs)"
  have "drop (length d + 1) (path_join d f) = f" by (simp add: path_join_def)
  moreover have "starts_with (d @ ''/'') (path_join d f)"
    by (simp add: starts_with_join path_join_def)
  ultimately have "path_join d f \<in> set (filter (\<lambda>p. starts_with (d @ ''/'') p \<and>
      CHR ''/'' \<notin> set (drop (length d + 1) p)) (okeys fs))" "drop (length d + 1) (path_join d f) = f"
    using f by simp_all
  then show "f \<in> set (listdir d fs)" unfolding listdir_def by force
qed

abbreviation data_file :: "('z) keep_scheme \<Rightarrow> string \<Rightarrow> string" where
  "data_file k n \<equiv> dotted_name (kp_prefix k) n (kp_ext k)"

lemma listdir_holds:
  assumes "keep_ok k" and "keep_holds k fs m"
  shows "set (listdir (remotedirpath k) fs) = {data_file k n |n. m n \<noteq> None}"
proof (intro set_eqI iffI)
  fix f
  assume "f \<in> set (listdir (remotedirpath k) fs)"
  then have "path_join (remotedirpath k) f \<in> set (okeys fs)" "CHR ''/'' \<notin> set f"
    by (simp_all add: set_listdir)
  moreover from this have "in_dir (remotedirpath k) (path_join (remotedirpath k) f)"
    by (auto simp: in_dir_def)
  ultimately obtain n where "m n \<noteq> None" "path_join (remotedirpath k) f = remotefilepath k n"
    using keep_holdsD(5) [OF assms(2)] by blast
  then show "f \<in> {data_file k n |n. m n \<noteq> None}"
    by (auto simp: remotefilepath_def path_join_inj)
next
  fix f
  assume "f \<in> {data_file k n |n. m n \<noteq> None}"
  then obtain n d where n: "f = data_file k n" "m n = Some d" by auto
  then have "remotefilepath k n \<in> set (okeys fs)"
    using keep_holdsD(4) [OF assms(2) n(2)] oget_in_okeys by fast
  moreover have "in_dir (remotedirpath k) (remotefilepath k n)"
    by (rule remotefilepath_facts(3) [OF assms(1) keep_holdsD(2) [OF assms(2) n(2)]])
  ultimately show "f \<in> set (listdir (remotedirpath k) fs)"
    by (auto simp: set_listdir n(1) remotefilepath_def in_dir_def path_join_inj)
qed

lemma load_dir_holds:
  assumes "keep_ok k" and "keep_holds k fs m"
  shows "set fl \<subseteq> {data_file k n |n. m n \<noteq> None} \<Longrightarrow>
    \<exists>ks. load_dir (kp_serial k) (remotedirpath k) (kp_prefix k) fl acc fs = (Inr ks, fs) \<and>
      (\<forall>n. oget ks n =
        (if data_file k n \<in> set fl then map_option (\<lambda>d. Some (VDict d)) (m n) else oget acc n))"
proof (induction fl arbitrary: acc)
  case (Cons f fl)
  then obtain n d where f: "f = data_file k n" and n: "m n = Some d" by auto
  note part = keep_holdsD(2) [OF assms(2) n]
  from keep_holdsD(4) [OF assms(2) n] obtain b where b: "oget fs (remotefilepath k n) = Some b"
    "loader (kp_serial k) (kp_ext k) b = Some (VDict d)" by blast
  have "keep_load (kp_serial k) (path_join (remotedirpath k) f) fs = (Inr (Some (VDict d)), fs)"
    using keep_load_path [OF assms(1) remotefilepath_facts(1) [OF assms(1) part] b(1)] b(2)
    by (simp add: f remotefilepath_def)
  moreover have "set fl \<subseteq> {data_file k n |n. m n \<noteq> None}" using Cons.prems by simp
  note Cons.IH [OF this, of "oset n (Some (VDict d)) acc"]
  ultimately show ?case
    using remotefilepath_facts(4) [OF assms(1) part] n
    by (auto simp: f run_simps dotted_name_inj)
qed (simp add: run_simps)

lemma loadAllRemoteData_holds:
  assumes "keep_ok k" and "keep_holds k fs m"
  shows "\<exists>ks. loadAllRemoteData k fs = (Inr ks, fs) \<and>
    (\<forall>n. oget ks n = map_option (\<lambda>d. Some (VDict d)) (m n))"
proof -
  note files = listdir_holds [OF assms]
  from load_dir_holds [OF assms equalityD1 [OF files], of "[]"] obtain ks
    where ks: "load_dir (kp_serial k) (remotedirpath k) (kp_prefix k) (listdir (remotedirpath k) fs)
        [] fs = (Inr ks, fs)"
      "\<forall>n. oget ks n = (if data_file k n \<in> set (listdir (remotedirpath k) fs)
        then map_option (\<lambda>d. Some (VDict d)) (m n) else oget [] n)" by blast
  moreover have "oget ks n = map_option (\<lambda>d. Some (VDict d)) (m n)" for n
    using ks(2) by (cases "m n") (auto simp: files dotted_name_inj)
  ultimately show ?thesis by (simp add: loadAllRemoteData_def run_simps)
qed

lemma clear_dir_holds:
  assumes "keep_ok k"
  shows "keep_holds k fs m \<Longrightarrow> \<forall>f \<in> set fl. \<exists>n. f = data_file k n \<and> file_part n \<Longrightarrow>
    \<exists>fs'. clear_dir (remotedirpath k) (kp_prefix k) fl fs = (Inr (), fs') \<and>
      keep_holds k fs' (m |` {n. data_file k n \<notin> set fl})"
proof (induction fl arbitrary: fs m)
  case Nil
  then show ?case by (simp add: clear_dir_def run_simps)
next
  case (Cons f fl)
  then obtain n where f: "f = data_file k n" and part: "file_part n" by auto
  from clearRemoteData_holds [OF Cons.prems(1), of n] obtain fs1
    where fs1: "clearRemoteData k n fs = (Inr (), fs1)" "keep_holds k fs1 (m(n := None))" by blast
  have "\<forall>f \<in> set fl. \<exists>n. f = data_file k n \<and> file_part n" using Cons.prems(2) by simp
  from Cons.IH [OF fs1(2) this] obtain fs2
    where fs2: "clear_dir (remotedirpath k) (kp_prefix k) fl fs1 = (Inr (), fs2)"
      "keep_holds k fs2 ((m(n := None)) |` {n. data_file k n \<notin> set fl})" by blast
  have "(m(n := None)) |` {n. data_file k n \<notin> set fl} = m |` {n. data_file k n \<notin> set (f # fl)}"
    by (rule ext) (auto simp: restrict_map_def f dotted_name_inj)
  moreover have "clear_dir (remotedirpath k) (kp_prefix k) (f # fl) fs = (Inr (), fs2)"
    using fs1(1) fs2(1) remotefilepath_facts(4) [OF assms part]
    by (simp add: clear_dir_def f clearRemoteData_def remotefilepath_def run_simps)
  ultimately show ?case using fs2(2) by simp
qed

lemma clearAllRemoteData_holds:
  assumes "keep_ok k" and "keep_holds k fs m"
  shows "\<exists>fs'. clearAllRemoteData k fs = (Inr (), fs') \<and> keep_holds k fs' Map.empty"
proof -
  note files = listdir_holds [OF assms]
  have "\<forall>f \<in> set (listdir (remotedirpath k) fs). \<exists>n. f = data_file k n \<and> file_part n"
    using keep_holdsD(2) [OF assms(2)] by (auto simp: files)
  from clear_dir_holds [OF assms(1,2) this] obtain fs'
    where fs': "clear_dir (remotedirpath k) (kp_prefix k) (listdir (remotedirpath k) fs) fs = (Inr (), fs')"
      "keep_holds k fs' (m |` {n. data_file k n \<notin> set (listdir (remotedirpath k) fs)})" by blast
  have "m |` {n. data_file k n \<notin> set (listdir (remotedirpath k) fs)} = Map.empty"
    by (rule ext) (auto simp: restrict_map_def files)
  with fs' show ?thesis by (simp add: clearAllRemoteData_def run_simps)
qed

text \<open>
  C22: The files of the remotes behave as a map from names to data. Dumping data under a name sets
  the entry, clearing a name removes it, loading a name looks it up, loading all gives exactly
  the entries, and clearing all leaves none.
\<close>

theorem keep_files_map:
  assumes "keep_ok k" and "keep_holds k fs m" and "file_part n" and "plain_data d"
  shows "(\<exists>fs'. dumpRemoteData k d n fs = (Inr (), fs') \<and> keep_holds k fs' (m(n \<mapsto> d))) \<and>
    (\<exists>fs'. clearRemoteData k n fs = (Inr (), fs') \<and> keep_holds k fs' (m(n := None))) \<and>
    loadRemoteData k n fs = (Inr (map_option VDict (m n)), fs) \<and>
    (\<exists>ks. loadAllRemoteData k fs = (Inr ks, fs) \<and>
       (\<forall>n. oget ks n = map_option (\<lambda>d. Some (VDict d)) (m n))) \<and>
    (\<exists>fs'. clearAllRemoteData k fs = (Inr (), fs') \<and> keep_holds k fs' Map.empty)"
  using dumpRemoteData_holds [OF assms] clearRemoteData_holds [OF assms(2), of n]
    loadRemoteData_holds [OF assms(1-3)] loadAllRemoteData_holds [OF assms(1,2)]
    clearAllRemoteData_holds [OF assms(1,2)] by blast

lemma verifyData_members:
  "verifyData names d \<longleftrightarrow> list_all (ohas d) names \<and> list_all (\<lambda>(k, v). k \<in> set names) d"
proof -
  have "list_all (\<lambda>(k, v). k \<in> set names) d \<longleftrightarrow> set (okeys d) \<subseteq> set names"
    by (force simp: list_all_iff okeys_def)
  moreover have "list_all (ohas d) names \<longleftrightarrow> set names \<subseteq> set (okeys d)"
    by (auto simp: list_all_iff ohas_def)
  ultimately show ?thesis by (auto simp: verifyData_def)
qed

text \<open>
  The base keep never stores a remote. \<open>dumpRemote\<close> gives four fields to a verification
  that expects the three of \<open>RemoteFields\<close>, so it leaves the files as they are;
  \<open>dumpLocal\<close> does write the local file.
\<close>

theorem base_keep_dumps:
  "dumpRemote (k\<lparr>kp_RemoteFields := REMOTE_FIELDS\<rparr>) name uid ha sid fs = (Inr (), fs) \<and>
   dumpLocal (k\<lparr>kp_LocalFields := LOCAL_FIELDS\<rparr>) name uid ha sid puid fs =
     dumpLocalData k [(''name'', VStr name), (''uid'', VInt uid), (''ha'', ha), (''sid'', VInt sid),
       (''puid'', VInt puid)] fs"
proof -
  have "\<not> verifyData REMOTE_FIELDS
      [(''name'', VStr name), (''uid'', VInt uid), (''ha'', ha), (''sid'', VInt sid)]"
    by (simp add: verifyData_members REMOTE_FIELDS_def)
  moreover have "verifyData LOCAL_FIELDS [(''name'', VStr name), (''uid'', VInt uid), (''ha'', ha),
      (''sid'', VInt sid), (''puid'', VInt puid)]"
    by (simp add: verifyData_members LOCAL_FIELDS_def)
  ultimately show ?thesis
    by (simp add: dumpRemote_def dumpLocal_def verifyRemoteData_def verifyLocalData_def
        run_simps dumpLocalData_def localfilepath_def localdirpath_def)
qed

section \<open>A sample keep\<close>

text \<open>A serialiser of plain data: lengths in unary, then the parts.\<close>

definition unary :: "nat \<Rightarrow> string" where
  "unary n = replicate n (CHR ''1'') @ ''.''"

definition read_unary :: "string \<Rightarrow> nat \<times> string" where
  "read_unary s = (length (takeWhile (\<lambda>c. c = CHR ''1'') s), tl (dropWhile (\<lambda>c. c = CHR ''1'') s))"

fun write_scalar :: "val \<Rightarrow> string" where
  "write_scalar (VBool b) = ''b'' @ unary (of_bool b)"
| "write_scalar (VInt i) = (if i < 0 then ''-'' else ''+'') @ unary (nat (abs i))"
| "write_scalar (VStr s) = ''s'' @ unary (length s) @ s"
| "write_scalar (VFloat s) = ''f'' @ unary (length s) @ s"
| "write_scalar _ = ''n''"

fun read_scalar :: "string \<Rightarrow> val \<times> string" where
  "read_scalar [] = (VNone, [])"
| "read_scalar (c # s) =
     (let (n, r) = read_unary s in
      if c = CHR ''b'' then (VBool (n = 1), r)
      else if c = CHR ''-'' then (VInt (- int n), r)
      else if c = CHR ''+'' then (VInt (int n), r)
      else if c = CHR ''s'' then (VStr (take n r), drop n r)
      else if c = CHR ''f'' then (VFloat (take n r), drop n r)
      else (VNone, s))"

fun write_val :: "val \<Rightarrow> string" where
  "write_val (VList vs) = ''l'' @ unary (length vs) @ concat (map write_scalar vs)"
| "write_val v = write_scalar v"

fun read_scalars :: "nat \<Rightarrow> string \<Rightarrow> val list \<times> string" where
  "read_scalars 0 s = ([], s)"
| "read_scalars (Suc n) s =
     (let (v, r) = read_scalar s; (vs, r') = read_scalars n r in (v # vs, r'))"

fun read_val :: "string \<Rightarrow> val \<times> string" where
  "read_val s =
     (if starts_with ''l'' s
      then let (n, r) = read_unary (tl s); (vs, r') = read_scalars n r in (VList vs, r')
      else read_scalar s)"

fun read_items :: "nat \<Rightarrow> string \<Rightarrow> hdata" where
  "read_items 0 s = []"
| "read_items (Suc n) s =
     (let (k, r) = read_scalar s; (v, r') = read_val r in
      ((case k of VStr k \<Rightarrow> k | _ \<Rightarrow> []), v) # read_items n r')"

fun sample_dump :: "val \<Rightarrow> bytes result" where
  "sample_dump (VDict d) =
     Inr (unary (length d) @ concat (map (\<lambda>(k, v). write_scalar (VStr k) @ write_val v) d))"
| "sample_dump _ = Inl TypeError"

definition sample_load :: "bytes \<Rightarrow> val option" where
  "sample_load b = (let (n, r) = read_unary b in Some (VDict (read_items n r)))"

lemma read_unary [simp]: "read_unary (unary n @ s) = (n, s)"
  by (induction n) (simp_all add: read_unary_def unary_def)

lemma read_scalar [simp]: "scalar v \<Longrightarrow> read_scalar (write_scalar v @ s) = (v, s)"
  by (cases v) auto

lemma read_scalars [simp]:
  "list_all scalar vs \<Longrightarrow> read_scalars (length vs) (concat (map write_scalar vs) @ s) = (vs, s)"
  by (induction vs) simp_all

lemma read_val [simp]: "storable v \<Longrightarrow> read_val (write_val v @ s) = (v, s)"
  using read_scalar [of v s] by (cases v) auto

lemma read_items:
  "list_all (\<lambda>(k, v). storable v) d \<Longrightarrow>
   read_items (length d) (concat (map (\<lambda>(k, v). write_scalar (VStr k) @ write_val v) d)) = d"
proof (induction d)
  case (Cons kv d)
  obtain k v where kv: "kv = (k, v)" by fastforce
  have "read_scalar (write_scalar (VStr k) @ s) = (VStr k, s)" for s by (rule read_scalar) simp
  with Cons kv show ?case by (simp del: read_val.simps write_scalar.simps)
qed simp

lemma sample_reads_back: "reads_back sample_dump sample_load"
  by (simp add: reads_back_def plain_data_def sample_load_def read_items del: write_scalar.simps)

definition sample_serial :: serial where
  "sample_serial = \<lparr>sr_json_dump = sample_dump, sr_json_load = sample_load, sr_msgpack = None,
     sr_text = (\<lambda>_. [])\<rparr>"

definition sample_keep :: keep where
  "sample_keep = \<lparr>kp_serial = sample_serial, kp_dirpath = ''/keep'', kp_prefix = ''lot'',
     kp_ext = ''json'', kp_LocalFields = LOCAL_FIELDS, kp_RemoteFields = REMOTE_FIELDS\<rparr>"

lemma sample_keep_ok: "keep_ok sample_keep"
proof -
  have "dumper sample_serial ''json'' = sample_dump" "loader sample_serial ''json'' = sample_load"
    by (auto simp: dumper_def loader_def sample_serial_def)
  then show ?thesis
    by (simp add: keep_ok_def sample_keep_def sample_reads_back plain_part_def file_part_def)
qed

theorem keep_files_map_witness:
  "\<exists>fs'. dumpRemoteData sample_keep [(''uid'', VInt 7)] ''a.b'' [] = (Inr (), fs') \<and>
     keep_holds sample_keep fs' [''a.b'' \<mapsto> [(''uid'', VInt 7)]]"
proof -
  have "keep_holds sample_keep [] Map.empty" by (simp add: keep_holds_def)
  moreover have "file_part ''a.b''" by (simp add: file_part_def)
  moreover have "plain_data [(''uid'', VInt 7)]" by (simp add: plain_data_def owf_def)
  ultimately show ?thesis
    using keep_files_map [OF sample_keep_ok, of "[]" Map.empty "''a.b''" "[(''uid'', VInt 7)]"] by simp
qed

end
