(* ===== verification/RoadKeepFacts.thy ===== *)
theory RoadKeepFacts
  imports RoadKeeping KeepFacts
begin

text \<open>
  What the road keep promises: the role files behave as a table from roles to acceptance and keys,
  \<open>statusRole\<close> follows a short decision table over it and never lets other keys replace those first
  seen, and an estate that was dumped is loaded with its keys.
\<close>

section \<open>Role files as files of a keep\<close>

definition role_keep :: "('z) roadkeep_scheme \<Rightarrow> keep" where
  "role_keep k =
     \<lparr>kp_serial = kp_serial k, kp_dirpath = rk_roledirpath k, kp_prefix = ''role'',
      kp_ext = kp_ext k, kp_LocalFields = kp_LocalFields k, kp_RemoteFields = kp_RemoteFields k\<rparr>"

lemma role_keep_parts [simp]:
  "kp_serial (role_keep k) = kp_serial k" "kp_ext (role_keep k) = kp_ext k"
  "kp_prefix (role_keep k) = ''role''" "remotedirpath (role_keep k) = remoteroledirpath k"
  "remotefilepath (role_keep k) role = rolefilepath k role"
  by (simp_all add: role_keep_def remotedirpath_def remoteroledirpath_def remotefilepath_def
      rolefilepath_def)

lemma role_file_ops:
  "dumpRemoteRoleData k data role = dumpRemoteData (role_keep k) data role"
  "clearRemoteRoleData k role = clearRemoteData (role_keep k) role"
  "loadAllRemoteRoleData k = loadAllRemoteData (role_keep k)"
  "clearAllRemoteRoleData k = clearAllRemoteData (role_keep k)"
  by (simp_all add: dumpRemoteRoleData_def dumpRemoteData_def clearRemoteRoleData_def
      clearRemoteData_def loadAllRemoteRoleData_def loadAllRemoteData_def clearAllRemoteRoleData_def
      clearAllRemoteData_def)

section \<open>The table of roles\<close>

type_synonym role_info = "acceptance \<times> string \<times> string"

definition role_data :: "string \<Rightarrow> role_info \<Rightarrow> hdata" where
  "role_data role i = (case i of (a, verhex, pubhex) \<Rightarrow>
     [(''role'', VStr role), (''acceptance'', VInt (acceptance_value a)), (''verhex'', VStr verhex),
      (''pubhex'', VStr pubhex)])"

definition roles_hold :: "('z) roadkeep_scheme \<Rightarrow> fs \<Rightarrow> (string \<Rightarrow> role_info option) \<Rightarrow> bool" where
  "roles_hold k fs t \<longleftrightarrow> keep_holds (role_keep k) fs (\<lambda>role. map_option (role_data role) (t role))"

definition role_defaults :: "string \<Rightarrow> hdata" where
  "role_defaults role =
     [(''role'', VStr role), (''acceptance'', VNone), (''verhex'', VNone), (''pubhex'', VNone)]"

lemma role_data_plain: "plain_data (role_data role i)"
  by (simp add: plain_data_def role_data_def owf_def split: prod.split)

lemma role_data_verified: "verifyRemoteData k (role_data role i) (Some REMOTE_ROLE_FIELDS)"
  by (simp add: verifyRemoteData_def verifyData_members role_data_def REMOTE_ROLE_FIELDS_def
      split: prod.split)

lemma role_data_loaded: "oupdate (no_fields REMOTE_ROLE_FIELDS) (role_data role i) = role_data role i"
  by (simp add: no_fields_def REMOTE_ROLE_FIELDS_def role_data_def split: prod.split)

lemma loadRemoteRoleData_holds:
  assumes "keep_ok (role_keep k)" and "roles_hold k fs t" and "file_part role"
  shows "loadRemoteRoleData k role fs =
    (Inr (case t role of None \<Rightarrow> role_defaults role | Some i \<Rightarrow> role_data role i), fs)"
proof -
  note h = assms(2) [unfolded roles_hold_def]
  have load: "(if ohas fs (rolefilepath k role) then keep_load (kp_serial k) (rolefilepath k role) fs
      else (Inr None, fs)) = (Inr (map_option (VDict \<circ> role_data role) (t role)), fs)"
    using loadRemoteData_holds [OF assms(1) h assms(3)]
    by (simp add: loadRemoteData_def load_file_def run_simps option.map_comp split: if_splits)
  show ?thesis
  proof (cases "t role")
    case None
    have "\<not> ohas fs (rolefilepath k role)"
    proof
      assume "ohas fs (rolefilepath k role)"
      then have "rolefilepath k role \<in> set (okeys fs)" by (simp add: ohas_def)
      moreover have "in_dir (remoteroledirpath k) (rolefilepath k role)"
        using remotefilepath_facts(3) [OF assms(1,3)] by simp
      ultimately obtain n where "map_option (role_data n) (t n) \<noteq> None" "rolefilepath k role = rolefilepath k n"
        using keep_holdsD(5) [OF h, of "rolefilepath k role"] by auto
      then show False using None remotefilepath_inj [of "role_keep k" role n] by simp
    qed
    then show ?thesis
      using None by (simp add: loadRemoteRoleData_def role_defaults_def no_fields_def
          REMOTE_ROLE_FIELDS_def run_simps Let_def)
  next
    case (Some i)
    with load have "ohas fs (rolefilepath k role)"
      "keep_load (kp_serial k) (rolefilepath k role) fs = (Inr (Some (VDict (role_data role i))), fs)"
      by (auto split: if_splits)
    then show ?thesis
      using Some by (simp add: loadRemoteRoleData_def run_simps update_loaded_def role_data_loaded
          Let_def)
  qed
qed

lemma dumpRemoteRoleData_holds:
  assumes "keep_ok (role_keep k)" and "roles_hold k fs t" and "file_part role"
  shows "\<exists>fs'. dumpRemoteRoleData k (role_data role i) role fs = (Inr (), fs') \<and>
    roles_hold k fs' (t(role \<mapsto> i)) \<and> (\<forall>p. p \<noteq> rolefilepath k role \<longrightarrow> oget fs' p = oget fs p)"
proof -
  let ?m = "\<lambda>r. map_option (role_data r) (t r)"
  have "?m(role \<mapsto> role_data role i) = (\<lambda>r. map_option (role_data r) ((t(role \<mapsto> i)) r))"
    by auto
  then show ?thesis
    using dumpRemoteData_holds [OF assms(1) assms(2) [unfolded roles_hold_def] assms(3)
        role_data_plain [of role i]]
    by (simp add: role_file_ops roles_hold_def)
qed

section \<open>Deciding\<close>

text \<open>The decision as a table, and the role's entry after it.\<close>

fun decide :: "auto_mode \<Rightarrow> role_info option \<Rightarrow> string \<times> string \<Rightarrow> acceptance" where
  "decide AutoAlways e ks = Accepted"
| "decide AutoOnce None ks = Accepted"
| "decide AutoNever None ks = Pending"
| "decide m (Some (a, ks')) ks =
     (if a = Rejected \<or> ks' \<noteq> ks then Rejected else if m = AutoOnce then Accepted else a)"

definition entry_after :: "auto_mode \<Rightarrow> role_info option \<Rightarrow> string \<times> string \<Rightarrow> role_info option" where
  "entry_after m e ks =
     (if decide m e ks = Rejected then e else Some (decide m e ks, ks))"

lemma decide_status_defaults:
  "decide_status (auto_value m) (role_defaults role) v p =
   Inr (VInt (acceptance_value (decide m None (v, p))))"
  by (cases m) (simp_all add: decide_status_def role_defaults_def oget_or_def Let_def)

lemma decide_status_data:
  "decide_status (auto_value m) (role_data role i) v p =
   Inr (VInt (acceptance_value (decide m (Some i) (v, p))))"
proof -
  obtain a v' p' where i: "i = (a, v', p')" by (cases i) auto
  have "keys_differ (role_data role i) v p \<longleftrightarrow> (v', p') \<noteq> (v, p)"
    by (auto simp: keys_differ_def role_data_def i oget_or_def)
  then show ?thesis
    by (cases m; cases a) (simp_all add: decide_status_def i role_data_def oget_or_def Let_def)
qed

lemma note_status_defaults:
  "a \<noteq> Rejected \<Longrightarrow> v \<noteq> [] \<Longrightarrow> p \<noteq> [] \<Longrightarrow>
   note_status (role_defaults role) (VInt (acceptance_value a)) v p = (role_data role (a, v, p), True)"
  by (cases a) (simp_all add: note_status_def put_changed_def role_defaults_def role_data_def
      oget_or_def Let_def py_eq_def)

lemma note_status_data:
  assumes "a \<noteq> Rejected" and "v \<noteq> []" and "p \<noteq> []"
  shows "note_status (role_data role i) (VInt (acceptance_value a)) v p =
    (role_data role (a, v, p), i \<noteq> (a, v, p))"
proof -
  obtain a' v' p' where i: "i = (a', v', p')" by (cases i) auto
  have "acceptance_value a = acceptance_value a' \<longleftrightarrow> a = a'" by (cases a; cases a') simp_all
  then show ?thesis
    using assms by (cases a) (auto simp: note_status_def put_changed_def role_data_def i oget_or_def Let_def)
qed

lemma note_status_rejected:
  "note_status d (VInt (acceptance_value Rejected)) v p = (d, False)"
  by (simp add: note_status_def)

lemma statusRole_holds:
  assumes ok: "keep_ok (role_keep k)" and h: "roles_hold k fs t" and part: "file_part role"
    and auto: "rk_auto k = auto_value m" and keys: "v \<noteq> []" "p \<noteq> []"
  shows "\<exists>fs'. statusRole k role v p dump fs =
      (Inr (VInt (acceptance_value (decide m (t role) (v, p)))), fs') \<and>
    roles_hold k fs' (if dump then t(role := entry_after m (t role) (v, p)) else t)"
proof -
  let ?d = "case t role of None \<Rightarrow> role_defaults role | Some i \<Rightarrow> role_data role i"
  let ?a = "decide m (t role) (v, p)"
  have status: "decide_status (rk_auto k) ?d v p = Inr (VInt (acceptance_value ?a))"
    by (cases "t role") (simp_all add: auto decide_status_defaults decide_status_data)
  note load = loadRemoteRoleData_holds [OF ok h part]
  have noted: "note_status ?d (VInt (acceptance_value ?a)) v p =
      (if ?a = Rejected then (?d, False)
       else (role_data role (?a, v, p), t role \<noteq> Some (?a, v, p)))"
  proof (cases "?a = Rejected")
    case True
    then show ?thesis by (simp add: note_status_rejected del: acceptance_value.simps)
  next
    case False
    then show ?thesis
      using keys by (cases "t role") (simp_all add: note_status_defaults note_status_data)
  qed
  show ?thesis
  proof (cases "dump \<and> ?a \<noteq> Rejected \<and> t role \<noteq> Some (?a, v, p)")
    case True
    from dumpRemoteRoleData_holds [OF ok h part, of "(?a, v, p)"] obtain fs'
      where "dumpRemoteRoleData k (role_data role (?a, v, p)) role fs = (Inr (), fs')"
        "roles_hold k fs' (t(role \<mapsto> (?a, v, p)))" by blast
    then show ?thesis
      using True status noted load
      by (simp add: statusRole_def run_simps role_data_verified entry_after_def)
  next
    case False
    then have "dump \<Longrightarrow> t(role := entry_after m (t role) (v, p)) = t"
      by (auto simp: entry_after_def)
    then show ?thesis
      using False status noted load h
      by (auto simp: statusRole_def run_simps)
  qed
qed

text \<open>
  C23: \<open>statusRole\<close> follows the decision table. An unknown role is accepted in modes once and
  always and pending in mode never; a known one is rejected when it was rejected or its keys differ,
  else kept, and in mode once accepted. The stored entry becomes the decision with the keys, unless
  the decision is a rejection, which leaves the files as they are.
\<close>

theorem status_role_decides:
  assumes "keep_ok (role_keep k)" and "roles_hold k fs t" and "file_part role"
    and "rk_auto k = auto_value m" and "v \<noteq> []" and "p \<noteq> []"
  shows "\<exists>fs'. statusRole k role v p dump fs =
      (Inr (VInt (acceptance_value (decide m (t role) (v, p)))), fs') \<and>
    roles_hold k fs' (if dump then t(role := entry_after m (t role) (v, p)) else t)"
  by (rule statusRole_holds [OF assms])

text \<open>Any calls, from remotes that present whatever role and keys they like.\<close>

definition present :: "('z) roadkeep_scheme \<Rightarrow> (string \<times> string \<times> string) list \<Rightarrow> (fs, unit) eff" where
  "present k calls =
     efor calls (\<lambda>(role, v, p). ebind (statusRole k role v p True) (\<lambda>_. eret ()))"

definition pinned :: "auto_mode \<Rightarrow> role_info option \<Rightarrow> role_info option \<Rightarrow> bool" where
  "pinned m e e' \<longleftrightarrow>
     (case e of
        Some (a, ks) \<Rightarrow> \<exists>a'. e' = Some (a', ks) \<and> (a' = Rejected \<longleftrightarrow> a = Rejected) \<and>
          (m = AutoNever \<longrightarrow> a' = a)
      | None \<Rightarrow> \<forall>a ks. e' = Some (a, ks) \<longrightarrow> a \<noteq> Rejected \<and> (m = AutoNever \<longrightarrow> a = Pending))"

lemma pinned_refl: "pinned m e e"
  by (auto simp: pinned_def split: option.split)

lemma pinned_step:
  assumes "m \<noteq> AutoAlways" and "pinned m e e'"
  shows "pinned m e (entry_after m e' ks)"
proof (cases e')
  case None
  with assms show ?thesis
    by (cases m) (auto simp: pinned_def entry_after_def split: option.splits)
next
  case (Some i)
  obtain a' ks' where i: "i = (a', ks')" by (cases i) auto
  have d: "decide m (Some (a', ks')) ks =
      (if a' = Rejected \<or> ks' \<noteq> ks then Rejected else if m = AutoOnce then Accepted else a')"
    using assms(1) by (cases m) simp_all
  show ?thesis
    using assms Some i d by (auto simp: pinned_def entry_after_def split: option.splits if_splits)
qed

lemma present_holds:
  assumes ok: "keep_ok (role_keep k)" and auto: "rk_auto k = auto_value m" and m: "m \<noteq> AutoAlways"
  shows "roles_hold k fs t \<Longrightarrow>
    \<forall>(role, v, p) \<in> set calls. file_part role \<and> v \<noteq> [] \<and> p \<noteq> [] \<Longrightarrow> \<forall>role. pinned m (t0 role) (t role) \<Longrightarrow>
    \<exists>fs' t'. present k calls fs = (Inr (), fs') \<and> roles_hold k fs' t' \<and>
      (\<forall>role. pinned m (t0 role) (t' role))"
proof (induction calls arbitrary: fs t)
  case Nil
  then show ?case by (auto simp: present_def run_simps)
next
  case (Cons c calls)
  obtain role v p where c: "c = (role, v, p)" by (cases c) auto
  with Cons.prems(2) have part: "file_part role" and keys: "v \<noteq> []" "p \<noteq> []" by auto
  from statusRole_holds [OF ok Cons.prems(1) part auto keys, of True] obtain fs1
    where fs1: "statusRole k role v p True fs =
        (Inr (VInt (acceptance_value (decide m (t role) (v, p)))), fs1)"
      "roles_hold k fs1 (t(role := entry_after m (t role) (v, p)))" by auto
  have rest: "\<forall>(role, v, p) \<in> set calls. file_part role \<and> v \<noteq> [] \<and> p \<noteq> []" using Cons.prems(2) by simp
  have "\<forall>r. pinned m (t0 r) ((t(role := entry_after m (t role) (v, p))) r)"
    using Cons.prems(3) pinned_step [OF m] by simp
  from Cons.IH [OF fs1(2) rest this] show ?case
    using fs1(1) by (simp add: present_def c run_simps)
qed

text \<open>
  C24: Trust on first use. In modes once and never, whatever roles and keys are presented in
  whatever order, the keys stored for a role never change, a rejected role stays rejected and no
  role becomes rejected on disk; in mode never the stored status does not change either, and new
  roles are only ever pending.
\<close>

theorem trust_on_first_use:
  assumes "keep_ok (role_keep k)" and "rk_auto k = auto_value m" and "m \<noteq> AutoAlways"
    and "roles_hold k fs t"
    and "\<forall>(role, v, p) \<in> set calls. file_part role \<and> v \<noteq> [] \<and> p \<noteq> []"
  shows "\<exists>fs' t'. present k calls fs = (Inr (), fs') \<and> roles_hold k fs' t' \<and>
      (\<forall>role. pinned m (t role) (t' role))"
  by (rule present_holds [OF assms(1-5)]) (simp add: pinned_refl)

section \<open>Estates on disk\<close>

lemma in_dir_same:
  assumes "in_dir d p" and "in_dir d' p"
  shows "d = d'"
proof -
  obtain f where "p = path_join d f" "CHR ''/'' \<notin> set f" using assms(1) by (auto simp: in_dir_def)
  moreover obtain f' where "p = path_join d' f'" "CHR ''/'' \<notin> set f'"
    using assms(2) by (auto simp: in_dir_def)
  ultimately have "rsplit (CHR ''/'') p = Some (d, f)" "rsplit (CHR ''/'') p = Some (d', f')"
    using rsplit_last [of "CHR ''/''" f d] rsplit_last [of "CHR ''/''" f' d']
    by (metis path_join_def append_Cons append_Nil)+
  then show ?thesis by simp
qed

lemma keep_holds_frame:
  assumes "keep_ok k" and "keep_holds k fs m" and "owf fs'"
    and same: "\<And>p. in_dir (remotedirpath k) p \<Longrightarrow> oget fs' p = oget fs p"
  shows "keep_holds k fs' m"
proof (rule keep_holdsI)
  fix n d
  assume n: "m n = Some d"
  note part = keep_holdsD(2) [OF assms(2) n]
  show "file_part n \<and> plain_data d \<and> (\<exists>b. oget fs' (remotefilepath k n) = Some b \<and>
      loader (kp_serial k) (kp_ext k) b = Some (VDict d))"
    using part keep_holdsD(3,4) [OF assms(2) n] same [OF remotefilepath_facts(3) [OF assms(1) part]]
    by simp
next
  fix p
  assume p: "p \<in> set (okeys fs')" "in_dir (remotedirpath k) p"
  then have "p \<in> set (okeys fs)" using same [of p] oget_None_iff by metis
  with p show "\<exists>n. m n \<noteq> None \<and> p = remotefilepath k n" using keep_holdsD(5) [OF assms(2)] by blast
qed (rule assms(3))

definition estate_data :: "remote_estate \<Rightarrow> hdata" where
  "estate_data e =
     [(''name'', VStr (re_name e)), (''uid'', VInt (re_uid e)), (''fuid'', VInt (re_fuid e)),
      (''ha'', re_ha e), (''iha'', re_iha e), (''natted'', re_natted e), (''fqdn'', re_fqdn e),
      (''dyned'', re_dyned e), (''sid'', VInt (re_sid e)), (''main'', re_main e),
      (''kind'', re_kind e), (''joined'', re_joined e), (''role'', VStr (re_role e))]"

definition full_data :: "remote_estate \<Rightarrow> hdata" where
  "full_data e =
     estate_data e @ [(''acceptance'', re_acceptance e), (''verhex'', VStr (re_verhex e)),
       (''pubhex'', VStr (re_pubhex e))]"

text \<open>An estate whose fields can be stored, in a keep whose two directories are apart.\<close>

definition storable_estate :: "remote_estate \<Rightarrow> bool" where
  "storable_estate e \<longleftrightarrow>
     file_part (re_name e) \<and> file_part (re_role e) \<and> (\<exists>a. re_acceptance e = VInt (acceptance_value a)) \<and>
     list_all storable [re_ha e, re_iha e, re_natted e, re_fqdn e, re_dyned e, re_main e, re_kind e,
       re_joined e]"

definition roadkeep_ok :: "('z) roadkeep_scheme \<Rightarrow> bool" where
  "roadkeep_ok k \<longleftrightarrow> keep_ok k \<and> keep_ok (role_keep k) \<and> kp_dirpath k \<noteq> rk_roledirpath k"

lemma estate_data_verified: "verifyRemoteData k (estate_data e) (Some REMOTE_DUMP_FIELDS)"
  by (simp add: verifyRemoteData_def verifyData_members estate_data_def REMOTE_DUMP_FIELDS_def)

lemma estate_data_plain: "storable_estate e \<Longrightarrow> plain_data (estate_data e)"
  by (simp add: plain_data_def estate_data_def owf_def storable_estate_def)

lemma dumpRemoteRole_entry:
  assumes "re_acceptance e = VInt (acceptance_value a)"
  shows "dumpRemoteRole k e =
    dumpRemoteRoleData k (role_data (re_role e) (a, re_verhex e, re_pubhex e)) (re_role e)"
  using role_data_verified [of k "re_role e" "(a, re_verhex e, re_pubhex e)"] assms
  by (simp add: dumpRemoteRole_def role_data_def Let_def ewhen_def)

lemma road_dumpRemote_holds:
  assumes ok: "roadkeep_ok k" and e: "storable_estate e" "re_acceptance e = VInt (acceptance_value a)"
    and m: "keep_holds k fs m" and t: "roles_hold k fs t"
  shows "\<exists>fs'. road_dumpRemote k e fs = (Inr (), fs') \<and>
    keep_holds k fs' (m(re_name e \<mapsto> estate_data e)) \<and>
    roles_hold k fs' (t(re_role e \<mapsto> (a, re_verhex e, re_pubhex e)))"
proof -
  have kk: "keep_ok k" "keep_ok (role_keep k)" and apart: "remotedirpath k \<noteq> remoteroledirpath k"
    using ok by (auto simp: roadkeep_ok_def remotedirpath_def remoteroledirpath_def path_join_def)
  have part: "file_part (re_name e)" "file_part (re_role e)"
    using e by (auto simp: storable_estate_def)
  from dumpRemoteData_holds [OF kk(1) m part(1) estate_data_plain [OF e(1)]] obtain fs1
    where fs1: "dumpRemoteData k (estate_data e) (re_name e) fs = (Inr (), fs1)"
      "keep_holds k fs1 (m(re_name e \<mapsto> estate_data e))"
      "\<And>p. p \<noteq> remotefilepath k (re_name e) \<Longrightarrow> oget fs1 p = oget fs p" by blast
  have "roles_hold k fs1 t"
    unfolding roles_hold_def
  proof (rule keep_holds_frame [OF kk(2) t [unfolded roles_hold_def] keep_holdsD(1) [OF fs1(2)]])
    fix p
    assume "in_dir (remotedirpath (role_keep k)) p"
    then have "p \<noteq> remotefilepath k (re_name e)"
      using in_dir_same [OF remotefilepath_facts(3) [OF kk(1) part(1)], of "remoteroledirpath k"] apart
      by auto
    then show "oget fs1 p = oget fs p" by (rule fs1(3))
  qed
  from dumpRemoteRoleData_holds [OF kk(2) this part(2), of "(a, re_verhex e, re_pubhex e)"] obtain fs2
    where fs2: "dumpRemoteRoleData k (role_data (re_role e) (a, re_verhex e, re_pubhex e)) (re_role e) fs1
        = (Inr (), fs2)"
      "roles_hold k fs2 (t(re_role e \<mapsto> (a, re_verhex e, re_pubhex e)))"
      "\<And>p. p \<noteq> rolefilepath k (re_role e) \<Longrightarrow> oget fs2 p = oget fs1 p" by blast
  have "keep_holds k fs2 (m(re_name e \<mapsto> estate_data e))"
  proof (rule keep_holds_frame [OF kk(1) fs1(2) keep_holdsD(1) [OF fs2(2) [unfolded roles_hold_def]]])
    fix p
    assume "in_dir (remotedirpath k) p"
    then have "p \<noteq> rolefilepath k (re_role e)"
      using in_dir_same [of "remotedirpath k" p "remoteroledirpath k"] apart
        remotefilepath_facts(3) [OF kk(2) part(2), unfolded role_keep_parts] by metis
    then show "oget fs2 p = oget fs1 p" by (rule fs2(3))
  qed
  moreover have "road_dumpRemote k e =
      ethen (dumpRemoteData k (estate_data e) (re_name e)) (dumpRemoteRole k e)"
    using estate_data_verified [of k e]
    by (simp only: road_dumpRemote_def Let_def estate_data_def ewhen_def if_True)
  then have "road_dumpRemote k e fs = (Inr (), fs2)"
    by (simp only: dumpRemoteRole_entry [OF e(2)] eff_run fs1(1) fs2(1) prod.case sum.case)
  ultimately show ?thesis using fs2(2) by blast
qed

lemma road_loadRemoteData_holds:
  assumes ok: "roadkeep_ok k" and m: "keep_holds k fs m" and t: "roles_hold k fs t"
    and e: "storable_estate e" "re_acceptance e = VInt (acceptance_value a)"
    and stored: "m (re_name e) = Some (estate_data e)" "t (re_role e) = Some (a, re_verhex e, re_pubhex e)"
  shows "road_loadRemoteData k (re_name e) fs = (Inr (Some (full_data e)), fs)"
proof -
  have kk: "keep_ok k" "keep_ok (role_keep k)" using ok by (auto simp: roadkeep_ok_def)
  have part: "file_part (re_name e)" "file_part (re_role e)" using e by (auto simp: storable_estate_def)
  have "loadRemoteData k (re_name e) fs = (Inr (Some (VDict (estate_data e))), fs)"
    using loadRemoteData_holds [OF kk(1) m part(1)] stored by simp
  moreover have "loadRemoteRoleData k (re_role e) fs =
      (Inr (role_data (re_role e) (a, re_verhex e, re_pubhex e)), fs)"
    using loadRemoteRoleData_holds [OF kk(2) t part(2)] stored by simp
  moreover have "oitem (estate_data e) ''role'' = Inr (VStr (re_role e))" "estate_data e \<noteq> []"
    by (simp_all add: estate_data_def)
  moreover have "oupdate (estate_data e) [(''acceptance'', re_acceptance e),
      (''verhex'', VStr (re_verhex e)), (''pubhex'', VStr (re_pubhex e))] = full_data e"
    by (simp add: estate_data_def full_data_def)
  ultimately show ?thesis
    using e(2) by (simp add: road_loadRemoteData_def run_simps role_text_def role_data_def oget_or_def
        oitem_def)
qed

text \<open>
  An estate that \<open>dumpRemote\<close> stored is what \<open>loadRemoteData\<close> gives back for its name, with
  all its fields, its acceptance and its keys, and the data pass the verification that restoring
  makes. Loading changes nothing, and no other remote or role is affected.
\<close>

theorem persist_remote:
  assumes "roadkeep_ok k" and "storable_estate e" and "keep_holds k fs m" and "roles_hold k fs t"
  shows "\<exists>fs' a. road_dumpRemote k e fs = (Inr (), fs') \<and>
    re_acceptance e = VInt (acceptance_value a) \<and>
    keep_holds k fs' (m(re_name e \<mapsto> estate_data e)) \<and>
    roles_hold k fs' (t(re_role e \<mapsto> (a, re_verhex e, re_pubhex e))) \<and>
    road_loadRemoteData k (re_name e) fs' = (Inr (Some (full_data e)), fs') \<and>
    verifyRemoteData k (full_data e) (Some ROAD_REMOTE_FIELDS)"
proof -
  obtain a where a: "re_acceptance e = VInt (acceptance_value a)"
    using assms(2) by (auto simp: storable_estate_def)
  from road_dumpRemote_holds [OF assms(1,2) a assms(3,4)] obtain fs'
    where fs': "road_dumpRemote k e fs = (Inr (), fs')"
      "keep_holds k fs' (m(re_name e \<mapsto> estate_data e))"
      "roles_hold k fs' (t(re_role e \<mapsto> (a, re_verhex e, re_pubhex e)))" by blast
  moreover have "verifyRemoteData k (full_data e) (Some ROAD_REMOTE_FIELDS)"
    by (simp add: verifyRemoteData_def verifyData_members full_data_def estate_data_def
        ROAD_REMOTE_FIELDS_def)
  ultimately show ?thesis
    using a road_loadRemoteData_holds [OF assms(1) fs'(2,3) assms(2) a] by auto
qed

section \<open>A sample keep\<close>

definition sample_roadkeep :: "auto_mode \<Rightarrow> roadkeep" where
  "sample_roadkeep m =
     \<lparr>kp_serial = sample_serial, kp_dirpath = ''/keep'', kp_prefix = ''estate'', kp_ext = ''json'',
      kp_LocalFields = ROAD_LOCAL_FIELDS, kp_RemoteFields = ROAD_REMOTE_FIELDS,
      rk_auto = auto_value m, rk_roledirpath = ''/keep/role''\<rparr>"

lemma sample_roadkeep_ok: "roadkeep_ok (sample_roadkeep m)"
proof -
  have "dumper sample_serial ''json'' = sample_dump" "loader sample_serial ''json'' = sample_load"
    by (auto simp: dumper_def loader_def sample_serial_def)
  then show ?thesis
    by (simp add: roadkeep_ok_def keep_ok_def sample_roadkeep_def role_keep_def sample_reads_back
        plain_part_def file_part_def)
qed

lemma sample_roles: "keep_ok (role_keep (sample_roadkeep m))" "roles_hold (sample_roadkeep m) [] Map.empty"
  "rk_auto (sample_roadkeep m) = auto_value m" "keep_holds (sample_roadkeep m) [] Map.empty"
  using sample_roadkeep_ok [of m]
  by (simp_all add: roadkeep_ok_def roles_hold_def keep_holds_def sample_roadkeep_def)

theorem status_role_decides_witness:
  "\<exists>fs'. statusRole (sample_roadkeep AutoOnce) ''minion'' ''aa'' ''bb'' True [] = (Inr (VInt 1), fs') \<and>
     roles_hold (sample_roadkeep AutoOnce) fs' [''minion'' \<mapsto> (Accepted, ''aa'', ''bb'')]"
  using status_role_decides [OF sample_roles(1,2) _ sample_roles(3), of "''minion''" "''aa''" "''bb''"
      AutoOnce True]
  by (simp add: file_part_def entry_after_def)

theorem trust_on_first_use_witness:
  "\<exists>fs' t'. present (sample_roadkeep AutoNever) [(''r'', ''aa'', ''bb''), (''r'', ''cc'', ''dd'')] [] =
      (Inr (), fs') \<and> roles_hold (sample_roadkeep AutoNever) fs' t' \<and> pinned AutoNever None (t' ''r'')"
  using trust_on_first_use [OF sample_roles(1,3) _ sample_roles(2), of AutoNever
      "[(''r'', ''aa'', ''bb''), (''r'', ''cc'', ''dd'')]"]
  by (fastforce simp: file_part_def)

definition sample_estate :: remote_estate where
  "sample_estate =
     \<lparr>re_name = ''other'', re_uid = 2, re_fuid = 3, re_ha = VList [VStr ''10.0.0.1'', VInt 7530],
      re_iha = VNone, re_natted = VNone, re_fqdn = VStr ''other.org'', re_dyned = VNone, re_sid = 4,
      re_main = VBool True, re_kind = VInt 0, re_joined = VBool True, re_role = ''minion'',
      re_acceptance = VInt 1, re_verhex = ''aa'', re_pubhex = ''bb''\<rparr>"

theorem persist_remote_witness:
  "\<exists>fs'. road_dumpRemote (sample_roadkeep AutoNever) sample_estate [] = (Inr (), fs') \<and>
     road_loadRemoteData (sample_roadkeep AutoNever) ''other'' fs' =
       (Inr (Some (full_data sample_estate)), fs')"
proof -
  have "storable_estate sample_estate"
    by (auto simp: storable_estate_def sample_estate_def file_part_def intro: exI [of _ Accepted])
  from persist_remote [OF sample_roadkeep_ok this sample_roles(4,2)] show ?thesis
    by (auto simp: sample_estate_def)
qed

end
