(* ===== verification/EncodingFacts.thy ===== *)
theory EncodingFacts
  imports Encoding
begin

text \<open>Each encoder's \<open>decode\<close> is inverse to its \<open>encode\<close>.\<close>

section \<open>Hexadecimal\<close>

lemma hexlify_simps [simp]:
  "hexlify [] = []" "hexlify (c # s) = hex_pair c @ hexlify s"
  by (simp_all add: hexlify_def)

lemma length_hex_pair [simp]: "length (hex_pair c) = 2"
  by (simp add: hex_pair_def Let_def)

lemma length_hexlify [simp]: "length (hexlify s) = 2 * length s"
  by (induction s) simp_all

lemma of_char_small: "(of_char c :: nat) < 256"
  by (metis of_char_mod_256 mod_less_divisor zero_less_numeral)

lemma hex_pair_back:
  "16 * ((of_char c :: nat) div 16) + of_char c mod 16 = of_char c"
  "(of_char c :: nat) div 16 < 16" "(of_char c :: nat) mod 16 < 16"
  using of_char_small [of c] by (simp_all add: mult_div_mod_eq less_mult_imp_div_less)

lemma hexlify_Nil [simp]: "hexlify s = [] \<longleftrightarrow> s = []" "[] = hexlify s \<longleftrightarrow> s = []"
  using length_hexlify [of s] by (auto simp del: length_hexlify)

lemma unhexlify_hexlify [simp]: "unhexlify (hexlify s) = Inr s"
  by (induction s) (simp_all add: hex_pair_def Let_def hex_pair_back)

lemma hexlify_plain: "list_all plain_char (hexlify s)"
  by (induction s) (simp_all add: hex_pair_def Let_def hex_pair_back)

lemma upper_digit:
  assumes "d < 16"
  shows "digit_value (upper_char (digit_char d)) = Some d \<and> \<not> is_lower (upper_char (digit_char d))"
proof -
  have "d \<in> {0, 1, 2, 3, 4, 5, 6, 7, 8, 9, 10, 11, 12, 13, 14, 15}"
    using assms by (simp only: insert_iff empty_iff) presburger
  then show ?thesis
    by (elim insertE emptyE) (simp_all add: digit_char_def upper_char_def is_lower_def digit_value_def)
qed

section \<open>Alphabets\<close>

lemma position_nth: "distinct t \<Longrightarrow> n < length t \<Longrightarrow> position (t ! n) t = Some n"
proof (induction t arbitrary: n)
  case (Cons x t)
  then show ?case by (cases n) auto
qed simp

lemma alphabets: "distinct B32" "length B32 = 32" "PAD \<notin> set B32" "distinct B64" "length B64 = 64" "PAD \<notin> set B64"
  by code_simp+

lemma B32_nth: "n < 32 \<Longrightarrow> position (B32 ! n) B32 = Some n" "n < 32 \<Longrightarrow> B32 ! n \<noteq> PAD"
  by (simp add: position_nth alphabets) (metis alphabets(2,3) nth_mem)

lemma B64_nth [simp]: "n < 64 \<Longrightarrow> position (B64 ! n) B64 = Some n" "n < 64 \<Longrightarrow> B64 ! n \<noteq> PAD"
  by (simp add: position_nth alphabets) (metis alphabets(5,6) nth_mem)

section \<open>Base 64\<close>

lemma b64_step:
  "v < 64 \<Longrightarrow> b64_loop 0 l p (B64 ! v # s) = b64_loop (Suc 0) v 0 s"
  "v < 64 \<Longrightarrow> b64_loop (Suc 0) l p (B64 ! v # s) = rbind (b64_loop 2 (v mod 16) 0 s) (\<lambda>t. Inr (char_of (l * 4 + v div 16) # t))"
  "v < 64 \<Longrightarrow> b64_loop 2 l p (B64 ! v # s) = rbind (b64_loop 3 (v mod 4) 0 s) (\<lambda>t. Inr (char_of (l * 16 + v div 4) # t))"
  "v < 64 \<Longrightarrow> b64_loop 3 l p (B64 ! v # s) = rbind (b64_loop 0 0 0 s) (\<lambda>t. Inr (char_of (l * 64 + v) # t))"
  by simp_all

lemma b64_pads: "b64_loop 2 l 0 [PAD, PAD] = Inr []" "b64_loop 3 l 0 [PAD] = Inr []"
  by simp_all

text \<open>The first two, the middle and the last of the four values that three bytes make.\<close>

lemma b64_bits:
  "x < 256 \<Longrightarrow> x div 4 < (64 :: nat)" "x mod 4 * 16 < (64 :: nat)" "y mod 16 * 4 < (64 :: nat)" "z mod 64 < (64 :: nat)"
proof -
  have "x mod 4 < 4" "y mod 16 < 16" by simp_all
  then show "x mod 4 * 16 < (64 :: nat)" "y mod 16 * 4 < (64 :: nat)" by linarith+
qed (simp_all add: less_mult_imp_div_less)

lemma b64_sums:
  "y < 256 \<Longrightarrow> x mod 4 * 16 + y div 16 < (64 :: nat)" "z < 256 \<Longrightarrow> y mod 16 * 4 + z div 64 < (64 :: nat)"
proof -
  assume "y < 256"
  then have "y div 16 < 16" "x mod 4 < 4" by auto
  then show "x mod 4 * 16 + y div 16 < 64" by linarith
next
  assume "z < 256"
  then have "z div 64 < 4" "y mod 16 < 16" by auto
  then show "y mod 16 * 4 + z div 64 < 64" by linarith
qed

lemma b64_back:
  fixes x y z :: nat
  assumes "y < 256" "z < 256"
  shows "x div 4 * 4 + x mod 4 * 16 div 16 = x" "x div 4 * 4 + (x mod 4 * 16 + y div 16) div 16 = x"
    "(x mod 4 * 16 + y div 16) mod 16 * 16 + y mod 16 * 4 div 4 = y"
    "(x mod 4 * 16 + y div 16) mod 16 * 16 + (y mod 16 * 4 + z div 64) div 4 = y"
    "(y mod 16 * 4 + z div 64) mod 4 * 64 + z mod 64 = z"
proof -
  have y: "(x mod 4 * 16 + y div 16) div 16 = x mod 4" "(x mod 4 * 16 + y div 16) mod 16 = y div 16"
    using assms(1) by (simp_all add: less_mult_imp_div_less)
  have z: "(y mod 16 * 4 + z div 64) div 4 = y mod 16" "(y mod 16 * 4 + z div 64) mod 4 = z div 64"
    using assms(2) by (simp_all add: less_mult_imp_div_less)
  show "x div 4 * 4 + (x mod 4 * 16 + y div 16) div 16 = x"
    "(x mod 4 * 16 + y div 16) mod 16 * 16 + y mod 16 * 4 div 4 = y"
    "(x mod 4 * 16 + y div 16) mod 16 * 16 + (y mod 16 * 4 + z div 64) div 4 = y"
    "(y mod 16 * 4 + z div 64) mod 4 * 64 + z mod 64 = z"
    unfolding y z by simp_all
qed simp

lemmas b64_byte = b64_bits(1) [OF of_char_small] b64_bits(2-4) b64_sums [OF of_char_small]
  b64_back [OF of_char_small of_char_small]

lemma b64decode_encode: "b64decode (b64encode s) = Inr s"
  unfolding b64decode_def
proof (induction s rule: b64encode.induct)
  case (2 a)
  show ?case
    by (simp only: b64encode.simps Let_def b64_step b64_pads b64_byte rbind_simps char_of_char)
next
  case (3 a b)
  show ?case
    by (simp only: b64encode.simps Let_def b64_step b64_pads b64_byte rbind_simps char_of_char)
next
  case (4 a b c s)
  show ?case
    by (simp only: b64encode.simps Let_def append.simps b64_step b64_byte 4 rbind_simps char_of_char)
qed simp

section \<open>Base 32\<close>

lemma b32_char [simp]: "v \<in> {0..<32} \<Longrightarrow> position (b32_char v) B32 = Some (nat v)" "v \<in> {0..<32} \<Longrightarrow> b32_char v \<noteq> PAD"
  using B32_nth [of "nat v"] by (auto simp: b32_char_def nat_less_iff)

lemma big_value_snoc [simp]: "big_value base [] = 0" "big_value base (ds @ [d]) = big_value base ds * base + d"
  by (simp_all add: big_value_def)

lemma big_value_zeros: "big_value base (ds @ replicate n 0) = big_value base ds * base ^ n"
proof (induction n)
  case (Suc n)
  have "big_value base (ds @ replicate (Suc n) 0) = big_value base ((ds @ replicate n 0) @ [0])"
    by (simp only: replicate_append_same [symmetric] append_assoc replicate_Suc)
  with Suc show ?case by (simp only: big_value_snoc) (simp add: mult.assoc mult.commute)
qed simp

lemma length_big_digits [simp]: "length (big_digits base k n) = k"
  by (induction k arbitrary: n) simp_all

lemma big_value_digits: "0 < base \<Longrightarrow> big_value base (big_digits base k n) = n mod base ^ k"
  by (induction k arbitrary: n) (simp_all add: zmod_zmult2_eq mult.commute)

lemma big_digits_value: "\<forall>d \<in> set ds. d \<in> {0..<base} \<Longrightarrow> big_digits base (length ds) (big_value base ds) = ds"
  by (induction ds rule: rev_induct) auto

lemma big_value_bounds: "\<forall>d \<in> set ds. d \<in> {0..<base} \<Longrightarrow> big_value base ds \<in> {0..<base ^ length ds}"
proof (induction ds rule: rev_induct)
  case (snoc d ds)
  then have "0 \<le> big_value base ds" "big_value base ds + 1 \<le> base ^ length ds" "0 \<le> d" "d < base" by auto
  moreover from this have "(big_value base ds + 1) * base \<le> base ^ length ds * base" by (intro mult_right_mono) auto
  ultimately show ?case by (simp add: algebra_simps)
qed simp

lemma take_big_digits:
  "0 < base \<Longrightarrow> m \<le> k \<Longrightarrow> take m (big_digits base k n) = big_digits base m (n div base ^ (k - m))"
proof (induction k arbitrary: n)
  case (Suc k)
  show ?case
  proof (cases "m = Suc k")
    case False
    with Suc show ?thesis by (simp add: Suc_diff_le zdiv_zmult2_eq)
  qed simp
qed simp

lemma big_digits_less: "0 < base \<Longrightarrow> d \<in> set (big_digits base k n) \<Longrightarrow> d \<in> {0..<base}"
  by (induction k arbitrary: n) auto

lemma of_char_int: "of_char c \<in> {0..<256 :: int}"
  using of_char_small [of c] by (metis atLeastLessThan_iff of_nat_0_le_iff of_nat_less_numeral_iff of_nat_of_char)

text \<open>A group of at most five bytes is what the digits of its pads' values stand for.\<close>

lemma b32_group_back:
  assumes "0 < length q" "length q \<le> 5"
  defines "p \<equiv> b32_pads (length q)"
  defines "acc \<equiv> big_value 32 (take (8 - p) (b32_group q))"
  shows "take (length q) (b32_bytes (acc * 32 ^ p)) = q" "(43 - 5 * p) div 8 = length q" "p \<in> {0, 1, 3, 4, 6}"
proof -
  define vals :: "int list" where "vals = map of_char q @ replicate (5 - length q) 0"
  define n where "n = big_value 256 vals"
  have len: "length vals = 5" using assms(2) by (simp add: vals_def)
  have small: "\<forall>d \<in> set vals. d \<in> {0..<256}" using of_char_int by (auto simp: vals_def)
  have cases: "length q = 1 \<or> length q = 2 \<or> length q = 3 \<or> length q = 4 \<or> length q = 5" using assms by linarith
  then show p: "(43 - 5 * p) div 8 = length q" "p \<in> {0, 1, 3, 4, 6}" by (auto simp: p_def b32_pads_def)
  have n: "0 \<le> n" "n < 32 ^ 8" using big_value_bounds [OF small] len by (simp_all add: n_def)
  have "p \<le> 8" using p(2) by auto
  have "acc = n div 32 ^ p mod 32 ^ (8 - p)"
    using \<open>p \<le> 8\<close> by (simp add: acc_def b32_group_def take_big_digits big_value_digits flip: vals_def n_def)
  moreover have "n div 32 ^ p < 32 ^ (8 - p)"
    using p(2) n by (elim insertE emptyE) simp_all
  ultimately have "acc = n div 32 ^ p" using n(1) by (simp add: pos_imp_zdiv_nonneg_iff)
  moreover have "32 ^ p dvd n"
  proof -
    have "n = big_value 256 (map of_char q) * 256 ^ (5 - length q)" by (simp add: n_def vals_def big_value_zeros)
    moreover have "(32 :: int) ^ p dvd 256 ^ (5 - length q)"
      using cases by (elim disjE) (simp_all add: p_def b32_pads_def)
    ultimately show ?thesis by simp
  qed
  ultimately have "acc * 32 ^ p = n" by simp
  then show "take (length q) (b32_bytes (acc * 32 ^ p)) = q"
    using big_digits_value [OF small] by (simp add: b32_bytes_def len flip: n_def) (simp add: vals_def)
qed

lemma b32_no_accs: "b32_accs [] = []"
  by (subst b32_accs.simps) simp

lemma b32_accs_group:
  "vs \<noteq> [] \<Longrightarrow> length vs \<le> 8 \<Longrightarrow> b32_accs vs = [big_value 32 vs]"
  "length vs = 8 \<Longrightarrow> b32_accs (vs @ ws) = big_value 32 vs # b32_accs ws"
  by (subst b32_accs.simps, auto simp: b32_no_accs)+

lemma b32_accs_Nil [simp]: "b32_accs vs = [] \<longleftrightarrow> vs = []"
  by (subst b32_accs.simps) simp

lemma b32_group_props: "length (b32_group q) = 8" "v \<in> set (b32_group q) \<Longrightarrow> v \<in> {0..<32}"
  unfolding b32_group_def by (simp_all only: length_big_digits) (erule big_digits_less [rotated], simp)

text \<open>What an encoding consists of.\<close>

definition b32_form :: "bytes \<Rightarrow> int list \<Rightarrow> nat \<Rightarrow> bool" where
  "b32_form s vs pads \<longleftrightarrow>
     b32encode s = map b32_char vs @ replicate pads PAD \<and> (\<forall>v \<in> set vs. v \<in> {0..<32}) \<and> pads \<in> {0, 1, 3, 4, 6} \<and>
     (length vs + pads) mod 8 = 0 \<and> (vs = [] \<longleftrightarrow> s = []) \<and> b32_values vs pads = s"

lemma b32encode_Nil: "b32encode [] = []"
  by (subst b32encode.simps) simp

lemma b32_last_group:
  assumes "s \<noteq> []" "drop 5 s = []"
  shows "b32_form s (take (8 - b32_pads (length s)) (b32_group s)) (b32_pads (length s))"
proof -
  let ?p = "b32_pads (length s)"
  let ?vs = "take (8 - ?p) (b32_group s)"
  have s: "take 5 s = s" "0 < length s" "length s \<le> 5" using assms by simp_all
  note group = b32_group_back [OF s(2) s(3)]
  have le: "?p \<le> 6" using group(3) by auto
  have "b32encode s = map b32_char ?vs @ replicate ?p PAD"
    using assms by (subst b32encode.simps) (simp add: s(1) Let_def b32encode_Nil)
  moreover have "length ?vs + ?p = 8" "?vs \<noteq> []" using le b32_group_props(1) [of s] by auto
  moreover have "b32_values ?vs ?p = s"
    using group b32_accs_group(1) [of ?vs] calculation(2,3)
    by (auto simp: b32_values_def Let_def b32_bytes_def)
  ultimately show ?thesis
    using group(3) assms(1) b32_group_props(2) by (auto simp: b32_form_def dest: in_set_takeD)
qed

lemma b32_next_group:
  assumes "drop 5 s \<noteq> []" "b32_form (drop 5 s) vs pads"
  shows "b32_form s (b32_group (take 5 s) @ vs) pads"
proof -
  let ?q = "take 5 s"
  have q: "length ?q = 5" and s: "s \<noteq> []" using assms(1) by (auto simp: min_def)
  have p: "b32_pads (length ?q) = 0" unfolding q by (simp add: b32_pads_def)
  have group: "b32_bytes (big_value 32 (b32_group ?q)) = ?q"
    using b32_group_back(1) [of ?q] b32_group_props(1) [of ?q] q p s by (simp add: b32_bytes_def)
  have "b32encode s = map b32_char (b32_group ?q) @ b32encode (drop 5 s)"
    using s b32_group_props(1) [of ?q] p by (subst b32encode.simps) (simp add: Let_def)
  moreover have "b32_values (b32_group ?q @ vs) pads = ?q @ b32_values vs pads"
    using assms b32_accs_group(2) [OF b32_group_props(1), of ?q vs]
    by (auto simp: b32_values_def Let_def group b32_form_def)
  moreover have "(length (b32_group ?q @ vs) + pads) mod 8 = (length vs + pads) mod 8"
    by (simp add: b32_group_props(1) add.assoc)
  ultimately show ?thesis
    using assms s b32_group_props by (auto simp: b32_form_def)
qed

lemma b32encode_form: "\<exists>vs pads. b32_form s vs pads"
proof (induction s rule: b32encode.induct)
  case (1 s)
  show ?case
  proof (cases "s = []")
    case True
    then have "b32_form s [] 0"
      by (simp add: b32_form_def b32encode_Nil b32_values_def b32_no_accs)
    then show ?thesis by blast
  next
    case False
    then show ?thesis using 1 [OF False refl refl] b32_last_group b32_next_group by (cases "drop 5 s = []") blast+
  qed
qed

lemma b32decode_encode: "b32decode (b32encode s) = Inr s"
proof -
  obtain vs pads where "b32_form s vs pads" using b32encode_form by blast
  then have s: "b32encode s = map b32_char vs @ replicate pads PAD" "\<forall>v \<in> set vs. v \<in> {0..<32}"
    "pads \<in> {0, 1, 3, 4, 6}" "(length vs + pads) mod 8 = 0" "b32_values vs pads = s"
    unfolding b32_form_def by blast+
  have "rev (dropWhile (\<lambda>c. c = PAD) (rev (b32encode s))) = map b32_char vs"
  proof -
    have "dropWhile (\<lambda>c. c = PAD) (replicate pads PAD @ rev (map b32_char vs)) = rev (map b32_char vs)"
      using s(2) by (cases vs rule: rev_cases) (simp_all add: dropWhile_append)
    then show ?thesis by (simp add: s(1))
  qed
  moreover have "mapM (\<lambda>c. case position c B32 of None \<Rightarrow> Inl ValueError | Some v \<Rightarrow> Inr (int v)) (map b32_char vs) = Inr vs"
    using s(2) by (induction vs) auto
  ultimately show ?thesis using s by (auto simp: b32decode_def)
qed

section \<open>All encoders\<close>

lemma decode_encode [simp]: "decode enc (encode enc s) = Inr s"
proof (cases enc)
  case Base16Encoder
  have "\<not> list_ex is_lower (map upper_char (hexlify s))"
    by (induction s) (simp_all add: hex_pair_def Let_def upper_digit hex_pair_back)
  moreover have "unhexlify (map upper_char (hexlify s)) = Inr s"
    by (induction s) (simp_all add: hex_pair_def Let_def upper_digit hex_pair_back)
  ultimately show ?thesis using Base16Encoder by simp
qed (simp_all add: b64decode_encode b32decode_encode)

end
