(* ===== verification/NaclFacts.thy ===== *)
theory NaclFacts
  imports Nacling EncodingFacts PacketRound
begin

text \<open>
  Keys read the same in raw and hexadecimal form, what a
  \<open>Signer\<close> signs its \<open>Verifier\<close> accepts, and what a \<open>Privateer\<close> encrypts the holder of the other key
  decrypts. So the objects of raet/nacling.py fulfil the laws on which the packets' round trip rests.
\<close>

section \<open>Keys in raw and in hexadecimal form\<close>

text \<open>The two forms of a key of 32 bytes.\<close>

definition key_form :: "bytes \<Rightarrow> bytes \<Rightarrow> bool" where
  "key_form k b \<longleftrightarrow> length k = 32 \<and> (b = k \<or> b = hexlify k)"

lemma key_form_reads:
  assumes "key_form k b"
  shows "decode (key_encoder b) b = Inr k" "b \<noteq> []"
  using assms by (auto simp: key_form_def key_encoder_def)

text \<open>Key constructors look at the decoded key only.\<close>

lemma key_inits:
  assumes "key_form k b"
  shows "PublicKey_init N b (key_encoder b) = PublicKey_init N k RawEncoder"
    "PrivateKey_init N b (key_encoder b) = PrivateKey_init N k RawEncoder"
    "VerifyKey_init N b (key_encoder b) = VerifyKey_init N k RawEncoder"
    "SigningKey_init N b (key_encoder b) = SigningKey_init N k RawEncoder"
  by (simp_all add: PublicKey_init_def PrivateKey_init_def VerifyKey_init_def SigningKey_init_def
      key_form_reads [OF assms])

section \<open>What libnacl promises\<close>

definition nacl_ok :: "'r nacl \<Rightarrow> bool" where
  "nacl_ok N \<longleftrightarrow>
     crypto_box_PUBLICKEYBYTES N = 32 \<and> crypto_box_SECRETKEYBYTES N = 32 \<and>
     crypto_box_NONCEBYTES N = 24 \<and> crypto_sign_PUBLICKEYBYTES N = 32 \<and>
     crypto_sign_SEEDBYTES N = 32 \<and> crypto_sign_BYTES N = 64 \<and>
     (\<forall>k. length k = 32 \<longrightarrow> (\<exists>p. crypto_scalarmult_base N k = Inr p \<and> length p = 32)) \<and>
     (\<forall>a b pa pb. length a = 32 \<longrightarrow> length b = 32 \<longrightarrow>
        crypto_scalarmult_base N a = Inr pa \<longrightarrow> crypto_scalarmult_base N b = Inr pb \<longrightarrow>
        (\<exists>k. crypto_box_beforenm N pb a = Inr k \<and> crypto_box_beforenm N pa b = Inr k)) \<and>
     (\<forall>p a k m n. crypto_box_beforenm N p a = Inr k \<longrightarrow> length n = 24 \<longrightarrow>
        (\<exists>c. crypto_box_afternm N m n k = Inr c \<and> crypto_box_open_afternm N c n k = Inr m)) \<and>
     (\<forall>sd. length sd = 32 \<longrightarrow>
        (\<exists>pub sec. crypto_sign_seed_keypair N sd = Inr (pub, sec) \<and> length pub = 32 \<and>
           (\<forall>m. \<exists>sg. length sg = 64 \<and> crypto_sign N m sec = Inr (sg @ m) \<and>
                    crypto_sign_open N (sg @ m) pub = Inr m))) \<and>
     (\<forall>n r. length (fst (randombytes N n r)) = n)"

lemma nacl_sizes:
  assumes "nacl_ok N"
  shows "crypto_box_PUBLICKEYBYTES N = 32" "crypto_box_SECRETKEYBYTES N = 32"
    "crypto_box_NONCEBYTES N = 24" "crypto_sign_PUBLICKEYBYTES N = 32"
    "crypto_sign_SEEDBYTES N = 32" "crypto_sign_BYTES N = 64"
    "length (fst (randombytes N n r)) = n"
  using assms by (simp_all add: nacl_ok_def)

lemma nacl_base:
  assumes "nacl_ok N" "length k = 32"
  obtains p where "crypto_scalarmult_base N k = Inr p" "length p = 32"
  using assms unfolding nacl_ok_def by blast

lemma nacl_shared:
  assumes "nacl_ok N" "length a = 32" "length b = 32"
    "crypto_scalarmult_base N a = Inr pa" "crypto_scalarmult_base N b = Inr pb"
  obtains k where "crypto_box_beforenm N pb a = Inr k" "crypto_box_beforenm N pa b = Inr k"
  using assms unfolding nacl_ok_def by metis

lemma nacl_box:
  assumes "nacl_ok N" "crypto_box_beforenm N p a = Inr k" "length n = 24"
  obtains c where "crypto_box_afternm N m n k = Inr c" "crypto_box_open_afternm N c n k = Inr m"
  using assms unfolding nacl_ok_def by metis

lemma nacl_sign:
  assumes "nacl_ok N" "length sd = 32"
  obtains pub sec where "crypto_sign_seed_keypair N sd = Inr (pub, sec)" "length pub = 32"
    "\<And>m. \<exists>sg. length sg = 64 \<and> crypto_sign N m sec = Inr (sg @ m) \<and>
            crypto_sign_open N (sg @ m) pub = Inr m"
  using assms unfolding nacl_ok_def by metis

section \<open>Signatures\<close>

lemma signer_of_seed:
  assumes N: "nacl_ok N" and k: "key_form sd b"
  obtains s v where "Signer_init N (KeyBytes b) r = (Inr s, r)"
    "\<And>b'. b' \<in> {sr_verraw s, sr_verhex s} \<Longrightarrow> Verifier_init N (KeyBytes b') = Inr v"
    "\<And>m. \<exists>sg. length sg = 64 \<and> Signer_signature N s m = Inr sg \<and> Verifier_verify N v sg m = Inr True"
proof -
  have "length sd = 32" using k by (simp add: key_form_def)
  from nacl_sign [OF N this] obtain pub sec
    where pair: "crypto_sign_seed_keypair N sd = Inr (pub, sec)" and pub: "length pub = 32"
      and sg: "\<And>m. \<exists>sg. length sg = 64 \<and> crypto_sign N m sec = Inr (sg @ m) \<and>
            crypto_sign_open N (sg @ m) pub = Inr m" by blast
  let ?key = "\<lparr>sig_seed = sd, sig_secret = sec, sig_verify = VerifyKey pub\<rparr>"
  let ?v = "\<lparr>vf_key = Some (VerifyKey pub), vf_keyhex = hexlify pub, vf_keyraw = pub\<rparr>"
  have "SigningKey_init N sd RawEncoder = Inr ?key"
    using \<open>length sd = 32\<close> pub pair
    by (simp add: SigningKey_init_def VerifyKey_init_def nacl_sizes [OF N])
  then have "Signer_init N (KeyBytes b) r = (Inr (signer_of ?key), r)"
    by (simp add: Signer_init_def key_of_def run_simps key_inits [OF k] key_form_reads [OF k])
  moreover have "Verifier_init N (KeyBytes b') = Inr ?v" if "key_form pub b'" for b'
    using that pub by (simp add: Verifier_init_def key_of_def key_inits key_form_reads
        VerifyKey_init_def nacl_sizes [OF N])
  then have "Verifier_init N (KeyBytes b') = Inr ?v"
    if "b' \<in> {sr_verraw (signer_of ?key), sr_verhex (signer_of ?key)}" for b'
    using that pub by (auto simp: signer_of_def key_form_def)
  moreover have "\<exists>sg. length sg = 64 \<and> Signer_signature N (signer_of ?key) m = Inr sg \<and>
      Verifier_verify N ?v sg m = Inr True" for m
  proof -
    obtain sg where "length sg = 64" "crypto_sign N m sec = Inr (sg @ m)"
      "crypto_sign_open N (sg @ m) pub = Inr m" using sg by blast
    then show ?thesis
      by (simp add: Signer_signature_def SigningKey_sign_def signer_of_def Verifier_verify_def
          VerifyKey_verify_def nacl_sizes [OF N])
  qed
  ultimately show thesis using that by blast
qed

text \<open>
  C27: A \<open>Signer\<close> made of a seed, raw or hexadecimal, publishes its verification key in both forms;
  a \<open>Verifier\<close> made of either accepts the signature of every message, which is 64 bytes long.
\<close>

theorem signatures_verify:
  assumes "nacl_ok N" and "key_form seed b"
  shows "\<exists>s v. Signer_init N (KeyBytes b) r = (Inr s, r) \<and>
    Verifier_init N (KeyBytes (sr_verraw s)) = Inr v \<and> Verifier_init N (KeyBytes (sr_verhex s)) = Inr v \<and>
    (\<forall>m. \<exists>sg. length sg = 64 \<and> Signer_signature N s m = Inr sg \<and> Verifier_verify N v sg m = Inr True)"
  using signer_of_seed [OF assms] by (metis insertI1 insertI2 singletonI)

section \<open>Encryption\<close>

lemma privateer_of_key:
  assumes N: "nacl_ok N" and k: "key_form a b"
  obtains p pa where "Privateer_init N (KeyBytes b) r = (Inr p, r)" "priv_bytes (pv_key p) = a"
    "crypto_scalarmult_base N a = Inr pa" "length pa = 32" "pv_pubraw p = pa" "pv_pubhex p = hexlify pa"
proof -
  have "length a = 32" using k by (simp add: key_form_def)
  from nacl_base [OF N this] obtain pa where pa: "crypto_scalarmult_base N a = Inr pa" "length pa = 32" .
  let ?p = "privateer_of \<lparr>priv_bytes = a, priv_public = PublicKey pa\<rparr>"
  have "Privateer_init N (KeyBytes b) r = (Inr ?p, r)"
    using pa \<open>length a = 32\<close>
    by (simp add: Privateer_init_def key_of_def run_simps key_inits [OF k] key_form_reads [OF k]
        PrivateKey_init_def PublicKey_init_def nacl_sizes [OF N])
  then show thesis using that [of ?p pa] pa by (simp add: privateer_of_def)
qed

lemma peer_key_form:
  assumes "nacl_ok N" "key_form k b"
  shows "peer_key N (KeyBytes b) = Inr (PublicKey k)"
proof -
  have "length k = 32" using assms(2) by (simp add: key_form_def)
  then show ?thesis
    using key_inits(1) [OF assms(2), of N] by (simp add: peer_key_def PublicKey_init_def nacl_sizes [OF assms(1)])
qed

lemma privateers_exchange:
  assumes N: "nacl_ok N" and len: "length a = 32" "length b = 32"
    and keys: "priv_bytes (pv_key pa) = a" "priv_bytes (pv_key pb) = b"
    and pubs: "crypto_scalarmult_base N a = Inr ra" "crypto_scalarmult_base N b = Inr rb"
    and peers: "peer_key N ka = Inr (PublicKey ra)" "peer_key N kb = Inr (PublicKey rb)"
  shows "\<exists>cipher nonce. fst (Privateer_encrypt N pa m kb hx r) = Inr (cipher, nonce) \<and>
    length nonce = (if hx then 48 else 24) \<and> Privateer_decrypt N pb cipher nonce ka hx = Inr m"
proof -
  obtain k where k: "crypto_box_beforenm N rb a = Inr k" "crypto_box_beforenm N ra b = Inr k"
    using nacl_shared [OF N len pubs] .
  obtain n r' where n: "randombytes N 24 r = (n, r')" by fastforce
  then have ln: "length n = 24" using nacl_sizes(7) [OF N, of 24 r] by simp
  obtain c where c: "crypto_box_afternm N m n k = Inr c" "crypto_box_open_afternm N c n k = Inr m"
    using nacl_box [OF N k(1) ln] .
  show ?thesis
    using n ln c k keys peers
    by (simp add: Privateer_encrypt_def Privateer_decrypt_def Privateer_nonce_def random_def run_simps
        nacl_sizes [OF N] Box_init_def Box_encrypt_def Box_decrypt_def)
qed

text \<open>
  C28: What the holder of one private key encrypts for the public key of another, that one decrypts
  with the public key of the first, whether keys are given raw or in hexadecimal form and whether
  or not cipher and nonce travel in hexadecimal form.
\<close>

theorem boxes_open:
  assumes "nacl_ok N" and "key_form a ba" and "key_form b bb"
  shows "\<exists>pa pb. Privateer_init N (KeyBytes ba) r = (Inr pa, r) \<and> Privateer_init N (KeyBytes bb) r = (Inr pb, r) \<and>
    (\<forall>m hx r'. \<forall>fa \<in> {pv_pubraw pa, pv_pubhex pa}. \<forall>fb \<in> {pv_pubraw pb, pv_pubhex pb}.
       \<exists>cipher nonce. fst (Privateer_encrypt N pa m (KeyBytes fb) hx r') = Inr (cipher, nonce) \<and>
         Privateer_decrypt N pb cipher nonce (KeyBytes fa) hx = Inr m)"
proof -
  obtain pa ra where pa: "Privateer_init N (KeyBytes ba) r = (Inr pa, r)" "priv_bytes (pv_key pa) = a"
    "crypto_scalarmult_base N a = Inr ra" "length ra = 32" "pv_pubraw pa = ra" "pv_pubhex pa = hexlify ra"
    using privateer_of_key [OF assms(1,2)] .
  obtain pb rb where pb: "Privateer_init N (KeyBytes bb) r = (Inr pb, r)" "priv_bytes (pv_key pb) = b"
    "crypto_scalarmult_base N b = Inr rb" "length rb = 32" "pv_pubraw pb = rb" "pv_pubhex pb = hexlify rb"
    using privateer_of_key [OF assms(1,3)] .
  have len: "length a = 32" "length b = 32" using assms by (simp_all add: key_form_def)
  have "\<exists>cipher nonce. fst (Privateer_encrypt N pa m (KeyBytes fb) hx r') = Inr (cipher, nonce) \<and>
         Privateer_decrypt N pb cipher nonce (KeyBytes fa) hx = Inr m"
    if "fa \<in> {pv_pubraw pa, pv_pubhex pa}" "fb \<in> {pv_pubraw pb, pv_pubhex pb}" for m hx r' fa fb
  proof -
    have "key_form ra fa" "key_form rb fb" using that pa(4-6) pb(4-6) by (auto simp: key_form_def)
    then have "peer_key N (KeyBytes fa) = Inr (PublicKey ra)" "peer_key N (KeyBytes fb) = Inr (PublicKey rb)"
      by (simp_all add: peer_key_form [OF assms(1)])
    from privateers_exchange [OF assms(1) len pa(2) pb(2) pa(3) pb(3) this]
    show ?thesis by blast
  qed
  with pa(1) pb(1) show ?thesis by blast
qed

section \<open>The laws of the packets\<close>

text \<open>
  What a stack keeps for one remote in the codec of the packets: its verifier, and the privateer of
  the local estate with the public key of the remote. The state of the random source is the one at
  the time the message is encrypted.
\<close>

definition remote_crypt_of ::
    "'r nacl \<Rightarrow> 'r \<Rightarrow> privateer \<Rightarrow> verifier \<Rightarrow> publican \<Rightarrow> remote_crypt" where
  "remote_crypt_of N r priv verf pub =
     (let peer = (case pb_key pub of None \<Rightarrow> NoKey | Some k \<Rightarrow> KeyObject k) in
      \<lparr>rc_verify = (\<lambda>sg m. Verifier_verify N verf sg m = Inr True),
       rc_encrypt = (\<lambda>m. fst (Privateer_encrypt N priv m peer False r)),
       rc_decrypt = (\<lambda>cipher nonce. Privateer_decrypt N priv cipher nonce peer False)\<rparr>)"

text \<open>\<open>self.stack.local.signer.signature\<close>, for the signer's key that does not fail.\<close>

definition signature_of :: "'r nacl \<Rightarrow> signer \<Rightarrow> bytes \<Rightarrow> bytes" where
  "signature_of N s m = (case Signer_signature N s m of Inr sg \<Rightarrow> sg | Inl _ \<Rightarrow> [])"

text \<open>
  C29: Two estates that made their signers and privateers of seeds and keys, and each other's
  verifiers and publicans of the published keys, fulfil the laws of signing and encryption that the
  round trip of the packets assumes.
\<close>

theorem nacl_fulfils_packet_laws:
  assumes "nacl_ok N" and "key_form seed bs" and "key_form a ba" and "key_form b bb"
  shows "\<exists>sg pa pb. Signer_init N (KeyBytes bs) r = (Inr sg, r) \<and>
    Privateer_init N (KeyBytes ba) r = (Inr pa, r) \<and> Privateer_init N (KeyBytes bb) r = (Inr pb, r) \<and>
    (\<exists>vf qa qb. Verifier_init N (KeyBytes (sr_verhex sg)) = Inr vf \<and>
       Publican_init N (KeyBytes (pv_pubhex pa)) = Inr qa \<and> Publican_init N (KeyBytes (pv_pubhex pb)) = Inr qb \<and>
       (\<forall>vf'. sign_law (signature_of N sg) (remote_crypt_of N r1 pb vf qa) \<and>
          box_law (remote_crypt_of N r2 pa vf' qb) (remote_crypt_of N r1 pb vf qa)))"
proof -
  obtain sg v where sg: "Signer_init N (KeyBytes bs) r = (Inr sg, r)"
    "\<And>b'. b' \<in> {sr_verraw sg, sr_verhex sg} \<Longrightarrow> Verifier_init N (KeyBytes b') = Inr v"
    "\<And>m. \<exists>s. length s = 64 \<and> Signer_signature N sg m = Inr s \<and> Verifier_verify N v s m = Inr True"
    by (rule signer_of_seed [OF assms(1,2), of r]) blast
  obtain pa ra where pa: "Privateer_init N (KeyBytes ba) r = (Inr pa, r)" "priv_bytes (pv_key pa) = a"
    "crypto_scalarmult_base N a = Inr ra" "length ra = 32" "pv_pubraw pa = ra" "pv_pubhex pa = hexlify ra"
    using privateer_of_key [OF assms(1,3)] .
  obtain pb rb where pb: "Privateer_init N (KeyBytes bb) r = (Inr pb, r)" "priv_bytes (pv_key pb) = b"
    "crypto_scalarmult_base N b = Inr rb" "length rb = 32" "pv_pubraw pb = rb" "pv_pubhex pb = hexlify rb"
    using privateer_of_key [OF assms(1,4)] .
  have len: "length a = 32" "length b = 32" using assms by (simp_all add: key_form_def)
  let ?q = "\<lambda>k. \<lparr>pb_key = Some (PublicKey k), pb_keyhex = hexlify k, pb_keyraw = k\<rparr>"
  have pub: "Publican_init N (KeyBytes (hexlify k)) = Inr (?q k)" if "length k = 32" for k
    using peer_key_form [OF assms(1), of k "hexlify k"] that
    by (auto simp: Publican_init_def key_of_def peer_key_def key_form_def)
  have "sign_law (signature_of N sg) (remote_crypt_of N r1 pb v (?q ra))"
    unfolding sign_law_def
  proof
    fix m
    from sg(3) [of m] show "length (signature_of N sg m) = 64 \<and>
        rc_verify (remote_crypt_of N r1 pb v (?q ra)) (signature_of N sg m) m"
      by (auto simp: signature_of_def remote_crypt_of_def Let_def)
  qed
  moreover have "box_law (remote_crypt_of N r2 pa vf' (?q rb)) (remote_crypt_of N r1 pb v (?q ra))" for vf'
    unfolding box_law_def
  proof (intro allI impI)
    fix m cipher nonce
    assume "rc_encrypt (remote_crypt_of N r2 pa vf' (?q rb)) m = Inr (cipher, nonce)"
    then have e: "fst (Privateer_encrypt N pa m (KeyObject (PublicKey rb)) False r2) = Inr (cipher, nonce)"
      by (simp add: remote_crypt_of_def Let_def)
    have peers: "peer_key N (KeyObject (PublicKey ra)) = Inr (PublicKey ra)"
      "peer_key N (KeyObject (PublicKey rb)) = Inr (PublicKey rb)" by (simp_all add: peer_key_def)
    from privateers_exchange [OF assms(1) len pa(2) pb(2) pa(3) pb(3) peers, of m False r2] e
    show "length nonce = 24 \<and> rc_decrypt (remote_crypt_of N r1 pb v (?q ra)) cipher nonce = Inr m"
      by (simp add: remote_crypt_of_def Let_def)
  qed
  ultimately show ?thesis
    using sg(1,2) pa(1,4,6) pb(1,4,6) pub by auto
qed

section \<open>Unique ids\<close>

lemma below_digits: "2 \<le> b \<Longrightarrow> n < b ^ length (digits b n)"
proof (induction b n rule: digits.induct)
  case (1 b n)
  show ?case
  proof (cases "n < b")
    case True
    then show ?thesis by (simp add: digits.simps [of b n])
  next
    case False
    then have "n div b < b ^ length (digits b (n div b))" using 1 by simp
    then have "n < b * b ^ length (digits b (n div b))"
      using 1(2) by (simp add: div_less_iff_less_mult mult.commute)
    with False 1(2) show ?thesis by (simp add: digits.simps [of b n])
  qed
qed

text \<open>The times from 1978 to 2112 take 13 hexadecimal digits.\<close>

lemma time_digits:
  assumes "16 ^ 12 \<le> t" "t < 16 ^ 13"
  shows "length (digits 16 t) = 13"
proof -
  have "(16 :: nat) ^ 12 < 16 ^ length (digits 16 t)"
    using below_digits [of 16 t] assms(1) by linarith
  then have "12 < length (digits 16 t)" by (simp only: power_strict_increasing_iff)
  moreover have "length (digits 16 t) \<le> 13" by (rule digits_length) (use assms in simp_all)
  ultimately show ?thesis by simp
qed

lemma uuid_text:
  assumes N: "nacl_ok N" and t: "16 ^ 12 \<le> t" "t < 16 ^ 13"
  shows "\<exists>tail. fst (uuid N t sz r) = Inr (digits 16 (nat t) @ tail) \<and>
    int (length (digits 16 (nat t) @ tail)) = max sz 16 \<and> list_all plain_char tail"
proof -
  have "(16 :: nat) ^ 12 \<le> nat t" "nat t < 16 ^ 13" using t by (simp_all add: nat_less_iff le_nat_iff)
  from time_digits [OF this] have len: "length (digits 16 (nat t)) = 13" .
  define n where "n = max sz 16"
  define k where "k = nat ((n - 13) div 2 + (n - 13) mod 2)"
  have n: "16 \<le> n" by (simp add: n_def)
  obtain b r' where b: "randombytes N k r = (b, r')" by fastforce
  then have lb: "length b = k" using nacl_sizes(7) [OF N, of k r] by simp
  have front: "fmt_hex 0 t = digits 16 (nat t)"
    using t by (simp add: fmt_hex_def pad_zeros_def)
  let ?tail = "take (nat n - 13) (hexlify b)"
  have "n - 13 \<le> 2 * ((n - 13) div 2 + (n - 13) mod 2)" "0 \<le> (n - 13) div 2 + (n - 13) mod 2"
    using n by presburger+
  then have "nat n - 13 \<le> 2 * k" using n by (simp add: k_def)
  then have lt: "length ?tail = nat n - 13" by (simp add: lb)
  have "\<not> (n - 13) div 2 + (n - 13) mod 2 < 0" using n by simp
  then have "fst (uuid N t sz r) = Inr (digits 16 (nat t) @ ?tail)"
    using b n by (simp add: uuid_def front len Let_def run_simps random_def flip: n_def k_def)
  moreover have "list_all plain_char ?tail"
    using hexlify_plain [of b] by (auto simp: list_all_iff dest: in_set_takeD)
  moreover have "int (length (digits 16 (nat t) @ ?tail)) = n" using len lt n by simp
  ultimately show ?thesis unfolding n_def by blast
qed

text \<open>
  An id made at a time between 1978 and 2112 has the length asked for, or 16 if that is more,
  and consists of hexadecimal digits; ids made at different microseconds are different.
\<close>

theorem uuids_differ:
  assumes "nacl_ok N" and "16 ^ 12 \<le> t" "t < 16 ^ 13"
  shows "\<exists>u. fst (uuid N t sz r) = Inr u \<and> int (length u) = max sz 16 \<and> list_all plain_char u \<and>
    (\<forall>t' sz' r'. 16 ^ 12 \<le> t' \<longrightarrow> t' < 16 ^ 13 \<longrightarrow> t' \<noteq> t \<longrightarrow> fst (uuid N t' sz' r') \<noteq> Inr u)"
proof -
  obtain tail where u: "fst (uuid N t sz r) = Inr (digits 16 (nat t) @ tail)"
    "int (length (digits 16 (nat t) @ tail)) = max sz 16" "list_all plain_char tail"
    using uuid_text [OF assms] by blast
  have len: "length (digits 16 (nat x)) = 13" if "16 ^ 12 \<le> x" "x < 16 ^ 13" for x :: int
    using that by (intro time_digits) (simp_all add: nat_less_iff le_nat_iff)
  have "fst (uuid N t' sz' r') \<noteq> Inr (digits 16 (nat t) @ tail)"
    if t': "16 ^ 12 \<le> t'" "t' < 16 ^ 13" "t' \<noteq> t" for t' sz' r'
  proof
    assume same: "fst (uuid N t' sz' r') = Inr (digits 16 (nat t) @ tail)"
    obtain tail' where "fst (uuid N t' sz' r') = Inr (digits 16 (nat t') @ tail')"
      using uuid_text [OF assms(1) t'(1,2)] by blast
    with same have "digits 16 (nat t') = digits 16 (nat t)"
      using len [OF t'(1,2)] len [OF assms(2,3)] by simp
    then have "nat t' = nat t"
      using digits_value_digits [of 16 "nat t"] digits_value_digits [of 16 "nat t'"] by simp
    with t' assms show False by simp
  qed
  with u show ?thesis by (intro exI [of _ "digits 16 (nat t) @ tail"]) (simp add: digits_plain)
qed

section \<open>A library that fulfils the promises\<close>

text \<open>
  Public keys are the private keys, the shared key is their sum, a cipher carries nonce, key and
  message, and a signature the start of key and message.
\<close>

definition add_bytes :: "bytes \<Rightarrow> bytes \<Rightarrow> bytes" where
  "add_bytes a b = map2 (\<lambda>x y. char_of ((of_char x :: nat) + of_char y)) a b"

definition sample_tag :: "bytes \<Rightarrow> bytes \<Rightarrow> bytes" where
  "sample_tag k m = take 64 (k @ m @ replicate 64 (CHR ''s''))"

definition sample_nacl :: "nat nacl" where
  "sample_nacl = \<lparr>crypto_box_PUBLICKEYBYTES = 32, crypto_box_SECRETKEYBYTES = 32,
     crypto_box_NONCEBYTES = 24, crypto_sign_PUBLICKEYBYTES = 32, crypto_sign_SEEDBYTES = 32,
     crypto_sign_BYTES = 64, crypto_scalarmult_base = Inr,
     crypto_box_beforenm = (\<lambda>p a. Inr (add_bytes p a)),
     crypto_box_afternm = (\<lambda>m n k. Inr (n @ k @ m)),
     crypto_box_open_afternm = (\<lambda>c n k.
       if take (length (n @ k)) c = n @ k then Inr (drop (length (n @ k)) c) else Inl ValueError),
     crypto_sign_seed_keypair = (\<lambda>sd. Inr (sd, sd)),
     crypto_sign = (\<lambda>m sk. Inr (sample_tag sk m @ m)),
     crypto_sign_open = (\<lambda>sm pk.
       if take 64 sm = sample_tag pk (drop 64 sm) then Inr (drop 64 sm) else Inl ValueError),
     randombytes = (\<lambda>n r. (replicate n (char_of r), Suc r))\<rparr>"

lemma add_bytes_commute: "add_bytes a b = add_bytes b a"
proof (rule nth_equalityI)
  show "length (add_bytes a b) = length (add_bytes b a)" by (simp add: add_bytes_def)
  show "add_bytes a b ! i = add_bytes b a ! i" if "i < length (add_bytes a b)" for i
    using that by (simp add: add_bytes_def add.commute)
qed

lemma sample_tag_length [simp]: "length (sample_tag k m) = 64"
  by (simp add: sample_tag_def)

lemma sample_nacl_ok: "nacl_ok sample_nacl"
  by (auto simp: nacl_ok_def sample_nacl_def intro: add_bytes_commute)

definition sample_key :: bytes where
  "sample_key = replicate 32 (CHR ''k'')"

lemma sample_key_forms: "key_form sample_key sample_key" "key_form sample_key (hexlify sample_key)"
  by (simp_all add: key_form_def sample_key_def)

theorem signatures_verify_witness:
  "\<exists>s v. Signer_init sample_nacl (KeyBytes (hexlify sample_key)) 0 = (Inr s, 0) \<and>
    Verifier_init sample_nacl (KeyBytes (sr_verhex s)) = Inr v \<and>
    (\<exists>sg. Signer_signature sample_nacl s ''message'' = Inr sg \<and>
       Verifier_verify sample_nacl v sg ''message'' = Inr True)"
  using signatures_verify [OF sample_nacl_ok sample_key_forms(2), of 0] by blast

theorem boxes_open_witness:
  "\<exists>pa pb cipher nonce. Privateer_init sample_nacl (KeyBytes sample_key) 0 = (Inr pa, 0) \<and>
     Privateer_init sample_nacl (KeyBytes (hexlify sample_key)) 0 = (Inr pb, 0) \<and>
     fst (Privateer_encrypt sample_nacl pa ''message'' (KeyBytes (pv_pubhex pb)) True 7) = Inr (cipher, nonce) \<and>
     Privateer_decrypt sample_nacl pb cipher nonce (KeyBytes (pv_pubraw pa)) True = Inr ''message''"
  using boxes_open [OF sample_nacl_ok sample_key_forms, of 0] by blast

theorem nacl_fulfils_packet_laws_witness:
  "\<exists>sg pb vf qa. sign_law (signature_of sample_nacl sg) (remote_crypt_of sample_nacl 3 pb vf qa)"
  using nacl_fulfils_packet_laws [OF sample_nacl_ok sample_key_forms(2) sample_key_forms] by blast

theorem uuids_differ_witness:
  "\<exists>u. fst (uuid sample_nacl 1400000000000000 18 0) = Inr u \<and> length u = 18 \<and>
     fst (uuid sample_nacl 1400000000000001 18 0) \<noteq> Inr u"
proof -
  have "(16 :: int) ^ 12 \<le> 1400000000000000" "(1400000000000000 :: int) < 16 ^ 13"
    "(16 :: int) ^ 12 \<le> 1400000000000001" "(1400000000000001 :: int) < 16 ^ 13" by simp_all
  with uuids_differ [OF sample_nacl_ok this(1,2), of 18 0] show ?thesis by fastforce
qed

end
