(* ===== verification/StackFacts.thy ===== *)
theory StackFacts
  imports Stacking
begin

text \<open>
  The base stack: the two tables of remotes stay consistent under every operation, moving and
  renaming keep a remote's place, and the transmit queue is served in order for each destination.
\<close>

section \<open>Consistency of the tables\<close>

text \<open>ioflo documents \<open>insert(index, key, val)\<close> as putting a new key at the index.\<close>

definition insert_law :: "('k, 'v) inserter \<Rightarrow> bool" where
  "insert_law ins \<longleftrightarrow>
     (\<forall>d i k v. \<not> ohas d k \<longrightarrow> i \<le> length d \<longrightarrow> ins d i k v = take i d @ (k, v) # drop i d)"

definition same_objects :: "(int \<Rightarrow> nat option) \<Rightarrow> (string \<Rightarrow> nat option) \<Rightarrow> (nat \<Rightarrow> int) \<Rightarrow> (nat \<Rightarrow> string) \<Rightarrow> bool"
where
  "same_objects ut nt uid name \<longleftrightarrow>
     (\<forall>u r. ut u = Some r \<longrightarrow> uid r = u \<and> nt (name r) = Some r) \<and>
     (\<forall>n r. nt n = Some r \<longrightarrow> name r = n \<and> ut (uid r) = Some r)"

lemma same_objectsI:
  "(\<And>u r. ut u = Some r \<Longrightarrow> uid r = u) \<Longrightarrow> (\<And>u r. ut u = Some r \<Longrightarrow> nt (name r) = Some r) \<Longrightarrow>
   (\<And>n r. nt n = Some r \<Longrightarrow> name r = n) \<Longrightarrow> (\<And>n r. nt n = Some r \<Longrightarrow> ut (uid r) = Some r) \<Longrightarrow>
   same_objects ut nt uid name"
  by (simp add: same_objects_def)

lemma same_objectsD:
  assumes "same_objects ut nt uid name"
  shows "ut u = Some r \<Longrightarrow> uid r = u" "ut u = Some r \<Longrightarrow> nt (name r) = Some r"
    "nt n = Some r \<Longrightarrow> name r = n" "nt n = Some r \<Longrightarrow> ut (uid r) = Some r"
  using assms by (simp_all add: same_objects_def)

lemma same_objects_add:
  assumes so: "same_objects ut nt uid name" and r: "ut (uid r) = None" "nt (name r) = None"
  shows "same_objects (ut(uid r \<mapsto> r)) (nt(name r \<mapsto> r)) uid name"
proof (rule same_objectsI)
  note d = same_objectsD [OF so]
  fix u n r'
  show "(ut(uid r \<mapsto> r)) u = Some r' \<Longrightarrow> uid r' = u"
    using d(1) [of u r'] by (simp split: if_splits)
  show "(ut(uid r \<mapsto> r)) u = Some r' \<Longrightarrow> (nt(name r \<mapsto> r)) (name r') = Some r'"
    using d(2) [of u r'] r by (auto split: if_splits)
  show "(nt(name r \<mapsto> r)) n = Some r' \<Longrightarrow> name r' = n"
    using d(3) [of n r'] by (simp split: if_splits)
  show "(nt(name r \<mapsto> r)) n = Some r' \<Longrightarrow> (ut(uid r \<mapsto> r)) (uid r') = Some r'"
    using d(4) [of n r'] r by (auto split: if_splits)
qed

lemma same_objects_move:
  assumes so: "same_objects ut nt uid name" and r: "ut (uid r) = Some r" "ut new = None"
  shows "same_objects (ut(uid r := None, new \<mapsto> r)) nt (uid(r := new)) name"
proof (rule same_objectsI)
  note d = same_objectsD [OF so]
  fix u n r'
  show "(ut(uid r := None, new \<mapsto> r)) u = Some r' \<Longrightarrow> (uid(r := new)) r' = u"
    using d(1) [of u r'] by (auto split: if_splits)
  show "(ut(uid r := None, new \<mapsto> r)) u = Some r' \<Longrightarrow> nt (name r') = Some r'"
    using d(2) [of u r'] d(2) [OF r(1)] by (simp split: if_splits)
  show "nt n = Some r' \<Longrightarrow> name r' = n" by (rule d(3))
  show "nt n = Some r' \<Longrightarrow> (ut(uid r := None, new \<mapsto> r)) ((uid(r := new)) r') = Some r'"
    using d(4) [of n r'] r by (auto split: if_splits)
qed

lemma same_objects_rename:
  assumes so: "same_objects ut nt uid name" and r: "nt (name r) = Some r" "nt new = None"
  shows "same_objects ut (nt(name r := None, new \<mapsto> r)) uid (name(r := new))"
proof (rule same_objectsI)
  note d = same_objectsD [OF so]
  fix u n r'
  show "ut u = Some r' \<Longrightarrow> uid r' = u" by (rule d(1))
  show "ut u = Some r' \<Longrightarrow> (nt(name r := None, new \<mapsto> r)) ((name(r := new)) r') = Some r'"
    using d(2) [of u r'] r by (auto split: if_splits)
  show "(nt(name r := None, new \<mapsto> r)) n = Some r' \<Longrightarrow> (name(r := new)) r' = n"
    using d(3) [of n r'] by (auto split: if_splits)
  show "(nt(name r := None, new \<mapsto> r)) n = Some r' \<Longrightarrow> ut (uid r') = Some r'"
    using d(4) [of n r'] d(4) [OF r(1)] by (simp split: if_splits)
qed

lemma same_objects_remove:
  assumes so: "same_objects ut nt uid name" and r: "ut (uid r) = Some r"
  shows "same_objects (ut(uid r := None)) (nt(name r := None)) uid name"
proof (rule same_objectsI)
  note d = same_objectsD [OF so]
  have n: "nt (name r) = Some r" by (rule d(2) [OF r])
  fix u n' r'
  show "(ut(uid r := None)) u = Some r' \<Longrightarrow> uid r' = u"
    using d(1) [of u r'] by (simp split: if_splits)
  show "(ut(uid r := None)) u = Some r' \<Longrightarrow> (nt(name r := None)) (name r') = Some r'"
  proof -
    assume a: "(ut(uid r := None)) u = Some r'"
    then have u: "u \<noteq> uid r" "ut u = Some r'" by (simp_all split: if_splits)
    then have "r' \<noteq> r" using d(1) by blast
    then have "name r' \<noteq> name r" using d(2) [OF u(2)] n by auto
    then show ?thesis using d(2) [OF u(2)] by simp
  qed
  show "(nt(name r := None)) n' = Some r' \<Longrightarrow> name r' = n'"
    using d(3) [of n' r'] by (simp split: if_splits)
  show "(nt(name r := None)) n' = Some r' \<Longrightarrow> (ut(uid r := None)) (uid r') = Some r'"
  proof -
    assume a: "(nt(name r := None)) n' = Some r'"
    then have u: "n' \<noteq> name r" "nt n' = Some r'" by (simp_all split: if_splits)
    then have "r' \<noteq> r" using d(3) by blast
    then have "uid r' \<noteq> uid r" using d(4) [OF u(2)] r by auto
    then show ?thesis using d(4) [OF u(2)] by simp
  qed
qed

lemma same_objects_cong:
  assumes so: "same_objects ut nt uid name"
    and eq: "\<And>u r. ut u = Some r \<Longrightarrow> uid' r = uid r \<and> name' r = name r"
  shows "same_objects ut nt uid' name'"
proof (rule same_objectsI)
  note d = same_objectsD [OF so]
  fix u n r
  show "ut u = Some r \<Longrightarrow> uid' r = u" "ut u = Some r \<Longrightarrow> nt (name' r) = Some r"
    using d(1,2) [of u r] eq [of u r] by auto
  show "nt n = Some r \<Longrightarrow> name' r = n" "nt n = Some r \<Longrightarrow> ut (uid' r) = Some r"
    using d(3,4) [of n r] eq [of "uid r" r] by auto
qed

definition tables_ok :: "('ha, 'm, 'z) stack_scheme \<Rightarrow> bool" where
  "tables_ok s \<longleftrightarrow>
     owf (st_uidRemotes s) \<and> owf (st_nameRemotes s) \<and>
     same_objects (oget (st_uidRemotes s)) (oget (st_nameRemotes s)) (remote_uid s) (remote_name s) \<and>
     oget (st_nameRemotes s) (lot_name (st_local s)) = None \<and>
     (oget (st_uidRemotes s) (lot_uid (st_local s)) \<noteq> None \<longrightarrow> lot_uid (st_local s) = 0)"

lemma oget_oset_fun: "oget (oset k v d) = (oget d)(k \<mapsto> v)"
  by (rule ext) simp

lemma oget_odel_fun: "oget (odel k d) = (oget d)(k := None)"
  by (rule ext) simp

lemma ohas_None: "\<not> ohas d k \<longleftrightarrow> oget d k = None"
  by (auto simp: ohas_iff)

lemma remote_views [simp]:
  "remote_uid (s\<lparr>st_uidRemotes := ut\<rparr>) = remote_uid s"
  "remote_uid (s\<lparr>st_nameRemotes := nt\<rparr>) = remote_uid s"
  "remote_name (s\<lparr>st_uidRemotes := ut\<rparr>) = remote_name s"
  "remote_name (s\<lparr>st_nameRemotes := nt\<rparr>) = remote_name s"
  "remote_uid (set_lot r (lot_uid_update (\<lambda>_. u)) s) = (remote_uid s)(r := u)"
  "remote_name (set_lot r (lot_uid_update (\<lambda>_. u)) s) = remote_name s"
  "remote_name (set_lot r (lot_name_update (\<lambda>_. n)) s) = (remote_name s)(r := n)"
  "remote_uid (set_lot r (lot_name_update (\<lambda>_. n)) s) = remote_uid s"
  by (simp_all add: fun_eq_iff remote_uid_def remote_name_def set_lot_def)

lemma index_of_length: "ohas d k \<Longrightarrow> index_of k (okeys d) < length d"
  by (induction d) auto

lemma rekey_map:
  assumes ins: "insert_law ins" and wf: "owf d" and old: "oget d old = Some v" and new: "\<not> ohas d new"
  shows "rekey ins old new v d = map (\<lambda>(k, w). if k = old then (new, v) else (k, w)) d"
proof -
  have i: "index_of old (okeys d) \<le> length (odel old d)"
    using wf old
  proof (induction d)
    case (Cons kv d)
    then show ?case by (cases kv) (auto simp: odel_def owf_def oget_None_iff)
  qed simp
  have "take (index_of old (okeys d)) (odel old d) @ (new, v) # drop (index_of old (okeys d)) (odel old d)
      = map (\<lambda>(k, w). if k = old then (new, v) else (k, w)) d"
    using wf old
  proof (induction d)
    case (Cons kv d)
    obtain k w where kv: "kv = (k, w)" by fastforce
    show ?case
    proof (cases "k = old")
      case True
      with Cons.prems kv have out: "old \<notin> set (okeys d)" by (auto simp: owf_def)
      then have "odel old d = d" by (induction d) (auto simp: odel_def)
      moreover have "map (\<lambda>(k, w). if k = old then (new, v) else (k, w)) d = d"
        using out by (induction d) auto
      ultimately show ?thesis using True kv by (simp add: odel_def)
    next
      case False
      with Cons kv show ?thesis by (simp add: odel_def owf_def)
    qed
  qed simp
  moreover have "\<not> ohas (odel old d) new" using new by simp
  ultimately show ?thesis using ins i unfolding rekey_def insert_law_def by metis
qed

lemma rekey_facts:
  assumes ins: "insert_law ins" and wf: "owf d" and old: "oget d old = Some v" and new: "\<not> ohas d new"
  shows "ovalues (rekey ins old new v d) = ovalues d"
    and "owf (rekey ins old new v d)"
    and "oget (rekey ins old new v d) k =
      (if k = new then Some v else if k = old then None else oget d k)"
proof -
  note m = rekey_map [OF assms]
  show "ovalues (rekey ins old new v d) = ovalues d"
    unfolding m using old wf
  proof (induction d)
    case (Cons kv d)
    then show ?case
      by (cases kv) (auto simp: owf_def ovalues_def split: if_splits
          intro!: map_cong dest: map_of_SomeD simp: oget_None_iff okeys_def image_iff)
  qed simp
  have out: "\<not> ohas (map (\<lambda>(k, w). if k = old then (new, v) else (k, w)) e) old \<and>
      okeys (map (\<lambda>(k, w). if k = old then (new, v) else (k, w)) e) =
        map (\<lambda>k. if k = old then new else k) (okeys e)" if "new \<noteq> old" for e
    using that by (induction e) auto
  have "new \<noteq> old" using old new by (auto simp: ohas_iff)
  show "owf (rekey ins old new v d)"
    using wf new unfolding m owf_def out [OF \<open>new \<noteq> old\<close>, THEN conjunct2] ohas_def
    by (induction d) auto
  show "oget (rekey ins old new v d) k =
      (if k = new then Some v else if k = old then None else oget d k)"
    unfolding m using old new wf
  proof (induction d)
    case (Cons kv d)
    obtain a b where kv: "kv = (a, b)" by fastforce
    show ?case
    proof (cases "a = old")
      case True
      with Cons.prems kv have o: "old \<notin> set (okeys d)" by (auto simp: owf_def)
      then have "map (\<lambda>(k, w). if k = old then (new, v) else (k, w)) d = d" by (induction d) auto
      moreover have "oget d old = None" using o by (simp add: oget_None_iff)
      ultimately show ?thesis using True kv by simp
    next
      case False
      with Cons kv show ?thesis by (auto simp: owf_def)
    qed
  qed simp
qed

lemma set_lot_fields [simp]:
  "st_uidRemotes (set_lot r f s) = st_uidRemotes s" "st_nameRemotes (set_lot r f s) = st_nameRemotes s"
  "st_local (set_lot r f s) = st_local s"
  "st_lots (set_lot r f s) = (st_lots s)(r := f (st_lots s r))"
  by (simp_all add: set_lot_def)

lemma rekey_fun:
  assumes "insert_law ins" and "owf d" and "oget d old = Some v" and "oget d new = None"
  shows "oget (rekey ins old new v d) = (oget d)(old := None, new \<mapsto> v)" "owf (rekey ins old new v d)"
  using rekey_facts(2,3) [OF assms(1-3)] assms(4) by (auto simp: fun_eq_iff ohas_None [symmetric])

lemma addRemote_keeps: "keeps tables_ok (addRemote r)"
proof (rule keepsI)
  fix s :: "('ha, 'm, 'z) stack_scheme"
  assume ok: "tables_ok s"
  let ?u = "remote_uid s r" let ?n = "remote_name s r"
  show "tables_ok (snd (addRemote r s))"
  proof (cases "ohas (st_uidRemotes s) ?u \<or> (?u \<noteq> 0 \<and> ?u = lot_uid (st_local s)) \<or>
      ohas (st_nameRemotes s) ?n \<or> ?n = lot_name (st_local s)")
    case True
    then show ?thesis using ok by (auto simp: addRemote_def run_simps Let_def)
  next
    case False
    then have new: "oget (st_uidRemotes s) ?u = None" "oget (st_nameRemotes s) ?n = None"
      "?u = lot_uid (st_local s) \<Longrightarrow> ?u = 0" "?n \<noteq> lot_name (st_local s)" by (auto simp: ohas_None)
    have st: "snd (addRemote r s) = s\<lparr>st_uidRemotes := oset ?u r (st_uidRemotes s),
        st_nameRemotes := oset ?n r (st_nameRemotes s)\<rparr>"
      using False by (simp add: addRemote_def run_simps Let_def split: if_splits) blast
    show ?thesis
      using ok new same_objects_add [of "oget (st_uidRemotes s)" "oget (st_nameRemotes s)"
          "remote_uid s" "remote_name s" r]
      unfolding st tables_ok_def by (auto simp: oget_oset_fun)
  qed
qed

lemma moveRemote_keeps: "insert_law ins \<Longrightarrow> keeps tables_ok (moveRemote ins r new)"
proof (rule keepsI)
  fix s :: "('ha, 'm, 'z) stack_scheme"
  assume ins: "insert_law ins" and ok: "tables_ok s"
  let ?old = "remote_uid s r"
  show "tables_ok (snd (moveRemote ins r new s))"
  proof (cases "ohas (st_uidRemotes s) new \<or> new = lot_uid (st_local s) \<or>
      oget (st_uidRemotes s) ?old \<noteq> Some r")
    case True
    then show ?thesis using ok by (auto simp: moveRemote_def run_simps Let_def)
  next
    case False
    then have new: "oget (st_uidRemotes s) new = None" "new \<noteq> lot_uid (st_local s)"
      and old: "oget (st_uidRemotes s) ?old = Some r" by (auto simp: ohas_None)
    have wf: "owf (st_uidRemotes s)" using ok by (simp add: tables_ok_def)
    note re = rekey_fun [OF ins wf old new(1)]
    have st: "snd (moveRemote ins r new s) = (set_lot r (lot_uid_update (\<lambda>_. new)) s)
        \<lparr>st_uidRemotes := rekey ins ?old new r (st_uidRemotes s)\<rparr>"
      using False by (auto simp: moveRemote_def run_simps Let_def ohas_iff)
    show ?thesis
      using ok new old same_objects_move [of "oget (st_uidRemotes s)" "oget (st_nameRemotes s)"
          "remote_uid s" "remote_name s" r new]
      unfolding st tables_ok_def by (auto simp: re)
  qed
qed

lemma renameRemote_keeps: "insert_law ins \<Longrightarrow> keeps tables_ok (renameRemote ins r new)"
proof (rule keepsI)
  fix s :: "('ha, 'm, 'z) stack_scheme"
  assume ins: "insert_law ins" and ok: "tables_ok s"
  let ?old = "remote_name s r"
  show "tables_ok (snd (renameRemote ins r new s))"
  proof (cases "new = ?old \<or> ohas (st_nameRemotes s) new \<or> new = lot_name (st_local s) \<or>
      oget (st_nameRemotes s) ?old \<noteq> Some r")
    case True
    then show ?thesis using ok by (auto simp: renameRemote_def run_simps Let_def)
  next
    case False
    then have new: "oget (st_nameRemotes s) new = None" "new \<noteq> lot_name (st_local s)"
      and old: "oget (st_nameRemotes s) ?old = Some r" by (auto simp: ohas_None)
    have wf: "owf (st_nameRemotes s)" using ok by (simp add: tables_ok_def)
    note re = rekey_fun [OF ins wf old new(1)]
    have st: "snd (renameRemote ins r new s) = (set_lot r (lot_name_update (\<lambda>_. new)) s)
        \<lparr>st_nameRemotes := rekey ins ?old new r (st_nameRemotes s)\<rparr>"
      using False by (auto simp: renameRemote_def run_simps Let_def ohas_iff)
    show ?thesis
      using ok new old same_objects_rename [of "oget (st_uidRemotes s)" "oget (st_nameRemotes s)"
          "remote_uid s" "remote_name s" r new]
      unfolding st tables_ok_def by (auto simp: re)
  qed
qed

lemma removeRemote_keeps: "keeps tables_ok (removeRemote r)"
proof (rule keepsI)
  fix s :: "('ha, 'm, 'z) stack_scheme"
  assume ok: "tables_ok s"
  let ?u = "remote_uid s r" let ?n = "remote_name s r"
  show "tables_ok (snd (removeRemote r s))"
  proof (cases "oget (st_uidRemotes s) ?u = Some r")
    case False
    then show ?thesis using ok by (auto simp: removeRemote_def run_simps Let_def)
  next
    case True
    then have n: "oget (st_nameRemotes s) ?n = Some r"
      using ok by (simp add: tables_ok_def same_objects_def)
    then have st: "snd (removeRemote r s) = s\<lparr>st_uidRemotes := odel ?u (st_uidRemotes s),
        st_nameRemotes := odel ?n (st_nameRemotes s)\<rparr>"
      using True by (auto simp: removeRemote_def run_simps Let_def ohas_iff)
    show ?thesis
      using ok True same_objects_remove [of "oget (st_uidRemotes s)" "oget (st_nameRemotes s)"
          "remote_uid s" "remote_name s" r]
      unfolding st tables_ok_def by (auto simp: oget_odel_fun)
  qed
qed

lemma removeAllRemotes_keeps: "keeps tables_ok removeAllRemotes"
  unfolding removeAllRemotes_def by (intro keeps_intros removeRemote_keeps)

text \<open>
  C17: The tables of remotes by uid and by name hold the same objects, each under the uid and the
  name that the object has, and none under the local name or a nonzero local uid: adding, moving,
  renaming and removing remotes keep it so, also when they raise. Code that writes the name of a
  remote itself, as the vacuous join of the road does, is not among them.
\<close>

theorem remote_tables_consistent:
  assumes "insert_law uins" and "insert_law nins"
  shows "keeps tables_ok (addRemote r) \<and> keeps tables_ok (moveRemote uins r new) \<and>
    keeps tables_ok (renameRemote nins r name) \<and> keeps tables_ok (removeRemote r) \<and>
    keeps tables_ok removeAllRemotes"
  using assms addRemote_keeps moveRemote_keeps renameRemote_keeps removeRemote_keeps
    removeAllRemotes_keeps by blast

definition list_insert :: "('k, 'v) inserter" where
  "list_insert d i k v = take i d @ (k, v) # drop i d"

definition sample_stack :: "(string, int) stack" where
  "sample_stack =
     \<lparr>st_stamp = 0, st_puid = 2, st_local = \<lparr>lot_name = ''me'', lot_uid = 1, lot_ha = ''here'', lot_sid = 0\<rparr>,
      st_lots = (\<lambda>r. if r = 0 then \<lparr>lot_name = ''a'', lot_uid = 2, lot_ha = ''x'', lot_sid = 0\<rparr>
         else \<lparr>lot_name = ''b'', lot_uid = 3, lot_ha = ''y'', lot_sid = 0\<rparr>),
      st_uidRemotes = [(2, 0)], st_nameRemotes = [(''a'', 0)], st_server = True, st_inbox = [],
      st_rxes = [], st_txes = [], st_rxMsgs = [], st_txMsgs = [], st_stats = [],
      st_statTimer = \<lparr>tm_start = 0, tm_duration = 0\<rparr>, st_attempts = [], st_sent = []\<rparr>"

lemma sample_stack_ok: "tables_ok sample_stack"
  by (auto simp: tables_ok_def same_objects_def sample_stack_def remote_uid_def remote_name_def
      owf_def split: if_splits)

theorem remote_tables_consistent_witness:
  "tables_ok (snd (moveRemote list_insert 0 7 sample_stack)) \<and>
   tables_ok (snd (renameRemote list_insert 0 ''c'' sample_stack))"
proof -
  have "insert_law (list_insert :: (int, nat) inserter)" "insert_law (list_insert :: (string, nat) inserter)"
    by (simp_all add: insert_law_def list_insert_def)
  note ok = remote_tables_consistent [OF this]
  have "keeps tables_ok (moveRemote list_insert 0 7 :: (string, int, unit, unit) stack_eff)"
    "keeps tables_ok (renameRemote list_insert 0 ''c'' :: (string, int, unit, unit) stack_eff)"
    using ok by blast+
  then show ?thesis using sample_stack_ok by (simp add: keeps_def)
qed

text \<open>
  C20: A remote that is moved to a new uid, or renamed, is found under the new key and no longer
  under the old one; every other remote is found where it was, and the order of the remotes,
  which decides the default destination, is the same.
\<close>

theorem move_rename_in_place:
  assumes "insert_law uins" and "insert_law nins" and "tables_ok s"
  shows "(moveRemote uins r new s = (Inr (), s1) \<longrightarrow>
      ovalues (st_uidRemotes s1) = ovalues (st_uidRemotes s) \<and> remote_uid s1 r = new \<and>
      (\<forall>u. oget (st_uidRemotes s1) u =
         (if u = new then Some r else if u = remote_uid s r then None else oget (st_uidRemotes s) u))) \<and>
    (renameRemote nins r name s = (Inr (), s2) \<and> name \<noteq> remote_name s r \<longrightarrow>
      ovalues (st_nameRemotes s2) = ovalues (st_nameRemotes s) \<and> remote_name s2 r = name \<and>
      (\<forall>n. oget (st_nameRemotes s2) n =
         (if n = name then Some r else if n = remote_name s r then None else oget (st_nameRemotes s) n)))"
proof (intro conjI impI)
  assume mv: "moveRemote uins r new s = (Inr (), s1)"
  let ?old = "remote_uid s r"
  have new: "\<not> ohas (st_uidRemotes s) new" "oget (st_uidRemotes s) ?old = Some r"
    and s1: "s1 = (set_lot r (lot_uid_update (\<lambda>_. new)) s)
        \<lparr>st_uidRemotes := rekey uins ?old new r (st_uidRemotes s)\<rparr>"
    using mv by (auto simp: moveRemote_def run_simps Let_def split: if_split_asm)
  have wf: "owf (st_uidRemotes s)" using assms(3) by (simp add: tables_ok_def)
  note re = rekey_facts [OF assms(1) wf new(2,1)]
  show "ovalues (st_uidRemotes s1) = ovalues (st_uidRemotes s)" "remote_uid s1 r = new"
    using re(1) by (simp_all add: s1 remote_uid_def)
  show "\<forall>u. oget (st_uidRemotes s1) u =
         (if u = new then Some r else if u = ?old then None else oget (st_uidRemotes s) u)"
    using re(3) by (simp add: s1)
next
  assume mv: "renameRemote nins r name s = (Inr (), s2) \<and> name \<noteq> remote_name s r"
  let ?old = "remote_name s r"
  have new: "\<not> ohas (st_nameRemotes s) name" "oget (st_nameRemotes s) ?old = Some r"
    and s2: "s2 = (set_lot r (lot_name_update (\<lambda>_. name)) s)
        \<lparr>st_nameRemotes := rekey nins ?old name r (st_nameRemotes s)\<rparr>"
    using mv by (auto simp: renameRemote_def run_simps Let_def split: if_split_asm)
  have wf: "owf (st_nameRemotes s)" using assms(3) by (simp add: tables_ok_def)
  note re = rekey_facts [OF assms(2) wf new(2,1)]
  show "ovalues (st_nameRemotes s2) = ovalues (st_nameRemotes s)" "remote_name s2 r = name"
    using re(1) by (simp_all add: s2 remote_name_def)
  show "\<forall>n. oget (st_nameRemotes s2) n =
         (if n = name then Some r else if n = ?old then None else oget (st_nameRemotes s) n)"
    using re(3) by (simp add: s2)
qed

theorem move_rename_in_place_witness:
  "\<exists>s1. moveRemote list_insert 0 7 sample_stack = (Inr (), s1) \<and>
     oget (st_uidRemotes s1) 7 = Some 0 \<and> oget (st_uidRemotes s1) 2 = None"
proof -
  have laws: "insert_law (list_insert :: (int, nat) inserter)"
    "insert_law (list_insert :: (string, nat) inserter)"
    by (simp_all add: insert_law_def list_insert_def)
  have "fst (moveRemote list_insert 0 7 sample_stack) = Inr ()"
    by (simp add: moveRemote_def run_simps sample_stack_def remote_uid_def ohas_def)
  then obtain s1 where s1: "moveRemote list_insert 0 7 sample_stack = (Inr (), s1)"
    by (cases "moveRemote list_insert 0 7 sample_stack") auto
  have "remote_uid sample_stack 0 = 2" by (simp add: sample_stack_def remote_uid_def)
  with move_rename_in_place [OF laws sample_stack_ok, of 0 7 s1] s1 show ?thesis by auto
qed

section \<open>The transmit queue\<close>

text \<open>The packets of a queue for one destination, in order.\<close>

definition for_dest :: "'ha \<Rightarrow> (bytes \<times> 'ha) list \<Rightarrow> (bytes \<times> 'ha) list" where
  "for_dest ha q = filter (\<lambda>e. snd e = ha) q"

lemma for_dest_simps [simp]:
  "for_dest ha [] = []" "for_dest ha (e # q) = (if snd e = ha then e # for_dest ha q else for_dest ha q)"
  "for_dest ha (q @ r) = for_dest ha q @ for_dest ha r"
  by (simp_all add: for_dest_def)

text \<open>What one turn of the loop does.\<close>

lemma handleOneTx_run:
  assumes "st_txes s = (p, ta) # rest"
  shows "handleOneTx net (laters, blocks) s =
     (let s1 = s\<lparr>st_txes := rest\<rparr> in
      if ta \<in> set blocks then (Inr (laters @ [(p, ta)], blocks), s1)
      else let s2 = snd (sock_send net p ta s1) in
        case net (st_attempts s) p ta of
          None \<Rightarrow> (Inr (laters, blocks), s2)
        | Some e \<Rightarrow>
            if e \<in> set retry_errors then (Inr (laters @ [(p, ta)], blocks @ [ta]), s2)
            else (Inl OSError, s2))"
  using assms by (simp add: handleOneTx_def run_simps sock_send_def Let_def split: option.split)

lemma sock_send_fields:
  "st_txes (snd (sock_send net p ta s)) = st_txes s"
  "st_server (snd (sock_send net p ta s)) = st_server s"
  "st_sent (snd (sock_send net p ta s)) =
     (if net (st_attempts s) p ta = None then st_sent s @ [(p, ta)] else st_sent s)"
  by (simp_all add: sock_send_def Let_def)

lemma tx_loop_order:
  assumes "length (st_txes s) \<le> n" and "tx_loop net n (laters, blocks) s = (Inr (l, b), s')"
  shows "st_txes s' = [] \<and> (\<exists>sent l2. st_sent s' = st_sent s @ sent \<and> l = laters @ l2 \<and>
     (\<forall>ha. for_dest ha sent @ for_dest ha l2 = for_dest ha (st_txes s)) \<and>
     (\<forall>ha \<in> set blocks. for_dest ha sent = []))"
  using assms
proof (induction n arbitrary: laters blocks s)
  case 0
  then show ?case by (auto simp: run_simps)
next
  case (Suc n)
  show ?case
  proof (cases "st_txes s")
    case Nil
    with Suc.prems show ?thesis by (auto simp: run_simps)
  next
    case (Cons e rest)
    obtain p ta where e: "e = (p, ta)" by fastforce
    let ?s1 = "s\<lparr>st_txes := rest\<rparr>"
    let ?s2 = "snd (sock_send net p ta ?s1)"
    note run = handleOneTx_run [OF Cons [unfolded e], of net laters blocks]
    have loop: "tx_loop net (Suc n) (laters, blocks) s =
        (case handleOneTx net (laters, blocks) s of (Inl x, s') \<Rightarrow> (Inl x, s')
         | (Inr lb, s') \<Rightarrow> tx_loop net n lb s')"
      using Cons by (simp add: run_simps)
    have len: "length (st_txes ?s1) \<le> n" "length (st_txes ?s2) \<le> n"
      using Suc.prems(1) Cons by (simp_all add: sock_send_fields)
    consider (blocked) "ta \<in> set blocks" | (sent) "ta \<notin> set blocks" "net (st_attempts s) p ta = None"
      | (retry) x where "ta \<notin> set blocks" "net (st_attempts s) p ta = Some x" "x \<in> set retry_errors"
      | (bad) x where "ta \<notin> set blocks" "net (st_attempts s) p ta = Some x" "x \<notin> set retry_errors"
      by (cases "net (st_attempts s) p ta") auto
    then show ?thesis
    proof cases
      case blocked
      then have "tx_loop net n (laters @ [(p, ta)], blocks) ?s1 = (Inr (l, b), s')"
        using Suc.prems(2) loop run by (simp add: Let_def)
      from Suc.IH [OF len(1) this] obtain sent l2 where ih: "st_txes s' = []"
        "st_sent s' = st_sent s @ sent" "l = laters @ (p, ta) # l2"
        "\<forall>ha. for_dest ha sent @ for_dest ha l2 = for_dest ha rest"
        "\<forall>ha \<in> set blocks. for_dest ha sent = []" by auto
      have "st_sent s' = st_sent s @ sent \<and> l = laters @ ((p, ta) # l2) \<and>
          (\<forall>ha. for_dest ha (sent) @ for_dest ha ((p, ta) # l2) = for_dest ha (st_txes s)) \<and>
          (\<forall>ha \<in> set blocks. for_dest ha (sent) = [])"
        using ih blocked ih(4) [rule_format, of ta] by (auto simp: Cons e)
      then show ?thesis using ih(1) by blast
    next
      case sent
      then have "tx_loop net n (laters, blocks) ?s2 = (Inr (l, b), s')"
        using Suc.prems(2) loop run by (simp add: Let_def)
      from Suc.IH [OF len(2) this] sent obtain sent' l2 where ih: "st_txes s' = []"
        "st_sent s' = st_sent s @ (p, ta) # sent'" "l = laters @ l2"
        "\<forall>ha. for_dest ha sent' @ for_dest ha l2 = for_dest ha rest"
        "\<forall>ha \<in> set blocks. for_dest ha sent' = []" by (auto simp: sock_send_fields)
      have "st_sent s' = st_sent s @ ((p, ta) # sent') \<and> l = laters @ l2 \<and>
          (\<forall>ha. for_dest ha ((p, ta) # sent') @ for_dest ha (l2) = for_dest ha (st_txes s)) \<and>
          (\<forall>ha \<in> set blocks. for_dest ha ((p, ta) # sent') = [])"
        using ih sent by (auto simp: Cons e)
      then show ?thesis using ih(1) by blast
    next
      case retry
      then have "tx_loop net n (laters @ [(p, ta)], blocks @ [ta]) ?s2 = (Inr (l, b), s')"
        using Suc.prems(2) loop run by (simp add: Let_def)
      from Suc.IH [OF len(2) this] retry obtain sent l2 where ih: "st_txes s' = []"
        "st_sent s' = st_sent s @ sent" "l = laters @ (p, ta) # l2"
        "\<forall>ha. for_dest ha sent @ for_dest ha l2 = for_dest ha rest"
        "\<forall>ha \<in> set (blocks @ [ta]). for_dest ha sent = []" by (auto simp: sock_send_fields)
      have "st_sent s' = st_sent s @ sent \<and> l = laters @ ((p, ta) # l2) \<and>
          (\<forall>ha. for_dest ha (sent) @ for_dest ha ((p, ta) # l2) = for_dest ha (st_txes s)) \<and>
          (\<forall>ha \<in> set blocks. for_dest ha (sent) = [])"
        using ih ih(4) [rule_format, of ta] by (auto simp: Cons e)
      then show ?thesis using ih(1) by blast
    next
      case bad
      then show ?thesis using Suc.prems(2) loop run by (simp add: Let_def)
    qed
  qed
qed

lemma tx_loop_returns:
  assumes "\<forall>sends p ha e. net sends p ha = Some e \<longrightarrow> e \<in> set retry_errors"
  shows "\<exists>lb s'. tx_loop net n (laters, blocks) s = (Inr lb, s')"
proof (induction n arbitrary: laters blocks s)
  case (Suc n)
  show ?case
  proof (cases "st_txes s")
    case (Cons e rest)
    obtain p ta where e: "e = (p, ta)" by fastforce
    note run = handleOneTx_run [OF Cons [unfolded e], of net laters blocks]
    show ?thesis
      using run Suc assms Cons by (auto simp: run_simps Let_def split: option.split)
  qed (simp add: run_simps)
qed (simp add: run_simps)

text \<open>What a loop sets aside is for destinations with errors.\<close>

lemma tx_loop_open:
  assumes "\<forall>sends p. net sends p ha = None"
  shows "ha \<notin> set blocks \<Longrightarrow> tx_loop net n (laters, blocks) s = (Inr (l, b), s') \<Longrightarrow> for_dest ha l = for_dest ha laters"
proof (induction n arbitrary: laters blocks s)
  case (Suc n)
  show ?case
  proof (cases "st_txes s")
    case (Cons e rest)
    obtain p ta where e: "e = (p, ta)" by fastforce
    note run = handleOneTx_run [OF Cons [unfolded e], of net laters blocks]
    show ?thesis
      using run Suc.prems assms Cons
      by (cases "ta = ha") (auto simp: run_simps Let_def split: if_splits option.splits dest!: Suc.IH [rotated])
  qed (use Suc.prems in \<open>simp add: run_simps\<close>)
qed (simp add: run_simps)

text \<open>
  C21: When serving the transmit queue returns, nothing is lost and nothing reordered: for each
  destination the packets that went out, followed by those that are kept for later, are the packets
  that were queued, in their order; and all those for a destination without errors went out, whatever
  the others do. The service returns if all errors are passing ones. Another error leaves it, and then
  packets may be lost (\<open>tx_service_error_loses\<close>).
\<close>

theorem tx_service_in_order:
  assumes "st_server s"
  shows "(serviceTxes net s = (Inr (), s') \<longrightarrow>
      (\<exists>sent. st_sent s' = st_sent s @ sent \<and>
        (\<forall>ha. for_dest ha sent @ for_dest ha (st_txes s') = for_dest ha (st_txes s)) \<and>
        (\<forall>ha. (\<forall>sends p. net sends p ha = None) \<longrightarrow> for_dest ha sent = for_dest ha (st_txes s)))) \<and>
    ((\<forall>sends p ha e. net sends p ha = Some e \<longrightarrow> e \<in> set retry_errors) \<longrightarrow> fst (serviceTxes net s) = Inr ())"
proof (intro conjI impI)
  let ?n = "length (st_txes s)"
  assume "serviceTxes net s = (Inr (), s')"
  with assms obtain l b s1 where l: "tx_loop net ?n ([], []) s = (Inr (l, b), s1)"
    and s': "s' = s1\<lparr>st_txes := st_txes s1 @ l\<rparr>"
    by (auto simp: serviceTxes_def put_back_def run_simps split: prod.split_asm sum.split_asm)
  from tx_loop_order [OF order_refl l] obtain sent l2 where order: "st_txes s1 = []"
    "st_sent s1 = st_sent s @ sent" "l = l2"
    "\<forall>ha. for_dest ha sent @ for_dest ha l2 = for_dest ha (st_txes s)" by auto
  moreover have "for_dest ha l = []" if "\<forall>sends p. net sends p ha = None" for ha
    using tx_loop_open [OF that _ l] by simp
  ultimately show "\<exists>sent. st_sent s' = st_sent s @ sent \<and>
      (\<forall>ha. for_dest ha sent @ for_dest ha (st_txes s') = for_dest ha (st_txes s)) \<and>
      (\<forall>ha. (\<forall>sends p. net sends p ha = None) \<longrightarrow> for_dest ha sent = for_dest ha (st_txes s))"
    by (intro exI [of _ sent]) (auto simp: s', metis append_Nil2)
next
  assume "\<forall>sends p ha e. net sends p ha = Some e \<longrightarrow> e \<in> set retry_errors"
  from tx_loop_returns [OF this, of "length (st_txes s)" "[]" "[]" s] show "fst (serviceTxes net s) = Inr ()"
    using assms by (auto simp: serviceTxes_def put_back_def run_simps)
qed

definition sample_net :: "string network" where
  "sample_net sends p ha = (if ha = ''x'' then Some EAGAIN else None)"

definition sample_txes :: "(bytes \<times> string) list" where
  "sample_txes = [(''1'', ''x''), (''2'', ''y''), (''3'', ''x''), (''4'', ''y'')]"

theorem tx_service_in_order_witness:
  "\<exists>s' sent. serviceTxes sample_net (sample_stack\<lparr>st_txes := sample_txes\<rparr>) = (Inr (), s') \<and>
     st_sent s' = sent \<and> (\<forall>ha. for_dest ha sent @ for_dest ha (st_txes s') = for_dest ha sample_txes) \<and>
     for_dest ''y'' sent = [(''2'', ''y''), (''4'', ''y'')]"
proof -
  let ?s = "sample_stack\<lparr>st_txes := sample_txes\<rparr>"
  have server: "st_server ?s" by (simp add: sample_stack_def)
  have passing: "\<forall>sends p ha e. sample_net sends p ha = Some e \<longrightarrow> e \<in> set retry_errors"
    by (simp add: sample_net_def retry_errors_def)
  have "fst (serviceTxes sample_net ?s) = Inr ()"
    using tx_service_in_order [OF server, of sample_net] passing by blast
  then obtain s' where s': "serviceTxes sample_net ?s = (Inr (), s')"
    by (cases "serviceTxes sample_net ?s") simp
  have y: "\<forall>sends p. sample_net sends p ''y'' = None" by (simp add: sample_net_def)
  have txes: "for_dest ''y'' sample_txes = [(''2'', ''y''), (''4'', ''y'')]" by (simp add: sample_txes_def)
  from tx_service_in_order [OF server, of sample_net s'] s' obtain sent where "st_sent s' = st_sent ?s @ sent"
    "\<forall>ha. for_dest ha sent @ for_dest ha (st_txes s') = for_dest ha (st_txes ?s)"
    "\<forall>ha. (\<forall>sends p. sample_net sends p ha = None) \<longrightarrow> for_dest ha sent = for_dest ha (st_txes ?s)" by blast
  with y txes s' show ?thesis by (simp add: sample_stack_def)
qed

text \<open>
  An error that is not a passing one is raised, and then the packets that were set aside
  for later in this service are lost, with the one that failed: neither sent nor queued.
\<close>

theorem tx_service_error_loses:
  "\<exists>net s'. serviceTxes net (sample_stack\<lparr>st_txes := sample_txes\<rparr>) = (Inl OSError, s') \<and>
     st_sent s' = [] \<and> st_txes s' = [(''3'', ''x''), (''4'', ''y'')]"
proof -
  let ?net = "\<lambda>sends p ha. if ha = ''x'' then Some EAGAIN else Some (EOther 22)"
  have "serviceTxes ?net (sample_stack\<lparr>st_txes := sample_txes\<rparr>) =
      (Inl OSError, sample_stack\<lparr>st_txes := [(''3'', ''x''), (''4'', ''y'')],
         st_attempts := [(''1'', ''x''), (''2'', ''y'')]\<rparr>)"
    by (simp add: serviceTxes_def handleOneTx_def run_simps sock_send_def sample_stack_def
        sample_txes_def retry_errors_def numeral_eq_Suc)
  then show ?thesis by (intro exI conjI) (assumption, simp_all add: sample_stack_def)
qed

section \<open>Receiving\<close>

text \<open>What a socket gives before it has nothing more, with the packets that arrive.\<close>

fun arrivals :: "'ha received list \<Rightarrow> (bytes \<times> 'ha) list" where
  "arrivals (RxData rx ra # rs) = (if rx = [] then [] else (rx, ra) # arrivals rs)"
| "arrivals _ = []"

fun receive_fails :: "'ha received list \<Rightarrow> bool" where
  "receive_fails (RxData rx ra # rs) = (rx \<noteq> [] \<and> receive_fails rs)"
| "receive_fails (RxError e # rs) = (e \<noteq> ECONNRESET)"
| "receive_fails _ = False"

lemma receive_loop_run:
  "length (st_inbox s) < n \<Longrightarrow>
   st_rxes (snd (receive_loop n s)) = st_rxes s @ arrivals (st_inbox s) \<and>
   fst (receive_loop n s) = (if receive_fails (st_inbox s) then Inl NameError else Inr ())"
proof (induction n arbitrary: s)
  case (Suc n)
  show ?case
  proof (cases "st_inbox s")
    case Nil
    then show ?thesis by (simp add: handleOneReceived_def sock_receive_def run_simps)
  next
    case (Cons r rs)
    show ?thesis
    proof (cases r)
      case (RxData rx ra)
      show ?thesis
        using Suc.IH [of "s\<lparr>st_inbox := rs, st_rxes := st_rxes s @ [(rx, ra)]\<rparr>"] Suc.prems Cons RxData
        by (simp add: handleOneReceived_def sock_receive_def run_simps)
    qed (use Cons in \<open>simp_all add: handleOneReceived_def sock_receive_def run_simps\<close>)
  qed
qed simp

text \<open>
  Serving the receives takes all that has arrived, in order, to the receive queue. A reset
  connection ends it quietly; any other socket error ends it with \<open>UnboundLocalError\<close>, since the
  handler goes on to look at what was not received.
\<close>

theorem receive_service:
  "st_server s \<Longrightarrow>
   st_rxes (snd (serviceReceives s)) = st_rxes s @ arrivals (st_inbox s) \<and>
   fst (serviceReceives s) = (if receive_fails (st_inbox s) then Inl NameError else Inr ())"
  using receive_loop_run [of s "Suc (length (st_inbox s))"]
  by (simp add: serviceReceives_def run_simps)

theorem receive_service_witness:
  "fst (serviceReceives (sample_stack\<lparr>st_inbox := [RxData ''ab'' ''x'', RxError (EOther 9)]\<rparr>)) = Inl NameError"
proof -
  let ?s = "sample_stack\<lparr>st_inbox := [RxData ''ab'' ''x'', RxError (EOther 9)]\<rparr>"
  have "st_server ?s" by (simp add: sample_stack_def)
  from receive_service [OF this] show ?thesis by simp
qed

end
