(* ===== verification/RoadSamples.thy ===== *)
theory RoadSamples
  imports RoadFacts RoadStarting RoadKeepFacts NaclFacts StackFacts
begin

text \<open>
  Two road stacks to run the model on: a main one and another, with sample keys, files and
  serializers. The sample box adds 16 bytes, as that of NaCl does.
\<close>

fun xor_char :: "char \<Rightarrow> char \<Rightarrow> char" where
  "xor_char (Char a0 a1 a2 a3 a4 a5 a6 a7) (Char b0 b1 b2 b3 b4 b5 b6 b7) =
     Char (a0 \<noteq> b0) (a1 \<noteq> b1) (a2 \<noteq> b2) (a3 \<noteq> b3) (a4 \<noteq> b4) (a5 \<noteq> b5) (a6 \<noteq> b6) (a7 \<noteq> b7)"

definition xor_bytes :: "bytes \<Rightarrow> bytes \<Rightarrow> bytes" where
  "xor_bytes a b = map2 xor_char a b"

definition seal_shared :: "bytes \<Rightarrow> bytes \<Rightarrow> bytes result" where
  "seal_shared p a = (if length p = 32 \<and> length a = 32 then Inr (xor_bytes p a) else Inl ValueError)"

definition seal_box :: "bytes \<Rightarrow> bytes \<Rightarrow> bytes \<Rightarrow> bytes result" where
  "seal_box m n k = Inr (take 16 k @ m)"

definition seal_open :: "bytes \<Rightarrow> bytes \<Rightarrow> bytes \<Rightarrow> bytes result" where
  "seal_open c n k = (if take 16 c = take 16 k then Inr (drop 16 c) else Inl ValueError)"

definition seal_sign :: "bytes \<Rightarrow> bytes \<Rightarrow> bytes result" where
  "seal_sign m sk = Inr (sample_tag sk m @ m)"

definition seal_sign_open :: "bytes \<Rightarrow> bytes \<Rightarrow> bytes result" where
  "seal_sign_open sm pk =
     (if take 64 sm = sample_tag pk (drop 64 sm) then Inr (drop 64 sm) else Inl ValueError)"

definition seal_pair :: "bytes \<Rightarrow> (bytes \<times> bytes) result" where
  "seal_pair sd = Inr (sd, sd)"

definition seal_random :: "nat \<Rightarrow> nat \<Rightarrow> bytes \<times> nat" where
  "seal_random n r = (replicate n (CHR ''n''), Suc r)"

definition seal_nacl :: "nat nacl" where
  "seal_nacl = \<lparr>crypto_box_PUBLICKEYBYTES = 32, crypto_box_SECRETKEYBYTES = 32,
     crypto_box_NONCEBYTES = 24, crypto_sign_PUBLICKEYBYTES = 32, crypto_sign_SEEDBYTES = 32,
     crypto_sign_BYTES = 64, crypto_scalarmult_base = Inr, crypto_box_beforenm = seal_shared,
     crypto_box_afternm = seal_box, crypto_box_open_afternm = seal_open,
     crypto_sign_seed_keypair = seal_pair, crypto_sign = seal_sign,
     crypto_sign_open = seal_sign_open, randombytes = seal_random\<rparr>"

lemmas seal_defs = seal_shared_def seal_box_def seal_open_def seal_sign_def seal_sign_open_def seal_pair_def
  seal_random_def

lemma xor_bytes_length: "length (xor_bytes a b) = min (length a) (length b)"
  by (simp add: xor_bytes_def)

lemma xor_char_commute: "xor_char x y = xor_char y x"
  by (cases x; cases y) auto

lemma xor_bytes_commute: "xor_bytes a b = xor_bytes b a"
  by (rule nth_equalityI) (simp_all add: xor_bytes_def xor_char_commute)

lemma seal_nacl_ok: "nacl_ok seal_nacl"
  by (auto simp: nacl_ok_def seal_nacl_def seal_defs xor_bytes_length intro: xor_bytes_commute)

definition road_dumps :: "body \<Rightarrow> bytes result" where
  "road_dumps b = (case b of BData v \<Rightarrow> sample_dump v | _ \<Rightarrow> Inl TypeError)"

definition road_sample_codec :: codec where
  "road_sample_codec = \<lparr>json_dumps = road_dumps, json_loads = sample_load, msgpack = None,
     pack_byte = sample_pack_byte, unpack_byte = sample_unpack_byte, float_text = id, parse_float = Some,
     local_signature = id, remotes_crypt = []\<rparr>"

definition sample_expired :: "timer \<Rightarrow> rat \<Rightarrow> bool" where
  "sample_expired timer now \<longleftrightarrow> tm_start timer + tm_duration timer \<le> now"

definition sample_getaddrinfo :: "bool \<Rightarrow> string \<Rightarrow> string list option" where
  "sample_getaddrinfo six h = (if six then None else Some [h])"

definition sample_guid :: "nat \<Rightarrow> string" where
  "sample_guid n = replicate (Suc n) (CHR ''g'')"

definition sample_env :: "bool \<Rightarrow> bool \<Rightarrow> nat road_env" where
  "sample_env main mutable =
     \<lparr>rv_keep = sample_roadkeep AutoOnce, rv_codec = road_sample_codec, rv_nacl = seal_nacl,
      rv_main = main, rv_mutable = mutable, rv_period = 1, rv_offset = 1 / 2, rv_interim = 3600, rv_burst = 0, rv_joinent_timeout = JoinentTimeout,
      rv_insert_uid = list_insert, rv_insert_name = list_insert, rv_expired = sample_expired,
      rv_visits = id, rv_getaddrinfo = sample_getaddrinfo, rv_getfqdn = id, rv_guid = sample_guid\<rparr>"

definition sample_ha :: "int \<Rightarrow> val" where
  "sample_ha port = VList [VStr ''127.0.0.1'', VInt port]"

definition key_bytes :: "char \<Rightarrow> bytes" where
  "key_bytes c = replicate 32 c"

definition sample_privateer :: "bytes \<Rightarrow> privateer" where
  "sample_privateer k = privateer_of \<lparr>priv_bytes = k, priv_public = PublicKey k\<rparr>"

definition sample_signer :: "bytes \<Rightarrow> signer" where
  "sample_signer k = signer_of
     \<lparr>sig_seed = k, sig_secret = k, sig_verify = VerifyKey k\<rparr>"

text \<open>A stack without remotes.\<close>

definition sample_road :: "string \<Rightarrow> int \<Rightarrow> bytes \<Rightarrow> nat road_stack" where
  "sample_road name port key =
     (new_road 1 (sample_ha port) None [] 0)\<lparr>
      st_local := \<lparr>lot_name = name, lot_uid = 1, lot_ha = sample_ha port, lot_sid = 0\<rparr>, st_server := True,
      rs_local := \<lparr>es_tid = 0, es_iha = VNone, es_natted = VNone, es_fqdn = ''127.0.0.1'', es_dyned = VNone,
        es_role = name, lo_signer = sample_signer key, lo_priver = sample_privateer key\<rparr>\<rparr>"

lemmas sample_road_full = sample_road_def new_road_def

text \<open>What one stack has to send arrives at the other.\<close>

definition deliver :: "val \<Rightarrow> 'r road_stack \<times> 'r road_stack \<Rightarrow> 'r road_stack \<times> 'r road_stack" where
  "deliver from_ha ab =
     (case ab of (a, b) \<Rightarrow>
       (a\<lparr>st_txes := []\<rparr>, b\<lparr>st_inbox := st_inbox b @ map (\<lambda>(p, _). RxData p from_ha) (st_txes a)\<rparr>))"

end
