(* ===== verification/RoadRestart.thy ===== *)
theory RoadRestart
  imports RoadStarting RoadKeepFacts NaclFacts StackFacts
begin

text \<open>
  Restarting a road stack: a remote that was written to the keep is restored as it was, except for
  what is not kept.
\<close>

section \<open>Keys that are made again\<close>

text \<open>The verifiers and publicans that are made of bytes: without a key or with one of 32 bytes.\<close>

definition verifier_ok :: "verifier \<Rightarrow> bool" where
  "verifier_ok v \<longleftrightarrow> v = \<lparr>vf_key = None, vf_keyhex = [], vf_keyraw = []\<rparr> \<or>
     (\<exists>b. length b = 32 \<and> v = \<lparr>vf_key = Some (VerifyKey b), vf_keyhex = hexlify b, vf_keyraw = b\<rparr>)"

definition publican_ok :: "publican \<Rightarrow> bool" where
  "publican_ok p \<longleftrightarrow> p = no_publican \<or>
     (\<exists>b. length b = 32 \<and> p = \<lparr>pb_key = Some (PublicKey b), pb_keyhex = hexlify b, pb_keyraw = b\<rparr>)"

lemma verifier_made: "nacl_ok N \<Longrightarrow> Verifier_init N (KeyBytes b) = Inr v \<Longrightarrow> verifier_ok v"
  by (auto simp: Verifier_init_def key_of_def verifier_ok_def VerifyKey_init_def rbind_eq_Inr nacl_sizes
      split: if_splits)

lemma publican_made: "nacl_ok N \<Longrightarrow> Publican_init N (KeyBytes b) = Inr p \<Longrightarrow> publican_ok p"
  by (auto simp: Publican_init_def key_of_def publican_ok_def no_publican_def PublicKey_init_def rbind_eq_Inr
      nacl_sizes split: if_splits)

lemma hex_key_reads: "length b = 32 \<Longrightarrow> decode (key_encoder (hexlify b)) (hexlify b) = Inr b \<and> b \<noteq> []"
  using key_form_reads(1) [of b "hexlify b"] by (auto simp: key_form_def)

lemma verifier_again: "nacl_ok N \<Longrightarrow> verifier_ok v \<Longrightarrow> Verifier_init N (KeyBytes (vf_keyhex v)) = Inr v"
  by (auto simp: verifier_ok_def Verifier_init_def key_of_def VerifyKey_init_def nacl_sizes hex_key_reads)

lemma publican_again: "nacl_ok N \<Longrightarrow> publican_ok p \<Longrightarrow> Publican_init N (KeyBytes (pb_keyhex p)) = Inr p"
  by (auto simp: publican_ok_def no_publican_def Publican_init_def key_of_def PublicKey_init_def nacl_sizes
      hex_key_reads)

lemma privee_made:
  assumes "nacl_ok N" shows "\<exists>p r'. Privateer_init N NoKey r = (Inr p, r')"
proof -
  obtain k r' where k: "randombytes N 32 r = (k, r')" by fastforce
  then have "length k = 32" using nacl_sizes(7) [OF assms, of 32 r] by simp
  from nacl_base [OF assms this] obtain pa where "crypto_scalarmult_base N k = Inr pa" "length pa = 32" .
  then show ?thesis
    using \<open>length k = 32\<close> k
    by (simp add: Privateer_init_def key_of_def run_simps PrivateKey_generate_def random_def PrivateKey_init_def
        PublicKey_init_def nacl_sizes [OF assms])
qed

section \<open>A remote that is restored\<close>

text \<open>The addresses of an estate are as they are after its creation.\<close>

definition settled :: "'r road_env \<Rightarrow> remote_estate \<Rightarrow> bool" where
  "settled E e \<longleftrightarrow>
     re_name e \<noteq> [] \<and> (\<exists>xs. re_ha e = VList xs \<and> xs \<noteq> []) \<and> normal_ha E (re_ha e) = Inr (re_ha e) \<and>
     stored_ha (re_iha e) = Inr (re_iha e) \<and> normal_ha E (re_iha e) = Inr (re_iha e) \<and>
     (\<exists>f. re_fqdn e = VStr f \<and> f \<noteq> [])"

lemma stored_args_full:
  assumes "settled E e"
  shows "\<exists>a. stored_args (full_data e) = Inr a \<and> ra_name a = re_name e \<and> ra_uid a = Some (re_uid e) \<and>
    ra_ha a = re_ha e \<and> ra_iha a = re_iha e \<and> ra_natted a = re_natted e \<and> VStr (ra_fqdn a) = re_fqdn e \<and>
    ra_dyned a = re_dyned e \<and> ra_sid a = re_sid e \<and> ra_role a = Some (re_role e) \<and> ra_fuid a = re_fuid e \<and>
    ra_main a = re_main e \<and> ra_kind a = re_kind e \<and> ra_joined a = re_joined e \<and>
    ra_acceptance a = re_acceptance e \<and> ra_verkey a = re_verhex e \<and> ra_pubkey a = re_pubhex e"
  using assms
  by (auto simp: settled_def stored_args_def estate_args_def item_as_def full_data_def estate_data_def
      oitem_def)

lemma RemoteEstate_init_restored:
  assumes N: "nacl_ok (rv_nacl E)" and e: "settled E e" and a: "stored_args (full_data e) = Inr a"
    and v: "verifier_ok v" "vf_keyhex v = re_verhex e" and p: "publican_ok p" "pb_keyhex p = re_pubhex e"
  shows "\<exists>u'. RemoteEstate_init E a u = (Inr (ks_next u), u') \<and> remote_view u' (ks_next u) = e \<and>
    rm_verfer (rs_remotes u' (ks_next u)) = v \<and> rm_pubber (rs_remotes u' (ks_next u)) = p \<and>
    rm_allowed (rs_remotes u' (ks_next u)) = None \<and> rm_transactions (rs_remotes u' (ks_next u)) = [] \<and>
    st_uidRemotes u' = st_uidRemotes u \<and> st_nameRemotes u' = st_nameRemotes u \<and> st_local u' = st_local u"
proof -
  obtain pv rand where pv: "Privateer_init (rv_nacl E) NoKey (rs_rand u) = (Inr pv, rand)"
    using privee_made [OF N] by blast
  obtain xs f where ha: "re_ha e = VList xs" "xs \<noteq> []" and f: "re_fqdn e = VStr f" "f \<noteq> []"
    and name: "re_name e \<noteq> []" and norm: "normal_ha E (re_ha e) = Inr (re_ha e)" "normal_ha E (re_iha e) = Inr (re_iha e)"
    using e by (auto simp: settled_def)
  have a: "ra_name a = re_name e" "ra_uid a = Some (re_uid e)" "ra_ha a = re_ha e" "ra_iha a = re_iha e"
    "ra_natted a = re_natted e" "ra_fqdn a = f" "ra_dyned a = re_dyned e" "ra_sid a = re_sid e"
    "ra_role a = Some (re_role e)" "ra_fuid a = re_fuid e" "ra_main a = re_main e" "ra_kind a = re_kind e"
    "ra_joined a = re_joined e" "ra_acceptance a = re_acceptance e" "ra_verkey a = re_verhex e"
    "ra_pubkey a = re_pubhex e"
    using stored_args_full [OF e] a f by auto
  have fqdn: "full_fqdn E f (re_ha e) = f" using ha f by (simp add: full_fqdn_def)
  show ?thesis
    using verifier_again [OF N v(1)] publican_again [OF N p(1)]
    by (simp add: RemoteEstate_init_def run_simps full_name_def on_random_def new_lot_def rmod_def a norm fqdn
        name pv v(2) p(2) remote_view_def f)
qed

lemma add_restored:
  assumes "\<not> ohas (st_uidRemotes u) (remote_uid u q)" "remote_uid u q = 0 \<or> remote_uid u q \<noteq> lot_uid (st_local u)"
    and "\<not> ohas (st_nameRemotes u) (remote_name u q)" "remote_name u q \<noteq> lot_name (st_local u)"
  shows "add_remote E q False u = (Inr q, u\<lparr>st_uidRemotes := oset (remote_uid u q) q (st_uidRemotes u),
    st_nameRemotes := oset (remote_name u q) q (st_nameRemotes u)\<rparr>)"
  using assms by (auto simp: add_remote_def ks_addRemote_def addRemote_def run_simps Let_def)

text \<open>
  C25: A remote estate that was written to the keep is restored by another stack that has the same
  files, such as the one that is started again: it has the same ids, name, addresses, role, status
  and keys, and is found under its id and its name. What is not kept starts anew: the remote is not
  allowed and has no transactions.
\<close>

theorem remote_survives_restart:
  assumes N: "nacl_ok (rv_nacl E)" and k: "roadkeep_ok (rv_keep E)" "kp_RemoteFields (rv_keep E) = ROAD_REMOTE_FIELDS"
    and e: "e = remote_view s r" "storable_estate e" "settled E e"
    and keys: "verifier_ok (rm_verfer (rs_remotes s r))" "publican_ok (rm_pubber (rs_remotes s r))"
    and files: "keep_holds (rv_keep E) (ks_fs s) m" "roles_hold (rv_keep E) (ks_fs s) t"
  shows "\<exists>s'. dump_remote E r s = (Inr (), s') \<and>
    (\<forall>u. ks_fs u = ks_fs s' \<and> \<not> ohas (st_uidRemotes u) (re_uid e) \<and> re_uid e \<noteq> lot_uid (st_local u) \<and>
         \<not> ohas (st_nameRemotes u) (re_name e) \<and> re_name e \<noteq> lot_name (st_local u) \<longrightarrow>
       (\<exists>q u'. road_restoreRemote E (re_name e) u = (Inr (Some q), u') \<and> remote_view u' q = e \<and>
          rm_verfer (rs_remotes u' q) = rm_verfer (rs_remotes s r) \<and>
          rm_pubber (rs_remotes u' q) = rm_pubber (rs_remotes s r) \<and>
          rm_allowed (rs_remotes u' q) = None \<and> rm_transactions (rs_remotes u' q) = [] \<and>
          oget (st_uidRemotes u') (re_uid e) = Some q \<and> oget (st_nameRemotes u') (re_name e) = Some q))"
proof -
  obtain a where a: "re_acceptance e = VInt (acceptance_value a)" using e(2) by (auto simp: storable_estate_def)
  from road_dumpRemote_holds [OF k(1) e(2) a files] obtain fs'
    where fs': "road_dumpRemote (rv_keep E) e (ks_fs s) = (Inr (), fs')"
      "keep_holds (rv_keep E) fs' (m(re_name e \<mapsto> estate_data e))"
      "roles_hold (rv_keep E) fs' (t(re_role e \<mapsto> (a, re_verhex e, re_pubhex e)))" by blast
  have dump: "dump_remote E r s = (Inr (), s\<lparr>ks_fs := fs'\<rparr>)"
    using fs'(1) by (simp add: dump_remote_def on_files_def run_simps e(1))
  have load: "road_loadRemoteData (rv_keep E) (re_name e) fs' = (Inr (Some (full_data e)), fs')"
    by (rule road_loadRemoteData_holds [OF k(1) fs'(2,3) e(2) a]) simp_all
  have verified: "verifyRemoteData (rv_keep E) (full_data e) None" and some: "full_data e \<noteq> []"
    by (simp_all add: verifyRemoteData_def verifyData_members full_data_def estate_data_def k(2)
        ROAD_REMOTE_FIELDS_def)
  obtain args where args: "stored_args (full_data e) = Inr args" using stored_args_full [OF e(3)] by blast
  have hex: "vf_keyhex (rm_verfer (rs_remotes s r)) = re_verhex e" "pb_keyhex (rm_pubber (rs_remotes s r)) = re_pubhex e"
    by (simp_all add: e(1) remote_view_def Let_def)
  show ?thesis
  proof (intro exI [of _ "s\<lparr>ks_fs := fs'\<rparr>"] conjI dump allI impI, elim conjE)
    fix u :: "'a road_stack"
    assume u: "ks_fs u = ks_fs (s\<lparr>ks_fs := fs'\<rparr>)" "\<not> ohas (st_uidRemotes u) (re_uid e)"
      "re_uid e \<noteq> lot_uid (st_local u)" "\<not> ohas (st_nameRemotes u) (re_name e)" "re_name e \<noteq> lot_name (st_local u)"
    let ?q = "ks_next u"
    obtain u1 where u1: "RemoteEstate_init E args u = (Inr ?q, u1)" "remote_view u1 ?q = e"
      "rm_verfer (rs_remotes u1 ?q) = rm_verfer (rs_remotes s r)"
      "rm_pubber (rs_remotes u1 ?q) = rm_pubber (rs_remotes s r)" "rm_allowed (rs_remotes u1 ?q) = None"
      "rm_transactions (rs_remotes u1 ?q) = []" "st_uidRemotes u1 = st_uidRemotes u"
      "st_nameRemotes u1 = st_nameRemotes u" "st_local u1 = st_local u"
      using RemoteEstate_init_restored [OF N e(3) args keys(1) hex(1) keys(2) hex(2)] by blast
    have ids: "remote_uid u1 ?q = re_uid e" "remote_name u1 ?q = re_name e"
      by (simp_all add: u1(2) [symmetric] remote_view_def Let_def remote_uid_def remote_name_def)
    let ?u = "u1\<lparr>st_uidRemotes := oset (re_uid e) ?q (st_uidRemotes u),
      st_nameRemotes := oset (re_name e) ?q (st_nameRemotes u)\<rparr>"
    have "restore_estate E (full_data e) u = (Inr ?q, ?u)"
      using add_restored [of u1 ?q E] u(2-5) by (simp add: restore_estate_def run_simps args u1 ids)
    moreover have "on_files (road_loadRemoteData (rv_keep E) (re_name e)) u = (Inr (Some (full_data e)), u)"
      using u(1) load by (simp add: on_files_def)
    ultimately have "road_restoreRemote E (re_name e) u = (Inr (Some ?q), ?u)"
      by (simp add: road_restoreRemote_def run_simps some verified)
    then show "\<exists>q u'. road_restoreRemote E (re_name e) u = (Inr (Some q), u') \<and> remote_view u' q = e \<and>
          rm_verfer (rs_remotes u' q) = rm_verfer (rs_remotes s r) \<and>
          rm_pubber (rs_remotes u' q) = rm_pubber (rs_remotes s r) \<and>
          rm_allowed (rs_remotes u' q) = None \<and> rm_transactions (rs_remotes u' q) = [] \<and>
          oget (st_uidRemotes u') (re_uid e) = Some q \<and> oget (st_nameRemotes u') (re_name e) = Some q"
      using u1 by (intro exI [of _ ?q] exI [of _ ?u]) (simp add: remote_view_def)
  qed
qed

end
