(* ===== verification/FreeUid.thy ===== *)
theory FreeUid
  imports Stacking Lotting
begin

text \<open>
  The search for a free id, which the estates of the road and the yards of the lane share.
\<close>

lemma nextUid_run: "nextUid s = (Inr (nextSid (st_puid s)), s\<lparr>st_puid := nextSid (st_puid s)\<rparr>)"
  by (simp add: nextUid_def run_simps nextSid_def sid_constants Let_def)

definition uid_taken :: "('ha, 'm, 'z) stack_scheme \<Rightarrow> int \<Rightarrow> bool" where
  "uid_taken s u \<longleftrightarrow> ohas (st_uidRemotes s) u \<or> u = lot_uid (st_local s)"

lemma free_uid_run:
  "free_uid n s =
     (case find (\<lambda>u. \<not> uid_taken s u) (map (\<lambda>k. (nextSid ^^ Suc k) (st_puid s)) [0..<n]) of
        None \<Rightarrow> (Inr None, s\<lparr>st_puid := (nextSid ^^ n) (st_puid s)\<rparr>)
      | Some u \<Rightarrow> (Inr (Some u), s\<lparr>st_puid := u\<rparr>))"
proof (induction n arbitrary: s)
  case (Suc n)
  let ?u = "nextSid (st_puid s)"
  have "map (\<lambda>k. (nextSid ^^ Suc k) (st_puid s)) [0..<Suc n] =
      ?u # map (\<lambda>k. (nextSid ^^ Suc k) ?u) [0..<n]"
    by (simp add: upt_conv_Cons map_Suc_upt [symmetric] funpow_swap1 del: upt_Suc)
  then show ?case
    by (simp add: Suc.IH run_simps nextUid_run uid_taken_def funpow_swap1 split: option.split)
qed (simp add: run_simps)

lemma tried_uids:
  assumes "0 \<le> p" "p \<le> 0xffffffff" "n \<le> 0xffffffff"
  shows "distinct (map (\<lambda>k. (nextSid ^^ Suc k) p) [0..<n])"
    and "\<forall>u \<in> set (map (\<lambda>k. (nextSid ^^ Suc k) p) [0..<n]). 1 \<le> u \<and> u \<le> 0xffffffff"
proof -
  have proper: "proper_sid (nextSid p)" using assms(1,2) by (intro nextSid_proper) auto
  have power: "(nextSid ^^ Suc k) p = (nextSid p - 1 + int k) mod 4294967295 + 1" for k
    using nextSid_power [OF proper, of k] by (simp add: funpow_swap1)
  have "inj_on (\<lambda>k. (nextSid ^^ Suc k) p) {0..<n}"
  proof (rule inj_onI)
    fix i j :: nat
    assume ij: "i \<in> {0..<n}" "j \<in> {0..<n}" and "(nextSid ^^ Suc i) p = (nextSid ^^ Suc j) p"
    then have "(nextSid p - 1 + int i) mod 4294967295 = (nextSid p - 1 + int j) mod 4294967295"
      unfolding power by simp
    then have "int i mod 4294967295 = int j mod 4294967295"
      by (metis add_diff_cancel_left' mod_diff_left_eq mod_diff_right_eq)
    then show "i = j" using ij assms(3) by simp
  qed
  then show "distinct (map (\<lambda>k. (nextSid ^^ Suc k) p) [0..<n])" by (simp add: distinct_map)
  show "\<forall>u \<in> set (map (\<lambda>k. (nextSid ^^ Suc k) p) [0..<n]). 1 \<le> u \<and> u \<le> 0xffffffff"
    unfolding power by (auto intro: order_trans [OF less_imp_le [OF pos_mod_bound]])
qed

lemma new_uid_finds:
  assumes "0 \<le> st_puid s" and "st_puid s \<le> 0xffffffff" and "length (st_uidRemotes s) + 2 \<le> 0xffffffff"
  shows "\<exists>u. new_uid s = (Inr u, s\<lparr>st_puid := u\<rparr>) \<and> \<not> ohas (st_uidRemotes s) u \<and>
      u \<noteq> lot_uid (st_local s) \<and> 1 \<le> u \<and> u \<le> 0xffffffff"
proof -
  let ?n = "length (st_uidRemotes s) + 2"
  let ?us = "map (\<lambda>k. (nextSid ^^ Suc k) (st_puid s)) [0..<?n]"
  note tried = tried_uids [OF assms]
  have "\<not> set ?us \<subseteq> insert (lot_uid (st_local s)) (set (okeys (st_uidRemotes s)))"
  proof
    assume "set ?us \<subseteq> insert (lot_uid (st_local s)) (set (okeys (st_uidRemotes s)))"
    then have "card (set ?us) \<le> card (insert (lot_uid (st_local s)) (set (okeys (st_uidRemotes s))))"
      by (rule card_mono [rotated]) simp
    also have "\<dots> \<le> Suc (length (st_uidRemotes s))"
      using card_length [of "okeys (st_uidRemotes s)"] card_insert_le_m1
      by (simp add: card_insert_if okeys_def)
    finally show False using distinct_card [OF tried(1)] by simp
  qed
  then have "find (\<lambda>u. \<not> uid_taken s u) ?us \<noteq> None"
    by (auto simp: find_None_iff uid_taken_def ohas_def)
  then obtain u where u: "find (\<lambda>u. \<not> uid_taken s u) ?us = Some u" by blast
  have "u \<in> set us \<and> \<not> uid_taken s u" if "find (\<lambda>u. \<not> uid_taken s u) us = Some u" for us
    using that by (auto simp: find_Some_iff)
  from this [OF u] have "u \<in> set ?us" "\<not> uid_taken s u" by blast+
  moreover have "free_uid ?n s = (Inr (Some u), s\<lparr>st_puid := u\<rparr>)"
    unfolding free_uid_run u by simp
  then have "new_uid s = (Inr u, s\<lparr>st_puid := u\<rparr>)"
    unfolding new_uid_def eff_run by (simp only: sum.case prod.case option.case eff_run)
  ultimately show ?thesis using tried(2) unfolding uid_taken_def by blast
qed

end
