(* ===== verification/RoadTimers.thy ===== *)
theory RoadTimers
  imports RoadFacts FreeUid
begin

text \<open>
  What ends on the road: the search for a free id, the growth of the redo interval, transactions
  that get no answer.
\<close>

section \<open>Free ids\<close>

text \<open>
  C30: The search for the uid of a new remote ends: as long as there are fewer remotes than ids, it
  returns an id between 1 and 2^32 - 1 that no remote has and that is not the stack's own, after at
  most two tries more than there are remotes, and changes nothing but the id it counts from.
\<close>

theorem new_uid_is_found:
  assumes "0 \<le> st_puid s" and "st_puid s \<le> 0xffffffff" and "length (st_uidRemotes s) + 2 \<le> 0xffffffff"
  shows "\<exists>u. new_uid s = (Inr u, s\<lparr>st_puid := u\<rparr>) \<and> \<not> ohas (st_uidRemotes s) u \<and>
      u \<noteq> lot_uid (st_local s) \<and> 1 \<le> u \<and> u \<le> 0xffffffff"
  by (rule new_uid_finds [OF assms])

section \<open>The redo interval\<close>

lemma back_off_run:
  "back_off t s = (Inr (), s\<lparr>rs_trans := (rs_trans s)(t := (rs_trans s t)\<lparr>tr_redoTimer :=
     \<lparr>tm_start = st_stamp s, tm_duration = longer (rs_trans s t)\<rparr>\<rparr>)\<rparr>)"
  by (simp add: back_off_def restart_redo_def restarted_def run_simps)

definition back_off_at :: "nat \<Rightarrow> rat \<Rightarrow> ('r, unit) road" where
  "back_off_at t now = ethen (emod (\<lambda>s. s\<lparr>st_stamp := now\<rparr>)) (back_off t)"

lemma doubled_twice:
  fixes x :: rat
  assumes "0 \<le> lo" "lo \<le> hi" "lo \<le> x"
  shows "min hi (2 ^ n * max lo (2 * min hi x)) = min hi (2 ^ Suc n * x)"
proof -
  have ge: "c \<le> 2 ^ k * c" if "0 \<le> c" for c :: rat and k
    using mult_right_mono [of 1 "2 ^ k" c] that by simp
  have "max lo (2 * min hi x) = 2 * min hi x" using assms by (auto simp: min_def)
  moreover have "min hi (2 ^ Suc n * min hi x) = min hi (2 ^ Suc n * x)"
  proof (cases "hi \<le> x")
    case True
    then have "hi \<le> 2 ^ Suc n * hi" "hi \<le> 2 ^ Suc n * x"
      using ge [of hi "Suc n"] ge [of x "Suc n"] assms by auto
    then show ?thesis using True by (simp add: min_absorb1)
  qed (simp add: min_absorb2)
  ultimately show ?thesis by (simp add: mult.assoc mult.left_commute)
qed

text \<open>
  The interval after which a transaction repeats its last packet doubles at every repetition,
  starting from the smaller bound, until it reaches the larger one, and never leaves the bounds. It
  counts from the time of the last repetition.
\<close>

theorem redo_interval_doubles:
  assumes "0 \<le> tr_redoTimeoutMin (rs_trans s t)"
    and "tr_redoTimeoutMin (rs_trans s t) \<le> tr_redoTimeoutMax (rs_trans s t)"
  shows "tr_redoTimer (rs_trans (snd (efor (earlier @ [now]) (back_off_at t) s)) t) =
      \<lparr>tm_start = now, tm_duration = min (tr_redoTimeoutMax (rs_trans s t))
         (2 ^ length earlier * max (tr_redoTimeoutMin (rs_trans s t))
            (2 * tm_duration (tr_redoTimer (rs_trans s t))))\<rparr>"
  using assms
proof (induction earlier arbitrary: s)
  case Nil
  then show ?case by (simp add: back_off_at_def run_simps back_off_run longer_def min.commute mult.commute)
next
  case (Cons c cs)
  let ?tr = "rs_trans s t"
  let ?s = "snd (back_off_at t c s)"
  have s: "back_off_at t c s = (Inr (), ?s)" by (simp add: back_off_at_def run_simps back_off_run)
  have tr: "rs_trans ?s t = ?tr\<lparr>tr_redoTimer := \<lparr>tm_start = c, tm_duration = longer ?tr\<rparr>\<rparr>"
    by (simp add: back_off_at_def run_simps back_off_run longer_def)
  let ?lo = "tr_redoTimeoutMin ?tr" and ?hi = "tr_redoTimeoutMax ?tr"
  let ?x = "max ?lo (2 * tm_duration (tr_redoTimer ?tr))"
  have "longer ?tr = min ?hi ?x" by (simp add: longer_def min.commute mult.commute)
  moreover have "efor ((c # cs) @ [now]) (back_off_at t) s = efor (cs @ [now]) (back_off_at t) ?s"
    unfolding append_Cons efor.simps eff_run(7) by (subst s) simp
  moreover have "min ?hi (2 ^ length cs * max ?lo (2 * min ?hi ?x)) = min ?hi (2 ^ Suc (length cs) * ?x)"
    using Cons.prems by (intro doubled_twice) auto
  ultimately show ?case using Cons.IH [of ?s] Cons.prems tr by simp
qed

section \<open>Transactions without an answer\<close>

text \<open>Removing a transaction that is entered once takes it, and nothing else, from the table.\<close>

lemma without_transaction_values:
  assumes "owf ts" "distinct (ovalues ts)"
  shows "set (ovalues (without_transaction i (Some t) ts)) = set (ovalues ts) - {t}"
proof (cases "oget ts i = Some t")
  case True
  then have it: "(i, t) \<in> set ts" by (simp add: oget_def map_of_SomeD)
  have same: "snd e = t \<longleftrightarrow> fst e = i" if "e \<in> set ts" for e
  proof
    assume "snd e = t"
    then show "fst e = i"
      using assms(2) that it inj_onD [of snd "set ts" e "(i, t)"] by (simp add: ovalues_def distinct_map)
  next
    assume "fst e = i"
    then have "oget ts i = Some (snd e)"
      using assms(1) that by (auto simp: owf_def okeys_def oget_def intro: map_of_is_SomeI)
    then show "snd e = t" using True by simp
  qed
  have "ohas ts i" unfolding ohas_def okeys_def using it by force
  then have "without_transaction i (Some t) ts = odel i ts" by (simp add: without_transaction_def True)
  moreover have "set (ovalues (odel i ts)) = snd ` {e \<in> set ts. fst e \<noteq> i}"
    by (simp add: ovalues_def odel_def)
  moreover have "{e \<in> set ts. fst e \<noteq> i} = {e \<in> set ts. snd e \<noteq> t}" using same by blast
  moreover have "snd ` {e \<in> set ts. snd e \<noteq> t} = snd ` set ts - {t}" by blast
  ultimately show ?thesis by (simp add: ovalues_def)
next
  case False
  then have "without_transaction i (Some t) ts = filter (\<lambda>e. snd e \<noteq> t) ts"
    by (simp add: without_transaction_def)
  moreover have "snd ` {e \<in> set ts. snd e \<noteq> t} = snd ` set ts - {t}" by blast
  ultimately show ?thesis by (simp add: ovalues_def)
qed

definition table_of :: "'r road_stack \<Rightarrow> nat \<Rightarrow> (tindex, nat) odict" where
  "table_of s r = rm_transactions (rs_remotes s r)"

lemma trans_remove_run:
  assumes "tr_class (rs_trans s t) \<noteq> MessengentT"
  shows "\<exists>s'. trans_remove t i s = (Inr (), s') \<and>
    table_of s' (tr_remote (rs_trans s t)) =
      without_transaction (canon_index i) (Some t) (table_of s (tr_remote (rs_trans s t)))"
  using assms
  by (simp add: trans_remove_def leave_joinees_def removeTransaction_def run_simps table_of_def)

lemma remove_self_run:
  assumes "tr_class (rs_trans s t) \<noteq> MessengentT"
  shows "\<exists>s' i. remove_self t s = (Inr (), s') \<and>
    table_of s' (tr_remote (rs_trans s t)) =
      without_transaction i (Some t) (table_of s (tr_remote (rs_trans s t)))"
proof -
  have "remove_self t s = trans_remove t (own_index s t) s" by (simp add: remove_self_def run_simps)
  then show ?thesis using trans_remove_run [OF assms, of "own_index s t"] by metis
qed

lemma refresh_run: "\<exists>s2. refresh E a r s = (Inr (), s2) \<and> (\<forall>q. table_of s2 q = table_of s q)"
  by (auto simp: refresh_def run_simps unreap_def table_of_def incStat_def split: option.split)

text \<open>
  C31: A transaction that the stack started does not stay for ever: when its time is over, its next
  processing takes it out of its remote's table, where no other transaction is affected, and
  returns.
\<close>

theorem expired_initiators_leave:
  assumes "tr_class (rs_trans s t) \<in> {JoinerT, AllowerT, AliverT, MessengerT}"
    and "0 < tr_timeout (rs_trans s t)" and "rv_expired E (tr_timer (rs_trans s t)) (st_stamp s)"
    and "owf (table_of s r)" and "distinct (ovalues (table_of s r))" and "r = tr_remote (rs_trans s t)"
    and "tx_is (rs_trans s t) PkRequest \<Longrightarrow> \<exists>i. fst (tx_index t s) = Inr i"
  shows "\<exists>s'. trans_process E t s = (Inr (), s') \<and>
      set (ovalues (table_of s' r)) = set (ovalues (table_of s r)) - {t}"
proof -
  have late: "timed_out E t s = (Inr True, s)" using assms(2,3) by (simp add: timed_out_def run_simps)
  have cls: "tr_class (rs_trans s t) \<noteq> MessengentT" using assms(1) by auto
  obtain s' i where self: "remove_self t s = (Inr (), s')"
    "table_of s' r = without_transaction i (Some t) (table_of s r)"
    using remove_self_run [OF cls] assms(6) by blast
  have gone: "set (ovalues (table_of s' r)) = set (ovalues (table_of s r)) - {t}"
    unfolding self(2) by (rule without_transaction_values [OF assms(4,5)])
  consider "tr_class (rs_trans s t) = JoinerT" "tx_is (rs_trans s t) PkRequest"
    | "tr_class (rs_trans s t) = JoinerT" "\<not> tx_is (rs_trans s t) PkRequest"
    | "tr_class (rs_trans s t) = AllowerT" | "tr_class (rs_trans s t) = AliverT"
    | "tr_class (rs_trans s t) = MessengerT"
    using assms(1) by auto
  then show ?thesis
  proof cases
    case 1
    obtain i where i: "tx_index t s = (Inr i, s)"
      using assms(7) 1(2) by (auto simp: tx_index_def run_simps split: option.splits sum.splits)
    obtain s1 where s1: "trans_remove t i s = (Inr (), s1)"
      "table_of s1 r = without_transaction (canon_index i) (Some t) (table_of s r)"
      using trans_remove_run [OF cls] assms(6) by blast
    then show ?thesis using 1 late i without_transaction_values [OF assms(4,5)]
      by (simp add: trans_process_def Joiner_process_def run_simps remove_tx_def)
  next
    case 2
    then show ?thesis using late self(1) gone
      by (simp add: trans_process_def Joiner_process_def run_simps)
  next
    case 3
    then show ?thesis using late self(1) gone
      by (simp add: trans_process_def Allower_process_def run_simps)
  next
    case 4
    obtain s2 where "refresh E (Some False) (tr_remote (rs_trans s' t)) s' = (Inr (), s2)"
      "table_of s2 r = table_of s' r"
      using refresh_run by blast
    then show ?thesis using late self(1) gone 4
      by (simp add: trans_process_def Aliver_process_def run_simps)
  next
    case 5
    then show ?thesis using late self(1) gone
      by (simp add: trans_process_def Messenger_process_def run_simps)
  qed
qed

end
