(* ===== verification/RoadRaces.thy ===== *)
theory RoadRaces
  imports RoadTimers StackFacts
begin

text \<open>
  Joins: what a race between joins of both sides comes to, what a join can change of a remote that
  is known, and a vacuous join that leaves the table of names wrong.
\<close>

section \<open>Races\<close>

text \<open>Python's order on strings decides between different names, one way or the other.\<close>

lemma str_less_one_way: "a \<noteq> b \<Longrightarrow> str_less a b \<longleftrightarrow> \<not> str_less b a"
proof (induction a b rule: str_less.induct)
  case (3 x xs y ys)
  have "(of_char x :: nat) = of_char y \<longleftrightarrow> x = y" by (rule of_char_eq_iff)
  with 3 show ?case by (auto simp: Let_def)
qed (auto simp: neq_Nil_conv)

definition loses_race :: "bool \<Rightarrow> bool \<Rightarrow> string \<Rightarrow> string \<Rightarrow> bool" where
  "loses_race vacuous own_vacuous own name \<longleftrightarrow>
     vacuous \<and> \<not> own_vacuous \<or> vacuous = own_vacuous \<and> str_less own name"

lemma loses_one_way: "a \<noteq> b \<Longrightarrow> loses_race v w a b \<longleftrightarrow> \<not> loses_race w v b a"
  using str_less_one_way [of a b] by (auto simp: loses_race_def)

lemma Joinent_race_result:
  assumes "j \<noteq> t" "\<not> tr_rmt (rs_trans s j)" "fst (Joinent_race E t name [j] s) = Inr go"
  shows "go \<longleftrightarrow> \<not> loses_race (tr_vacuous (rs_trans s t)) (tr_vacuous (rs_trans s j)) (lot_name (st_local s)) name"
  using assms by (auto simp: run_simps loses_race_def split: prod.splits sum.splits if_splits)

lemma Allowent_race_result:
  assumes "a \<noteq> t" "\<not> tr_rmt (rs_trans s a)" "fst (Allowent_race E t [a] s) = Inr go"
  shows "go \<longleftrightarrow> \<not> str_less (lot_name (st_local s)) (remote_name s (tr_remote (rs_trans s t)))"
  using assms by (auto simp: run_simps split: prod.splits sum.splits if_splits)

text \<open>
  C9: If two estates join each other at the same time, then each of them finds its own join in
  process when the other's request comes, and exactly one of them goes on as the correspondent: the
  one with the join that is not vacuous gives way to none, and otherwise the names decide.
\<close>

theorem join_race_has_one_winner:
  assumes "lot_name (st_local sa) = a" "lot_name (st_local sb) = b" "a \<noteq> b"
    and "ja \<noteq> ta" "\<not> tr_rmt (rs_trans sa ja)" and "jb \<noteq> tb" "\<not> tr_rmt (rs_trans sb jb)"
    and "tr_vacuous (rs_trans sa ta) = tr_vacuous (rs_trans sb jb)"
    and "tr_vacuous (rs_trans sb tb) = tr_vacuous (rs_trans sa ja)"
    and "fst (Joinent_race Ea ta b [ja] sa) = Inr go_a" "fst (Joinent_race Eb tb a [jb] sb) = Inr go_b"
  shows "go_a \<longleftrightarrow> \<not> go_b"
proof -
  have "go_a \<longleftrightarrow> \<not> loses_race (tr_vacuous (rs_trans sb jb)) (tr_vacuous (rs_trans sa ja)) a b"
    using Joinent_race_result [OF assms(4,5,10)] assms(1,8) by simp
  moreover have "go_b \<longleftrightarrow> \<not> loses_race (tr_vacuous (rs_trans sa ja)) (tr_vacuous (rs_trans sb jb)) b a"
    using Joinent_race_result [OF assms(6,7,11)] assms(2,9) by simp
  ultimately show ?thesis using loses_one_way [OF assms(3)] by simp
qed

section \<open>Joins on an immutable road\<close>

text \<open>What a join can tell of a remote: its name, address, role and keys, its id, main flag and kind there.\<close>

definition identity :: "'r road_stack \<Rightarrow> nat \<Rightarrow>
    (string \<times> int \<times> val) \<times> string \<times> int \<times> val \<times> val \<times> verifier \<times> publican" where
  "identity s r =
     (let l = st_lots s r; m = rs_remotes s r in
      ((lot_name l, lot_uid l, lot_ha l), es_role m, rm_fuid m, rm_main m, rm_kind m, rm_verfer m, rm_pubber m))"

interpretation identities: session "\<lambda>s. \<forall>r. identity s r = i r" for i
  by unfold_locales (auto simp: identity_def Let_def)

lemma reply_keeps [keeps_intros]:
  "keeps (\<lambda>s. \<forall>r. identity s r = i r) (Joinent_pendify E t)"
  "keeps (\<lambda>s. \<forall>r. identity s r = i r) (Joinent_ackAccept E t)"
  "keeps (\<lambda>s. \<forall>r. identity s r = i r) (Joiner_pendify E t)"
  "keeps (\<lambda>s. \<forall>r. identity s r = i r) (Joiner_completify E t)"
  unfolding Joinent_pendify_def Joinent_ackPend_def Joinent_ackAccept_def Joiner_pendify_def
    Joiner_ackPend_def Joiner_completify_def Joiner_ackAccept_def
  by (intro keeps_intros)+

lemma Joinent_place_same: "keeps (\<lambda>s. \<forall>r. identity s r = i r) (Joinent_place E t r rha reid j True)"
  unfolding Joinent_place_def by (simp, intro keeps_intros)

lemma Joinent_admit_immutable:
  assumes "\<not> rv_mutable E"
  shows "keeps (\<lambda>s. \<forall>r. identity s r = i r) (Joinent_admit E t rha reid j)"
proof -
  have "keeps (\<lambda>s. \<forall>r. identity s r = i r) (Joinent_place E t r rha reid j same)"
    if "\<not> (\<not> same \<and> \<not> rv_mutable E)" for r same
    using that assms Joinent_place_same [of i E t r rha reid j] by simp
  then show ?thesis unfolding Joinent_admit_def Let_def by (intro keeps_intros)
qed

lemma Joiner_accepted_immutable:
  assumes "\<not> rv_mutable E"
  shows "keeps (\<lambda>s. \<forall>r. identity s r = i r) (Joiner_accepted E t r rha j)"
proof -
  have "keeps (\<lambda>s. \<forall>r. identity s r = i r)
      (if same then eret True else Joiner_change E t r rha j)"
    if "\<not> (\<not> same \<and> \<not> rv_mutable E)" for r same
    using that assms by simp
  then show ?thesis unfolding Joiner_accepted_def Let_def by (intro keeps_intros) (use assms in auto)
qed

lemma Joinent_race_keeps [keeps_intros]: "keeps (\<lambda>s. \<forall>r. identity s r = i r) (Joinent_race E t name js)"
  by (induction js) (simp, simp only: Joinent_race.simps, intro keeps_intros)

lemma Joinent_proceed_immutable:
  assumes "\<not> rv_mutable E" "leid \<noteq> 0"
  shows "keeps (\<lambda>s. \<forall>r. identity s r = i r) (Joinent_proceed E t rha reid j leid)"
proof -
  have "(if leid = 0 then Joinent_vacuous E t reid j else Joinent_known E t leid) = Joinent_known E t leid"
    using assms(2) by simp
  moreover have "keeps (\<lambda>s. \<forall>r. identity s r = i r) (Joinent_known E t leid)"
    unfolding Joinent_known_def by (intro keeps_intros)
  ultimately show ?thesis unfolding Joinent_proceed_def
    by (simp only:) (intro keeps_intros Joinent_admit_immutable [OF assms(1)])
qed

lemma Joinent_request_immutable:
  assumes "\<not> rv_mutable E" "int_item d ''de'' \<noteq> Inr 0"
  shows "keeps (\<lambda>s. \<forall>r. identity s r = i r) (Joinent_request E t d)"
proof (cases "int_item d ''de''")
  case (Inr leid)
  then have "leid \<noteq> 0" using assms(2) by simp
  then show ?thesis unfolding Joinent_request_def Inr ebind_known
    by (intro keeps_intros Joinent_proceed_immutable [OF assms(1)])
next
  case (Inl e)
  show ?thesis unfolding Joinent_request_def Inl ebind_known by (intro keeps_intros)
qed

text \<open>The transaction stays as it is but for its packet until it is looked at.\<close>

lemma Joiner_response_immutable:
  assumes "\<not> rv_mutable E" "\<not> tr_vacuous (rs_trans s t)" "\<forall>r. identity s r = i r"
  shows "\<forall>r. identity (snd (Joiner_response E t d s)) r = i r"
proof -
  let ?P = "\<lambda>s. \<forall>r. identity s r = i r"
  let ?m = "\<lambda>tr j. ebind (eret True) (\<lambda>ok. ewhen ok (Joiner_accepted E t (tr_remote tr) (source_ha d) j))"
  have keep: "?P (snd (?m tr j s))" "?P (snd (ethen (incStat ''invalid_accept'' 1) (remove_tx t) s))" for tr j
    by (rule keepsD [of ?P, OF _ assms(3)], intro keeps_intros Joiner_accepted_immutable [OF assms(1)])+
  show ?thesis using assms(2,3) keep
    by (simp add: Joiner_response_def eff_run(6) rx_body_run eff_run(5) access_run Let_def
        split: option.split sum.split) blast
qed

lemma same_identity: "same_road s s' \<Longrightarrow> identity s' r = identity s r"
  by (cases s; cases s') (simp add: same_road_def identity_def)

text \<open>
  C10: On an immutable road no join that names the other side by its id changes who a remote is: a
  request to a correspondent, or the acceptance of a join that was not vacuous, leaves the name,
  address, role, keys, ids, main flag and kind of every remote as they are. It can only be refused,
  or confirm what is known.
\<close>

theorem immutable_road_keeps_identities:
  assumes "\<not> rv_mutable E"
    and "\<And>p q. tr_rxPacket (rs_trans s t) = Some p \<Longrightarrow> RxPacket_parseInner (road_codec E s) p = Inr q \<Longrightarrow>
      int_item (rp_data q) ''de'' \<noteq> Inr 0"
    and "\<not> tr_vacuous (rs_trans s u)"
  shows "identity (snd (Joinent_join E t s)) r = identity s r \<and>
    identity (snd (Joiner_accept E u s)) r = identity s r"
proof
  let ?P = "\<lambda>s'. \<forall>r. identity s' r = identity s r"
  have start: "?P (with_rx t q s)" for t q by (simp add: identity_def)
  have "?P (snd (Joinent_join E t s))"
    unfolding Joinent_join_def
  proof (rule when_parsed_from)
    fix p q
    assume "tr_rxPacket (rs_trans s t) = Some p" "RxPacket_parseInner (road_codec E s) p = Inr q"
    then have "int_item (rp_data q) ''de'' \<noteq> Inr 0" by (rule assms(2))
    then show "?P (snd (ebind (rx_data t) (Joinent_request E t) (with_rx t q s)))"
      unfolding rx_data_bind by (rule keepsD [OF Joinent_request_immutable [OF assms(1)] start])
  qed (simp add: same_identity)
  then show "identity (snd (Joinent_join E t s)) r = identity s r" ..
  have "?P (snd (Joiner_accept E u s))"
    unfolding Joiner_accept_def
  proof (rule when_parsed_from)
    fix p q
    show "?P (snd (ebind (rx_data u) (Joiner_response E u) (with_rx u q s)))"
      unfolding rx_data_bind by (rule Joiner_response_immutable [OF assms(1) _ start]) (simp add: assms(3))
  qed (simp add: same_identity)
  then show "identity (snd (Joiner_accept E u s)) r = identity s r" ..
qed

section \<open>A vacuous join of a remote in the tables\<close>

text \<open>
  C32: A vacuous join from an address at which the stack already has a remote, which it has itself
  begun to join, renames that remote without its table of names: the remote is then found under its
  former name only, and cannot be removed any more, because the removal ends with a \<open>KeyError\<close> after
  it has taken the remote out of one of the two tables.
\<close>

theorem vacuous_join_breaks_names:
  assumes "rv_main E" and "r = tr_remote (rs_trans s t)" and "ji_name j \<noteq> remote_name s r"
    and "oget (st_uidRemotes s) (remote_uid s r) = Some r"
    and "oget (st_nameRemotes s) (remote_name s r) = Some r"
    and "oget (st_nameRemotes s) (ji_name j) = None"
    and "fst (Joinent_vacuous E t reid j s) = Inr True"
  shows "let s' = snd (Joinent_vacuous E t reid j s) in
      remote_name s' r = ji_name j \<and> oget (st_nameRemotes s') (ji_name j) = None \<and>
      oget (st_nameRemotes s') (remote_name s r) = Some r \<and> \<not> tables_ok s' \<and>
      fst (removeRemote r s') = Inl KeyError \<and> oget (st_uidRemotes (snd (removeRemote r s'))) (remote_uid s r) = None"
proof -
  obtain s' where run: "Joinent_vacuous E t reid j s = (Inr True, s')"
    using assms(7) by (cases "Joinent_vacuous E t reid j s") auto
  have s': "remote_name s' r = ji_name j" "remote_uid s' r = remote_uid s r"
    "st_uidRemotes s' = st_uidRemotes s" "st_nameRemotes s' = st_nameRemotes s"
    using run assms(1,2,6)
    by (auto simp: Joinent_vacuous_def run_simps set_name_def take_identity_def remote_name_def remote_uid_def
        set_lot_def split: sum.splits prod.splits if_splits)
  have "\<not> tables_ok s'"
    unfolding tables_ok_def same_objects_def s'(3,4) using assms(3,5) s'(1) by metis
  moreover have "\<not> ohas (st_nameRemotes s') (ji_name j)" "ohas (st_uidRemotes s') (remote_uid s r)"
    using assms(4,6) s'(3,4) by (simp_all add: ohas_iff)
  ultimately show ?thesis
    unfolding run using s' assms(4,5,6)
    by (simp add: removeRemote_def run_simps remote_name_def remote_uid_def Let_def oget_odel)
qed

end
