(* ===== verification/AllowFacts.thy ===== *)
theory AllowFacts
  imports RoadFacts
begin

text \<open>
  What a correspondent's allow does when the other side proves its identity: the counterpart of
  what an allow needs in \<open>RoadFacts\<close>.
\<close>

section \<open>After the proof\<close>

interpretation granted: bookkeeping "\<lambda>s. rm_allowed (rs_remotes s r) = Some True" for r
  by unfold_locales auto

lemma granted_sets [keeps_intros]:
  "keeps (\<lambda>s. rm_allowed (rs_remotes s r) = Some True) (saveMessage r' t)"
  "keeps (\<lambda>s. rm_allowed (rs_remotes s r) = Some True) (next_sid r')"
  "keeps (\<lambda>s. rm_allowed (rs_remotes s r) = Some True) (dump_remote E r')"
proof -
  show "keeps (\<lambda>s. rm_allowed (rs_remotes s r) = Some True) (saveMessage r' t)"
    unfolding saveMessage_def rmod_def by (intro keeps_intros) auto
  show "keeps (\<lambda>s. rm_allowed (rs_remotes s r) = Some True) (next_sid r')"
    unfolding next_sid_def by (rule keeps_emod) (simp add: set_lot_def)
  show "keeps (\<lambda>s. rm_allowed (rs_remotes s r) = Some True) (dump_remote E r')"
    unfolding dump_remote_def by (intro keeps_intros) (simp add: keeps_def on_files_def split: prod.split)
qed

lemma Allowent_allow_grants:
  "rm_allowed (rs_remotes (snd (Allowent_allow E t s)) (tr_remote (rs_trans s t))) = Some True"
proof -
  let ?r = "tr_remote (rs_trans s t)"
  let ?P = "\<lambda>s. rm_allowed (rs_remotes s ?r) = Some True"
  have kept: "keeps ?P (ethen (next_sid ?r) (ethen (replaceStaleInitiators (trans_nack E) ?r) (dump_remote E ?r)))"
    unfolding replaceStaleInitiators_def by (intro keeps_intros)
  have run: "Allowent_allow E t s = ethen (next_sid ?r) (ethen (replaceStaleInitiators (trans_nack E) ?r)
      (dump_remote E ?r)) (s\<lparr>rs_remotes := (rs_remotes s)(?r := (rs_remotes s ?r)\<lparr>rm_allowed := Some True,
        rm_alived := Some True\<rparr>)\<rparr>)"
    by (simp add: Allowent_allow_def tget_bind set_allowed_def ethen_def [of "rmod _ _"] ebind_def access_run)
  show ?thesis unfolding run by (rule keepsD [OF kept]) simp
qed

lemma transmit_own_run:
  assumes "ohas (st_uidRemotes s) (remote_uid s (tr_remote (rs_trans s t)))"
  shows "\<exists>s'. trans_transmit t (OwnPacket p) s = (Inr (), s') \<and>
    tr_remote (rs_trans s' t) = tr_remote (rs_trans s t) \<and>
    tr_class (rs_trans s' t) = tr_class (rs_trans s t)"
  using assms
  by (auto simp: trans_transmit_def run_simps packet_of_def tx_def restart_redo_def ohas_iff etry_def)

definition packing_frame :: "'r road_stack \<Rightarrow> (nat \<Rightarrow> transaction) \<times> (int, nat) odict \<times> (nat \<Rightarrow> val lot)" where
  "packing_frame s = (rs_trans s, st_uidRemotes s, st_lots s)"

interpretation packs: quiet "\<lambda>s. packing_frame s = f" for f
  by unfold_locales (simp_all add: packing_frame_def)

lemma take_nonce_returns: "fst (take_nonce E c p s) = Inr ()"
  by (simp add: take_nonce_def on_random_def Privateer_nonce_def random_def run_simps split: sum.split prod.split)

lemma make_packet_run:
  assumes "TxPacket_init data (Some (pckt_value k)) b = Inr p" "TxPacket_pack (road_codec E s) p = Inr q"
  shows "\<exists>s'. make_packet E k b data s = (Inr (Some q), s') \<and> packing_frame s' = packing_frame s"
proof -
  obtain s' where "make_packet E k b data s = (Inr (Some q), s')"
    using assms take_nonce_returns [of E "road_codec E s" p s] by (cases "take_nonce E (road_codec E s) p s")
      (simp add: make_packet_def pack_packet_def count_packet_error_def run_simps)
  then show ?thesis using keepsD [OF packs.make_packet, of s "packing_frame s" E k b data] by auto
qed

lemma Allowent_ackInitiate_grants:
  assumes "TxPacket_init (tr_txData (rs_trans s t)) (Some (pckt_value PkAck)) RAW_BODY = Inr p"
    and "TxPacket_pack (road_codec E s) p = Inr q"
    and "ohas (st_uidRemotes s) (remote_uid s (tr_remote (rs_trans s t)))"
  shows "rm_allowed (rs_remotes (snd (Allowent_ackInitiate E t s)) (tr_remote (rs_trans s t))) = Some True"
proof -
  obtain s1 where s1: "make_packet E PkAck RAW_BODY (tr_txData (rs_trans s t)) s = (Inr (Some q), s1)"
    "packing_frame s1 = packing_frame s" using make_packet_run [OF assms(1,2)] by blast
  then have "ohas (st_uidRemotes s1) (remote_uid s1 (tr_remote (rs_trans s1 t)))" "rs_trans s1 = rs_trans s"
    using assms(3) by (simp_all add: packing_frame_def remote_uid_def)
  then obtain s2 where "trans_transmit t (OwnPacket q) s1 = (Inr (), s2)"
    "tr_remote (rs_trans s2 t) = tr_remote (rs_trans s t)" using transmit_own_run [of s1 t q] by auto
  then show ?thesis using s1(1) Allowent_allow_grants [of E t s2]
    by (simp add: Allowent_ackInitiate_def packing_def trans_data_def eff_run(6,7) access_run)
qed

lemma unpack_initiate:
  assumes "length b = struct_size INITIATE_PACKER"
  shows "struct_unpack INITIATE_PACKER b = Inr [FBytes (take 32 b), FBytes (take 24 (drop 32 b)),
     FBytes (take 248 (drop 24 (drop 32 b))), FBytes (take 24 (drop 248 (drop 24 (drop 32 b))))]"
  unfolding struct_unpack_def using assms by (simp add: INITIATE_PACKER_def del: drop_drop)

lemma Allowent_initiate_grants:
  assumes "tr_rxPacket (rs_trans s t) = Some p" and "RxPacket_parseInner (road_codec E s) p = Inr q"
    and "rp_embody q = BRaw b" and "length b = struct_size INITIATE_PACKER" and "proves_identity E s t b"
    and "TxPacket_init (tr_txData (rs_trans s t)) (Some (pckt_value PkAck)) RAW_BODY = Inr a"
    and "TxPacket_pack (road_codec E s) a = Inr a'"
    and "ohas (st_uidRemotes s) (remote_uid s (tr_remote (rs_trans s t)))"
  shows "rm_allowed (rs_remotes (snd (Allowent_initiate E t s)) (tr_remote (rs_trans s t))) = Some True"
proof -
  let ?s = "with_rx t q s"
  have c: "road_codec E ?s = road_codec E s" by (simp add: road_codec_def with_rx_def remote_keys_def)
  have "rm_allowed (rs_remotes (snd (Allowent_ackInitiate E t ?s)) (tr_remote (rs_trans ?s t))) = Some True"
    using assms(6,7,8) by (intro Allowent_ackInitiate_grants [of ?s t a E a']) (simp_all add: c remote_uid_def)
  moreover have "Allowent_initiate E t s = Allowent_ackInitiate E t ?s"
    using assms(1-3,5) unfolding proves_identity_def vouched_iff [symmetric] unpack_initiate [OF assms(4)] Let_def
    by (auto simp: Allowent_initiate_def when_parsed_def with_rx_def run_simps raw_body_def assms(4)
        unpack_initiate Let_def get_priver_def split: sum.splits)
  ultimately show ?thesis by (simp add: with_rx_def)
qed

text \<open>
  C7: An initiate packet that proves its sender's identity makes the remote allowed, if the answer can
  be packed and the remote is still on the road.
\<close>

theorem allow_accepts_proof:
  assumes "tr_rxPacket (rs_trans s t) = Some p" and "RxPacket_parseInner (road_codec E s) p = Inr q"
    and "rp_embody q = BRaw b" and "length b = struct_size INITIATE_PACKER" and "proves_identity E s t b"
    and "TxPacket_init (tr_txData (rs_trans s t)) (Some (pckt_value PkAck)) RAW_BODY = Inr a"
    and "TxPacket_pack (road_codec E s) a = Inr a'"
    and "ohas (st_uidRemotes s) (remote_uid s (tr_remote (rs_trans s t)))"
  shows "rm_allowed (rs_remotes (snd (Allowent_initiate E t s)) (tr_remote (rs_trans s t))) = Some True"
  by (rule Allowent_initiate_grants [OF assms])

end
