(* ===== verification/Delivery.thy ===== *)
theory Delivery
  imports RoadRaces AllowFacts
begin

text \<open>
  The delivery of messages to the application: what the end of a message transaction does, and what
  a message needs to be delivered.
\<close>

section \<open>The end of a message\<close>

definition message_end ::
    "'r road_stack \<Rightarrow> nat \<Rightarrow> (body option \<times> nat \<times> int \<times> trns_class) \<times> string \<times> tindex \<times> (body \<times> string) list" where
  "message_end s t =
     (let tr = rs_trans s t in
      ((rt_body (tr_rxtray tr), tr_remote tr, tr_tid tr, tr_class tr), remote_name s (tr_remote tr), own_index s t,
       st_rxMsgs s))"

interpretation ending: sending "\<lambda>s. message_end s t = e" for t e
  by unfold_locales (auto simp: message_end_def own_index_def remote_name_def remote_uid_def Let_def)

lemma removed_index: "oget (without_transaction i (Some t) ts) i \<noteq> Some t"
proof (cases "ohas ts i \<and> oget ts i = Some t")
  case False
  have "oget (filter (\<lambda>e. snd e \<noteq> t) ts) i \<noteq> Some t"
    by (auto simp: oget_def dest: map_of_SomeD)
  then show ?thesis using False by (auto simp: without_transaction_def)
qed (simp add: without_transaction_def)

lemma canon_own_index [simp]: "canon_index (own_index s t) = own_index s t"
proof -
  have "canon (canon v) = canon v" for v by (cases v) auto
  moreover have "canon_eid (canon_eid e) = canon_eid e" for e using calculation by (cases e) auto
  ultimately show ?thesis by (simp add: own_index_def canon_index_def Let_def)
qed

lemma remove_messengent_run:
  assumes "tr_class (rs_trans s t) = MessengentT" "r = tr_remote (rs_trans s t)"
  shows "\<exists>s'. remove_self t s = (Inr (), s') \<and> st_rxMsgs s' = st_rxMsgs s \<and>
    oget (table_of s' r) (own_index s t) \<noteq> Some t \<and>
    ohas (rm_doneTransactions (rs_remotes s' r)) (tr_tid (rs_trans s t))"
  using assms removed_index [of "own_index s t" t "rm_transactions (rs_remotes s r)"]
  by (simp add: remove_self_def trans_remove_def leave_joinees_def removeTransaction_def
      addDoneTransaction_def run_simps table_of_def)

lemma late_copy:
  assumes "is_trns (rp_data p) TkMessage" "is_pckt (rp_data p) PkMessage"
    "int_item (rp_data p) ''ti'' = Inr tid" "ohas (rm_doneTransactions (rs_remotes s r)) tid"
  shows "same_road s (snd (correspond E p r s))"
proof -
  have "correspond E p r s = stack_replyStale E p False s"
    using assms by (simp add: correspond_def is_trns_def head_is_def is_int_def run_simps Let_def)
  moreover have "same_road s (snd (stack_replyStale E p False s))"
    by (rule keepsD [OF dropped.stack_replyStale]) simp
  ultimately show ?thesis by simp
qed

lemma Messengent_complete_run:
  assumes "tr_class (rs_trans s t) = MessengentT" "r = tr_remote (rs_trans s t)"
    "Messengent_complete E t s = (Inr (), s')"
  shows "st_rxMsgs s' = st_rxMsgs s @
      [(case rt_body (tr_rxtray (rs_trans s t)) of None \<Rightarrow> BData VNone | Some b \<Rightarrow> b, remote_name s r)]"
    and "oget (table_of s' r) (own_index s t) \<noteq> Some t"
    and "ohas (rm_doneTransactions (rs_remotes s' r)) (tr_tid (rs_trans s t))"
proof -
  let ?b = "case rt_body (tr_rxtray (rs_trans s t)) of None \<Rightarrow> BData VNone | Some b \<Rightarrow> b"
  obtain s1 where d: "Messengent_done E t s = (Inr (), s1)"
    using assms(3) by (auto simp: Messengent_complete_def run_simps split: prod.splits sum.splits)
  have "keeps (\<lambda>s'. message_end s' t = message_end s t) (Messengent_done E t)"
    unfolding Messengent_done_def by (intro keeps_intros)
  then have e: "message_end s1 t = message_end s t" using d by (auto dest: keepsD [of _ _ s])
  then have s1: "rt_body (tr_rxtray (rs_trans s1 t)) = rt_body (tr_rxtray (rs_trans s t))"
    "tr_remote (rs_trans s1 t) = r" "tr_tid (rs_trans s1 t) = tr_tid (rs_trans s t)"
    "tr_class (rs_trans s1 t) = MessengentT" "remote_name s1 r = remote_name s r"
    "own_index s1 t = own_index s t" "st_rxMsgs s1 = st_rxMsgs s"
    using assms(1,2) by (auto simp: message_end_def Let_def)
  let ?s2 = "s1\<lparr>st_rxMsgs := st_rxMsgs s1 @ [(?b, remote_name s r)]\<rparr>"
  have "own_index ?s2 t = own_index s t" using s1(6) by (simp add: own_index_def Let_def remote_uid_def)
  then obtain s3 where s3: "remove_self t ?s2 = (Inr (), s3)" "st_rxMsgs s3 = st_rxMsgs ?s2"
    "oget (table_of s3 r) (own_index s t) \<noteq> Some t"
    "ohas (rm_doneTransactions (rs_remotes s3 r)) (tr_tid (rs_trans s t))"
    using remove_messengent_run [of ?s2 t r] s1 by auto
  have "s' = snd (incStat ''messagent_correspond_complete'' 1 s3)"
    using assms(3) d s1(1,2,5) s3(1)
    by (simp add: Messengent_complete_def run_simps Let_def incStat_def split: prod.splits)
  then show "st_rxMsgs s' = st_rxMsgs s @ [(?b, remote_name s r)]"
    "oget (table_of s' r) (own_index s t) \<noteq> Some t"
    "ohas (rm_doneTransactions (rs_remotes s' r)) (tr_tid (rs_trans s t))"
    using s3 s1(7) by (simp_all add: incStat_def run_simps table_of_def)
qed

text \<open>
  C8: When a message is complete it is given to the application once, with the name of the remote
  that sent it; the transaction can no more be found by its index, and a copy of a packet of the
  message that comes then, as long as the remote has the transaction among its done ones, is at most
  answered with a nack: it starts no transaction and delivers nothing.
\<close>

theorem message_is_delivered_once:
  assumes "tr_class (rs_trans s t) = MessengentT" and "r = tr_remote (rs_trans s t)"
    and "rt_body (tr_rxtray (rs_trans s t)) = Some b"
    and "Messengent_complete E t s = (Inr (), s')"
  shows "st_rxMsgs s' = st_rxMsgs s @ [(b, remote_name s r)] \<and>
    oget (table_of s' r) (own_index s t) \<noteq> Some t \<and>
    (\<forall>p. is_trns (rp_data p) TkMessage \<and> is_pckt (rp_data p) PkMessage \<and>
       int_item (rp_data p) ''ti'' = Inr (tr_tid (rs_trans s t)) \<longrightarrow>
       same_road s' (snd (correspond E p r s')))"
  using Messengent_complete_run [OF assms(1,2,4)] assms(3) late_copy by fastforce

section \<open>What a message needs\<close>

text \<open>
  The first packet of a message of the other side: it names the remote by its id and the present
  session, and no transaction has its index.
\<close>

definition begins_message :: "'r road_stack \<Rightarrow> hdata \<Rightarrow> nat \<Rightarrow> bool" where
  "begins_message s d r \<longleftrightarrow>
     \<not> py_true (oget_or d ''bf'' VNone) \<and> \<not> py_true (oget_or d ''cf'' VNone) \<and>
     \<not> py_true (oget_or d ''af'' VNone) \<and> is_trns d TkMessage \<and> is_pckt d PkMessage \<and>
     (case (int_item d ''de'', int_item d ''se'', int_item d ''si'', int_item d ''ti'') of
        (Inr de, Inr se, Inr si, Inr ti) \<Rightarrow>
          de \<noteq> 0 \<and> se \<noteq> 0 \<and> si \<noteq> 0 \<and> oget (st_uidRemotes s) de = Some r \<and>
          si = rm_rsid (rs_remotes s r) \<and> \<not> ohas (rm_doneTransactions (rs_remotes s r)) ti \<and>
          (case RxPacket_index d of Inl _ \<Rightarrow> False | Inr i \<Rightarrow> oget (table_of s r) (canon_index i) = None)
      | _ \<Rightarrow> False)"

lemma validRsid_same [simp]: "validRsid m (rm_rsid m)"
  by (simp add: validRsid_def validateSid_def sid_constants)

lemma is_trns_other: "is_trns d TkMessage \<Longrightarrow> \<not> is_trns d TkJoin"
  "is_trns d TkMessage \<Longrightarrow> \<not> is_trns d TkAllow" "is_trns d TkMessage \<Longrightarrow> \<not> is_trns d TkAlive"
  by (simp_all add: is_trns_def head_is_def is_int_def)

lemma processRx_begins:
  assumes "begins_message s (rp_data p) r" "rm_reaped (rs_remotes s r) \<noteq> Some True"
  shows "processRx E p s = stack_replyMessage E p r s"
proof -
  let ?d = "rp_data p"
  obtain de se si ti i where ids: "int_item ?d ''de'' = Inr de" "int_item ?d ''se'' = Inr se"
    "int_item ?d ''si'' = Inr si" "int_item ?d ''ti'' = Inr ti" "de \<noteq> 0" "se \<noteq> 0" "si \<noteq> 0"
    "oget (st_uidRemotes s) de = Some r" "si = rm_rsid (rs_remotes s r)"
    "\<not> ohas (rm_doneTransactions (rs_remotes s r)) ti"
    "RxPacket_index ?d = Inr i" "oget (rm_transactions (rs_remotes s r)) (canon_index i) = None"
    using assms(1) by (auto simp: begins_message_def table_of_def split: sum.splits)
  have flags: "\<not> py_true (oget_or ?d ''bf'' VNone)" "\<not> py_true (oget_or ?d ''cf'' VNone)"
    "\<not> py_true (oget_or ?d ''af'' VNone)" "is_trns ?d TkMessage" "is_pckt ?d PkMessage"
    using assms(1) by (auto simp: begins_message_def)
  have "find_remote E p s = (Inr (Some (Target (Some r))), s)"
    using ids flags is_trns_other assms(2)
    by (simp add: find_remote_def nonjoin_remote_def in_session_def run_simps Let_def)
  moreover have "correspond E p r s = stack_replyMessage E p r s"
    using ids flags is_trns_other by (simp add: correspond_def run_simps Let_def)
  ultimately show ?thesis using ids flags by (simp add: processRx_def run_simps Let_def)
qed

text \<open>Coats and feet that say that there is no encryption and no signature.\<close>

lemma open_plain_body:
  assumes "oget (rp_data p) ''ck'' = Some (VInt 0)" "oget (rp_data p) ''bk'' = Some (VInt 1)"
    "RxPacket_unpackInner p = Inr p1" "rp_coat p1 \<noteq> []" "json_loads c (rp_coat p1) = Some (VDict b)"
  shows "\<exists>q. RxPacket_parseInner c p = Inr q \<and> rp_embody q = BData (VDict b)"
proof -
  have "rp_data p1 = rp_data p"
    using assms(3) by (auto simp: RxPacket_unpackInner_def rbind_def split: sum.splits option.splits)
  moreover have "coat_of 0 = Some CkNada" "body_of 1 = Some BkJson" by (simp_all add: coat_of_val body_of_val)
  ultimately show ?thesis using assms
    by (simp add: RxPacket_parseInner_def RxCoat_parse_def RxBody_parse_def oitem_def loaded_mapping_def)
qed

lemma Messengent_init_run:
  assumes "Messengent_init r p s = (Inr t, s1)"
  shows "tr_class (rs_trans s1 t) = MessengentT \<and> tr_remote (rs_trans s1 t) = r \<and>
    tr_rxPacket (rs_trans s1 t) = Some p \<and> tr_rxtray (rs_trans s1 t) = RxTray_init [] \<and>
    rs_remotes s1 = rs_remotes s \<and> st_lots s1 = st_lots s \<and> st_rxMsgs s1 = st_rxMsgs s"
  using assms
  by (auto simp: Messengent_init_def reply_init_def run_simps new_transaction_def with_redo_def
      Transaction_init_def split: sum.splits prod.splits)

definition message_ready :: "'r road_stack \<Rightarrow> nat \<Rightarrow> trns_class \<times> nat \<times> rxtray \<times> string \<times> (body \<times> string) list" where
  "message_ready s t =
     (let tr = rs_trans s t in
      (tr_class tr, tr_remote tr, tr_rxtray tr, remote_name s (tr_remote tr), st_rxMsgs s))"

lemma add_if_missing_ready:
  assumes "add_if_missing t s = (Inr x, s')"
  shows "message_ready s' t = message_ready s t"
  using assms
  by (auto simp: add_if_missing_def add_self_def trans_add_def addTransaction_def enter_joinees_def
      run_simps message_ready_def Let_def remote_name_def split: if_splits)

lemma refresh_ready: "message_ready (snd (refresh E a r s)) t = message_ready s t"
  by (auto simp: refresh_def run_simps unreap_def incStat_def message_ready_def Let_def remote_name_def
      split: option.split)

lemma Messengent_message_single:
  assumes "Messengent_message E t s = (Inr (), s')" "tr_class (rs_trans s t) = MessengentT"
    "tr_remote (rs_trans s t) = r" "rm_allowed (rs_remotes s r) = Some True"
    "tr_rxPacket (rs_trans s t) = Some p"
    "RxTray_parse (road_codec E s) (tr_rxtray (rs_trans s t)) p = Inr (tray, x)"
    "rt_complete tray" "rt_body tray = Some b"
  shows "st_rxMsgs s' = st_rxMsgs s @ [(b, remote_name s r)]"
proof -
  let ?s = "s\<lparr>rs_trans := (rs_trans s)(t := (rs_trans s t)\<lparr>tr_rxtray := tray\<rparr>)\<rparr>"
  have parse: "parse_tray E t s = (Inr (), ?s)" using assms(5,6) by (simp add: parse_tray_def run_simps)
  obtain s2 where add: "add_if_missing t ?s = (Inr (), s2)"
    using assms(1,3,4) parse
    by (auto simp: Messengent_message_def run_simps split: prod.splits sum.splits)
  obtain y s3 where rf: "refresh E (Some True) r s2 = (y, s3)" by fastforce
  then have "y = Inr ()" using refresh_run [of E "Some True" r s2] by auto
  obtain s4 where stat: "incStat ''message_segment_rx'' 1 s3 = (Inr (), s4)"
    by (simp add: incStat_def run_simps)
  have ready: "message_ready s4 t = message_ready ?s t"
    using add_if_missing_ready [OF add] refresh_ready [of E "Some True" r s2 t] rf stat
    by (auto simp: message_ready_def incStat_def run_simps Let_def remote_name_def)
  have rest: "ebind (rx_data t) (\<lambda>d.
      ethen (tmod t (\<lambda>tr. tr\<lparr>tr_wait := oget_or d ''wf'' VNone\<rparr>))
       (ebind (tget t id) (\<lambda>tr.
        if rt_complete (tr_rxtray tr) then Messengent_complete E t
        else ewhen (py_true (tr_wait tr)) (ask_missing E t)))) s4 = (Inr (), s')"
    using assms(1,3,4) parse add rf \<open>y = Inr ()\<close> stat
    by (simp add: Messengent_message_def eff_run access_run)
  obtain w where w: "rx_data t s4 = (Inr w, s4)"
    using rest by (auto simp: rx_data_def run_simps split: option.splits)
  let ?s5 = "s4\<lparr>rs_trans := (rs_trans s4)(t := (rs_trans s4 t)\<lparr>tr_wait := oget_or w ''wf'' VNone\<rparr>)\<rparr>"
  have s5: "tr_class (rs_trans ?s5 t) = MessengentT" "r = tr_remote (rs_trans ?s5 t)"
    "tr_rxtray (rs_trans ?s5 t) = tray" "remote_name ?s5 r = remote_name s r" "st_rxMsgs ?s5 = st_rxMsgs s"
    using ready assms(2,3) by (auto simp: message_ready_def Let_def remote_name_def)
  have "Messengent_complete E t ?s5 = (Inr (), s')"
    using rest w s5(3) assms(7) by (simp add: eff_run access_run)
  from Messengent_complete_run(1) [OF s5(1,2) this] show ?thesis using s5(3,4,5) assms(8) by simp
qed

text \<open>
  C33: A message packet of the present session of an allowed remote is delivered in the name of that
  remote although its header says that it is neither signed nor encrypted, and wherever it came from:
  what the message needs are the ids of the two sides and of the session, but no key. The stack
  checks a signature, and decrypts a body, only when the packet's own header tells it to.
\<close>

theorem unsigned_message_is_delivered:
  assumes "begins_message s (rp_data p) r" and "rm_allowed (rs_remotes s r) = Some True"
    and "rm_reaped (rs_remotes s r) \<noteq> Some True"
    and "oget (rp_data p) ''fk'' = Some (VInt 0)" and "oget (rp_data p) ''ck'' = Some (VInt 0)"
    and "oget (rp_data p) ''bk'' = Some (VInt 1)" and "oget (rp_data p) ''sc'' = Some (VInt 1)"
    and "RxPacket_unpackInner p = Inr p1" and "rp_coat p1 \<noteq> []"
    and "json_loads (rv_codec E) (rp_coat p1) = Some (VDict b)"
    and "processRx E p s = (Inr (), s')" and "oget (rp_data p) ''sn'' = Some (VInt 0)"
  shows "st_rxMsgs s' = st_rxMsgs s @ [(BData (VDict b), remote_name s r)]"
proof -
  have "stack_replyMessage E p r s = (Inr (), s')"
    using processRx_begins [OF assms(1,3)] assms(11) by simp
  then obtain t s1 where run: "Messengent_init r p s = (Inr t, s1)" "Messengent_message E t s1 = (Inr (), s')"
    by (auto simp: stack_replyMessage_def run_simps split: prod.splits sum.splits)
  note s1 = Messengent_init_run [OF run(1)]
  have "json_loads (road_codec E s1) (rp_coat p1) = Some (VDict b)"
    using assms(10) by (simp add: road_codec_def)
  then obtain q where q: "RxPacket_parseInner (road_codec E s1) p = Inr q" "rp_embody q = BData (VDict b)"
    using open_plain_body [OF assms(5,6,8,9)] by blast
  obtain tray x where tray: "RxTray_parse (road_codec E s1) (RxTray_init []) p = Inr (tray, x)"
    "rt_complete tray" "rt_body tray = Some (BData (VDict b))"
    using assms(7,12) q by (auto simp: RxTray_parse_def int_item_def rbind_def oitem_def Let_def)
  have "st_rxMsgs s' = st_rxMsgs s1 @ [(BData (VDict b), remote_name s1 r)]"
    using Messengent_message_single [OF run(2), of r p tray x] s1 assms(2) tray by simp
  then show ?thesis using s1 by (simp add: remote_name_def)
qed

section \<open>Messages whose answer can be packed\<close>

text \<open>What a codec needs of the state, and runs that leave it as it is.\<close>

definition keys_view :: "'r road_stack \<Rightarrow> (int, nat) odict \<times> (nat \<Rightarrow> val lot) \<times> local_part \<times> 'r \<times>
    (nat \<Rightarrow> verifier \<times> privateer \<times> publican)" where
  "keys_view s = (st_uidRemotes s, st_lots s, rs_local s, rs_rand s,
     \<lambda>r. (rm_verfer (rs_remotes s r), rm_privee (rs_remotes s r), rm_publee (rs_remotes s r)))"

lemma road_codec_cong:
  assumes "keys_view s' = keys_view s"
  shows "road_codec E s' = road_codec E s"
proof -
  have "(rm_verfer (rs_remotes s' r), rm_privee (rs_remotes s' r), rm_publee (rs_remotes s' r)) =
      (rm_verfer (rs_remotes s r), rm_privee (rs_remotes s r), rm_publee (rs_remotes s r))" for r
    using assms unfolding keys_view_def prod.inject by (blast dest: fun_cong)
  then have "remote_keys E s' r = remote_keys E s r" for r
    using assms by (simp add: keys_view_def remote_keys_def remote_verify_def remote_encrypt_def
        remote_decrypt_def peer_public_def fun_eq_iff)
  then show ?thesis using assms by (simp add: road_codec_def keys_view_def)
qed

lemma trans_message_run:
  assumes "\<not> ohas (rm_transactions (rs_remotes s (tr_remote (rs_trans s t)))) (own_index s t)"
    and "tr_class (rs_trans s t) = MessengentT"
  shows "\<exists>s'. add_if_missing t s = (Inr (), s') \<and> keys_view s' = keys_view s \<and> rs_trans s' = rs_trans s"
  using assms
  by (simp add: add_if_missing_def add_self_def trans_add_def addTransaction_def enter_joinees_def
      run_simps keys_view_def fun_eq_iff)

lemma refresh_keys: "\<exists>s'. refresh E a r s = (Inr (), s') \<and> keys_view s' = keys_view s \<and> rs_trans s' = rs_trans s"
  by (auto simp: refresh_def run_simps unreap_def incStat_def keys_view_def fun_eq_iff split: option.split)

lemma Messengent_complete_returns:
  assumes "tr_class (rs_trans s t) = MessengentT"
    and "TxPacket_init (tr_txData (rs_trans s t)) (Some (pckt_value PkDone)) EMPTY_BODY = Inr a"
    and "TxPacket_pack (road_codec E s) a = Inr a'"
    and "ohas (st_uidRemotes s) (remote_uid s (tr_remote (rs_trans s t)))"
  shows "fst (Messengent_complete E t s) = Inr ()"
proof -
  obtain s1 where s1: "make_packet E PkDone EMPTY_BODY (tr_txData (rs_trans s t)) s = (Inr (Some a'), s1)"
    "packing_frame s1 = packing_frame s" using make_packet_run [OF assms(2,3)] by blast
  then have s1': "ohas (st_uidRemotes s1) (remote_uid s1 (tr_remote (rs_trans s1 t)))" "rs_trans s1 = rs_trans s"
    using assms(4) by (simp_all add: packing_frame_def remote_uid_def)
  obtain s2 where s2: "trans_transmit t (OwnPacket a') s1 = (Inr (), s2)"
    "tr_class (rs_trans s2 t) = tr_class (rs_trans s1 t)" using transmit_own_run [OF s1'(1)] by blast
  obtain s3 where s3: "Messengent_done E t s = (Inr (), s3)" "tr_class (rs_trans s3 t) = MessengentT"
    using s1 s1' s2 assms(1)
    by (simp add: Messengent_done_def packing_def trans_data_def eff_run(6,7) access_run incStat_def run_simps)
  have "fst (remove_self t (s3\<lparr>st_rxMsgs := m\<rparr>)) = Inr ()" for m
    using remove_messengent_run [of "s3\<lparr>st_rxMsgs := m\<rparr>" t "tr_remote (rs_trans s3 t)"] s3(2) by auto
  then show ?thesis using s3(1)
    by (auto simp: Messengent_complete_def run_simps Let_def incStat_def split: prod.splits sum.splits dest: arg_cong [of _ _ fst])
qed

lemma Messengent_message_returns:
  assumes "tr_class (rs_trans s t) = MessengentT" "tr_remote (rs_trans s t) = r"
    "rm_allowed (rs_remotes s r) = Some True" "tr_rxPacket (rs_trans s t) = Some p"
    "RxTray_parse (road_codec E s) (tr_rxtray (rs_trans s t)) p = Inr (tray, x)" "rt_complete tray"
    "\<not> ohas (rm_transactions (rs_remotes s r)) (own_index s t)"
    "TxPacket_init (tr_txData (rs_trans s t)) (Some (pckt_value PkDone)) EMPTY_BODY = Inr a"
    "TxPacket_pack (road_codec E s) a = Inr a'" "ohas (st_uidRemotes s) (remote_uid s r)"
  shows "fst (Messengent_message E t s) = Inr ()"
proof -
  let ?s = "s\<lparr>rs_trans := (rs_trans s)(t := (rs_trans s t)\<lparr>tr_rxtray := tray\<rparr>)\<rparr>"
  have parse: "parse_tray E t s = (Inr (), ?s)" using assms(4,5) by (simp add: parse_tray_def run_simps)
  have "own_index ?s t = own_index s t" by (simp add: own_index_def Let_def remote_uid_def)
  then obtain s2 where s2: "add_if_missing t ?s = (Inr (), s2)" "keys_view s2 = keys_view ?s" "rs_trans s2 = rs_trans ?s"
    using trans_message_run [of ?s t] assms(1,2,7) by auto
  obtain s3 where s3: "refresh E (Some True) r s2 = (Inr (), s3)" "keys_view s3 = keys_view s2" "rs_trans s3 = rs_trans s2"
    using refresh_keys by blast
  obtain s4 where s4: "incStat ''message_segment_rx'' 1 s3 = (Inr (), s4)" "keys_view s4 = keys_view s3" "rs_trans s4 = rs_trans s3"
    by (simp add: incStat_def run_simps keys_view_def)
  let ?s5 = "s4\<lparr>rs_trans := (rs_trans s4)(t := (rs_trans s4 t)\<lparr>tr_wait := oget_or (rp_data p) ''wf'' VNone\<rparr>)\<rparr>"
  have tr: "rs_trans s4 t = (rs_trans s t)\<lparr>tr_rxtray := tray\<rparr>" using s2(3) s3(3) s4(3) by simp
  have view: "keys_view ?s5 = keys_view s" using s2(2) s3(2) s4(2) by (simp add: keys_view_def)
  have "ohas (st_uidRemotes ?s5) (remote_uid ?s5 r)"
    using assms(10) view by (simp add: keys_view_def remote_uid_def)
  then have "fst (Messengent_complete E t ?s5) = Inr ()"
    using assms(1,2,8,9) road_codec_cong [OF view, of E] tr
    by (intro Messengent_complete_returns [of ?s5 t a E a']) simp_all
  moreover have "rx_data t s4 = (Inr (rp_data p), s4)" using tr assms(4) by (simp add: rx_data_def run_simps)
  ultimately show ?thesis using assms(2,3,6) parse s2(1) s3(1) s4(1) tr
    by (simp add: Messengent_message_def eff_run access_run)
qed

end
