(* ===== verification/Channel.thy ===== *)
theory Channel
  imports RoadFacts NaclFacts
begin

text \<open>
  The way of a packet from a transaction of one stack to the other stack: with the keys that two
  stacks have of each other after a join and an allow, what the one packs the other reads.
\<close>

section \<open>Keys of both sides\<close>

text \<open>A signer made of a seed and the verifier made of its published key.\<close>

definition signs_for :: "'r nacl \<Rightarrow> signer \<Rightarrow> verifier \<Rightarrow> bool" where
  "signs_for N sg vf \<longleftrightarrow>
     (\<exists>seed. length seed = 32 \<and> (\<forall>r. Signer_init N (KeyBytes seed) r = (Inr sg, r)) \<and>
        Verifier_init N (KeyBytes (sr_verhex sg)) = Inr vf)"

text \<open>A privateer made of a key and the publican made of its public key.\<close>

definition opens_for :: "'r nacl \<Rightarrow> privateer \<Rightarrow> publican \<Rightarrow> bool" where
  "opens_for N pv pb \<longleftrightarrow>
     (\<exists>a. length a = 32 \<and> (\<forall>r. Privateer_init N (KeyBytes a) r = (Inr pv, r)) \<and>
        Publican_init N (KeyBytes (pv_pubraw pv)) = Inr pb)"

lemma signs_for_law:
  assumes "nacl_ok N" "signs_for N sg vf"
  shows "\<exists>b. length b = 64 \<and> Signer_signature N sg m = Inr b \<and> Verifier_verify N vf b m = Inr True"
proof -
  obtain seed where seed: "length seed = 32" "\<And>r. Signer_init N (KeyBytes seed) r = (Inr sg, r)"
    "Verifier_init N (KeyBytes (sr_verhex sg)) = Inr vf"
    using assms(2) by (auto simp: signs_for_def)
  have "key_form seed seed" using seed(1) by (simp add: key_form_def)
  obtain s v where "Signer_init N (KeyBytes seed) undefined = (Inr s, undefined)"
    "Verifier_init N (KeyBytes (sr_verhex s)) = Inr v"
    "\<exists>b. length b = 64 \<and> Signer_signature N s m = Inr b \<and> Verifier_verify N v b m = Inr True"
    by (rule signer_of_seed [OF assms(1) \<open>key_form seed seed\<close>, of undefined]) blast
  then show ?thesis using seed(2) [of undefined] seed(3) by simp
qed

lemma opens_for_law:
  assumes N: "nacl_ok N" and ab: "opens_for N pa qa" "opens_for N pb qb"
    and c: "fst (Privateer_encrypt N pa m (key_peer qb) False r) = Inr (cipher, nonce)"
  shows "length nonce = 24 \<and> Privateer_decrypt N pb cipher nonce (key_peer qa) False = Inr m"
proof -
  have key: "\<exists>k ra. length k = 32 \<and> priv_bytes (pv_key pv) = k \<and> crypto_scalarmult_base N k = Inr ra \<and>
      key_peer q = KeyObject (PublicKey ra)" if o: "opens_for N pv q" for pv q
  proof -
    obtain k where k: "length k = 32" "\<And>r. Privateer_init N (KeyBytes k) r = (Inr pv, r)"
      "Publican_init N (KeyBytes (pv_pubraw pv)) = Inr q"
      using o by (auto simp: opens_for_def)
    have "key_form k k" using k(1) by (simp add: key_form_def)
    then obtain p ra where p: "Privateer_init N (KeyBytes k) undefined = (Inr p, undefined)" "priv_bytes (pv_key p) = k"
      "crypto_scalarmult_base N k = Inr ra" "length ra = 32" "pv_pubraw p = ra"
      using privateer_of_key [OF N] by metis
    have "key_form ra ra" using p(4) by (simp add: key_form_def)
    then have "PublicKey_init N ra (key_encoder ra) = Inr (PublicKey ra)"
      unfolding key_inits(1) [OF \<open>key_form ra ra\<close>] using p(4) by (simp add: PublicKey_init_def nacl_sizes [OF N])
    moreover have "ra \<noteq> []" using p(4) by auto
    ultimately have "pb_key q = Some (PublicKey ra)"
      using k(2) [of undefined] k(3) p by (auto simp: Publican_init_def key_of_def rbind_def)
    then show ?thesis using k p by (auto simp: key_peer_def)
  qed
  obtain a ra where a: "length a = 32" "priv_bytes (pv_key pa) = a" "crypto_scalarmult_base N a = Inr ra"
    "key_peer qa = KeyObject (PublicKey ra)" using key [OF ab(1)] by blast
  obtain b rb where b: "length b = 32" "priv_bytes (pv_key pb) = b" "crypto_scalarmult_base N b = Inr rb"
    "key_peer qb = KeyObject (PublicKey rb)" using key [OF ab(2)] by blast
  have "peer_key N (KeyObject (PublicKey ra)) = Inr (PublicKey ra)"
    "peer_key N (KeyObject (PublicKey rb)) = Inr (PublicKey rb)" by (simp_all add: peer_key_def)
  from privateers_exchange [OF N a(1) b(1) a(2) b(2) a(3) b(3) this, of m False r] c
  show ?thesis unfolding a(4) b(4) by auto
qed

section \<open>Two stacks\<close>

text \<open>
  Remote \<open>r\<close> of one stack stands for the other stack, and \<open>r'\<close> of that one for the first: each knows
  the id that it has at the other, the key that the other signs with and its short term public key.
\<close>

definition paired :: "'r road_env \<Rightarrow> 'r road_stack \<Rightarrow> nat \<Rightarrow> 'r road_env \<Rightarrow> 'r road_stack \<Rightarrow> nat \<Rightarrow> bool" where
  "paired E s r E' s' r' \<longleftrightarrow>
     (let m = rs_remotes s r; m' = rs_remotes s' r'; N = rv_nacl E in
      rv_nacl E' = N \<and> nacl_ok N \<and> bits_law (rv_codec E) (rv_codec E') \<and>
      oget (st_uidRemotes s) (remote_uid s r) = Some r \<and> oget (st_uidRemotes s') (remote_uid s' r') = Some r' \<and>
      rm_fuid m = remote_uid s' r' \<and> rm_fuid m' = remote_uid s r \<and>
      0 < remote_uid s r \<and> 0 < remote_uid s' r' \<and>
      signs_for N (lo_signer (rs_local s)) (rm_verfer m') \<and>
      opens_for N (rm_privee m) (rm_publee m') \<and> opens_for N (rm_privee m') (rm_publee m))"

lemma lookup_road: "oget (st_uidRemotes s) u = Some r \<Longrightarrow>
    lookup_remote (road_codec E s) (VInt u) = Some (remote_keys E s r)"
  by (simp add: lookup_remote_def road_codec_def oget_def map_of_map)

lemma remote_keys_peer: "remote_keys E s r =
    \<lparr>rc_verify = (\<lambda>sg msg. Verifier_verify (rv_nacl E) (rm_verfer (rs_remotes s r)) sg msg = Inr True),
     rc_encrypt = (\<lambda>msg. fst (Privateer_encrypt (rv_nacl E) (rm_privee (rs_remotes s r)) msg
        (key_peer (rm_publee (rs_remotes s r))) False (rs_rand s))),
     rc_decrypt = (\<lambda>cipher nonce. Privateer_decrypt (rv_nacl E) (rm_privee (rs_remotes s r)) cipher nonce
        (key_peer (rm_publee (rs_remotes s r))) False)\<rparr>"
  by (simp add: remote_keys_def peer_public_def key_peer_def fun_eq_iff
      remote_verify_def remote_encrypt_def remote_decrypt_def)

lemma paired_laws:
  assumes "paired E s r E' s' r'"
  shows "sign_law (local_signature (road_codec E s)) (remote_keys E' s' r')"
    and "box_law (remote_keys E s r) (remote_keys E' s' r')"
    and "bits_law (road_codec E s) (road_codec E' s')"
proof -
  have N: "rv_nacl E' = rv_nacl E" "nacl_ok (rv_nacl E)"
    and sg: "signs_for (rv_nacl E) (lo_signer (rs_local s)) (rm_verfer (rs_remotes s' r'))"
    and op: "opens_for (rv_nacl E) (rm_privee (rs_remotes s r)) (rm_publee (rs_remotes s' r'))"
      "opens_for (rv_nacl E) (rm_privee (rs_remotes s' r')) (rm_publee (rs_remotes s r))"
    and bits: "bits_law (rv_codec E) (rv_codec E')"
    using assms by (simp_all add: paired_def Let_def)
  show "sign_law (local_signature (road_codec E s)) (remote_keys E' s' r')"
    unfolding sign_law_def
  proof
    fix m
    obtain b where "length b = 64" "Signer_signature (rv_nacl E) (lo_signer (rs_local s)) m = Inr b"
      "Verifier_verify (rv_nacl E) (rm_verfer (rs_remotes s' r')) b m = Inr True"
      using signs_for_law [OF N(2) sg] by blast
    then show "length (local_signature (road_codec E s) m) = 64 \<and>
        rc_verify (remote_keys E' s' r') (local_signature (road_codec E s) m) m"
      by (simp add: road_codec_def local_sign_def remote_keys_peer N(1))
  qed
  show "box_law (remote_keys E s r) (remote_keys E' s' r')"
    unfolding box_law_def remote_keys_peer remote_crypt.simps N(1)
    by (intro allI impI) (rule opens_for_law [OF N(2) op])
  show "bits_law (road_codec E s) (road_codec E' s')" using bits by (simp add: bits_law_def road_codec_def)
qed

section \<open>Packets of transactions\<close>

definition session_kinds :: "hdata list" where
  "session_kinds = [[stack_hk, stack_bk, stack_fk, stack_ck], [stack_hk, raw_bk, stack_fk]]"

text \<open>The header data that a transaction of the remote's session sets, and what it sends with it.\<close>

lemma transaction_header:
  assumes "base \<in> set session_kinds" "prep_remote base s tr = Inr data" "r = tr_remote tr"
    "0 \<le> remote_uid s r" "0 \<le> rm_fuid (rs_remotes s r)" "0 \<le> tr_sid tr" "0 \<le> tr_tid tr"
    "0 \<le> tr_kind tr" "tr_bcst tr = VBool False" "TxPacket_init data (Some (pckt_value pk)) b = Inr p"
  shows "sendable (tp_data p) \<and> oget (tp_data p) ''hk'' = Some (VInt 0) \<and> oget (tp_data p) ''vn'' = Some (VInt 0) \<and>
    oget (tp_data p) ''se'' = Some (VInt (remote_uid s r)) \<and>
    oget (tp_data p) ''de'' = Some (VInt (rm_fuid (rs_remotes s r))) \<and>
    oget (tp_data p) ''cf'' = Some (VBool (tr_rmt tr)) \<and> oget (tp_data p) ''bf'' = Some (VBool False) \<and>
    oget (tp_data p) ''si'' = Some (VInt (tr_sid tr)) \<and> oget (tp_data p) ''ti'' = Some (VInt (tr_tid tr)) \<and>
    oget (tp_data p) ''tk'' = Some (VInt (tr_kind tr)) \<and> oget (tp_data p) ''pk'' = Some (VInt (pckt_value pk)) \<and>
    oget (tp_data p) ''bk'' = oget base ''bk'' \<and>
    (\<exists>ck. (ck = CkNada \<or> ck = CkNacl) \<and> oget (tp_data p) ''ck'' = Some (VInt (coat_value ck))) \<and>
    tp_embody p = b"
proof -
  obtain h port where ha: "ha_pair (lot_ha (st_lots s r)) = Inr (h, port)"
    and data: "data = oupdate base [(''dh'', h), (''dp'', port), (''se'', VInt (remote_uid s r)),
        (''de'', VInt (rm_fuid (rs_remotes s r))), (''tk'', VInt (tr_kind tr)),
        (''cf'', VBool (tr_rmt tr)), (''bf'', VBool False), (''si'', VInt (tr_sid tr)),
        (''ti'', VInt (tr_tid tr))]"
    using assms(2,3,9) by (auto simp: prep_remote_def rbind_def split: sum.splits)
  let ?own = "[(''dh'', h), (''dp'', port), (''se'', VInt (remote_uid s r)),
        (''de'', VInt (rm_fuid (rs_remotes s r))), (''tk'', VInt (tr_kind tr)),
        (''cf'', VBool (tr_rmt tr)), (''bf'', VBool False), (''si'', VInt (tr_sid tr)),
        (''ti'', VInt (tr_tid tr))]"
  have own: "owf ?own" by (simp add: owf_def)
  let ?K = "{''hk'', ''bk'', ''fk'', ''ck''}"
  have base: "owf base" "set (okeys base) \<subseteq> ?K" "\<forall>v \<in> set (ovalues base). \<exists>i \<ge> 0. v = VInt i"
    "oget base ''hk'' = Some (VInt 0)"
    using assms(1) by (auto simp: session_kinds_def stack_hk_def stack_bk_def stack_fk_def stack_ck_def
        raw_bk_def owf_def okeys_def ovalues_def)
  have wf: "owf data" unfolding data using base(1) by (rule owf_oupdate)
  have field: "oget data k = (case oget ?own k of None \<Rightarrow> oget base k | Some v \<Rightarrow> Some v)" for k
    unfolding data by (rule oget_oupdate [OF own])
  have other: "oget base k = None" if "k \<notin> ?K" for k
    unfolding oget_None_iff using base(2) that by blast
  have num: "\<exists>i \<ge> 0. oget base k = Some (VInt i) \<or> oget base k = None" for k
  proof (cases "oget base k")
    case (Some v)
    then have "(k, v) \<in> set base" by (simp add: oget_def map_of_SomeD)
    then have "v \<in> set (ovalues base)" unfolding ovalues_def set_map by (rule image_eqI [rotated]) simp
    with base(3) obtain i where "i \<ge> 0" "v = VInt i" by blast
    with Some show ?thesis by simp
  qed auto
  have "oget (oupdate PACKET_DEFAULTS data) k =
      (case oget data k of None \<Rightarrow> oget PACKET_DEFAULTS k | Some v \<Rightarrow> Some v)" for k
    by (rule oget_oupdate [OF wf])
  moreover have "oget data ''pk'' = None" unfolding field by (simp add: other)
  moreover have "oget PACKET_DEFAULTS ''pk'' = Some (VInt 0)" by (simp add: PACKET_DEFAULTS_def)
  moreover have "tp_data p = (if pckt_value pk = 0 then oupdate PACKET_DEFAULTS data
      else oset ''pk'' (VInt (pckt_value pk)) (oupdate PACKET_DEFAULTS data))"
    using assms(10) by (auto simp: TxPacket_init_def Packet_init_def rbind_def Let_def split: sum.splits if_splits)
  ultimately have get: "oget (tp_data p) k = (if k = ''pk'' then Some (VInt (pckt_value pk)) else
      case oget data k of None \<Rightarrow> oget PACKET_DEFAULTS k | Some v \<Rightarrow> Some v)" for k
    by simp
  have pk: "0 \<le> pckt_value pk" by (cases pk) simp_all
  have emb: "tp_embody p = b" using assms(10) by (auto simp: TxPacket_init_def rbind_def split: sum.splits)
  have own_ids: "oget (tp_data p) ''se'' = Some (VInt (remote_uid s r))"
    "oget (tp_data p) ''de'' = Some (VInt (rm_fuid (rs_remotes s r)))"
    "oget (tp_data p) ''tk'' = Some (VInt (tr_kind tr))" "oget (tp_data p) ''cf'' = Some (VBool (tr_rmt tr))"
    "oget (tp_data p) ''bf'' = Some (VBool False)" "oget (tp_data p) ''si'' = Some (VInt (tr_sid tr))"
    "oget (tp_data p) ''ti'' = Some (VInt (tr_tid tr))" "oget (tp_data p) ''pk'' = Some (VInt (pckt_value pk))"
    by (simp_all add: get field)
  have unset: "oget (tp_data p) k = (case oget base k of None \<Rightarrow> oget PACKET_DEFAULTS k | Some v \<Rightarrow> Some v)"
    if "k \<notin> {''pk'', ''dh'', ''dp'', ''se'', ''de'', ''tk'', ''cf'', ''bf'', ''si'', ''ti''}" for k
  proof -
    have "oget ?own k = None" unfolding oget_None_iff okeys_def using that by simp
    moreover have "k \<noteq> ''pk''" using that by blast
    ultimately show ?thesis unfolding get field by (simp only: option.case if_False)
  qed
  have default: "oget (tp_data p) k = oget PACKET_DEFAULTS k"
    if "k \<notin> {''pk'', ''dh'', ''dp'', ''se'', ''de'', ''tk'', ''cf'', ''bf'', ''si'', ''ti''}" "k \<notin> ?K" for k
    unfolding unset [OF that(1)] other [OF that(2)] by simp
  have kinds: "\<exists>i \<ge> 0. oget (tp_data p) k = Some (VInt i)"
    if "k \<notin> {''pk'', ''dh'', ''dp'', ''se'', ''de'', ''tk'', ''cf'', ''bf'', ''si'', ''ti''}"
      "\<exists>i \<ge> 0. oget PACKET_DEFAULTS k = Some (VInt i)" for k
    unfolding unset [OF that(1)] using num [of k] that(2) by (cases "oget base k") auto
  have rest: "list_all (\<lambda>k. \<exists>i \<ge> 0. oget (tp_data p) k = Some (VInt i))
      [''vn'', ''pl'', ''hl'', ''oi'', ''sn'', ''sc'', ''ml'', ''fl'', ''hk'', ''bk'', ''fk'', ''ck'']"
    unfolding list.pred_inject by (intro conjI TrueI kinds) (simp_all add: PACKET_DEFAULTS_def)
  have "list_all (\<lambda>k. \<exists>i \<ge> 0. oget (tp_data p) k = Some (VInt i)) INT_FIELDS"
    unfolding INT_FIELDS_def using rest own_ids pk assms(4-8) by (simp only: list.pred_inject) simp
  moreover have "list_all (\<lambda>f. \<exists>b. oget (tp_data p) f = Some (VBool b)) PACKET_FLAGS"
    unfolding PACKET_FLAGS_def by (simp add: default own_ids PACKET_DEFAULTS_def) blast
  moreover have "oget (tp_data p) ''hk'' = Some (VInt 0)" using base(4) by (simp add: get field)
  moreover have "oget (tp_data p) ''bk'' = oget base ''bk'' \<and>
      (\<exists>ck. (ck = CkNada \<or> ck = CkNacl) \<and> oget (tp_data p) ''ck'' = Some (VInt (coat_value ck)))"
    using assms(1) by (auto simp: unset session_kinds_def stack_hk_def stack_bk_def stack_fk_def
        stack_ck_def raw_bk_def PACKET_DEFAULTS_def)
  ultimately show ?thesis unfolding sendable_def using emb own_ids
    by (simp add: default PACKET_DEFAULTS_def list_all_iff)
qed

lemma make_packet_packs:
  assumes "make_packet E pk b data s = (Inr (Some q), s1)"
  obtains p where "TxPacket_init data (Some (pckt_value pk)) b = Inr p" "TxPacket_pack (road_codec E s) p = Inr q"
proof -
  obtain p where p: "TxPacket_init data (Some (pckt_value pk)) b = Inr p" "pack_packet E p s = (Inr (Some q), s1)"
    using assms by (auto simp: make_packet_def ebind_def elift_def split: sum.splits)
  from p(2) have "TxPacket_pack (road_codec E s) p = Inr q"
    by (auto simp: pack_packet_def run_simps count_packet_error_def split: sum.splits if_splits prod.splits)
  with p(1) show thesis by (rule that)
qed

text \<open>
  C3: A packet of a transaction between two stacks that know each other's ids and keys arrives as it
  was sent: the other stack parses it, with its signature verified and its body decrypted, gets the
  body that was sent and finds it under the index of the corresponding transaction of its remote.
\<close>

theorem transaction_packet_arrives:
  assumes pair: "paired E s (tr_remote tr) E' s' r'"
    and base: "base \<in> set session_kinds" and data: "prep_remote base s tr = Inr data"
    and ids: "0 \<le> tr_sid tr" "0 \<le> tr_tid tr" "0 \<le> tr_kind tr" "tr_bcst tr = VBool False"
    and body: "oget base ''bk'' = Some (VInt bk)" "body_law (rv_codec E) (rv_codec E') bk b"
    and pack: "make_packet E pk b data s = (Inr (Some q), s1)"
  shows "\<exists>x. RxPacket_parse (road_codec E' s') (RxPacket_init [] (tp_packed q)) = Inr x \<and> rp_embody x = b \<and>
      oget (rp_data x) ''tk'' = Some (VInt (tr_kind tr)) \<and>
      oget (rp_data x) ''pk'' = Some (VInt (pckt_value pk)) \<and>
      RxPacket_index (rp_data x) = Inr (VBool (\<not> tr_rmt tr), VInt (remote_uid s' r'),
        Uid (VInt (rm_fuid (rs_remotes s' r'))), VInt (tr_sid tr), VInt (tr_tid tr), VBool False)"
proof -
  define r where "r = tr_remote tr"
  have known: "oget (st_uidRemotes s) (remote_uid s r) = Some r"
      "oget (st_uidRemotes s') (remote_uid s' r') = Some r'"
    and uid: "rm_fuid (rs_remotes s r) = remote_uid s' r'" "rm_fuid (rs_remotes s' r') = remote_uid s r"
      "0 < remote_uid s r" "0 < remote_uid s' r'"
    using pair by (simp_all add: paired_def Let_def r_def)
  obtain p where p: "TxPacket_init data (Some (pckt_value pk)) b = Inr p"
    and q: "TxPacket_pack (road_codec E s) p = Inr q"
    by (rule make_packet_packs [OF pack])
  note header = transaction_header [OF base data refl _ _ ids(1-3) ids(4) p, folded r_def, unfolded uid(1)]
  obtain ck where h: "sendable (tp_data p)" "oget (tp_data p) ''hk'' = Some (VInt 0)"
    "oget (tp_data p) ''vn'' = Some (VInt 0)" "oget (tp_data p) ''se'' = Some (VInt (remote_uid s r))"
    "oget (tp_data p) ''de'' = Some (VInt (remote_uid s' r'))"
    "oget (tp_data p) ''cf'' = Some (VBool (tr_rmt tr))" "oget (tp_data p) ''bf'' = Some (VBool False)"
    "oget (tp_data p) ''si'' = Some (VInt (tr_sid tr))" "oget (tp_data p) ''ti'' = Some (VInt (tr_tid tr))"
    "oget (tp_data p) ''tk'' = Some (VInt (tr_kind tr))" "oget (tp_data p) ''pk'' = Some (VInt (pckt_value pk))"
    "oget (tp_data p) ''bk'' = Some (VInt bk)" "tp_embody p = b"
    "ck = CkNada \<or> ck = CkNacl" "oget (tp_data p) ''ck'' = Some (VInt (coat_value ck))"
    using header uid(3,4) body(1) by auto
  note laws = paired_laws [OF pair, folded r_def]
  have "can_verify (road_codec E s) (road_codec E' s') (tp_data p)"
    unfolding can_verify_def using h(5) lookup_road [OF known(2)] laws(1) by blast
  moreover have "can_open (road_codec E s) (road_codec E' s') (tp_data p)"
    unfolding can_open_def using h(4,5) lookup_road [OF known(1)] lookup_road [OF known(2)] laws(2) by blast
  moreover have "body_law (road_codec E s) (road_codec E' s') bk (tp_embody p)"
    using body(2) unfolding h(13) by (simp add: body_law_def road_codec_def)
  ultimately obtain x where x: "RxPacket_parse (road_codec E' s') (RxPacket_init [] (tp_packed q)) = Inr x"
    and same: "\<forall>k \<in> set WIRE_FIELDS. oget (rp_data x) k = oget (tp_data q) k"
    and kept: "\<forall>k. k \<notin> {''pl'', ''hl'', ''fg'', ''fl''} \<longrightarrow> oget (tp_data q) k = oget (tp_data p) k"
    and emb: "rp_embody x = tp_embody p"
    using RxPacket_parse_packed [OF h(1-3,15,14,12) _ laws(3) _ _ q] by blast
  have wire: "oget (rp_data x) k = oget (tp_data p) k"
    if "k \<in> set WIRE_FIELDS" "k \<notin> {''pl'', ''hl'', ''fg'', ''fl''}" for k
    using same kept that by simp
  have "list_all (\<lambda>k. k \<in> set WIRE_FIELDS \<and> k \<notin> {''pl'', ''hl'', ''fg'', ''fl''})
      [''se'', ''de'', ''cf'', ''bf'', ''si'', ''ti'', ''tk'', ''pk'']" by code_simp
  then have got: "list_all (\<lambda>k. oget (rp_data x) k = oget (tp_data p) k)
      [''se'', ''de'', ''cf'', ''bf'', ''si'', ''ti'', ''tk'', ''pk'']"
    unfolding list_all_iff using wire by blast
  have "RxPacket_index (rp_data x) = Inr (VBool (\<not> tr_rmt tr), VInt (remote_uid s' r'),
        Uid (VInt (remote_uid s r)), VInt (tr_sid tr), VInt (tr_tid tr), VBool False)"
    using got h uid(3,4) by (simp add: RxPacket_index_def oitem_def is_int_def py_not_def)
  then show ?thesis using x emb got h(10,11,13) uid(2) by simp
qed

end
