(* ===== verification/RoadWitness.thy ===== *)
theory RoadWitness
  imports RoadSamples RoadRestart Delivery Channel
begin

text \<open>
  The theorems on the road stack at work on sample stacks: a stack with one remote, packets for it
  and the keys of both sides.
\<close>

section \<open>A stack with a remote\<close>

text \<open>Where the sizes do not matter the keys are short: sealing does not check them.\<close>

definition short_shared :: "bytes \<Rightarrow> bytes \<Rightarrow> bytes result" where
  "short_shared p a = Inr (xor_bytes p a)"

definition short_env :: "nat road_env" where
  "short_env = (sample_env True True)\<lparr>rv_nacl := seal_nacl\<lparr>crypto_box_beforenm := short_shared\<rparr>\<rparr>"

definition sample_publican :: "bytes \<Rightarrow> publican" where
  "sample_publican k =
     \<lparr>pb_key = Some (PublicKey k), pb_keyhex = hexlify k, pb_keyraw = k\<rparr>"

definition sample_verifier :: "bytes \<Rightarrow> verifier" where
  "sample_verifier k =
     \<lparr>vf_key = Some (VerifyKey k), vf_keyhex = hexlify k, vf_keyraw = k\<rparr>"

text \<open>Short term keys \<open>own\<close> and \<open>other\<close>, long term keys \<open>role\<close> of the other side.\<close>

definition peer :: "bytes \<Rightarrow> bytes \<Rightarrow> bytes \<Rightarrow> remote_part" where
  "peer own other role = empty_remote\<lparr>rm_fuid := 2, rm_joined := VBool True, rm_main := VBool False,
     rm_kind := VInt 0, rm_privee := sample_privateer own, rm_publee := sample_publican other,
     rm_verfer := sample_verifier role, rm_pubber := sample_publican role\<rparr>"

definition with_peer :: "string \<Rightarrow> bytes \<Rightarrow> string \<Rightarrow> remote_part \<Rightarrow> transaction \<Rightarrow> nat road_stack" where
  "with_peer name key other m tr = (sample_road name 7530 key)\<lparr>
     st_uidRemotes := [(2, 0)], st_nameRemotes := [(other, 0)],
     st_lots := (\<lambda>_. \<lparr>lot_name = other, lot_uid = 2, lot_ha = sample_ha 7531, lot_sid = 1\<rparr>),
     rs_remotes := (\<lambda>_. m), rs_trans := (\<lambda>_. tr), st_stamp := 5\<rparr>"

lemma with_peer_simps [simp]:
  "rs_remotes (with_peer name key other m tr) r = m" "rs_trans (with_peer name key other m tr) t = tr"
  "st_stamp (with_peer name key other m tr) = 5" "st_uidRemotes (with_peer name key other m tr) = [(2, 0)]"
  "st_nameRemotes (with_peer name key other m tr) = [(other, 0)]"
  "remote_uid (with_peer name key other m tr) r = 2" "remote_name (with_peer name key other m tr) r = other"
  "lot_name (st_local (with_peer name key other m tr)) = name"
  by (simp_all add: with_peer_def remote_uid_def remote_name_def sample_road_full)

definition sample_index :: tindex where
  "sample_index = (VBool False, VInt 2, Uid (VInt 2), VInt 1, VInt 7, VBool False)"

text \<open>A packet that is neither signed nor encrypted, with the header \<open>d\<close> and the body \<open>b\<close>.\<close>

definition plain_packet :: "hdata \<Rightarrow> bytes \<Rightarrow> rxpacket" where
  "plain_packet d b = (RxPacket_init [] b)\<lparr>rp_data := oupdate PACKET_DEFAULTS d\<rparr>"

definition json_bytes :: "hdata \<Rightarrow> bytes" where
  "json_bytes d = (case sample_dump (VDict d) of Inr b \<Rightarrow> b | Inl _ \<Rightarrow> [])"

definition nack_packet :: rxpacket where
  "nack_packet = plain_packet [(''sh'', VStr ''127.0.0.1''), (''sp'', VInt 7531), (''se'', VInt 2), (''de'', VInt 2)] []"

section \<open>Packets and timers\<close>


theorem new_uid_is_found_witness:
  "\<exists>u. new_uid ((sample_road ''main'' 7530 ''m'')\<lparr>st_uidRemotes := [(2, 0), (3, 1)]\<rparr>) =
      (Inr u, (sample_road ''main'' 7530 ''m'')\<lparr>st_uidRemotes := [(2, 0), (3, 1)], st_puid := u\<rparr>) \<and> u \<notin> {2, 3}"
proof -
  let ?s = "(sample_road ''main'' 7530 ''m'')\<lparr>st_uidRemotes := [(2, 0), (3, 1)]\<rparr>"
  have "st_puid ?s = 1" "length (st_uidRemotes ?s) = 2" by (simp_all add: sample_road_full)
  with new_uid_is_found [of ?s] obtain u where "new_uid ?s = (Inr u, ?s\<lparr>st_puid := u\<rparr>)"
    "\<not> ohas (st_uidRemotes ?s) u" by auto
  then show ?thesis by (intro exI [of _ u]) (auto simp: sample_road_full ohas_def)
qed

theorem redo_interval_doubles_witness:
  "tr_redoTimer (rs_trans (snd (efor ([10, 20] @ [30]) (back_off_at 0)
     ((sample_road ''main'' 7530 ''m'')\<lparr>rs_trans := (\<lambda>_. empty_transaction\<lparr>tr_redoTimeoutMin := 1 / 2,
        tr_redoTimeoutMax := 2, tr_redoTimer := \<lparr>tm_start = 0, tm_duration = 1 / 2\<rparr>\<rparr>)\<rparr>))) 0) =
   \<lparr>tm_start = 30, tm_duration = 2\<rparr>"
proof -
  let ?s = "(sample_road ''main'' 7530 ''m'')\<lparr>rs_trans := (\<lambda>_. empty_transaction\<lparr>tr_redoTimeoutMin := 1 / 2,
        tr_redoTimeoutMax := 2, tr_redoTimer := \<lparr>tm_start = 0, tm_duration = 1 / 2\<rparr>\<rparr>)\<rparr>"
  show ?thesis using redo_interval_doubles [of ?s 0 "[10, 20]" 30] by simp
qed

definition expired_allower :: transaction where
  "expired_allower =
     empty_transaction\<lparr>tr_class := AllowerT, tr_timeout := 4, tr_timer := \<lparr>tm_start = 0, tm_duration = 4\<rparr>\<rparr>"

theorem expired_initiators_leave_witness:
  "\<exists>s'. trans_process (sample_env True True) 0 (with_peer ''main'' ''m'' ''other''
      ((peer ''s'' ''t'' ''o'')\<lparr>rm_transactions := [(sample_index, 0)]\<rparr>) expired_allower) = (Inr (), s') \<and>
    set (ovalues (table_of s' 0)) = {}"
proof -
  let ?s = "with_peer ''main'' ''m'' ''other'' ((peer ''s'' ''t'' ''o'')\<lparr>rm_transactions := [(sample_index, 0)]\<rparr>) expired_allower"
  have "table_of ?s 0 = [(sample_index, 0)]" by (simp add: table_of_def)
  then show ?thesis using expired_initiators_leave [of ?s 0 "sample_env True True" 0]
    by (simp add: expired_allower_def empty_transaction_def sample_env_def sample_expired_def owf_def tx_is_def)
qed

section \<open>Joins\<close>

theorem join_race_has_one_winner_witness:
  "\<exists>go_a go_b. fst (Joinent_race (sample_env True True) 1 ''other'' [0]
      (with_peer ''main'' ''m'' ''other'' (peer ''s'' ''t'' ''o'') (empty_transaction\<lparr>tr_rxPacket := Some nack_packet\<rparr>))) = Inr go_a \<and>
    fst (Joinent_race (sample_env True True) 1 ''main'' [0]
      (with_peer ''other'' ''o'' ''main'' (peer ''t'' ''s'' ''m'') (empty_transaction\<lparr>tr_rxPacket := Some nack_packet\<rparr>))) = Inr go_b \<and>
    (go_a \<longleftrightarrow> \<not> go_b)"
proof -
  let ?a = "with_peer ''main'' ''m'' ''other'' (peer ''s'' ''t'' ''o'') (empty_transaction\<lparr>tr_rxPacket := Some nack_packet\<rparr>)"
  let ?b = "with_peer ''other'' ''o'' ''main'' (peer ''t'' ''s'' ''m'') (empty_transaction\<lparr>tr_rxPacket := Some nack_packet\<rparr>)"
  have "\<exists>go. fst (Joinent_race (sample_env True True) 1 ''other'' [0] ?a) = Inr go" by code_simp
  then obtain a where a: "fst (Joinent_race (sample_env True True) 1 ''other'' [0] ?a) = Inr a" ..
  have "\<exists>go. fst (Joinent_race (sample_env True True) 1 ''main'' [0] ?b) = Inr go" by code_simp
  then obtain b where b: "fst (Joinent_race (sample_env True True) 1 ''main'' [0] ?b) = Inr b" ..
  show ?thesis using join_race_has_one_winner [OF _ _ _ _ _ _ _ _ _ a b] a b
    by (simp add: empty_transaction_def)
qed

definition join_body :: hdata where
  "join_body = [(''name'', VStr ''third''), (''mode'', VInt 0), (''kind'', VInt 0), (''role'', VStr ''third''),
     (''verhex'', VStr (hexlify (key_bytes (CHR ''o'')))), (''pubhex'', VStr (hexlify (key_bytes (CHR ''o''))))]"

definition join_packet :: rxpacket where
  "join_packet = plain_packet [(''sh'', VStr ''127.0.0.1''), (''sp'', VInt 7531), (''se'', VInt 2), (''de'', VInt 2),
     (''bk'', VInt 1)] (json_bytes join_body)"

theorem immutable_road_keeps_identities_witness:
  "identity (snd (Joinent_join (sample_env True False) 0 (with_peer ''main'' ''m'' ''other'' (peer ''s'' ''t'' ''o'')
      (empty_transaction\<lparr>tr_rxPacket := Some join_packet\<rparr>)))) 0 =
   identity (with_peer ''main'' ''m'' ''other'' (peer ''s'' ''t'' ''o'') (empty_transaction\<lparr>tr_rxPacket := Some join_packet\<rparr>)) 0"
proof -
  let ?s = "with_peer ''main'' ''m'' ''other'' (peer ''s'' ''t'' ''o'') (empty_transaction\<lparr>tr_rxPacket := Some join_packet\<rparr>)"
  have "case RxPacket_parseInner (road_codec (sample_env True False) ?s) join_packet of Inr q \<Rightarrow>
      int_item (rp_data q) ''de'' = Inr 2 | Inl _ \<Rightarrow> False" by code_simp
  then have "int_item (rp_data q) ''de'' \<noteq> Inr 0"
    if "tr_rxPacket (rs_trans ?s 0) = Some p" "RxPacket_parseInner (road_codec (sample_env True False) ?s) p = Inr q" for p q
    using that by auto
  then show ?thesis using immutable_road_keeps_identities [of "sample_env True False" ?s 0 0 0]
    by (simp add: empty_transaction_def sample_env_def)
qed

definition third :: join_info where
  "third = \<lparr>ji_name = ''third'', ji_main = False, ji_kind = VInt 0, ji_uid = 2,
     ji_verhex = hexlify (key_bytes (CHR ''o'')), ji_pubhex = hexlify (key_bytes (CHR ''o'')), ji_role = ''third''\<rparr>"

theorem vacuous_join_breaks_names_witness:
  "\<not> tables_ok (snd (Joinent_vacuous (sample_env True True) 0 2 third
      (with_peer ''main'' ''m'' ''other'' (peer ''s'' ''t'' ''o'') empty_transaction)))"
proof -
  let ?s = "with_peer ''main'' ''m'' ''other'' (peer ''s'' ''t'' ''o'') empty_transaction"
  have "fst (Joinent_vacuous (sample_env True True) 0 2 third ?s) = Inr True" by code_simp
  then show ?thesis
    using vacuous_join_breaks_names [of "sample_env True True" 0 ?s 0 third 2]
    by (simp add: sample_env_def empty_transaction_def third_def Let_def)
qed

section \<open>Allows\<close>

text \<open>
  The initiation of the other side with long term keys \<open>o\<close> and short term keys \<open>t\<close>: the vouch, its
  short term key sealed with the long term keys, is in what is sealed with the short term keys.
\<close>

definition sample_vouch :: bytes where
  "sample_vouch = take 16 (xor_bytes (key_bytes (CHR ''o'')) (key_bytes (CHR ''m''))) @ key_bytes (CHR ''t'')"

definition sample_stuff :: bytes where
  "sample_stuff = key_bytes (CHR ''o'') @ sample_vouch @ replicate 152 (CHR 0x00)"

definition sample_initiate :: bytes where
  "sample_initiate = key_bytes (CHR ''t'') @ replicate 24 (CHR ''c'') @
     (take 16 (xor_bytes (key_bytes (CHR ''t'')) (key_bytes (CHR ''s''))) @ sample_stuff) @ replicate 24 (CHR 0x00)"

definition initiate_packet :: rxpacket where
  "initiate_packet = plain_packet [(''sh'', VStr ''127.0.0.1''), (''sp'', VInt 7531), (''se'', VInt 2), (''de'', VInt 2),
     (''bk'', VInt 2)] sample_initiate"

definition allowing :: transaction where
  "allowing = empty_transaction\<lparr>tr_class := AllowentT, tr_rmt := True,
     tr_oreo := Some (hexlify (replicate 24 (CHR ''c''))), tr_rxPacket := Some initiate_packet\<rparr>"

definition allow_road :: "nat road_stack" where
  "allow_road = with_peer ''main'' (key_bytes (CHR ''m'')) ''other''
     (peer (key_bytes (CHR ''s'')) (key_bytes (CHR ''t'')) (key_bytes (CHR ''o''))) allowing"

lemma allow_road_runs:
  obtains q a a' where "RxPacket_parseInner (road_codec (sample_env True True) allow_road) initiate_packet = Inr q"
    "rp_embody q = BRaw sample_initiate"
    "TxPacket_init (tr_txData (rs_trans allow_road 0)) (Some (pckt_value PkAck)) RAW_BODY = Inr a"
    "TxPacket_pack (road_codec (sample_env True True) allow_road) a = Inr a'"
proof -
  have "case RxPacket_parseInner (road_codec (sample_env True True) allow_road) initiate_packet of
      Inl _ \<Rightarrow> False | Inr q \<Rightarrow> rp_embody q = BRaw sample_initiate" by code_simp
  moreover have "case TxPacket_init [] (Some 1) (BRaw []) of Inl _ \<Rightarrow> False
      | Inr a \<Rightarrow> (case TxPacket_pack (road_codec (sample_env True True) allow_road) a of Inl _ \<Rightarrow> False | Inr a' \<Rightarrow> True)" by code_simp
  moreover have "tr_txData (rs_trans allow_road 0) = []"
    by (simp add: allow_road_def allowing_def empty_transaction_def)
  ultimately show thesis using that by (auto simp: RAW_BODY_def split: sum.splits)
qed

lemma allow_road_state:
  "tr_rxPacket (rs_trans allow_road 0) = Some initiate_packet" "tr_remote (rs_trans allow_road 0) = 0"
  "rm_allowed (rs_remotes allow_road 0) \<noteq> Some True"
  "ohas (st_uidRemotes allow_road) (remote_uid allow_road (tr_remote (rs_trans allow_road 0)))"
  by (simp_all add: allow_road_def allowing_def empty_transaction_def peer_def empty_remote_def ohas_def)

lemma allow_road_size: "length sample_initiate = struct_size INITIATE_PACKER"
  by code_simp

lemma allow_road_proof: "proves_identity (sample_env True True) allow_road 0 sample_initiate"
  by code_simp

theorem allow_needs_proof_witness:
  "\<exists>b. proves_identity (sample_env True True) allow_road 0 b"
proof -
  obtain q a a' where run: "RxPacket_parseInner (road_codec (sample_env True True) allow_road) initiate_packet = Inr q"
    "rp_embody q = BRaw sample_initiate"
    "TxPacket_init (tr_txData (rs_trans allow_road 0)) (Some (pckt_value PkAck)) RAW_BODY = Inr a"
    "TxPacket_pack (road_codec (sample_env True True) allow_road) a = Inr a'" by (rule allow_road_runs)
  have "rm_allowed (rs_remotes (snd (Allowent_initiate (sample_env True True) 0 allow_road)) 0) = Some True"
    using Allowent_initiate_grants [OF allow_road_state(1) run(1,2) allow_road_size allow_road_proof run(3,4)]
      allow_road_state by simp
  from allow_needs_proof [OF allow_road_state(3) this] show ?thesis by blast
qed

theorem allow_accepts_proof_witness:
  "rm_allowed (rs_remotes (snd (Allowent_initiate (sample_env True True) 0 allow_road)) 0) = Some True"
proof -
  obtain q a a' where run: "RxPacket_parseInner (road_codec (sample_env True True) allow_road) initiate_packet = Inr q"
    "rp_embody q = BRaw sample_initiate"
    "TxPacket_init (tr_txData (rs_trans allow_road 0)) (Some (pckt_value PkAck)) RAW_BODY = Inr a"
    "TxPacket_pack (road_codec (sample_env True True) allow_road) a = Inr a'" by (rule allow_road_runs)
  show ?thesis
    using allow_accepts_proof [OF allow_road_state(1) run(1,2) allow_road_size allow_road_proof run(3,4)]
      allow_road_state by simp
qed

section \<open>Messages\<close>

definition received :: transaction where
  "received = empty_transaction\<lparr>tr_class := MessengentT, tr_rmt := True, tr_tid := 7,
     tr_rxtray := (RxTray_init [])\<lparr>rt_body := Some (BRaw ''hello'')\<rparr>\<rparr>"

definition forged_packet :: rxpacket where
  "forged_packet = plain_packet [(''sh'', VStr ''6.6.6.6''), (''sp'', VInt 666), (''se'', VInt 2), (''de'', VInt 2),
     (''si'', VInt 1), (''ti'', VInt 77), (''bk'', VInt 1)] (json_bytes [(''evil'', VInt 1)])"

definition forged_road :: "nat road_stack" where
  "forged_road = with_peer ''main'' ''m'' ''other'' ((peer ''s'' ''t'' ''o'')\<lparr>rm_allowed := Some True, rm_rsid := 1\<rparr>) empty_transaction"

theorem message_is_delivered_once_witness:
  "\<exists>s'. Messengent_complete short_env 0 (with_peer ''main'' ''m'' ''other'' (peer ''s'' ''t'' ''o'') received) = (Inr (), s') \<and>
     st_rxMsgs s' = [(BRaw ''hello'', ''other'')]"
proof -
  let ?s = "with_peer ''main'' ''m'' ''other'' (peer ''s'' ''t'' ''o'') received"
  have "case TxPacket_init [] (Some (pckt_value PkDone)) EMPTY_BODY of Inl _ \<Rightarrow> False | Inr a \<Rightarrow>
      (case TxPacket_pack (road_codec short_env ?s) a of Inl _ \<Rightarrow> False | Inr a' \<Rightarrow> True)" by code_simp
  then obtain a a' where a: "TxPacket_init [] (Some (pckt_value PkDone)) EMPTY_BODY = Inr a"
    "TxPacket_pack (road_codec short_env ?s) a = Inr a'" by (auto split: sum.splits)
  have "fst (Messengent_complete short_env 0 ?s) = Inr ()"
    using a by (intro Messengent_complete_returns [of ?s 0 a short_env a'])
      (simp_all add: received_def empty_transaction_def ohas_def)
  then obtain s' where s': "Messengent_complete short_env 0 ?s = (Inr (), s')"
    by (metis prod.collapse)
  have "st_rxMsgs ?s = []" by (simp add: with_peer_def sample_road_full)
  with message_is_delivered_once [OF _ _ _ s', of 0] s' show ?thesis
    by (simp add: received_def empty_transaction_def)
qed

lemma forged_message_returns: "fst (processRx short_env forged_packet forged_road) = Inr ()"
proof -
  have "case Messengent_init 0 forged_packet forged_road of (Inr t, s1) \<Rightarrow>
      rm_allowed (rs_remotes s1 0) = Some True \<and>
      \<not> ohas (rm_transactions (rs_remotes s1 0)) (own_index s1 t) \<and> ohas (st_uidRemotes s1) (remote_uid s1 0) \<and>
      (case RxTray_parse (road_codec short_env s1) (tr_rxtray (rs_trans s1 t)) forged_packet of
         Inr (tray, x) \<Rightarrow> rt_complete tray | Inl _ \<Rightarrow> False) \<and>
      (case TxPacket_init (tr_txData (rs_trans s1 t)) (Some (pckt_value PkDone)) EMPTY_BODY of Inl _ \<Rightarrow> False | Inr a \<Rightarrow>
        (case TxPacket_pack (road_codec short_env s1) a of Inl _ \<Rightarrow> False | Inr a' \<Rightarrow> True))
    | (Inl _, _) \<Rightarrow> False" by code_simp
  then obtain t s1 tray x a a' where init: "Messengent_init 0 forged_packet forged_road = (Inr t, s1)"
    and s1: "rm_allowed (rs_remotes s1 0) = Some True"
      "\<not> ohas (rm_transactions (rs_remotes s1 0)) (own_index s1 t)" "ohas (st_uidRemotes s1) (remote_uid s1 0)"
      "RxTray_parse (road_codec short_env s1) (tr_rxtray (rs_trans s1 t)) forged_packet = Inr (tray, x)" "rt_complete tray"
      "TxPacket_init (tr_txData (rs_trans s1 t)) (Some (pckt_value PkDone)) EMPTY_BODY = Inr a"
      "TxPacket_pack (road_codec short_env s1) a = Inr a'"
    by (cases "Messengent_init 0 forged_packet forged_road") (auto split: sum.splits)
  have "fst (Messengent_message short_env t s1) = Inr ()"
    using Messengent_init_run [OF init] s1 by (intro Messengent_message_returns) auto
  moreover have "processRx short_env forged_packet forged_road = stack_replyMessage short_env forged_packet 0 forged_road"
    by (rule processRx_begins) (code_simp, simp add: forged_road_def peer_def empty_remote_def)
  ultimately show ?thesis using init
    by (simp add: stack_replyMessage_def eff_run)
qed

theorem unsigned_message_is_delivered_witness:
  "st_rxMsgs (snd (processRx short_env forged_packet forged_road)) = [(BData (VDict [(''evil'', VInt 1)]), ''other'')]"
proof -
  obtain s' where run: "processRx short_env forged_packet forged_road = (Inr (), s')"
    using forged_message_returns by (metis prod.collapse)
  have "case RxPacket_unpackInner forged_packet of Inl _ \<Rightarrow> False | Inr p1 \<Rightarrow>
      rp_coat p1 \<noteq> [] \<and> json_loads (rv_codec short_env) (rp_coat p1) = Some (VDict [(''evil'', VInt 1)])" by code_simp
  then obtain p1 where p1: "RxPacket_unpackInner forged_packet = Inr p1" "rp_coat p1 \<noteq> []"
    "json_loads (rv_codec short_env) (rp_coat p1) = Some (VDict [(''evil'', VInt 1)])"
    by (auto split: sum.splits)
  have begins: "begins_message forged_road (rp_data forged_packet) 0" by code_simp
  have head: "oget (rp_data forged_packet) ''fk'' = Some (VInt 0)" "oget (rp_data forged_packet) ''ck'' = Some (VInt 0)"
    "oget (rp_data forged_packet) ''bk'' = Some (VInt 1)" "oget (rp_data forged_packet) ''sc'' = Some (VInt 1)"
    "oget (rp_data forged_packet) ''sn'' = Some (VInt 0)"
    by (code_simp, code_simp, code_simp, code_simp, code_simp)
  have road: "rm_allowed (rs_remotes forged_road 0) = Some True" "rm_reaped (rs_remotes forged_road 0) \<noteq> Some True"
    "st_rxMsgs forged_road = []" "remote_name forged_road 0 = ''other''"
    by (simp_all add: forged_road_def peer_def empty_remote_def) (simp_all add: with_peer_def sample_road_full)
  show ?thesis
    using unsigned_message_is_delivered [OF begins road(1,2) head(1-4) p1 run head(5)] run road(3,4) by simp
qed

section \<open>Both sides\<close>

definition main_side :: "nat road_stack" where
  "main_side = with_peer ''main'' (key_bytes (CHR ''m'')) ''other''
     (peer (key_bytes (CHR ''s'')) (key_bytes (CHR ''t'')) (key_bytes (CHR ''o'')))
     (empty_transaction\<lparr>tr_class := MessengerT, tr_sid := 1, tr_tid := 7, tr_bcst := VBool False\<rparr>)"

definition other_side :: "nat road_stack" where
  "other_side = with_peer ''other'' (key_bytes (CHR ''o'')) ''main''
     (peer (key_bytes (CHR ''t'')) (key_bytes (CHR ''s'')) (key_bytes (CHR ''m''))) empty_transaction"

lemma key_bytes_form: "key_form (key_bytes c) (key_bytes c)" "key_form (key_bytes c) (hexlify (key_bytes c))"
  by (simp_all add: key_form_def key_bytes_def)

lemma key_bytes_length [simp]: "length (key_bytes c) = 32"
  by (simp add: key_bytes_def)

lemma sample_keys_fit:
  "signs_for seal_nacl (sample_signer (key_bytes c)) (sample_verifier (key_bytes c))"
  "opens_for seal_nacl (sample_privateer (key_bytes c)) (sample_publican (key_bytes c))"
proof -
  note key = key_inits [OF key_bytes_form(1)] key_inits [OF key_bytes_form(2)]
    key_form_reads [OF key_bytes_form(1)] key_form_reads [OF key_bytes_form(2)]
  have "Signer_init seal_nacl (KeyBytes (key_bytes c)) r = (Inr (sample_signer (key_bytes c)), r)" for r
    by (simp add: Signer_init_def key_of_def run_simps key SigningKey_init_def VerifyKey_init_def
        sample_signer_def seal_nacl_def seal_pair_def)
  moreover have "Verifier_init seal_nacl (KeyBytes (sr_verhex (sample_signer (key_bytes c)))) = Inr (sample_verifier (key_bytes c))"
    by (simp add: Verifier_init_def key_of_def key VerifyKey_init_def sample_signer_def signer_of_def
        sample_verifier_def seal_nacl_def)
  ultimately show "signs_for seal_nacl (sample_signer (key_bytes c)) (sample_verifier (key_bytes c))"
    unfolding signs_for_def by (intro exI [of _ "key_bytes c"]) simp
  have "Privateer_init seal_nacl (KeyBytes (key_bytes c)) r = (Inr (sample_privateer (key_bytes c)), r)" for r
    by (simp add: Privateer_init_def key_of_def run_simps key PrivateKey_init_def PublicKey_init_def
        sample_privateer_def seal_nacl_def)
  moreover have "Publican_init seal_nacl (KeyBytes (pv_pubraw (sample_privateer (key_bytes c)))) = Inr (sample_publican (key_bytes c))"
    by (simp add: Publican_init_def key_of_def key PublicKey_init_def sample_privateer_def privateer_of_def
        sample_publican_def seal_nacl_def)
  ultimately show "opens_for seal_nacl (sample_privateer (key_bytes c)) (sample_publican (key_bytes c))"
    unfolding opens_for_def by (intro exI [of _ "key_bytes c"]) simp
qed

lemma sides_paired: "paired (sample_env True True) main_side 0 (sample_env False True) other_side 0"
proof -
  have "bits_law road_sample_codec road_sample_codec"
    using sample_bits by (simp add: bits_law_def sample_codec_def road_sample_codec_def)
  then show ?thesis
    using seal_nacl_ok sample_keys_fit
    by (simp add: paired_def Let_def main_side_def other_side_def peer_def sample_env_def oget_def)
     (simp add: with_peer_def sample_road_full)
qed

theorem transaction_packet_arrives_witness:
  "\<exists>data q s1 x. prep_remote [stack_hk, stack_bk, stack_fk, stack_ck] main_side (rs_trans main_side 0) = Inr data \<and>
     make_packet (sample_env True True) PkMessage (BData (VDict [(''stuff'', VInt 5)])) data main_side = (Inr (Some q), s1) \<and>
     RxPacket_parse (road_codec (sample_env False True) other_side) (RxPacket_init [] (tp_packed q)) = Inr x \<and>
     rp_embody x = BData (VDict [(''stuff'', VInt 5)])"
proof -
  let ?base = "[stack_hk, stack_bk, stack_fk, stack_ck]"
  let ?E = "sample_env True True" let ?E' = "sample_env False True"
  let ?b = "BData (VDict [(''stuff'', VInt 5)])"
  let ?tr = "empty_transaction\<lparr>tr_class := MessengerT, tr_sid := 1, tr_tid := 7, tr_bcst := VBool False\<rparr>"
  have "case prep_remote ?base main_side ?tr of Inl _ \<Rightarrow> False | Inr data \<Rightarrow>
      (case TxPacket_init data (Some (pckt_value PkMessage)) ?b of Inl _ \<Rightarrow> False | Inr p \<Rightarrow>
        (case TxPacket_pack (road_codec ?E main_side) p of Inl _ \<Rightarrow> False | Inr q \<Rightarrow> True))" by code_simp
  then obtain data p q where run: "prep_remote ?base main_side ?tr = Inr data"
    "TxPacket_init data (Some (pckt_value PkMessage)) ?b = Inr p" "TxPacket_pack (road_codec ?E main_side) p = Inr q"
    by (auto split: sum.splits)
  obtain s1 where s1: "make_packet ?E PkMessage ?b data main_side = (Inr (Some q), s1)"
    using make_packet_run [OF run(2,3)] by blast
  have tr: "rs_trans main_side 0 = ?tr" by (simp add: main_side_def)
  have remote: "tr_remote ?tr = 0" by (simp add: empty_transaction_def)
  have "body_law (rv_codec ?E) (rv_codec ?E') 1 ?b"
  proof -
    have "case sample_dump (VDict [(''stuff'', VInt 5)]) of Inl _ \<Rightarrow> False
        | Inr t \<Rightarrow> t \<noteq> [] \<and> sample_load t = Some (VDict [(''stuff'', VInt 5)])" by code_simp
    then show ?thesis by (auto simp: body_law_def sample_env_def road_sample_codec_def road_dumps_def split: sum.splits)
  qed
  moreover have "oget ?base ''bk'' = Some (VInt 1)" by code_simp
  ultimately show ?thesis
    using transaction_packet_arrives [of ?E main_side ?tr ?E' other_side 0 ?base data 1 ?b PkMessage q s1]
      sides_paired run(1) s1 unfolding tr remote
    by (fastforce simp: session_kinds_def empty_transaction_def)
qed

section \<open>Restarting\<close>

definition kept_remote :: remote_part where
  "kept_remote = (peer ''s'' ''t'' (key_bytes (CHR ''k'')))\<lparr>es_fqdn := ''host'', es_role := ''minion'',
     rm_acceptance := VInt 1\<rparr>"

theorem remote_survives_restart_witness:
  "\<exists>s' q u'. dump_remote (sample_env True True) 0
        (with_peer ''main'' ''m'' ''other'' kept_remote empty_transaction) = (Inr (), s') \<and>
     road_restoreRemote (sample_env True True) ''other'' ((sample_road ''main'' 7530 ''m'')\<lparr>ks_fs := ks_fs s'\<rparr>) =
       (Inr (Some q), u') \<and>
     remote_view u' q = remote_view (with_peer ''main'' ''m'' ''other'' kept_remote empty_transaction) 0"
proof -
  let ?E = "sample_env True True"
  let ?s = "with_peer ''main'' ''m'' ''other'' kept_remote empty_transaction" let ?e = "remote_view ?s 0"
  have E: "rv_nacl ?E = seal_nacl" "rv_keep ?E = sample_roadkeep AutoOnce" "rv_getaddrinfo ?E = sample_getaddrinfo"
    by (simp_all add: sample_env_def)
  have e: "re_name ?e = ''other''" "re_uid ?e = 2" "re_ha ?e = sample_ha 7531" "re_iha ?e = VNone"
    "re_fqdn ?e = VStr ''host''" "re_role ?e = ''minion''" "re_acceptance ?e = VInt 1" "re_natted ?e = VNone"
    "re_dyned ?e = VNone" "re_main ?e = VBool False" "re_kind ?e = VInt 0" "re_joined ?e = VBool True"
    by (simp_all add: remote_view_def kept_remote_def peer_def with_peer_def empty_remote_def)
  have stor: "storable_estate ?e"
    by (auto simp: storable_estate_def e file_part_def sample_ha_def intro: exI [of _ Accepted])
  have settled: "settled ?E ?e"
    by (simp add: settled_def e sample_ha_def normal_ha_def normalizeHost_def E sample_getaddrinfo_def
        first_address_def loopback_def)
  have keys: "verifier_ok (rm_verfer (rs_remotes ?s 0))" "publican_ok (rm_pubber (rs_remotes ?s 0))"
    by (simp_all add: kept_remote_def peer_def sample_verifier_def sample_publican_def verifier_ok_def
        publican_ok_def key_bytes_def)
  have files: "keep_holds (rv_keep ?E) (ks_fs ?s) Map.empty" "roles_hold (rv_keep ?E) (ks_fs ?s) Map.empty"
    using sample_roles(2,4) [of AutoOnce] by (simp_all add: E with_peer_def sample_road_full)
  have k: "roadkeep_ok (rv_keep ?E)" "kp_RemoteFields (rv_keep ?E) = ROAD_REMOTE_FIELDS"
    using sample_roadkeep_ok [of AutoOnce] by (simp_all add: E) (simp add: sample_roadkeep_def)
  have N: "nacl_ok (rv_nacl ?E)" using seal_nacl_ok by (simp add: E)
  from remote_survives_restart [OF N k refl stor settled keys files] obtain s' where
    s': "dump_remote ?E 0 ?s = (Inr (), s')"
    and again: "\<forall>u. ks_fs u = ks_fs s' \<and> \<not> ohas (st_uidRemotes u) (re_uid ?e) \<and> re_uid ?e \<noteq> lot_uid (st_local u) \<and>
         \<not> ohas (st_nameRemotes u) (re_name ?e) \<and> re_name ?e \<noteq> lot_name (st_local u) \<longrightarrow>
       (\<exists>q u'. road_restoreRemote ?E (re_name ?e) u = (Inr (Some q), u') \<and> remote_view u' q = ?e)" by blast
  let ?u = "(sample_road ''main'' 7530 ''m'')\<lparr>ks_fs := ks_fs s'\<rparr>"
  have "\<exists>q u'. road_restoreRemote ?E (re_name ?e) ?u = (Inr (Some q), u') \<and> remote_view u' q = ?e"
    using again [rule_format, of ?u] by (simp add: e(1,2) sample_road_full)
  with s' show ?thesis unfolding e(1) by blast
qed

end
