(* ===== verification/Yarding.thy ===== *)
theory Yarding
  imports Stacking Paging Paths
begin

text \<open>
  Yards, raet/lane/yarding.py: the ends of a lane. A yard's name and that of its lane are in the path
  of its socket; a remote yard keeps the books of incomplete messages.

  The paths are those of POSIX, \<open>os.path\<close>; the file system, the platform and the ids that
  \<open>nacling.uuid\<close> makes are arguments, the record \<open>lane_env\<close>.
\<close>

section \<open>Environment and state\<close>

record lane_env =
  le_codec :: codec
  le_pk :: int
  le_win :: bool
  le_dirs :: dir_env
  le_uuid :: "nat \<Rightarrow> string"

text \<open>What a yard has beyond a lot. Its session id is a string, and not the one of the lot.\<close>

record yard =
  yd_sid :: string
  yd_lanename :: string
  yd_dirpath :: string
  yd_bid :: int
  yd_rsid :: val
  yd_books :: "(pindex, rxbook) odict"

record lane = "(val, body \<times> int option) stack" +
  la_local :: yard
  la_yards :: "nat \<Rightarrow> yard"
  la_haRemotes :: "(val, nat) odict"
  la_accept :: bool
  la_new :: nat
  la_uuids :: nat

type_synonym 'a lane_eff = "(lane, 'a) eff"

definition yget :: "nat \<Rightarrow> (yard \<Rightarrow> 'a) \<Rightarrow> 'a lane_eff" where
  "yget r f = eget (\<lambda>s. f (la_yards s r))"

definition ymod :: "nat \<Rightarrow> (yard \<Rightarrow> yard) \<Rightarrow> unit lane_eff" where
  "ymod r f = emod (\<lambda>s. s\<lparr>la_yards := (la_yards s)(r := f (la_yards s r))\<rparr>)"

definition new_uuid :: "lane_env \<Rightarrow> string lane_eff" where
  "new_uuid E =
     ebind (eget la_uuids) (\<lambda>n.
     ethen (emod (\<lambda>s. s\<lparr>la_uuids := Suc n\<rparr>)) (eret (le_uuid E n)))"

section \<open>Addresses\<close>

definition UXD_EXT :: string where "UXD_EXT = ''.uxd''"
definition YARD_UXD_DIR :: string where "YARD_UXD_DIR = ''/var/cache/raet''"
definition ALT_YARD_UXD_DIR :: string where "ALT_YARD_UXD_DIR = ''~/.raet/uxd''"

text \<open>\<open>"{0}.{1}.uxd"\<close>.\<close>

definition socket_name :: "string \<Rightarrow> string \<Rightarrow> string" where
  "socket_name lanename yardname = lanename @ [DOT] @ yardname @ UXD_EXT"

definition socket_dir :: "lane_env \<Rightarrow> string \<Rightarrow> string result" where
  "socket_dir E dirpath =
     (if le_win E then Inr dirpath else chosen_dir (le_dirs E) [EEXIST] dirpath ALT_YARD_UXD_DIR)"

definition computeHa :: "lane_env \<Rightarrow> string \<Rightarrow> string \<Rightarrow> string \<Rightarrow> (string \<times> string) result" where
  "computeHa E dirpath lanename yardname =
     rbind (socket_dir E dirpath) (\<lambda>d. Inr (posix_join d (socket_name lanename yardname), d))"

definition namesFromHa :: "string \<Rightarrow> (string \<times> string) result" where
  "namesFromHa ha =
     (let tail = path_tail ha in
      if tail = [] then Inl YardError
      else let (front, ext) = splitext tail in
        if ext \<noteq> UXD_EXT then Inl YardError
        else case rsplit DOT front of None \<Rightarrow> Inl YardError | Some names \<Rightarrow> Inr names)"

section \<open>Yards\<close>

text \<open>
  The keyword arguments of \<open>Yard\<close>. The check of the name formats the attribute that is not set yet,
  so a name with a blank raises \<open>AttributeError\<close>.
\<close>

record yard_args =
  ya_uid :: "int option"
  ya_prefix :: string
  ya_name :: string
  ya_ha :: string
  ya_sid :: "string option"
  ya_dirpath :: string
  ya_lanename :: string
  ya_bid :: int

definition checked_names :: "yard_args \<Rightarrow> (string \<times> string) result" where
  "checked_names a =
     (if SP \<in> set (ya_lanename a) then Inl YardError
      else if SP \<in> set (ya_name a) then Inl AttributeError
      else if ya_ha a = [] then Inr (ya_lanename a, ya_name a)
      else
        rbind (namesFromHa (ya_ha a)) (\<lambda>(lname, yname).
        if ya_name a \<noteq> [] \<and> ya_name a \<noteq> yname then Inl YardError
        else if ya_lanename a \<noteq> [] \<and> ya_lanename a \<noteq> lname then Inl YardError
        else Inr (lname, yname)))"

definition Yard_init :: "lane_env \<Rightarrow> yard_args \<Rightarrow> int \<Rightarrow> (val lot \<times> yard) lane_eff" where
  "Yard_init E a uid =
     ebind (elift (checked_names a)) (\<lambda>(lname, yname).
     ebind (if yname \<noteq> [] then eret yname
            else ebind (new_uuid E) (\<lambda>u. eret (ya_prefix a @ ''_'' @ u))) (\<lambda>name.
     ebind (case ya_sid a of None \<Rightarrow> new_uuid E | Some sid \<Rightarrow> eret sid) (\<lambda>sid.
     let lanename = (if lname = [] then ''lane'' else lname) in
     ebind (elift
        (if ya_ha a \<noteq> [] then Inr (ya_ha a, ya_dirpath a)
         else computeHa E (if ya_dirpath a = [] then YARD_UXD_DIR else ya_dirpath a) lanename name))
        (\<lambda>(ha, dirpath).
     eret (\<lparr>lot_name = name, lot_uid = uid, lot_ha = VStr ha, lot_sid = 0\<rparr>,
           \<lparr>yd_sid = sid, yd_lanename = lanename, yd_dirpath = dirpath, yd_bid = ya_bid a,
            yd_rsid = VInt 0, yd_books = []\<rparr>)))))"

definition local_yard :: "lane_env \<Rightarrow> yard_args \<Rightarrow> (val lot \<times> yard) lane_eff" where
  "local_yard E a =
     ebind (case ya_uid a of None \<Rightarrow> nextUid | Some uid \<Rightarrow> eret uid) (Yard_init E a)"

text \<open>A remote yard is an object, a new number for the state's \<open>la_yards\<close> and \<open>st_lots\<close>.\<close>

definition new_yard :: "val lot \<Rightarrow> yard \<Rightarrow> nat lane_eff" where
  "new_yard l y s =
     (Inr (la_new s), s\<lparr>st_lots := (st_lots s)(la_new s := l), la_yards := (la_yards s)(la_new s := y),
        la_new := Suc (la_new s)\<rparr>)"

definition RemoteYard_init :: "lane_env \<Rightarrow> yard_args \<Rightarrow> nat lane_eff" where
  "RemoteYard_init E a =
     ebind (case ya_uid a of None \<Rightarrow> new_uid | Some uid \<Rightarrow> eret uid) (\<lambda>uid.
     ebind (Yard_init E a uid) (\<lambda>(l, y). new_yard l y))"

definition yard_nextSid :: "lane_env \<Rightarrow> nat \<Rightarrow> string lane_eff" where
  "yard_nextSid E r =
     ebind (new_uuid E) (\<lambda>u. ethen (ymod r (\<lambda>y. y\<lparr>yd_sid := u\<rparr>)) (eret u))"

definition next_bid :: "int \<Rightarrow> int" where
  "next_bid b = (if b + 1 > 0xffffffff then 1 else b + 1)"

definition nextBid :: "nat \<Rightarrow> int lane_eff" where
  "nextBid r = ethen (ymod r (\<lambda>y. y\<lparr>yd_bid := next_bid (yd_bid y)\<rparr>)) (yget r yd_bid)"

section \<open>Books of a remote yard\<close>

definition addBook :: "nat \<Rightarrow> pindex \<Rightarrow> rxbook \<Rightarrow> unit lane_eff" where
  "addBook r i b =
     ebind (yget r yd_books) (\<lambda>books.
     if ohas books i then eraise YardError
     else ymod r (\<lambda>y. y\<lparr>yd_books := oset i b (yd_books y)\<rparr>))"

text \<open>Nobody gives \<open>removeBook\<close> a book to compare.\<close>

definition removeBook :: "nat \<Rightarrow> pindex \<Rightarrow> unit lane_eff" where
  "removeBook r i = ymod r (\<lambda>y. y\<lparr>yd_books := odel i (yd_books y)\<rparr>)"

definition index_si :: "pindex \<Rightarrow> val" where
  "index_si i = (case i of (_, _, si, _) \<Rightarrow> si)"

definition removeStaleBooks :: "nat \<Rightarrow> unit lane_eff" where
  "removeStaleBooks r =
     ebind (yget r id) (\<lambda>y.
     efor (okeys (yd_books y)) (\<lambda>i.
       ewhen (index_si i \<noteq> yd_rsid y) (ethen (removeBook r i) (incStat ''stale_book'' 1))))"

end
