(* ===== verification/LaneStacking.thy ===== *)
theory LaneStacking
  imports Yarding
begin

text \<open>
  The lane stack, raet/lane/stacking.py: the tables of yards, the pages that come in and their books,
  the messages that go out, and the sends, after which a yard that is gone is removed.
\<close>

section \<open>Creation\<close>

definition new_lane :: "int \<Rightarrow> bool \<Rightarrow> lane" where
  "new_lane puid accept =
     \<lparr>st_stamp = 0, st_puid = puid, st_local = \<lparr>lot_name = [], lot_uid = 0, lot_ha = VNone, lot_sid = 0\<rparr>,
      st_lots = (\<lambda>_. \<lparr>lot_name = [], lot_uid = 0, lot_ha = VNone, lot_sid = 0\<rparr>), st_uidRemotes = [],
      st_nameRemotes = [], st_server = True, st_inbox = [], st_rxes = [], st_txes = [], st_rxMsgs = [],
      st_txMsgs = [], st_stats = [], st_statTimer = \<lparr>tm_start = 0, tm_duration = 0\<rparr>, st_attempts = [],
      st_sent = [],
      la_local = \<lparr>yd_sid = [], yd_lanename = [], yd_dirpath = [], yd_bid = 0, yd_rsid = VInt 0, yd_books = []\<rparr>,
      la_yards = (\<lambda>_. \<lparr>yd_sid = [], yd_lanename = [], yd_dirpath = [], yd_bid = 0, yd_rsid = VInt 0, yd_books = []\<rparr>),
      la_haRemotes = [], la_accept = accept, la_new = 0, la_uuids = 0\<rparr>"

text \<open>
  \<open>reopen\<close> gives the address of the opened server, or \<open>None\<close> if it could not be opened.
\<close>

definition LaneStack_init ::
    "lane_env \<Rightarrow> (val \<Rightarrow> val option) \<Rightarrow> int option \<Rightarrow> yard_args \<Rightarrow> bool option \<Rightarrow> lane result" where
  "LaneStack_init E reopen puid a accept =
     (case local_yard E a (new_lane (case puid of None \<Rightarrow> 0 | Some n \<Rightarrow> n)
                             (case accept of None \<Rightarrow> True | Some b \<Rightarrow> b)) of
        (Inl e, _) \<Rightarrow> Inl e
      | (Inr (l, y), s) \<Rightarrow>
          (case reopen (lot_ha l) of
             None \<Rightarrow> Inl StackError
           | Some ha \<Rightarrow> Inr (s\<lparr>st_local := l\<lparr>lot_ha := ha\<rparr>, la_local := y\<rparr>)))"

section \<open>Remotes\<close>

definition remote_ha :: "lane \<Rightarrow> nat \<Rightarrow> val" where
  "remote_ha s r = lot_ha (st_lots s r)"

definition lane_addRemote :: "nat \<Rightarrow> unit lane_eff" where
  "lane_addRemote r =
     ebind (eget (\<lambda>s. remote_ha s r)) (\<lambda>ha.
     ebind (eget (\<lambda>s. ohas (la_haRemotes s) ha \<or> ha = lot_ha (st_local s))) (\<lambda>taken.
     if taken then eraise StackError
     else ethen (addRemote r) (emod (\<lambda>s. s\<lparr>la_haRemotes := oset ha r (la_haRemotes s)\<rparr>))))"

definition lane_removeRemote :: "nat \<Rightarrow> unit lane_eff" where
  "lane_removeRemote r =
     ethen (removeRemote r)
      (ebind (eget (\<lambda>s. remote_ha s r)) (\<lambda>ha.
       ebind (eget (\<lambda>s. ohas (la_haRemotes s) ha)) (\<lambda>present.
       if present then emod (\<lambda>s. s\<lparr>la_haRemotes := odel ha (la_haRemotes s)\<rparr>)
       else eraise KeyError)))"

section \<open>Receiving\<close>

definition on_book :: "nat \<Rightarrow> pindex \<Rightarrow> (rxbook, 'a) eff \<Rightarrow> 'a lane_eff" where
  "on_book r i m s =
     (case oget (yd_books (la_yards s r)) i of
        None \<Rightarrow> (Inl KeyError, s)
      | Some b \<Rightarrow>
          (case m b of
             (x, b') \<Rightarrow> (x, s\<lparr>la_yards := (la_yards s)(r := (la_yards s r)\<lparr>yd_books :=
                               oset i b' (yd_books (la_yards s r))\<rparr>)\<rparr>)))"

definition rx_deliver :: "nat \<Rightarrow> body \<Rightarrow> unit lane_eff" where
  "rx_deliver r b = emod (\<lambda>s. s\<lparr>st_rxMsgs := st_rxMsgs s @ [(b, remote_name s r)]\<rparr>)"

text \<open>The book of a page: the first page opens it, other pages of an unknown book are dropped.\<close>

definition open_book :: "nat \<Rightarrow> pindex \<Rightarrow> page \<Rightarrow> bool lane_eff" where
  "open_book r i p =
     ebind (yget r yd_books) (\<lambda>books.
     if ohas books i then eret True
     else
       ebind (elift (oitem (pg_data p) ''pn'')) (\<lambda>pn.
       if \<not> is_int pn 0 then ethen (incStat ''missed_page'' 1) (eret False)
       else ethen (addBook r i (RxBook_init [])) (eret True)))"

definition close_book :: "nat \<Rightarrow> pindex \<Rightarrow> unit lane_eff" where
  "close_book r i =
     ebind (on_book r i (eget id)) (\<lambda>b.
     ewhen (rb_complete b)
      (ethen (removeBook r i) (rx_deliver r (case rb_body b of None \<Rightarrow> BData VNone | Some x \<Rightarrow> x))))"

definition lane_processRx :: "lane_env \<Rightarrow> page \<Rightarrow> nat \<Rightarrow> unit lane_eff" where
  "lane_processRx E p r =
     ebind (elift (RxPage_index (pg_data p))) (\<lambda>i.
     ebind (elift (paginated (pg_data p))) (\<lambda>many.
     if many then
       ebind (open_book r i p) (\<lambda>go.
       ewhen go (ethen (on_book r i (RxBook_parse (le_codec E) p)) (close_book r i)))
     else
       ebind (elift (RxPageBody_parse (le_codec E) p)) (\<lambda>p1. rx_deliver r (pg_embody p1))))"

text \<open>
  A head that cannot be parsed is counted, and the page goes on with the default head, and with the
  parts into which the parser has split it, if it got so far.
\<close>

definition unparsed_page :: "bytes \<Rightarrow> page" where
  "unparsed_page raw =
     (if starts_with (''ri RAET'' @ [NL]) raw \<and> contains raw HEAD_END
      then let (front, sep, rest) = partition_at raw HEAD_END
           in (RxPage_init [] raw)\<lparr>pg_head := front @ sep, pg_body := rest\<rparr>
      else RxPage_init [] raw)"

definition parse_head :: "lane_env \<Rightarrow> bytes \<Rightarrow> page lane_eff" where
  "parse_head E raw =
     (case RxPageHead_parse (le_codec E) (RxPage_init [] raw) of
        Inr p \<Rightarrow> eret p
      | Inl e \<Rightarrow>
          if e = PageError then ethen (incStat ''invalid_page_header'' 1) (eret (unparsed_page raw))
          else eraise e)"

definition page_name :: "page \<Rightarrow> string \<Rightarrow> string result" where
  "page_name p k = rbind (oitem (pg_data p) k) (\<lambda>v. case v of VStr s \<Rightarrow> Inr s | _ \<Rightarrow> Inl TypeError)"

text \<open>An address of the socket, or, on Windows, one that is computed.\<close>

definition page_ha :: "lane_env \<Rightarrow> yard \<Rightarrow> string \<Rightarrow> val \<Rightarrow> string result" where
  "page_ha E own sn sa =
     (case sa of
        VNone \<Rightarrow> rbind (computeHa E (yd_dirpath own) (yd_lanename own) sn) (\<lambda>(ha, d). Inr ha)
      | VStr ha \<Rightarrow> Inr ha
      | _ \<Rightarrow> Inl TypeError)"

definition source_args :: "string \<Rightarrow> yard_args" where
  "source_args ha =
     \<lparr>ya_uid = None, ya_prefix = ''yard'', ya_name = [], ya_ha = ha, ya_sid = None, ya_dirpath = [],
      ya_lanename = [], ya_bid = 0\<rparr>"

text \<open>A page from an unknown yard makes a remote of the address that it came from.\<close>

definition add_source :: "lane_env \<Rightarrow> string \<Rightarrow> val \<Rightarrow> bool lane_eff" where
  "add_source E sn sa =
     ebind (eget la_accept) (\<lambda>accept.
     if \<not> accept then ethen (incStat ''unaccepted_source_yard'' 1) (eret False)
     else
       ebind (eget la_local) (\<lambda>own.
       ebind (elift (page_ha E own sn sa)) (\<lambda>ha.
       ebind (etry (\<lambda>e. e = StackError)
          (ebind (RemoteYard_init E (source_args ha)) (\<lambda>r. ethen (lane_addRemote r) (eret True)))
          (eret False)) (\<lambda>ok.
       ethen (ewhen (\<not> ok) (incStat ''invalid_source_yard'' 1)) (eret ok)))))"

definition source_remote :: "lane_env \<Rightarrow> string \<Rightarrow> val \<Rightarrow> nat option lane_eff" where
  "source_remote E sn sa =
     ebind (eget (\<lambda>s. ohas (st_nameRemotes s) sn)) (\<lambda>known.
     ebind (if known then eret True else add_source E sn sa) (\<lambda>ok.
     if \<not> ok then eret None
     else ebind (eget (\<lambda>s. oget (st_nameRemotes s) sn)) (\<lambda>r. case r of
            None \<Rightarrow> eraise KeyError
          | Some r \<Rightarrow> eret (Some r))))"

definition note_session :: "nat \<Rightarrow> val \<Rightarrow> unit lane_eff" where
  "note_session r si =
     ebind (yget r yd_rsid) (\<lambda>old.
     ewhen (si \<noteq> old) (ethen (ymod r (\<lambda>y. y\<lparr>yd_rsid := si\<rparr>)) (removeStaleBooks r)))"

definition lane_received :: "lane_env \<Rightarrow> bytes \<Rightarrow> val \<Rightarrow> unit lane_eff" where
  "lane_received E raw sa =
     ebind (parse_head E raw) (\<lambda>p.
     ebind (elift (page_name p ''dn'')) (\<lambda>dn.
     ebind (eget (\<lambda>s. lot_name (st_local s))) (\<lambda>own.
     ethen (ewhen (dn \<noteq> own) (incStat ''invalid_destination'' 1))
      (ebind (elift (page_name p ''sn'')) (\<lambda>sn.
       ebind (source_remote E sn sa) (\<lambda>source. case source of
         None \<Rightarrow> eret ()
       | Some r \<Rightarrow>
           ebind (elift (oitem (pg_data p) ''si'')) (\<lambda>si.
           ethen (note_session r si) (lane_processRx E p r))))))))"

definition lane_handleOneRx :: "lane_env \<Rightarrow> unit lane_eff" where
  "lane_handleOneRx E =
     ebind (eget st_rxes) (\<lambda>q. case q of
       [] \<Rightarrow> eraise IndexError
     | (raw, sa) # rest \<Rightarrow> ethen (emod (\<lambda>s. s\<lparr>st_rxes := rest\<rparr>)) (lane_received E raw sa))"

definition lane_serviceRxes :: "lane_env \<Rightarrow> unit lane_eff" where
  "lane_serviceRxes E = serviceRxes (lane_handleOneRx E)"

definition lane_serviceRxOnce :: "lane_env \<Rightarrow> unit lane_eff" where
  "lane_serviceRxOnce E = serviceRxOnce (lane_handleOneRx E)"

section \<open>Transmitting\<close>

definition message_data :: "lane_env \<Rightarrow> lane \<Rightarrow> nat \<Rightarrow> int \<Rightarrow> hdata" where
  "message_data E s r bid =
     [(''pk'', VInt (le_pk E)), (''sn'', VStr (lot_name (st_local s))), (''dn'', VStr (remote_name s r)),
      (''si'', VStr (yd_sid (la_yards s r))), (''bi'', VInt bid)]"

definition send_body :: "lane_env \<Rightarrow> body \<Rightarrow> nat \<Rightarrow> unit lane_eff" where
  "send_body E b r =
     ebind (nextBid r) (\<lambda>bid.
     ebind (eget (\<lambda>s. TxBook_pack (le_codec E) (TxBook_init (message_data E s r bid) b) [] None)) (\<lambda>book.
     case book of
       Inl e \<Rightarrow> if e = PageError then incStat ''packing_error'' 1 else eraise e
     | Inr book \<Rightarrow>
         emod (\<lambda>s. s\<lparr>st_txes := st_txes s @ map (\<lambda>p. (pg_packed p, remote_ha s r)) (tb_pages book)\<rparr>)))"

definition lane_message :: "lane_env \<Rightarrow> body \<Rightarrow> int option \<Rightarrow> unit lane_eff" where
  "lane_message E b uid =
     ebind (eget id) (\<lambda>s.
     case (case uid of Some u \<Rightarrow> Some u | None \<Rightarrow>
             (case ovalues (st_uidRemotes s) of [] \<Rightarrow> None | r # _ \<Rightarrow> Some (remote_uid s r))) of
       None \<Rightarrow> incStat ''invalid_destination'' 1
     | Some u \<Rightarrow>
         (case oget (st_uidRemotes s) u of
            None \<Rightarrow> incStat ''invalid_destination'' 1
          | Some r \<Rightarrow> send_body E b r))"

definition lane_handleOneTxMsg :: "lane_env \<Rightarrow> unit lane_eff" where
  "lane_handleOneTxMsg E = handleOneTxMsg (\<lambda>(b, uid). lane_message E b uid)"

definition busy_errors :: "errno list" where
  "busy_errors = [EAGAIN, EWOULDBLOCK, ENOBUFS]"

definition reap_yard :: "val \<Rightarrow> unit lane_eff" where
  "reap_yard ta =
     ethen (incStat ''stale_transmit_yard'' 1)
      (ebind (eget (\<lambda>s. oget (la_haRemotes s) ta)) (\<lambda>r. case r of
         None \<Rightarrow> eret () | Some r \<Rightarrow> lane_removeRemote r))"

definition lane_handleOneTx :: "val network \<Rightarrow> val blocked \<Rightarrow> val blocked lane_eff" where
  "lane_handleOneTx net lb =
     (case lb of (laters, blocks) \<Rightarrow>
      ebind (eget st_txes) (\<lambda>q. case q of
        [] \<Rightarrow> eraise IndexError
      | (packed, ta) # rest \<Rightarrow>
          ethen (emod (\<lambda>s. s\<lparr>st_txes := rest\<rparr>))
           (if ta \<in> set blocks then eret (laters @ [(packed, ta)], blocks)
            else ebind (sock_send net packed ta) (\<lambda>r. case r of
              None \<Rightarrow> eret (laters, blocks)
            | Some e \<Rightarrow>
                if e = ECONNREFUSED \<or> e = ENOENT then ethen (reap_yard ta) (eret (laters, blocks))
                else if e \<in> set busy_errors then
                  ethen (incStat ''busy_transmit_yard'' 1) (eret (laters @ [(packed, ta)], blocks @ [ta]))
                else ethen (incStat ''error_transmit_yard'' 1) (eraise OSError)))))"

fun lane_tx_loop :: "val network \<Rightarrow> nat \<Rightarrow> val blocked \<Rightarrow> val blocked lane_eff" where
  "lane_tx_loop net 0 lb = eret lb"
| "lane_tx_loop net (Suc n) lb =
     ebind (eget st_txes) (\<lambda>q. if q = [] then eret lb else ebind (lane_handleOneTx net lb) (lane_tx_loop net n))"

definition lane_serviceTxes :: "val network \<Rightarrow> unit lane_eff" where
  "lane_serviceTxes net =
     ebind (eget id) (\<lambda>s. ewhen (st_server s)
       (ebind (lane_tx_loop net (length (st_txes s)) ([], [])) put_back))"

section \<open>Service\<close>

definition lane_serviceAll :: "lane_env \<Rightarrow> val network \<Rightarrow> unit lane_eff" where
  "lane_serviceAll E net =
     ethen (serviceAllRx (lane_handleOneRx E) (eret ()))
      (ethen (serviceTxMsgs (\<lambda>(b, uid). lane_message E b uid)) (lane_serviceTxes net))"

end
