(* ===== verification/LaneService.thy ===== *)
theory LaneService
  imports LaneStacking
begin

text \<open>
  The interface between the operations on yards and the service of the lane stack: a property that
  the operations on yards preserve is preserved by the whole service.
\<close>

section \<open>What the service of the lane preserves\<close>

text \<open>
  A property of the state that does not depend on the queues, the statistics and the counters is
  preserved by the whole service of the stack if the operations on yards preserve it.
\<close>

lemma Yard_init_books: "Yard_init E a uid s = (Inr (l, y), s') \<Longrightarrow> yd_books y = []"
  by (auto simp: Yard_init_def run_simps Let_def split: prod.splits sum.splits if_splits)

lemma keeps_returning: "keeps P (ebind m f) \<Longrightarrow> keeps P (ebind m (\<lambda>x. ethen (f x) (eret (g x))))"
  by (fastforce simp: keeps_def run_simps split: prod.splits sum.splits)

locale lane_property =
  fixes P :: "lane \<Rightarrow> bool"
  assumes stats: "P s \<Longrightarrow> P (s\<lparr>st_stats := x1\<rparr>)"
    and inbox: "P s \<Longrightarrow> P (s\<lparr>st_inbox := x2\<rparr>)"
    and rxes: "P s \<Longrightarrow> P (s\<lparr>st_rxes := x3\<rparr>)"
    and txes: "P s \<Longrightarrow> P (s\<lparr>st_txes := x4\<rparr>)"
    and rxMsgs: "P s \<Longrightarrow> P (s\<lparr>st_rxMsgs := x5\<rparr>)"
    and txMsgs: "P s \<Longrightarrow> P (s\<lparr>st_txMsgs := x6\<rparr>)"
    and sends: "P s \<Longrightarrow> P (s\<lparr>st_attempts := x7\<rparr>)" "P s \<Longrightarrow> P (s\<lparr>st_sent := x8\<rparr>)"
    and counters: "P s \<Longrightarrow> P (s\<lparr>st_puid := x9\<rparr>)" "P s \<Longrightarrow> P (s\<lparr>la_uuids := x10\<rparr>)"
    and nextBid: "keeps P (nextBid r)"
    and new_yard: "yd_books y = [] \<Longrightarrow> keeps P (new_yard l y)"
    and arrival: "yd_books y = [] \<Longrightarrow> keeps P (ebind (new_yard l y) lane_addRemote)"
    and lane_removeRemote: "keeps P (lane_removeRemote r)"
    and page: "oget (pg_data p) ''si'' = Some si \<Longrightarrow>
      keeps P (ethen (note_session r si) (lane_processRx E p r))"
begin

lemma incStat [keeps_intros]: "keeps P (incStat k n)"
  unfolding incStat_def by (intro keeps_emod stats)

lemma new_uuid [keeps_intros]: "keeps P (new_uuid E)"
  unfolding new_uuid_def by (intro keeps_intros counters)

lemma nextUid [keeps_intros]: "keeps P nextUid"
  unfolding nextUid_def by (intro keeps_intros counters)

lemma free_uid [keeps_intros]: "keeps P (free_uid n)"
  by (induction n) (auto intro!: keeps_intros)

lemma new_uid [keeps_intros]: "keeps P new_uid"
  unfolding new_uid_def by (intro keeps_intros)

lemma Yard_init [keeps_intros]: "keeps P (Yard_init E a uid)"
  unfolding Yard_init_def Let_def by (intro keeps_intros)

lemma RemoteYard_init [keeps_intros]: "keeps P (RemoteYard_init E a)"
  unfolding RemoteYard_init_def
  by (intro keeps_intros keeps_ebind_result [OF Yard_init] new_yard) (auto dest: Yard_init_books)

lemma new_remote [keeps_intros]:
  "keeps P (ebind (RemoteYard_init E a) (\<lambda>r. ethen (lane_addRemote r) (eret (g r))))"
proof -
  have split: "ebind (RemoteYard_init E a) (\<lambda>r. ethen (lane_addRemote r) (eret (g r))) =
      ebind (case ya_uid a of None \<Rightarrow> new_uid | Some uid \<Rightarrow> eret uid) (\<lambda>uid.
      ebind (Yard_init E a uid) (\<lambda>ly.
      ebind (new_yard (fst ly) (snd ly)) (\<lambda>r. ethen (lane_addRemote r) (eret (g r)))))"
    by (simp add: RemoteYard_init_def ebind_assoc case_prod_beta)
  show ?thesis
    unfolding split
    by (intro keeps_intros keeps_ebind_result [OF Yard_init] keeps_returning arrival)
      (auto dest: Yard_init_books [where l = "fst ly" and y = "snd ly" for ly, simplified])
qed

lemma add_source [keeps_intros]: "keeps P (add_source E sn sa)"
  unfolding add_source_def by (intro keeps_intros)

lemma source_remote [keeps_intros]: "keeps P (source_remote E sn sa)"
  unfolding source_remote_def by (intro keeps_intros)

lemma parse_head [keeps_intros]: "keeps P (parse_head E raw)"
  unfolding parse_head_def by (intro keeps_intros)

lemma lane_received [keeps_intros]: "keeps P (lane_received E raw sa)"
  unfolding lane_received_def
  by (intro keeps_intros keeps_ebind_result [OF keeps_pure(4)] page) (auto simp: run_simps)

lemma lane_handleOneRx [keeps_intros]: "keeps P (lane_handleOneRx E)"
  unfolding lane_handleOneRx_def by (intro keeps_intros rxes)

lemma sock_receive [keeps_intros]: "keeps P sock_receive"
  by (rule keepsI) (auto simp: sock_receive_def inbox split: list.split)

lemma handleOneReceived [keeps_intros]: "keeps P handleOneReceived"
  unfolding handleOneReceived_def by (intro keeps_intros rxes)

lemma receive_loop [keeps_intros]: "keeps P (receive_loop n)"
  by (induction n) (auto intro!: keeps_intros)

lemma send_body [keeps_intros]: "keeps P (send_body E b r)"
  unfolding send_body_def by (intro keeps_intros nextBid txes)

lemma transmit [keeps_intros]: "keeps P (transmit entry b uid)"
  unfolding transmit_def by (intro keeps_intros txMsgs)

lemma lane_message [keeps_intros]: "keeps P (lane_message E b uid)"
  unfolding lane_message_def by (intro keeps_intros)

lemma sock_send [keeps_intros]: "keeps P (sock_send net p ha)"
  by (rule keepsI) (simp add: sock_send_def Let_def sends)

lemma reap_yard [keeps_intros]: "keeps P (reap_yard ta)"
  unfolding reap_yard_def by (intro keeps_intros lane_removeRemote)

lemma lane_handleOneTx [keeps_intros]: "keeps P (lane_handleOneTx net lb)"
  unfolding lane_handleOneTx_def by (intro keeps_intros txes)

lemma lane_tx_loop [keeps_intros]: "keeps P (lane_tx_loop net n lb)"
  by (induction n arbitrary: lb) (auto intro!: keeps_intros)

lemma lane_serviceTxes [keeps_intros]: "keeps P (lane_serviceTxes net)"
  unfolding lane_serviceTxes_def put_back_def by (intro keeps_intros txes)

lemma lane_serviceAll: "keeps P (lane_serviceAll E net)"
  unfolding lane_serviceAll_def serviceAllRx_def serviceReceives_def serviceRxes_def
    serviceTxMsgs_def handleOneTxMsg_def
  by (intro keeps_intros txMsgs)

end

end
