(* ===== verification/LaneTables.thy ===== *)
theory LaneTables
  imports LaneService StackFacts
begin

text \<open>
  The tables of yards by uid, by name and by address, under the operations that change them.
\<close>

section \<open>The tables of yards\<close>

text \<open>
  The table by address has the yards of the other two, each under its address, and the yard of this
  end is in none.
\<close>

definition yards_ok :: "lane \<Rightarrow> bool" where
  "yards_ok s \<longleftrightarrow>
     tables_ok s \<and> owf (la_haRemotes s) \<and> oget (la_haRemotes s) (lot_ha (st_local s)) = None \<and>
     (\<forall>u r. oget (st_uidRemotes s) u = Some r \<longrightarrow>
        r < la_new s \<and> oget (la_haRemotes s) (remote_ha s r) = Some r) \<and>
     (\<forall>ha r. oget (la_haRemotes s) ha = Some r \<longrightarrow>
        remote_ha s r = ha \<and> oget (st_uidRemotes s) (remote_uid s r) = Some r)"

lemma yards_okD:
  assumes "yards_ok s"
  shows "tables_ok s" "owf (la_haRemotes s)" "oget (la_haRemotes s) (lot_ha (st_local s)) = None"
    "oget (st_uidRemotes s) u = Some r \<Longrightarrow> r < la_new s"
    "oget (st_uidRemotes s) u = Some r \<Longrightarrow> oget (la_haRemotes s) (remote_ha s r) = Some r"
    "oget (la_haRemotes s) ha = Some r \<Longrightarrow> remote_ha s r = ha"
    "oget (la_haRemotes s) ha = Some r \<Longrightarrow> oget (st_uidRemotes s) (remote_uid s r) = Some r"
    "oget (st_uidRemotes s) u = Some r \<Longrightarrow> remote_uid s r = u"
  using assms by (auto simp: yards_ok_def tables_ok_def same_objects_def)

lemma yards_okI:
  "tables_ok s \<Longrightarrow> owf (la_haRemotes s) \<Longrightarrow> oget (la_haRemotes s) (lot_ha (st_local s)) = None \<Longrightarrow>
   (\<And>u r. oget (st_uidRemotes s) u = Some r \<Longrightarrow> r < la_new s) \<Longrightarrow>
   (\<And>u r. oget (st_uidRemotes s) u = Some r \<Longrightarrow> oget (la_haRemotes s) (remote_ha s r) = Some r) \<Longrightarrow>
   (\<And>ha r. oget (la_haRemotes s) ha = Some r \<Longrightarrow> remote_ha s r = ha) \<Longrightarrow>
   (\<And>ha r. oget (la_haRemotes s) ha = Some r \<Longrightarrow> oget (st_uidRemotes s) (remote_uid s r) = Some r) \<Longrightarrow>
   yards_ok s"
  by (simp add: yards_ok_def)

text \<open>The parts of the state that the property is about.\<close>

definition lane_tables :: "lane \<Rightarrow> _" where
  "lane_tables s = (st_local s, st_lots s, st_uidRemotes s, st_nameRemotes s, la_haRemotes s, la_new s)"

lemma yards_ok_cong: "lane_tables s = lane_tables s' \<Longrightarrow> yards_ok s \<longleftrightarrow> yards_ok s'"
  by (simp add: lane_tables_def yards_ok_def tables_ok_def remote_ha_def remote_uid_def [abs_def]
      remote_name_def [abs_def])

lemma yards_ok_same: "yards_ok s \<Longrightarrow> lane_tables s' = lane_tables s \<Longrightarrow> yards_ok s'"
  using yards_ok_cong by blast

lemma new_yard_tables: "keeps yards_ok (new_yard l y)"
proof (rule keepsI)
  fix s
  assume ok: "yards_ok s"
  let ?s = "snd (new_yard l y s)"
  have old: "remote_ha ?s r = remote_ha s r" "remote_uid ?s r = remote_uid s r"
      "remote_name ?s r = remote_name s r" if "oget (st_uidRemotes s) u = Some r" for u r
    using yards_okD(4) [OF ok that]
    by (simp_all add: new_yard_def remote_ha_def remote_uid_def remote_name_def)
  have same: "st_local ?s = st_local s" "st_uidRemotes ?s = st_uidRemotes s"
    "st_nameRemotes ?s = st_nameRemotes s" "la_haRemotes ?s = la_haRemotes s" "la_new ?s = Suc (la_new s)"
    by (simp_all add: new_yard_def)
  note d = yards_okD [OF ok]
  have "same_objects (oget (st_uidRemotes s)) (oget (st_nameRemotes s)) (remote_uid ?s) (remote_name ?s)"
  proof (rule same_objects_cong)
    show "same_objects (oget (st_uidRemotes s)) (oget (st_nameRemotes s)) (remote_uid s) (remote_name s)"
      using d(1) by (simp add: tables_ok_def)
  qed (simp add: old)
  then have "tables_ok ?s" using d(1) by (simp add: tables_ok_def same)
  then show "yards_ok ?s"
  proof (rule yards_okI)
    fix u ha r
    show "owf (la_haRemotes ?s)" "oget (la_haRemotes ?s) (lot_ha (st_local ?s)) = None"
      using d(2,3) by (simp_all add: same)
    show "oget (st_uidRemotes ?s) u = Some r \<Longrightarrow> r < la_new ?s"
      "oget (st_uidRemotes ?s) u = Some r \<Longrightarrow> oget (la_haRemotes ?s) (remote_ha ?s r) = Some r"
      using d(4,5) [of u r] old by (auto simp: same)
    show "oget (la_haRemotes ?s) ha = Some r \<Longrightarrow> remote_ha ?s r = ha"
      "oget (la_haRemotes ?s) ha = Some r \<Longrightarrow> oget (st_uidRemotes ?s) (remote_uid ?s r) = Some r"
      using d(6,7) [of ha r] old by (auto simp: same)
  qed
qed

lemma lane_addRemote_tables:
  assumes ok: "yards_ok s" and r: "r < la_new s"
  shows "yards_ok (snd (lane_addRemote r s))"
proof (cases "ohas (la_haRemotes s) (remote_ha s r) \<or> remote_ha s r = lot_ha (st_local s)")
  case True
  then show ?thesis using ok by (simp add: lane_addRemote_def run_simps)
next
  case False
  let ?t = "snd (addRemote r s)"
  have t: "tables_ok ?t" by (rule keepsD [OF addRemote_keeps yards_okD(1) [OF ok]])
  show ?thesis
  proof (cases "fst (addRemote r s)")
    case (Inl e)
    then have "?t = s" by (auto simp: addRemote_def run_simps Let_def split: if_splits)
    with Inl False ok show ?thesis
      by (cases "addRemote r s") (simp add: lane_addRemote_def run_simps)
  next
    case (Inr x)
    then have free: "oget (st_uidRemotes s) (remote_uid s r) = None"
      and run: "addRemote r s = (Inr r, s\<lparr>st_uidRemotes := oset (remote_uid s r) r (st_uidRemotes s),
          st_nameRemotes := oset (remote_name s r) r (st_nameRemotes s)\<rparr>)"
      by (auto simp: addRemote_def run_simps Let_def ohas_iff split: if_splits)
    have new: "oget (la_haRemotes s) (remote_ha s r) = None" "remote_ha s r \<noteq> lot_ha (st_local s)"
      using False by (simp_all add: ohas_None)
    have res: "snd (lane_addRemote r s) = ?t\<lparr>la_haRemotes := oset (remote_ha s r) r (la_haRemotes s)\<rparr>"
      using False by (simp add: lane_addRemote_def run_simps run)
    have st: "st_uidRemotes ?t = oset (remote_uid s r) r (st_uidRemotes s)" "st_lots ?t = st_lots s"
        "st_local ?t = st_local s" "la_new ?t = la_new s"
      by (simp_all add: run)
    have "tables_ok (snd (lane_addRemote r s))"
      using t by (simp add: res tables_ok_def remote_uid_def [abs_def] remote_name_def [abs_def])
    then show ?thesis
    proof (rule yards_okI)
      let ?s = "snd (lane_addRemote r s)"
      note d = yards_okD [OF ok]
      have view: "remote_ha ?s = remote_ha s" "remote_uid ?s = remote_uid s"
        by (simp_all add: fun_eq_iff res st remote_ha_def remote_uid_def)
      fix u ha q
      show "owf (la_haRemotes ?s)" "oget (la_haRemotes ?s) (lot_ha (st_local ?s)) = None"
        using d(2,3) new by (simp_all add: res st)
      show "oget (st_uidRemotes ?s) u = Some q \<Longrightarrow> q < la_new ?s"
        using d(4) [of u q] r by (auto simp: res st split: if_splits)
      show "oget (st_uidRemotes ?s) u = Some q \<Longrightarrow> oget (la_haRemotes ?s) (remote_ha ?s q) = Some q"
        using d(5) [of u q] new free by (auto simp: view) (auto simp: res st split: if_splits)
      show "oget (la_haRemotes ?s) ha = Some q \<Longrightarrow> remote_ha ?s q = ha"
        using d(6) [of ha q] by (auto simp: view) (auto simp: res st split: if_splits)
      show "oget (la_haRemotes ?s) ha = Some q \<Longrightarrow> oget (st_uidRemotes ?s) (remote_uid ?s q) = Some q"
        using d(7) [of ha q] new free by (auto simp: view) (auto simp: res st split: if_splits)
    qed
  qed
qed

lemma lane_removeRemote_tables: "keeps yards_ok (lane_removeRemote r)"
proof (rule keepsI)
  fix s
  assume ok: "yards_ok s"
  let ?t = "snd (removeRemote r s)" let ?u = "remote_uid s r"
  have t: "tables_ok ?t" by (rule keepsD [OF removeRemote_keeps yards_okD(1) [OF ok]])
  show "yards_ok (snd (lane_removeRemote r s))"
  proof (cases "oget (st_uidRemotes s) ?u = Some r")
    case False
    then have "removeRemote r s = (Inl StackError, s)"
      by (auto simp: removeRemote_def run_simps Let_def ohas_iff)
    then show ?thesis using ok by (simp add: lane_removeRemote_def run_simps)
  next
    case True
    have ha: "oget (la_haRemotes s) (remote_ha s r) = Some r" by (rule yards_okD(5) [OF ok True])
    have "ohas (st_nameRemotes s) (remote_name s r)"
      using yards_okD(1) [OF ok] True by (auto simp: tables_ok_def same_objects_def ohas_iff)
    with True have rem: "removeRemote r s = (Inr (), s\<lparr>st_uidRemotes := odel ?u (st_uidRemotes s),
        st_nameRemotes := odel (remote_name s r) (st_nameRemotes s)\<rparr>)"
      by (simp add: removeRemote_def run_simps Let_def ohas_iff)
    then have res: "snd (lane_removeRemote r s) =
        ?t\<lparr>la_haRemotes := odel (remote_ha s r) (la_haRemotes s)\<rparr>"
      using ha by (simp add: lane_removeRemote_def run_simps remote_ha_def ohas_iff)
    have "tables_ok (snd (lane_removeRemote r s))"
      using t by (simp add: res tables_ok_def remote_uid_def [abs_def] remote_name_def [abs_def])
    moreover have other:
      "oget (st_uidRemotes s) u = Some q \<Longrightarrow> u \<noteq> ?u \<Longrightarrow> remote_ha s q \<noteq> remote_ha s r"
      "oget (la_haRemotes s) h = Some q \<Longrightarrow> h \<noteq> remote_ha s r \<Longrightarrow> remote_uid s q \<noteq> ?u" for u h q
      using yards_okD(5,6,7,8) [OF ok] True ha by (metis option.inject)+
    ultimately show ?thesis
    proof (intro yards_okI)
      let ?s = "snd (lane_removeRemote r s)"
      note d = yards_okD [OF ok]
      have view: "remote_ha ?s = remote_ha s" "remote_uid ?s = remote_uid s" "st_local ?s = st_local s"
        "la_new ?s = la_new s" "st_uidRemotes ?s = odel ?u (st_uidRemotes s)"
        "la_haRemotes ?s = odel (remote_ha s r) (la_haRemotes s)"
        by (simp_all add: fun_eq_iff res rem remote_ha_def remote_uid_def)
      fix u ha q
      show "owf (la_haRemotes ?s)" "oget (la_haRemotes ?s) (lot_ha (st_local ?s)) = None"
        using d(2,3) by (simp_all add: view)
      show "oget (st_uidRemotes ?s) u = Some q \<Longrightarrow> q < la_new ?s"
        using d(4) [of u q] by (simp add: view split: if_splits)
      show "oget (st_uidRemotes ?s) u = Some q \<Longrightarrow> oget (la_haRemotes ?s) (remote_ha ?s q) = Some q"
        using d(5) [of u q] other(1) [of u q] by (simp add: view split: if_splits)
      show "oget (la_haRemotes ?s) ha = Some q \<Longrightarrow> remote_ha ?s q = ha"
        using d(6) [of ha q] by (simp add: view split: if_splits)
      show "oget (la_haRemotes ?s) ha = Some q \<Longrightarrow> oget (st_uidRemotes ?s) (remote_uid ?s q) = Some q"
        using d(7) [of ha q] other(2) [of ha q] by (simp add: view split: if_splits)
    qed
  qed
qed

end
