(* ===== verification/LaneSessions.thy ===== *)
theory LaneSessions
  imports LaneService
begin

text \<open>
  Books and sessions: what noting the session of a page and handling the page do to the books of a
  yard.
\<close>

section \<open>The books of a yard\<close>

definition drop_stale :: "val \<Rightarrow> pindex list \<Rightarrow> (pindex, rxbook) odict \<Rightarrow> (pindex, rxbook) odict" where
  "drop_stale si ks d = filter (\<lambda>kb. fst kb \<in> set ks \<longrightarrow> index_si (fst kb) = si) d"

lemma odel_drop_stale:
  "drop_stale si (i # ks) d = drop_stale si ks (if index_si i \<noteq> si then odel i d else d)"
  by (auto simp: drop_stale_def odel_def intro!: filter_cong)

definition set_books :: "nat \<Rightarrow> (pindex, rxbook) odict \<Rightarrow> lane \<Rightarrow> lane" where
  "set_books r d s = s\<lparr>la_yards := (la_yards s)(r := (la_yards s r)\<lparr>yd_books := d\<rparr>)\<rparr>"

lemma set_books_simps [simp]:
  "set_books r d (set_books r d' s) = set_books r d s"
  "yd_books (la_yards (set_books r d s) r) = d"
  "yd_rsid (la_yards (set_books r d s) r) = yd_rsid (la_yards s r)"
  "set_books r (yd_books (la_yards s r)) s = s"
  "set_books r d (s\<lparr>st_stats := x\<rparr>) = set_books r d s\<lparr>st_stats := x\<rparr>"
  by (simp_all add: set_books_def)

lemma removeBook_run: "removeBook r i s = (Inr (), set_books r (odel i (yd_books (la_yards s r))) s)"
  by (simp add: removeBook_def ymod_def run_simps set_books_def)

lemma stale_loop:
  "si = yd_rsid (la_yards s r) \<Longrightarrow>
   \<exists>st. efor ks (\<lambda>i. ewhen (index_si i \<noteq> si) (ethen (removeBook r i) (incStat ''stale_book'' 1))) s =
     (Inr (), set_books r (drop_stale si ks (yd_books (la_yards s r))) s\<lparr>st_stats := st\<rparr>)"
proof (induction ks arbitrary: s)
  case Nil
  then show ?case by (intro exI [of _ "st_stats s"]) (simp add: run_simps drop_stale_def)
next
  case (Cons i ks)
  show ?case
  proof (cases "index_si i = si")
    case True
    with Cons.IH [OF Cons.prems] show ?thesis by (simp add: run_simps odel_drop_stale)
  next
    case False
    let ?s = "set_books r (odel i (yd_books (la_yards s r))) s
        \<lparr>st_stats := oset ''stale_book'' (case oget (st_stats s) ''stale_book'' of Some n \<Rightarrow> n + 1 | None \<Rightarrow> 1) (st_stats s)\<rparr>"
    have "(ethen (removeBook r i) (incStat ''stale_book'' 1)) s = (Inr (), ?s)"
      by (simp add: run_simps removeBook_run incStat_def set_books_def)
    with Cons.IH [of ?s] Cons.prems False show ?thesis
      by (simp add: run_simps odel_drop_stale set_books_def)
  qed
qed

text \<open>After \<open>note_session\<close> only the books of the present session are left.\<close>

lemma drop_all_stale: "drop_stale si (okeys d) d = filter (\<lambda>kb. index_si (fst kb) = si) d"
  by (auto simp: drop_stale_def okeys_def intro!: filter_cong)

lemma note_session_run:
  "\<exists>st. note_session r si s = (Inr (), s\<lparr>st_stats := st, la_yards := (la_yards s)(r := (la_yards s r)
     \<lparr>yd_rsid := si, yd_books := if si = yd_rsid (la_yards s r) then yd_books (la_yards s r)
       else filter (\<lambda>kb. index_si (fst kb) = si) (yd_books (la_yards s r))\<rparr>)\<rparr>)"
proof (cases "si = yd_rsid (la_yards s r)")
  case True
  then show ?thesis by (intro exI [of _ "st_stats s"]) (simp add: note_session_def yget_def run_simps)
next
  case False
  let ?s = "s\<lparr>la_yards := (la_yards s)(r := (la_yards s r)\<lparr>yd_rsid := si\<rparr>)\<rparr>"
  have y: "la_yards ?s r = (la_yards s r)\<lparr>yd_rsid := si\<rparr>" by simp
  obtain st where st: "efor (okeys (yd_books (la_yards s r))) (\<lambda>i. ewhen (index_si i \<noteq> si)
      (ethen (removeBook r i) (incStat ''stale_book'' 1))) ?s =
      (Inr (), set_books r (drop_stale si (okeys (yd_books (la_yards s r))) (yd_books (la_yards s r))) ?s\<lparr>st_stats := st\<rparr>)"
    using stale_loop [of si ?s r "okeys (yd_books (la_yards s r))"] unfolding y by auto
  with False show ?thesis
    by (intro exI [of _ st])
      (simp add: note_session_def removeStaleBooks_def yget_def ymod_def run_simps drop_all_stale set_books_def)
qed

definition sessions_ok :: "lane \<Rightarrow> bool" where
  "sessions_ok s \<longleftrightarrow>
     (\<forall>r. \<forall>i \<in> set (okeys (yd_books (la_yards s r))). index_si i = yd_rsid (la_yards s r))"

lemma sessions_ok_upd:
  "sessions_ok s \<Longrightarrow> \<forall>i \<in> set (okeys (yd_books y)). index_si i = yd_rsid y \<Longrightarrow>
   la_yards s' = (la_yards s)(r := y) \<Longrightarrow> sessions_ok s'"
  by (simp add: sessions_ok_def)

lemma note_session_sessions:
  assumes "sessions_ok s"
  shows "sessions_ok (snd (note_session r si s))" "yd_rsid (la_yards (snd (note_session r si s)) r) = si"
proof -
  obtain st where run: "note_session r si s = (Inr (), s\<lparr>st_stats := st, la_yards := (la_yards s)(r := (la_yards s r)
     \<lparr>yd_rsid := si, yd_books := if si = yd_rsid (la_yards s r) then yd_books (la_yards s r)
       else filter (\<lambda>kb. index_si (fst kb) = si) (yd_books (la_yards s r))\<rparr>)\<rparr>)"
    using note_session_run by blast
  show "sessions_ok (snd (note_session r si s))"
    by (rule sessions_ok_upd [OF assms]) (use assms in \<open>auto simp: run sessions_ok_def okeys_def\<close>)
  show "yd_rsid (la_yards (snd (note_session r si s)) r) = si" by (simp add: run)
qed

definition session_is :: "val \<Rightarrow> nat \<Rightarrow> lane \<Rightarrow> bool" where
  "session_is si r s \<longleftrightarrow> sessions_ok s \<and> yd_rsid (la_yards s r) = si"

lemma session_is_books:
  "session_is si r s \<Longrightarrow> \<forall>i \<in> set (okeys d). i \<in> set (okeys (yd_books (la_yards s r))) \<or> index_si i = si \<Longrightarrow>
   la_yards s' = la_yards (set_books r d s) \<Longrightarrow> session_is si r s'"
  by (auto simp: session_is_def sessions_ok_def set_books_def)

lemma session_is_same: "session_is si r s \<Longrightarrow> la_yards s' = la_yards s \<Longrightarrow> session_is si r s'"
  by (simp add: session_is_def sessions_ok_def)

lemma on_book_session: "keeps (session_is si r) (on_book r i m)"
proof (rule keepsI)
  fix s
  assume s: "session_is si r s"
  show "session_is si r (snd (on_book r i m s))"
    by (rule session_is_books [OF s, where d = "yd_books (la_yards (snd (on_book r i m s)) r)"])
      (auto simp: on_book_def set_books_def dest: oget_in_okeys split: option.splits prod.splits)
qed

lemma incStat_session: "keeps (session_is si r) (incStat k n)"
  unfolding incStat_def by (intro keeps_emod) (auto intro: session_is_same)

lemma rx_deliver_session: "keeps (session_is si r) (rx_deliver r b)"
  unfolding rx_deliver_def by (intro keeps_emod) (auto intro: session_is_same)

lemma session_is_set_books:
  "session_is si r s \<Longrightarrow> \<forall>i \<in> set (okeys d). i \<in> set (okeys (yd_books (la_yards s r))) \<or> index_si i = si \<Longrightarrow>
   session_is si r (set_books r d s)"
  by (rule session_is_books) auto

lemma addBook_session: "index_si i = si \<Longrightarrow> keeps (session_is si r) (addBook r i b)"
proof (rule keepsI)
  fix s
  assume "index_si i = si" and s: "session_is si r s"
  then have "session_is si r (set_books r (oset i b (yd_books (la_yards s r))) s)"
    by (intro session_is_set_books) auto
  then show "session_is si r (snd (addBook r i b s))"
    using s by (auto simp: addBook_def ymod_def yget_def run_simps set_books_def)
qed

lemma removeBook_session: "keeps (session_is si r) (removeBook r i)"
  by (rule keepsI) (simp add: removeBook_run session_is_set_books)

lemma RxPage_index_si: "RxPage_index d = Inr i \<Longrightarrow> oget d ''si'' = Some (index_si i)"
  by (auto simp: RxPage_index_def page_index_def rbind_eq_Inr index_si_def)

lemma lane_processRx_session:
  "oget (pg_data p) ''si'' = Some si \<Longrightarrow> keeps (session_is si r) (lane_processRx E p r)"
  unfolding lane_processRx_def open_book_def close_book_def yget_def
  by (intro keeps_intros keeps_ebind_result [OF keeps_pure(4) [where r = "RxPage_index (pg_data p)"]]
      addBook_session incStat_session on_book_session rx_deliver_session removeBook_session)
    (auto simp: run_simps dest: RxPage_index_si)

lemma page_sessions:
  assumes "oget (pg_data p) ''si'' = Some si"
  shows "keeps sessions_ok (ethen (note_session r si) (lane_processRx E p r))"
proof (rule keepsI)
  fix s
  assume s: "sessions_ok s"
  obtain s1 where s1: "note_session r si s = (Inr (), s1)" using note_session_run by metis
  have "session_is si r s1" using note_session_sessions [OF s, of r si] by (simp add: s1 session_is_def)
  from keepsD [OF lane_processRx_session [OF assms] this]
  show "sessions_ok (snd (ethen (note_session r si) (lane_processRx E p r) s))"
    by (simp add: s1 run_simps session_is_def)
qed

end
