(* ===== verification/YardNames.thy ===== *)
theory YardNames
  imports LaneStacking Samples
begin

text \<open>
  Yards: the address of a socket gives back the names that it was made of, for names without dots.
\<close>

section \<open>Addresses and names\<close>

lemma path_tail_join:
  assumes "SLASH \<notin> set b" shows "path_tail (posix_join d b) = b"
proof -
  have "b = [] \<or> hd b \<noteq> SLASH" using assms by (cases b) auto
  then have join: "posix_join d b = (if d = [] \<or> last d = SLASH then d @ b else d @ [SLASH] @ b)"
    by (auto simp: posix_join_def)
  consider "d = []" | a where "d = a @ [SLASH]" | "d \<noteq> []" "last d \<noteq> SLASH"
    by (metis append_butlast_last_id)
  then show ?thesis
  proof cases
    case 1
    with join assms show ?thesis by (simp add: path_tail_def rsplit_none)
  next
    case 2
    with join assms show ?thesis by (simp add: path_tail_def rsplit_last)
  next
    case 3
    with join assms show ?thesis by (simp add: path_tail_def rsplit_last)
  qed
qed

lemma namesFromHa_address:
  assumes slash: "SLASH \<notin> set l" "SLASH \<notin> set a" "SLASH \<notin> set b"
    and b: "b \<noteq> []" "DOT \<notin> set b"
  shows "namesFromHa (posix_join d (socket_name l (if a = [] then b else a @ [DOT] @ b))) =
    Inr (if a = [] then l else l @ [DOT] @ a, b)"
proof -
  let ?l = "if a = [] then l else l @ [DOT] @ a"
  have name: "socket_name l (if a = [] then b else a @ [DOT] @ b) = (?l @ [DOT] @ b) @ UXD_EXT"
    by (simp add: socket_name_def)
  have "SLASH \<notin> set ((?l @ [DOT] @ b) @ UXD_EXT)"
    using slash by (auto simp: SLASH_def DOT_def UXD_EXT_def)
  note tail = path_tail_join [OF this]
  have "hd b \<in> set (?l @ [DOT] @ b)" "hd b \<noteq> DOT" using b by (auto dest: hd_in_set)
  then have "\<exists>x \<in> set (?l @ [DOT] @ b). x \<noteq> CHR ''.''" unfolding DOT_def by blast
  moreover have "CHR ''/'' \<notin> set ((?l @ [DOT] @ b) @ ''uxd'')" using slash by (auto simp: SLASH_def DOT_def)
  ultimately have ext: "splitext ((?l @ [DOT] @ b) @ UXD_EXT) = (?l @ [DOT] @ b, UXD_EXT)"
    using splitext_file(2) [of "?l @ [DOT] @ b" "''uxd''"] by (simp add: UXD_EXT_def)
  have "rsplit DOT (?l @ [DOT] @ b) = Some (?l, b)" using rsplit_last [OF b(2), of ?l] by simp
  then show ?thesis
    unfolding name namesFromHa_def Let_def tail ext by (simp add: UXD_EXT_def)
qed

text \<open>
  C19: The address that is computed for a yard gives back the names of the lane and of the yard, if
  the yard's name has no dot. An address that is made for a yard whose name has one gives other
  names: all that is before the last dot goes to the name of the lane.
\<close>

theorem socket_names:
  assumes "computeHa E dirpath l (if a = [] then b else a @ [DOT] @ b) = Inr (ha, d)"
    and "SLASH \<notin> set l" "SLASH \<notin> set a" "SLASH \<notin> set b" and "b \<noteq> []" "DOT \<notin> set b"
  shows "namesFromHa ha = Inr (if a = [] then l else l @ [DOT] @ a, b)"
  using assms(1) namesFromHa_address [OF assms(2-)] by (auto simp: computeHa_def rbind_eq_Inr)

definition sample_dirs :: dir_env where
  "sample_dirs = \<lparr>de_abspath = id, de_exists = (\<lambda>d. True), de_access = (\<lambda>d. True), de_makedirs = (\<lambda>d. None)\<rparr>"

definition sample_lane_env :: lane_env where
  "sample_lane_env = \<lparr>le_codec = sample_codec, le_pk = 0, le_win = False, le_dirs = sample_dirs,
     le_uuid = (\<lambda>n. ''u'')\<rparr>"

theorem socket_names_witness:
  "\<exists>ha d. computeHa sample_lane_env ''/tmp'' ''lane'' ''a.b'' = Inr (ha, d) \<and>
     namesFromHa ha = Inr (''lane.a'', ''b'')"
proof -
  have ha: "computeHa sample_lane_env ''/tmp'' ''lane'' (if ''a'' = [] then ''b'' else ''a'' @ [DOT] @ ''b'') =
      Inr (''/tmp/lane.a.b.uxd'', ''/tmp'')" by code_simp
  have "SLASH \<notin> set ''lane''" "SLASH \<notin> set ''a''" "SLASH \<notin> set ''b''" "''b'' \<noteq> []" "DOT \<notin> set ''b''"
    by (simp_all add: SLASH_def DOT_def)
  from socket_names [OF ha this] ha show ?thesis by (simp add: DOT_def)
qed

end
