(* ===== verification/LaneFacts.thy ===== *)
theory LaneFacts
  imports LaneTables LaneSessions YardNames FreeUid
begin

text \<open>
  The lane stack under every service: the tables of yards agree, and the books of a yard are of one
  session; and what becomes of a page whose name is not the one of its address.
\<close>

section \<open>Every service keeps the tables and the books in order\<close>

lemma arrival_tables: "keeps yards_ok (ebind (new_yard l y) lane_addRemote)"
proof (rule keepsI)
  fix s
  assume "yards_ok s"
  then have "yards_ok (snd (new_yard l y s))" by (rule keepsD [OF new_yard_tables])
  from lane_addRemote_tables [OF this, of "la_new s"]
  show "yards_ok (snd (ebind (new_yard l y) lane_addRemote s))"
    by (simp add: run_simps new_yard_def)
qed

lemma same_tables: "(\<And>s. lane_tables (snd (m s)) = lane_tables s) \<Longrightarrow> keeps yards_ok m"
  by (rule keepsI) (erule yards_ok_same, blast)

lemma on_book_tables: "keeps yards_ok (on_book r i m)"
  by (rule same_tables) (simp add: on_book_def lane_tables_def split: option.split prod.split)

lemma page_tables: "keeps yards_ok (note_session r si)" "keeps yards_ok (lane_processRx E p r)"
proof -
  have "keeps yards_ok (incStat k n)" "keeps yards_ok (rx_deliver r b)"
    "keeps yards_ok (addBook r i bk)" "keeps yards_ok (removeBook r i)" for k n b i bk
    by (rule same_tables; simp add: incStat_def rx_deliver_def addBook_def removeBook_def yget_def
        ymod_def run_simps lane_tables_def)+
  then show "keeps yards_ok (lane_processRx E p r)"
    unfolding lane_processRx_def open_book_def close_book_def yget_def
    by (intro keeps_intros on_book_tables)
  show "keeps yards_ok (note_session r si)"
  proof (rule same_tables)
    fix s
    obtain s' where "note_session r si s = (Inr (), s')" "lane_tables s' = lane_tables s"
      using note_session_run [of r si s] by (auto simp: lane_tables_def)
    then show "lane_tables (snd (note_session r si s)) = lane_tables s" by simp
  qed
qed

interpretation tables: lane_property yards_ok
proof
  fix s :: lane
  assume ok: "yards_ok s"
  fix x1 x2 x3 x4 x5 x6 x7 x8 x9 x10
  show "yards_ok (s\<lparr>st_stats := x1\<rparr>)" "yards_ok (s\<lparr>st_inbox := x2\<rparr>)" "yards_ok (s\<lparr>st_rxes := x3\<rparr>)"
    "yards_ok (s\<lparr>st_txes := x4\<rparr>)" "yards_ok (s\<lparr>st_rxMsgs := x5\<rparr>)" "yards_ok (s\<lparr>st_txMsgs := x6\<rparr>)"
    "yards_ok (s\<lparr>st_attempts := x7\<rparr>)" "yards_ok (s\<lparr>st_sent := x8\<rparr>)" "yards_ok (s\<lparr>st_puid := x9\<rparr>)"
    "yards_ok (s\<lparr>la_uuids := x10\<rparr>)"
    by (rule yards_ok_same [OF ok], simp add: lane_tables_def)+
next
  show "keeps yards_ok (nextBid r)" for r
    unfolding nextBid_def ymod_def yget_def
    by (intro keeps_intros keeps_emod) (erule yards_ok_same, simp add: lane_tables_def)
  show "oget (pg_data p) ''si'' = Some si \<Longrightarrow> keeps yards_ok (ethen (note_session r si) (lane_processRx E p r))"
    for p si r E by (intro keeps_ethen page_tables)
qed (rule new_yard_tables arrival_tables lane_removeRemote_tables)+

lemma sessions_same: "sessions_ok s \<Longrightarrow> la_yards s' = la_yards s \<Longrightarrow> sessions_ok s'"
  by (simp add: sessions_ok_def)

lemma new_yard_sessions: "yd_books y = [] \<Longrightarrow> keeps sessions_ok (new_yard l y)"
  by (rule keepsI) (simp add: new_yard_def sessions_ok_def)

lemma addRemote_yards: "la_yards (snd (lane_addRemote r s)) = la_yards s"
  by (simp add: lane_addRemote_def addRemote_def run_simps Let_def)

lemma removeRemote_yards: "la_yards (snd (lane_removeRemote r s)) = la_yards s"
  by (simp add: lane_removeRemote_def removeRemote_def run_simps Let_def)

interpretation sessions: lane_property sessions_ok
proof
  fix s :: lane
  assume ok: "sessions_ok s"
  fix x1 x2 x3 x4 x5 x6 x7 x8 x9 x10
  show "sessions_ok (s\<lparr>st_stats := x1\<rparr>)" "sessions_ok (s\<lparr>st_inbox := x2\<rparr>)" "sessions_ok (s\<lparr>st_rxes := x3\<rparr>)"
    "sessions_ok (s\<lparr>st_txes := x4\<rparr>)" "sessions_ok (s\<lparr>st_rxMsgs := x5\<rparr>)" "sessions_ok (s\<lparr>st_txMsgs := x6\<rparr>)"
    "sessions_ok (s\<lparr>st_attempts := x7\<rparr>)" "sessions_ok (s\<lparr>st_sent := x8\<rparr>)" "sessions_ok (s\<lparr>st_puid := x9\<rparr>)"
    "sessions_ok (s\<lparr>la_uuids := x10\<rparr>)"
    by (rule sessions_same [OF ok], simp)+
next
  show "keeps sessions_ok (nextBid r)" for r
    by (rule keepsI) (simp add: nextBid_def ymod_def yget_def run_simps sessions_ok_def)
  have add: "keeps sessions_ok (lane_addRemote r)" for r
    by (rule keepsI) (erule sessions_same, rule addRemote_yards)
  show "yd_books y = [] \<Longrightarrow> keeps sessions_ok (ebind (new_yard l y) lane_addRemote)" for l y
    by (intro keeps_ebind new_yard_sessions add)
  show "keeps sessions_ok (lane_removeRemote r)" for r
    by (rule keepsI) (erule sessions_same, rule removeRemote_yards)
  show "oget (pg_data p) ''si'' = Some si \<Longrightarrow> keeps sessions_ok (ethen (note_session r si) (lane_processRx E p r))"
    for p si r E by (rule page_sessions)
qed (rule new_yard_sessions)

lemma LaneStack_init_start:
  assumes "LaneStack_init E reopen puid a accept = Inr s"
  shows "yards_ok s" "sessions_ok s"
proof -
  let ?s0 = "new_lane (case puid of None \<Rightarrow> 0 | Some n \<Rightarrow> n) (case accept of None \<Rightarrow> True | Some b \<Rightarrow> b)"
  obtain l y s1 ha where run: "local_yard E a ?s0 = (Inr (l, y), s1)"
    and s: "s = s1\<lparr>st_local := l\<lparr>lot_ha := ha\<rparr>, la_local := y\<rparr>"
    using assms by (auto simp: LaneStack_init_def split: prod.splits sum.splits option.splits)
  define P :: "lane \<Rightarrow> bool" where "P = (\<lambda>s. st_uidRemotes s = [] \<and> st_nameRemotes s = [] \<and>
      la_haRemotes s = [] \<and> la_yards s = la_yards ?s0)"
  have "keeps P nextUid" "keeps P (new_uuid E)"
    by (rule keepsI; simp add: P_def nextUid_def new_uuid_def run_simps Let_def)+
  then have "keeps P (local_yard E a)"
    unfolding local_yard_def Yard_init_def Let_def by (intro keeps_intros)
  moreover have "P ?s0" by (simp add: P_def new_lane_def)
  ultimately have "P s1" using keepsD [of P "local_yard E a" ?s0] by (simp add: run)
  then show "yards_ok s" "sessions_ok s"
    by (simp_all add: s P_def yards_ok_def tables_ok_def same_objects_def sessions_ok_def new_lane_def)
qed

text \<open>
  C18: The tables of yards by uid, by name and by address have the same yards, each under its own
  uid, name and address, and never the yard of this end. They start that way, and every operation
  keeps them so, whatever arrives, whatever the network does and also when it raises: making a yard,
  adding and removing one, and the whole service of the stack, which adds the yards that pages come
  from and removes those that refuse them.
\<close>

theorem lane_tables_agree:
  "(LaneStack_init E reopen puid a accept = Inr s0 \<longrightarrow> yards_ok s0) \<and>
   keeps yards_ok (RemoteYard_init E a) \<and>
   (r < la_new s \<longrightarrow> yards_ok s \<longrightarrow> yards_ok (snd (lane_addRemote r s))) \<and>
   keeps yards_ok (lane_removeRemote r) \<and>
   keeps yards_ok (lane_serviceAll E net)"
  by (intro conjI impI)
    (erule LaneStack_init_start(1) | erule (1) lane_addRemote_tables [rotated] |
     rule tables.RemoteYard_init lane_removeRemote_tables tables.lane_serviceAll)+

text \<open>
  All books that a remote yard keeps are of the session that is noted for it, which is the one
  that its last page named: a page of another session removes the books of the old one. So it is
  when the stack starts, after every page that is received, known or not, and after the whole
  service of the stack.
\<close>

theorem books_of_one_session:
  "(LaneStack_init E reopen puid a accept = Inr s0 \<longrightarrow> sessions_ok s0) \<and>
   (sessions_ok s \<longrightarrow> sessions_ok (snd (note_session r si s)) \<and>
      yd_rsid (la_yards (snd (note_session r si s)) r) = si \<and>
      sessions_ok (snd (lane_received E raw sa s))) \<and>
   keeps sessions_ok (lane_serviceAll E net)"
  by (intro conjI impI)
    (erule LaneStack_init_start(2) note_session_sessions keepsD [OF sessions.lane_received] |
     rule sessions.lane_serviceAll)+

text \<open>The stack of yard \<open>own\<close> at \<open>/tmp/lane.own.uxd\<close>.\<close>

definition sample_yard_args :: "string \<Rightarrow> yard_args" where
  "sample_yard_args name = \<lparr>ya_uid = None, ya_prefix = ''yard'', ya_name = name, ya_ha = [], ya_sid = None,
     ya_dirpath = ''/tmp'', ya_lanename = ''lane'', ya_bid = 0\<rparr>"

definition sample_lane :: "string \<Rightarrow> lane" where
  "sample_lane own = (case LaneStack_init sample_lane_env Some None (sample_yard_args own) None of
     Inr s \<Rightarrow> s | Inl _ \<Rightarrow> new_lane 0 False)"

lemma started:
  "(case LaneStack_init sample_lane_env Some None (sample_yard_args own) None of Inr _ \<Rightarrow> True | Inl _ \<Rightarrow> False) \<Longrightarrow>
   LaneStack_init sample_lane_env Some None (sample_yard_args own) None = Inr (sample_lane own)"
  unfolding sample_lane_def by (auto split: sum.splits)

lemma sample_lane_start:
  "LaneStack_init sample_lane_env Some None (sample_yard_args ''a'') None = Inr (sample_lane ''a'')"
  "LaneStack_init sample_lane_env Some None (sample_yard_args ''b'') None = Inr (sample_lane ''b'')"
  by (rule started, code_simp)+

lemma returned:
  assumes "case x of (Inr r, s) \<Rightarrow> r = k \<and> P s | _ \<Rightarrow> False" obtains s where "x = (Inr k, s)" "P s"
  using assms by (auto split: prod.splits sum.splits)

theorem lane_tables_agree_witness:
  "yards_ok (sample_lane ''b'') \<and>
   yards_ok (snd (ebind (RemoteYard_init sample_lane_env (sample_yard_args ''a'')) lane_addRemote (sample_lane ''b''))) \<and>
   length (la_haRemotes (snd (ebind (RemoteYard_init sample_lane_env (sample_yard_args ''a''))
      lane_addRemote (sample_lane ''b'')))) = 1"
proof -
  let ?m = "RemoteYard_init sample_lane_env (sample_yard_args ''a'')"
  have ok: "yards_ok (sample_lane ''b'')" using lane_tables_agree sample_lane_start(2) by blast
  have "case ?m (sample_lane ''b'') of (Inr r, s) \<Rightarrow> r = 0 \<and> la_new s = 1 | _ \<Rightarrow> False" by code_simp
  then obtain s1 where run: "?m (sample_lane ''b'') = (Inr 0, s1)" and new: "la_new s1 = 1"
    by (rule returned)
  have "keeps yards_ok ?m" using lane_tables_agree by blast
  from keepsD [OF this ok] have "yards_ok s1" by (simp only: run snd_conv)
  then have "yards_ok (snd (lane_addRemote 0 s1))" using lane_tables_agree [where r = 0 and s = s1] new by simp
  then have "yards_ok (snd (ebind ?m lane_addRemote (sample_lane ''b'')))"
    by (simp only: ebind_def run prod.case sum.case)
  moreover have "length (la_haRemotes (snd (ebind ?m lane_addRemote (sample_lane ''b'')))) = 1" by code_simp
  ultimately show ?thesis using ok by blast
qed

theorem books_of_one_session_witness:
  "sessions_ok (sample_lane ''b'') \<and> sessions_ok (snd (lane_received sample_lane_env ''junk'' VNone (sample_lane ''b''))) \<and>
   yd_rsid (la_yards (snd (note_session 0 (VStr ''s'') (sample_lane ''b''))) 0) = VStr ''s''"
proof -
  have "sessions_ok (sample_lane ''b'')" using books_of_one_session sample_lane_start(2) by blast
  then show ?thesis using books_of_one_session by blast
qed

section \<open>A yard under another name\<close>

text \<open>
  C34: A page from an unknown yard is taken to come from a yard of the same name as its address
  has. If the two differ, as they do for a yard whose name has a dot, a remote is added under the
  name of the address, and then the page is not handled: the look-up by the name in the page raises
  \<open>KeyError\<close>, which nothing catches.
\<close>

theorem source_under_other_name:
  assumes s: "la_accept s" "\<not> ohas (st_nameRemotes s) sn"
    and ha: "namesFromHa ha = Inr (l, y)" "ha \<noteq> []" "y \<noteq> []" "y \<noteq> sn"
    and new: "\<not> ohas (st_nameRemotes s) y" "y \<noteq> lot_name (st_local s)"
      "\<not> ohas (la_haRemotes s) (VStr ha)" "lot_ha (st_local s) \<noteq> VStr ha"
    and ids: "0 \<le> st_puid s" "st_puid s \<le> 0xffffffff" "length (st_uidRemotes s) + 2 \<le> 0xffffffff"
  shows "\<exists>s'. source_remote E sn (VStr ha) s = (Inl KeyError, s') \<and>
     oget (st_nameRemotes s') y = Some (la_new s) \<and> oget (la_haRemotes s') (VStr ha) = Some (la_new s) \<and>
     remote_ha s' (la_new s) = VStr ha \<and> yd_lanename (la_yards s' (la_new s)) = (if l = [] then ''lane'' else l)"
proof -
  obtain u where u: "new_uid s = (Inr u, s\<lparr>st_puid := u\<rparr>)" "\<not> ohas (st_uidRemotes s) u"
      "u \<noteq> lot_uid (st_local s)"
    using new_uid_finds [OF ids] by blast
  define yd where "yd = \<lparr>yd_sid = le_uuid E (la_uuids s), yd_lanename = if l = [] then ''lane'' else l,
      yd_dirpath = [], yd_bid = 0, yd_rsid = VInt 0, yd_books = []\<rparr>"
  define lo where "lo = \<lparr>lot_name = y, lot_uid = u, lot_ha = VStr ha, lot_sid = 0\<rparr>"
  define s1 where "s1 = s\<lparr>st_puid := u, la_uuids := Suc (la_uuids s), st_lots := (st_lots s)(la_new s := lo),
      la_yards := (la_yards s)(la_new s := yd), la_new := Suc (la_new s)\<rparr>"
  have "RemoteYard_init E (source_args ha) s = (Inr (la_new s), s1)"
    using ha(2,3) by (simp add: RemoteYard_init_def source_args_def Yard_init_def checked_names_def ha(1)
        run_simps u(1) new_uuid_def new_yard_def Let_def s1_def yd_def lo_def)
  moreover define s2 where "s2 = s1\<lparr>st_uidRemotes := oset u (la_new s) (st_uidRemotes s),
      st_nameRemotes := oset y (la_new s) (st_nameRemotes s),
      la_haRemotes := oset (VStr ha) (la_new s) (la_haRemotes s)\<rparr>"
  have "lane_addRemote (la_new s) s1 = (Inr (), s2)"
    using new u(2,3) by (auto simp: lane_addRemote_def addRemote_def run_simps s1_def s2_def lo_def
        remote_ha_def remote_uid_def remote_name_def Let_def)
  ultimately have "add_source E sn (VStr ha) s = (Inr True, s2)"
    using s(1) by (simp add: add_source_def page_ha_def run_simps etry_def)
  moreover have "oget (st_nameRemotes s2) sn = None"
    using s(2) ha(4) by (simp add: s2_def ohas_iff)
  ultimately have "source_remote E sn (VStr ha) s = (Inl KeyError, s2)"
    using s(2) by (simp add: source_remote_def run_simps)
  then show ?thesis by (simp add: s2_def s1_def yd_def lo_def remote_ha_def)
qed

theorem source_under_other_name_witness:
  "\<exists>s'. source_remote sample_lane_env ''a.c'' (VStr ''/tmp/lane.a.c.uxd'') (sample_lane ''b'') = (Inl KeyError, s') \<and>
     oget (st_nameRemotes s') ''c'' = Some 0"
proof -
  let ?s = "sample_lane ''b''"
  have ha: "namesFromHa ''/tmp/lane.a.c.uxd'' = Inr (''lane.a'', ''c'')" by code_simp
  have s: "la_accept ?s" "la_new ?s = 0" "\<not> ohas (st_nameRemotes ?s) ''a.c''" "\<not> ohas (st_nameRemotes ?s) ''c''"
    "''c'' \<noteq> lot_name (st_local ?s)" "\<not> ohas (la_haRemotes ?s) (VStr ''/tmp/lane.a.c.uxd'')"
    "lot_ha (st_local ?s) \<noteq> VStr ''/tmp/lane.a.c.uxd''" "st_puid ?s = 1" "st_uidRemotes ?s = []"
    by code_simp+
  have "\<exists>s'. source_remote sample_lane_env ''a.c'' (VStr ''/tmp/lane.a.c.uxd'') ?s = (Inl KeyError, s') \<and>
     oget (st_nameRemotes s') ''c'' = Some (la_new ?s) \<and>
     oget (la_haRemotes s') (VStr ''/tmp/lane.a.c.uxd'') = Some (la_new ?s) \<and>
     remote_ha s' (la_new ?s) = VStr ''/tmp/lane.a.c.uxd'' \<and>
     yd_lanename (la_yards s' (la_new ?s)) = (if ''lane.a'' = [] then ''lane'' else ''lane.a'')"
    by (rule source_under_other_name [OF s(1,3) ha _ _ _ s(4-7)]) (simp_all add: s)
  then show ?thesis by (auto simp: s)
qed

end
