(* ===== verification/LaneDelivery.thy ===== *)
theory LaneDelivery
  imports LaneFacts PageRound
begin

text \<open>
  A message over the lane: the pages that one stack queues for it, received by the stack at the
  other end, put the message into its queue once.
\<close>

section \<open>Receiving a page\<close>

definition page_from :: "lane_env \<Rightarrow> bytes \<Rightarrow> page \<Rightarrow> lane \<Rightarrow> nat \<Rightarrow> bool" where
  "page_from E raw p t r \<longleftrightarrow>
     RxPageHead_parse (le_codec E) (RxPage_init [] raw) = Inr p \<and>
     oget (pg_data p) ''dn'' = Some (VStr (lot_name (st_local t))) \<and>
     (\<exists>sn. oget (pg_data p) ''sn'' = Some (VStr sn) \<and> oget (st_nameRemotes t) sn = Some r)"

lemma lane_received_known:
  assumes "page_from E raw p t r" and "oget (pg_data p) ''si'' = Some si"
  shows "lane_received E raw sa t = ethen (note_session r si) (lane_processRx E p r) t"
  using assms by (auto simp: page_from_def lane_received_def parse_head_def page_name_def oitem_def
      source_remote_def ohas_iff run_simps)

text \<open>A page that is the whole message, and a page of a book.\<close>

lemma lane_processRx_single:
  assumes "RxPage_index (pg_data p) = Inr i" and "paginated (pg_data p) = Inr False"
    and "RxPageBody_parse (le_codec E) p = Inr p1"
  shows "lane_processRx E p r t = (Inr (), t\<lparr>st_rxMsgs := st_rxMsgs t @ [(pg_embody p1, remote_name t r)]\<rparr>)"
  using assms by (simp add: lane_processRx_def rx_deliver_def run_simps)

definition book_at :: "nat \<Rightarrow> pindex \<Rightarrow> lane \<Rightarrow> rxbook" where
  "book_at r i t = (case oget (yd_books (la_yards t r)) i of Some b \<Rightarrow> b | None \<Rightarrow> RxBook_init [])"

lemma lane_processRx_section:
  assumes i: "RxPage_index (pg_data p) = Inr i" and "paginated (pg_data p) = Inr True"
    and first: "ohas (yd_books (la_yards t r)) i \<or> oget (pg_data p) ''pn'' = Some (VInt 0)"
    and parse: "RxBook_parse (le_codec E) p (book_at r i t) = (Inr x, b)"
  shows "\<not> rb_complete b \<Longrightarrow>
      lane_processRx E p r t = (Inr (), set_books r (oset i b (yd_books (la_yards t r))) t)"
    and "rb_complete b \<Longrightarrow> rb_body b = Some m \<Longrightarrow>
      lane_processRx E p r t = (Inr (), set_books r (odel i (yd_books (la_yards t r))) t
        \<lparr>st_rxMsgs := st_rxMsgs t @ [(m, remote_name t r)]\<rparr>)"
proof -
  let ?d = "yd_books (la_yards t r)"
  obtain d' where d': "open_book r i p t = (Inr True, set_books r d' t)" "oget d' i = Some (book_at r i t)"
    "oset i b d' = oset i b ?d" "odel i d' = odel i ?d"
  proof (cases "ohas ?d i")
    case True
    then obtain bk where bk: "oget ?d i = Some bk" by (auto simp: ohas_iff)
    show thesis
    proof (rule that [of ?d])
      show "open_book r i p t = (Inr True, set_books r ?d t)"
        using True by (simp add: open_book_def yget_def run_simps)
    qed (simp_all add: book_at_def bk)
  next
    case False
    then have pn: "oget (pg_data p) ''pn'' = Some (VInt 0)" and new: "oget ?d i = None"
      using first by simp (use False in \<open>simp add: ohas_None\<close>)
    show thesis
    proof (rule that [of "oset i (RxBook_init []) ?d"])
      show "open_book r i p t = (Inr True, set_books r (oset i (RxBook_init []) ?d) t)"
        using False pn by (simp add: open_book_def yget_def ymod_def addBook_def run_simps is_int_def
          oitem_def set_books_def)
    qed (simp_all add: book_at_def new odel_oset_same)
  qed
  have on: "on_book r i (RxBook_parse (le_codec E) p) (set_books r d' t) = (Inr x, set_books r (oset i b ?d) t)"
    using d'(2,3) parse by (simp add: on_book_def) (simp add: set_books_def)
  have "lane_processRx E p r t = close_book r i (set_books r (oset i b ?d) t)"
    using assms(1,2) by (simp add: lane_processRx_def run_simps d'(1) on)
  moreover have "on_book r i (eget id) (set_books r (oset i b ?d) t) = (Inr b, set_books r (oset i b ?d) t)"
    by (simp add: on_book_def run_simps) (simp add: set_books_def oset_same)
  ultimately have close: "lane_processRx E p r t =
      ewhen (rb_complete b) (ethen (removeBook r i)
        (rx_deliver r (case rb_body b of None \<Rightarrow> BData VNone | Some x \<Rightarrow> x))) (set_books r (oset i b ?d) t)"
    by (simp add: close_book_def run_simps)
  show "lane_processRx E p r t = (Inr (), set_books r (oset i b ?d) t)" if "\<not> rb_complete b"
    using that close by (simp add: run_simps)
  show "lane_processRx E p r t = (Inr (), set_books r (odel i ?d) t
        \<lparr>st_rxMsgs := st_rxMsgs t @ [(m, remote_name t r)]\<rparr>)" if "rb_complete b" "rb_body b = Some m"
    using that close by (simp add: run_simps removeBook_run rx_deliver_def odel_oset_same)
      (simp add: set_books_def remote_name_def)
qed

section \<open>Receiving the pages of a message\<close>

text \<open>
  The first \<open>k\<close> pages of message \<open>m\<close> have come in at yard \<open>r\<close>, in the book of index \<open>i\<close>.
\<close>

definition progress :: "string \<Rightarrow> string \<Rightarrow> pindex \<Rightarrow> lane_message \<Rightarrow> nat \<Rightarrow> nat \<Rightarrow> lane \<Rightarrow> bool" where
  "progress sn dn i m r k t \<longleftrightarrow>
     oget (st_nameRemotes t) sn = Some r \<and> lot_name (st_local t) = dn \<and>
     (if k = 0 then \<not> ohas (yd_books (la_yards t r)) i
      else yd_rsid (la_yards t r) = index_si i \<and>
        (\<exists>b. oget (yd_books (la_yards t r)) i = Some b \<and> book_holds m b {..<k}))"

lemma set_books_fields [simp]:
  "st_nameRemotes (set_books r d t) = st_nameRemotes t" "st_local (set_books r d t) = st_local t"
  "st_rxes (set_books r d t) = st_rxes t" "st_rxMsgs (set_books r d t) = st_rxMsgs t"
  "remote_name (set_books r d t) = remote_name t" "st_lots (set_books r d t) = st_lots t"
  by (simp_all add: set_books_def remote_name_def fun_eq_iff)

lemma note_session_progress:
  assumes "progress sn dn i m r k t" and "index_si i = si"
  obtains t1 where "note_session r si t = (Inr (), t1)" "progress sn dn i m r k t1"
    "yd_rsid (la_yards t1 r) = si" "st_rxes t1 = st_rxes t" "st_rxMsgs t1 = st_rxMsgs t" "st_lots t1 = st_lots t"
proof -
  obtain st where run: "note_session r si t = (Inr (), t\<lparr>st_stats := st, la_yards := (la_yards t)(r := (la_yards t r)
     \<lparr>yd_rsid := si, yd_books := if si = yd_rsid (la_yards t r) then yd_books (la_yards t r)
       else filter (\<lambda>kb. index_si (fst kb) = si) (yd_books (la_yards t r))\<rparr>)\<rparr>)"
    using note_session_run by blast
  show thesis
    by (rule that [OF run]) (use assms in \<open>auto simp: progress_def ohas_def okeys_def split: if_splits\<close>)
qed

lemma page_step:
  assumes p: "page_from E raw p t r" "RxPage_index (pg_data p) = Inr i"
    and sec: "is_section (le_codec E) m p" "page_num p = k"
    and t: "progress sn dn i m r k t"
  obtains t' where "lane_received E raw sa t = (Inr (), t')" "st_rxes t' = st_rxes t" "st_lots t' = st_lots t"
    "Suc k < length (lm_pieces m) \<longrightarrow> st_rxMsgs t' = st_rxMsgs t \<and> progress sn dn i m r (Suc k) t'"
    "Suc k = length (lm_pieces m) \<longrightarrow>
       st_rxMsgs t' = st_rxMsgs t @ [(lm_body m, remote_name t r)] \<and> \<not> ohas (yd_books (la_yards t' r)) i"
proof -
  let ?n = "length (lm_pieces m)"
  have si: "oget (pg_data p) ''si'' = Some (index_si i)" by (rule RxPage_index_si [OF p(2)])
  obtain t1 where t1: "note_session r (index_si i) t = (Inr (), t1)" "progress sn dn i m r k t1"
    "yd_rsid (la_yards t1 r) = index_si i" "st_rxes t1 = st_rxes t" "st_rxMsgs t1 = st_rxMsgs t"
    "st_lots t1 = st_lots t"
    by (rule note_session_progress [OF t refl])
  have run: "lane_received E raw sa t = lane_processRx E p r t1"
    using lane_received_known [OF p(1) si] t1(1) by (simp add: run_simps)
  have holds: "book_holds m (book_at r i t1) {..<k}"
    and first: "ohas (yd_books (la_yards t1 r)) i \<or> oget (pg_data p) ''pn'' = Some (VInt 0)"
    using t1(2) sec RxBook_init_holds [of m "[]"]
    by (auto simp: progress_def book_at_def ohas_iff is_section_def split: if_splits)
  have k: "k < ?n" "1 < ?n" and many: "paginated (pg_data p) = Inr True"
    using sec by (auto simp: is_section_def paginated_def oget_or_def)
  have grow: "insert (page_num p) {..<k} = {..<Suc k}" using sec(2) by auto
  have name: "remote_name t1 r = remote_name t r" using t1(6) by (simp add: remote_name_def)
  show thesis
  proof (cases "Suc k = ?n")
    case True
    then obtain b where "RxBook_parse (le_codec E) p (book_at r i t1) = (Inr (Some (lm_body m)), b)"
      "rb_complete b" "rb_body b = Some (lm_body m)"
      using RxBook_parse_step(2) [OF sec(1) holds] grow by auto
    note processed = lane_processRx_section(2) [OF p(2) many first this]
    show thesis
      by (rule that [OF trans [OF run processed]]) (use True t1 name in \<open>simp_all add: remote_name_def\<close>)
  next
    case False
    then have "insert (page_num p) {..<k} \<noteq> {..<?n}" unfolding grow by (metis lessThan_eq_iff)
    then obtain b where b: "RxBook_parse (le_codec E) p (book_at r i t1) = (Inr None, b)"
      "book_holds m b {..<Suc k}"
      using RxBook_parse_step(1) [OF sec(1) holds] unfolding grow by blast
    then have "\<not> rb_complete b" by (simp add: book_holds_def)
    note processed = lane_processRx_section(1) [OF p(2) many first b(1) this]
    show thesis
      by (rule that [OF trans [OF run processed]])
        (use t1 b(2) k False in \<open>auto simp: progress_def split: if_splits\<close>)
  qed
qed

lemma handle_next:
  assumes "st_rxes t = (raw, sa) # rest" and "lane_received E raw sa (t\<lparr>st_rxes := rest\<rparr>) = (Inr (), t')"
  shows "drain (Suc n) (\<lambda>s. st_rxes s \<noteq> []) (lane_handleOneRx E) t = drain n (\<lambda>s. st_rxes s \<noteq> []) (lane_handleOneRx E) t'"
  using assms by (simp add: lane_handleOneRx_def run_simps)

lemma progress_rxes [simp]: "progress sn dn i m r k (t\<lparr>st_rxes := x\<rparr>) = progress sn dn i m r k t"
  by (simp add: progress_def)

lemma RxPage_index_numbered: "RxPage_index (numbered d a b) = RxPage_index d"
  by (simp add: RxPage_index_def page_index_def oitem_def numbered_def)

lemma RxPage_index_fields:
  "RxPage_index d = Inr (dn, sn, si, bi) \<longleftrightarrow> oget d ''dn'' = Some dn \<and> oget d ''sn'' = Some sn \<and>
     oget d ''si'' = Some si \<and> oget d ''bi'' = Some bi"
  by (auto simp: RxPage_index_def page_index_def rbind_eq_Inr)

abbreviation handle_rxes :: "lane_env \<Rightarrow> nat \<Rightarrow> unit lane_eff" where
  "handle_rxes E n \<equiv> drain n (\<lambda>s. st_rxes s \<noteq> []) (lane_handleOneRx E)"

text \<open>One turn of the loop, with page \<open>k\<close> of the message in front.\<close>

lemma page_turn:
  assumes d: "page_ready d" "oget d ''pk'' = Some (VInt (pack_value (lm_kind m)))"
    and i: "RxPage_index d = Inr i" "i = (VStr dn, VStr sn, si, bi)"
    and ps: "reads_body (le_codec E) (lm_kind m) (concat (lm_pieces m)) (lm_body m)"
      "1 < length (lm_pieces m)" "k < length (lm_pieces m)"
    and t: "progress sn dn i m r k t"
    and rx: "st_rxes t = map (\<lambda>x. (x, sa)) (drop k (lane_pages d (lm_pieces m)))"
  obtains t' where "handle_rxes E (Suc n) t = handle_rxes E n t'" "st_lots t' = st_lots t"
    "st_rxes t' = map (\<lambda>x. (x, sa)) (drop (Suc k) (lane_pages d (lm_pieces m)))"
    "Suc k < length (lm_pieces m) \<longrightarrow> st_rxMsgs t' = st_rxMsgs t \<and> progress sn dn i m r (Suc k) t'"
    "Suc k = length (lm_pieces m) \<longrightarrow>
       st_rxMsgs t' = st_rxMsgs t @ [(lm_body m, remote_name t r)] \<and> \<not> ohas (yd_books (la_yards t' r)) i"
proof -
  let ?pages = "lane_pages d (lm_pieces m)"
  let ?rest = "map (\<lambda>x. (x, sa)) (drop (Suc k) ?pages)"
  have "k < length ?pages" using ps(3) by (simp add: lane_pages_def)
  then have rx: "st_rxes t = (?pages ! k, sa) # ?rest"
    using rx by (simp add: Cons_nth_drop_Suc [symmetric])
  obtain p where p: "RxPageHead_parse (le_codec E) (RxPage_init [] (?pages ! k)) = Inr p"
    "is_section (le_codec E) m p" "page_num p = k" "pg_data p = numbered d (int k) (int (length (lm_pieces m)))"
  proof -
    have eta: "\<lparr>lm_kind = lm_kind m, lm_pieces = lm_pieces m, lm_body = lm_body m\<rparr> = m" by (cases m) simp
    show thesis using page_section [OF d ps] that unfolding eta by blast
  qed
  have index: "RxPage_index (pg_data p) = Inr i" using i(1) by (simp add: p(4) RxPage_index_numbered)
  let ?t = "t\<lparr>st_rxes := ?rest\<rparr>"
  have src: "page_from E (?pages ! k) p ?t r"
    using p(1) index t unfolding i(2) RxPage_index_fields by (simp add: page_from_def progress_def)
  have prog: "progress sn dn i m r k ?t" using t by simp
  obtain t' where t': "lane_received E (?pages ! k) sa ?t = (Inr (), t')" "st_rxes t' = st_rxes ?t"
    "st_lots t' = st_lots ?t"
    "Suc k < length (lm_pieces m) \<longrightarrow> st_rxMsgs t' = st_rxMsgs ?t \<and> progress sn dn i m r (Suc k) t'"
    "Suc k = length (lm_pieces m) \<longrightarrow>
       st_rxMsgs t' = st_rxMsgs ?t @ [(lm_body m, remote_name ?t r)] \<and> \<not> ohas (yd_books (la_yards t' r)) i"
    by (rule page_step [OF src index p(2,3) prog, where sa = sa])
  show thesis
    by (rule that [OF handle_next [OF rx t'(1)]]) (use t' in \<open>simp_all add: remote_name_def\<close>)
qed

lemma pages_received:
  assumes d: "page_ready d" "oget d ''pk'' = Some (VInt (pack_value (lm_kind m)))"
    and i: "RxPage_index d = Inr i" "i = (VStr dn, VStr sn, si, bi)"
    and ps: "reads_body (le_codec E) (lm_kind m) (concat (lm_pieces m)) (lm_body m)"
      "1 < length (lm_pieces m)"
    and t: "progress sn dn i m r k t" "k + Suc j = length (lm_pieces m)"
    and rx: "st_rxes t = map (\<lambda>x. (x, sa)) (drop k (lane_pages d (lm_pieces m)))"
  shows "\<exists>t'. handle_rxes E (Suc j) t = (Inr (), t') \<and> st_rxes t' = [] \<and>
    st_rxMsgs t' = st_rxMsgs t @ [(lm_body m, remote_name t r)] \<and> \<not> ohas (yd_books (la_yards t' r)) i"
  using t rx
proof (induction j arbitrary: k t)
  case (0 k t)
  have k: "k < length (lm_pieces m)" using "0.prems"(2) by simp
  obtain t' where t': "handle_rxes E (Suc 0) t = handle_rxes E 0 t'" "st_lots t' = st_lots t"
    "st_rxes t' = map (\<lambda>x. (x, sa)) (drop (Suc k) (lane_pages d (lm_pieces m)))"
    "Suc k < length (lm_pieces m) \<longrightarrow> st_rxMsgs t' = st_rxMsgs t \<and> progress sn dn i m r (Suc k) t'"
    "Suc k = length (lm_pieces m) \<longrightarrow>
       st_rxMsgs t' = st_rxMsgs t @ [(lm_body m, remote_name t r)] \<and> \<not> ohas (yd_books (la_yards t' r)) i"
    by (rule page_turn [OF d i ps k "0.prems"(1,3), of 0])
  have "st_rxes t' = []" using "0.prems"(2) by (simp add: t'(3) lane_pages_def)
  with t'(5) "0.prems"(2) show ?case unfolding t'(1) by (simp add: run_simps)
next
  case (Suc j k t)
  have k: "k < length (lm_pieces m)" using Suc.prems(2) by simp
  obtain t' where t': "handle_rxes E (Suc (Suc j)) t = handle_rxes E (Suc j) t'" "st_lots t' = st_lots t"
    "st_rxes t' = map (\<lambda>x. (x, sa)) (drop (Suc k) (lane_pages d (lm_pieces m)))"
    "Suc k < length (lm_pieces m) \<longrightarrow> st_rxMsgs t' = st_rxMsgs t \<and> progress sn dn i m r (Suc k) t'"
    "Suc k = length (lm_pieces m) \<longrightarrow>
       st_rxMsgs t' = st_rxMsgs t @ [(lm_body m, remote_name t r)] \<and> \<not> ohas (yd_books (la_yards t' r)) i"
    by (rule page_turn [OF d i ps k Suc.prems(1,3), of "Suc j"])
  have "Suc k + Suc j = length (lm_pieces m)" using Suc.prems(2) by simp
  moreover from this have "st_rxMsgs t' = st_rxMsgs t" "progress sn dn i m r (Suc k) t'" using t'(4) by simp_all
  ultimately show ?case
    using Suc.IH [of "Suc k" t'] t'(2,3) unfolding t'(1) by (simp add: remote_name_def)
qed

section \<open>Sending a message\<close>

text \<open>The names and the session id fit into the lines of a head.\<close>

definition names_fit :: "lane \<Rightarrow> nat \<Rightarrow> bool" where
  "names_fit s r \<longleftrightarrow> no_blank (lot_name (st_local s)) \<and> no_blank (remote_name s r) \<and>
     no_blank (yd_sid (la_yards s r)) \<and> length (yd_sid (la_yards s r)) \<le> 18 \<and> 0 \<le> yd_bid (la_yards s r)"

definition page_data :: "lane_env \<Rightarrow> lane \<Rightarrow> nat \<Rightarrow> hdata" where
  "page_data E s r = oupdate PAGE_DEFAULTS (message_data E s r (next_bid (yd_bid (la_yards s r))))"

definition book_index :: "lane \<Rightarrow> nat \<Rightarrow> pindex" where
  "book_index s r = (VStr (remote_name s r), VStr (lot_name (st_local s)), VStr (yd_sid (la_yards s r)),
     VInt (next_bid (yd_bid (la_yards s r))))"

lemma page_data_eq:
  "page_data E s r =
     [(''ri'', VStr ''RAET''), (''vn'', VInt 0), (''pk'', VInt (le_pk E)), (''sn'', VStr (lot_name (st_local s))),
      (''dn'', VStr (remote_name s r)), (''si'', VStr (yd_sid (la_yards s r))),
      (''bi'', VInt (next_bid (yd_bid (la_yards s r)))), (''pn'', VInt 0), (''pc'', VInt 1)]"
  by (simp add: page_data_def message_data_def PAGE_DEFAULTS_def)

lemma page_data_ready:
  assumes "names_fit s r" and "le_pk E = pack_value pk"
  shows "page_ready (page_data E s r)"
proof -
  have "0 \<le> pack_value pk" by (cases pk) auto
  then show ?thesis
    using assms by (simp add: page_data_eq page_ready_def PAGE_FIELDS_def page_pair_def NUMBER_FIELDS_def
        NAME_FIELDS_def names_fit_def next_bid_def)
qed

lemma send_body_run:
  assumes "send_body E b r s = (Inr (), s1)" and "st_txes s1 \<noteq> st_txes s"
  obtains book where
    "TxBook_pack (le_codec E) (TxBook_init (message_data E s r (next_bid (yd_bid (la_yards s r)))) b) [] None = Inr book"
    "st_txes s1 = st_txes s @ map (\<lambda>x. (x, remote_ha s r)) (map pg_packed (tb_pages book))"
proof -
  let ?bid = "next_bid (yd_bid (la_yards s r))"
  let ?s = "s\<lparr>la_yards := (la_yards s)(r := (la_yards s r)\<lparr>yd_bid := ?bid\<rparr>)\<rparr>"
  have "nextBid r s = (Inr ?bid, ?s)" by (simp add: nextBid_def ymod_def yget_def run_simps)
  moreover have "message_data E ?s r ?bid = message_data E s r ?bid" "remote_ha ?s r = remote_ha s r"
    by (simp_all add: message_data_def remote_name_def remote_ha_def)
  ultimately show thesis
    using assms that by (auto simp: send_body_def run_simps incStat_def comp_def split: sum.splits if_splits)
qed

text \<open>A message that is one page.\<close>

lemma page_received:
  assumes d: "page_ready d" "oget d ''pk'' = Some (VInt (pack_value pk))"
      "oget d ''pn'' = Some (VInt 0)" "oget d ''pc'' = Some (VInt 1)"
    and i: "RxPage_index d = Inr i" "i = (VStr dn, VStr sn, si, bi)" and b: "reads_body (le_codec E) pk b body"
    and t: "progress sn dn i m r 0 t" and rx: "st_rxes t = [(page_head d @ b, sa)]"
  shows "\<exists>t'. handle_rxes E (Suc 0) t = (Inr (), t') \<and> st_rxes t' = [] \<and>
    st_rxMsgs t' = st_rxMsgs t @ [(body, remote_name t r)] \<and> \<not> ohas (yd_books (la_yards t' r)) i"
proof -
  let ?t = "t\<lparr>st_rxes := []\<rparr>"
  obtain p where p: "RxPageHead_parse (le_codec E) (RxPage_init [] (page_head d @ b)) = Inr p" "pg_data p = d"
    "paginated (pg_data p) = Inr False" "RxPageBody_parse (le_codec E) p = Inr (p\<lparr>pg_embody := body\<rparr>)"
    using single_page(2) [OF d b] by blast
  have si: "oget (pg_data p) ''si'' = Some (index_si i)" and index: "RxPage_index (pg_data p) = Inr i"
    using i by (simp_all add: p(2) RxPage_index_fields index_si_def)
  have src: "page_from E (page_head d @ b) p ?t r"
    using p(1) i(1) t unfolding i(2) RxPage_index_fields by (simp add: p(2) page_from_def progress_def)
  have prog: "progress sn dn i m r 0 ?t" using t by simp
  obtain t1 where t1: "note_session r (index_si i) ?t = (Inr (), t1)" "progress sn dn i m r 0 t1"
    "yd_rsid (la_yards t1 r) = index_si i" "st_rxes t1 = st_rxes ?t" "st_rxMsgs t1 = st_rxMsgs ?t"
    "st_lots t1 = st_lots ?t"
    by (rule note_session_progress [OF prog refl])
  let ?t2 = "t1\<lparr>st_rxMsgs := st_rxMsgs t1 @ [(body, remote_name t1 r)]\<rparr>"
  have "lane_received E (page_head d @ b) sa ?t = (Inr (), ?t2)"
    using lane_received_known [OF src si] lane_processRx_single [OF index p(3,4)] by (simp add: run_simps t1(1))
  from handle_next [OF rx this, of 0] have "handle_rxes E (Suc 0) t = (Inr (), ?t2)" by (simp add: run_simps)
  then show ?thesis using t1 by (simp add: progress_def remote_name_def)
qed

text \<open>
  C4: A message that the lane stack sends is delivered. The pages that \<open>message\<close> queues for a yard
  are no longer than the transport takes; once they have come in, in their order, at the stack of
  that yard, which knows the sender by its name and has no unfinished book under the same index, the
  service of its receive queue returns and puts the message that was sent into the queue of
  messages, with the name of the sender, once; the book of the message is gone. If the session of
  the sender is new, the books of the old one do not get in the way.
\<close>

theorem lane_message_delivered:
  assumes sent: "oget (st_uidRemotes s) u = Some r"
      "lane_message E (BData (VDict m)) (Some u) s = (Inr (), s1)" "st_txes s1 \<noteq> st_txes s"
    and fit: "names_fit s r" "le_pk E = pack_value pk" "length (page_head (page_data E s r)) \<le> 60000"
      "lane_law (le_codec E) (le_codec E') pk m"
    and known: "tables_ok t" "oget (st_nameRemotes t) (lot_name (st_local s)) = Some q"
      "lot_name (st_local t) = remote_name s r" "\<not> ohas (yd_books (la_yards t q)) (book_index s r)"
  shows "\<exists>qs. st_txes s1 = st_txes s @ map (\<lambda>x. (x, remote_ha s r)) qs \<and>
    (\<forall>x \<in> set qs. length x \<le> UXD_MAX_PACKET_SIZE) \<and>
    (st_rxes t = map (\<lambda>x. (x, sa)) qs \<longrightarrow>
      (\<exists>t'. lane_serviceRxes E' t = (Inr (), t') \<and> st_rxes t' = [] \<and>
        st_rxMsgs t' = st_rxMsgs t @ [(BData (VDict m), lot_name (st_local s))] \<and>
        \<not> ohas (yd_books (la_yards t' q)) (book_index s r)))"
proof -
  let ?d = "page_data E s r" let ?sn = "lot_name (st_local s)" let ?i = "book_index s r"
  have "send_body E (BData (VDict m)) r s = (Inr (), s1)"
    using sent(1,2) by (simp add: lane_message_def run_simps)
  then obtain book where pack: "TxBook_pack (le_codec E) (TxBook_init (message_data E s r
        (next_bid (yd_bid (la_yards s r)))) (BData (VDict m))) [] None = Inr book"
    and tx: "st_txes s1 = st_txes s @ map (\<lambda>x. (x, remote_ha s r)) (map pg_packed (tb_pages book))"
    using send_body_run sent(3) by metis
  have ready: "page_ready ?d" by (rule page_data_ready [OF fit(1,2)])
  have d: "oget ?d ''pk'' = Some (VInt (pack_value pk))" "oget ?d ''pn'' = Some (VInt 0)"
    "oget ?d ''pc'' = Some (VInt 1)" "RxPage_index ?d = Inr ?i"
    by (simp_all add: page_data_eq fit(2) book_index_def RxPage_index_fields)
  have i: "?i = (VStr (remote_name s r), VStr ?sn, VStr (yd_sid (la_yards s r)),
      VInt (next_bid (yd_bid (la_yards s r))))" by (rule book_index_def)
  obtain ps where ps: "map pg_packed (tb_pages book) = lane_pages ?d ps" "ps \<noteq> []"
    "reads_body (le_codec E') pk (concat ps) (BData (VDict m))" "\<forall>x \<in> set (lane_pages ?d ps). length x \<le> 65535"
    by (rule TxBook_pack_pages [OF page_data_def ready d(1-3) fit(4,3) pack])
  let ?m = "\<lparr>lm_kind = pk, lm_pieces = ps, lm_body = BData (VDict m)\<rparr>"
  have prog: "progress ?sn (remote_name s r) ?i ?m q 0 t" using known by (simp add: progress_def)
  have name: "remote_name t q = ?sn" using known(1,2) by (simp add: tables_ok_def same_objects_def)
  have "\<exists>t'. lane_serviceRxes E' t = (Inr (), t') \<and> st_rxes t' = [] \<and>
      st_rxMsgs t' = st_rxMsgs t @ [(BData (VDict m), ?sn)] \<and> \<not> ohas (yd_books (la_yards t' q)) ?i"
    if rx: "st_rxes t = map (\<lambda>x. (x, sa)) (lane_pages ?d ps)"
  proof -
    have serve: "lane_serviceRxes E' t = handle_rxes E' (length ps) t"
      by (simp add: lane_serviceRxes_def serviceRxes_def run_simps rx lane_pages_def)
    show ?thesis
    proof (cases "length ps = 1")
      case True
      then obtain b where b: "ps = [b]" by (cases ps) auto
      then have "reads_body (le_codec E') pk b (BData (VDict m))" "st_rxes t = [(page_head ?d @ b, sa)]"
        using ps(3) rx single_page(1) [OF ready d(1-3), of "le_codec E'" b] by simp_all
      from page_received [OF ready d i this(1) prog this(2)] show ?thesis by (simp add: serve b name)
    next
      case False
      then have many: "1 < length ps" using ps(2) by (cases ps) auto
      then have n: "0 + Suc (length ps - 1) = length (lm_pieces ?m)" by simp
      have "\<exists>t'. handle_rxes E' (Suc (length ps - 1)) t = (Inr (), t') \<and> st_rxes t' = [] \<and>
          st_rxMsgs t' = st_rxMsgs t @ [(lm_body ?m, remote_name t q)] \<and> \<not> ohas (yd_books (la_yards t' q)) ?i"
        by (rule pages_received [OF ready _ d(4) i _ _ prog n, where sa = sa]) (use d(1) ps(3) many rx in simp_all)
      moreover have "Suc (length ps - 1) = length ps" using many by simp
      ultimately show ?thesis by (simp only: serve name lane_message.simps)
    qed
  qed
  then show ?thesis using tx ps(1,4) by (intro exI [of _ "lane_pages ?d ps"]) (simp add: size_limits)
qed

text \<open>The stacks of two yards that know each other.\<close>

definition two_yards :: "string \<Rightarrow> string \<Rightarrow> lane" where
  "two_yards own other = snd (ebind (RemoteYard_init sample_lane_env (sample_yard_args other))
     (\<lambda>r. ethen (lane_addRemote r) (eret True)) (sample_lane own))"

lemma two_yards_ok: "tables_ok (two_yards ''b'' ''a'')"
  unfolding two_yards_def
  by (intro yards_okD(1) keepsD [OF tables.new_remote] LaneStack_init_start(1) [OF sample_lane_start(2)])

lemma two_yards_facts:
  "oget (st_uidRemotes (two_yards ''a'' ''b'')) 2 = Some 0" "st_txes (two_yards ''a'' ''b'') = []"
  "lot_name (st_local (two_yards ''a'' ''b'')) = ''a''" "remote_name (two_yards ''a'' ''b'') 0 = ''b''"
  "yd_sid (la_yards (two_yards ''a'' ''b'') 0) = ''u''" "yd_bid (la_yards (two_yards ''a'' ''b'') 0) = 0"
  "oget (st_nameRemotes (two_yards ''b'' ''a'')) ''a'' = Some 0" "st_rxMsgs (two_yards ''b'' ''a'') = []"
  "lot_name (st_local (two_yards ''b'' ''a'')) = ''b''" "yd_books (la_yards (two_yards ''b'' ''a'') 0) = []"
  by code_simp+

theorem lane_message_delivered_witness:
  "\<exists>s1 t'. lane_message sample_lane_env (BData (VDict sample_dict)) (Some 2) (two_yards ''a'' ''b'') = (Inr (), s1) \<and>
     lane_serviceRxes sample_lane_env (two_yards ''b'' ''a''\<lparr>st_rxes := map (\<lambda>e. (fst e, VNone)) (st_txes s1)\<rparr>) =
       (Inr (), t') \<and>
     st_rxMsgs t' = [(BData (VDict sample_dict), ''a'')]"
proof -
  let ?s = "two_yards ''a'' ''b''" let ?t = "two_yards ''b'' ''a''" let ?E = sample_lane_env
  have "case lane_message ?E (BData (VDict sample_dict)) (Some 2) ?s of
      (Inr r, s) \<Rightarrow> r = () \<and> st_txes s \<noteq> [] | _ \<Rightarrow> False" by code_simp
  then obtain s1 where s1: "lane_message ?E (BData (VDict sample_dict)) (Some 2) ?s = (Inr (), s1)" "st_txes s1 \<noteq> []"
    by (rule returned)
  let ?t1 = "?t\<lparr>st_rxes := map (\<lambda>e. (fst e, VNone)) (st_txes s1)\<rparr>"
  have t: "tables_ok ?t1"
    using two_yards_ok by (simp add: tables_ok_def remote_uid_def [abs_def] remote_name_def [abs_def])
  have fit: "names_fit ?s 0" "le_pk ?E = pack_value PackJson" "lane_law (le_codec ?E) (le_codec ?E) PackJson sample_dict"
    by (simp_all add: names_fit_def two_yards_facts no_blank_def sample_lane_env_def lane_law_def
        sample_codec_def sample_json_def)
  have "int (length (page_head (page_data ?E ?s 0))) \<le> 200" by code_simp
  then have short: "length (page_head (page_data ?E ?s 0)) \<le> 60000" by simp
  have "\<exists>qs. st_txes s1 = st_txes ?s @ map (\<lambda>x. (x, remote_ha ?s 0)) qs \<and>
    (\<forall>x \<in> set qs. length x \<le> UXD_MAX_PACKET_SIZE) \<and>
    (st_rxes ?t1 = map (\<lambda>x. (x, VNone)) qs \<longrightarrow>
      (\<exists>t'. lane_serviceRxes ?E ?t1 = (Inr (), t') \<and> st_rxes t' = [] \<and>
        st_rxMsgs t' = st_rxMsgs ?t1 @ [(BData (VDict sample_dict), lot_name (st_local ?s))] \<and>
        \<not> ohas (yd_books (la_yards t' 0)) (book_index ?s 0)))"
    by (rule lane_message_delivered [OF two_yards_facts(1) s1(1) _ fit(1,2) short fit(3) t])
      (simp_all add: s1(2) two_yards_facts)
  then obtain qs where qs: "st_txes s1 = st_txes ?s @ map (\<lambda>x. (x, remote_ha ?s 0)) qs"
    and got: "st_rxes ?t1 = map (\<lambda>x. (x, VNone)) qs \<longrightarrow>
      (\<exists>t'. lane_serviceRxes ?E ?t1 = (Inr (), t') \<and> st_rxes t' = [] \<and>
        st_rxMsgs t' = st_rxMsgs ?t1 @ [(BData (VDict sample_dict), lot_name (st_local ?s))] \<and>
        \<not> ohas (yd_books (la_yards t' 0)) (book_index ?s 0))" by blast
  have "st_rxes ?t1 = map (\<lambda>x. (x, VNone)) qs" by (simp add: qs two_yards_facts)
  with got obtain t' where "lane_serviceRxes ?E ?t1 = (Inr (), t')"
    "st_rxMsgs t' = st_rxMsgs ?t1 @ [(BData (VDict sample_dict), lot_name (st_local ?s))]" by blast
  with s1(1) show ?thesis by (intro exI conjI) (assumption, assumption, simp add: two_yards_facts)
qed

end
