(* ===== verification/RoadBehaving.thy ===== *)
theory RoadBehaving
  imports RoadStarting
begin

text \<open>
  The deeds of FloScript programs on a road stack, raet/flo/behaving.py. A deed works on shares of
  ioflo's store; those of \<open>raet.road.stack\<close> are a record here. The share of the stack is \<open>None\<close> until a
  deed has made a stack. The files, the clock, the generators and the two queues of messages are
  not the stack's own: \<open>enter\<close> shows them to the stack before one of its methods runs, and \<open>leave\<close>
  takes over what the method has made of them. After the closer has run, no step of a program uses
  the socket: what it does then is for the network library to say.
\<close>

section \<open>Shares\<close>

text \<open>
  The share \<open>local\<close>, with the fields that the deeds give it a value for. A key that is \<open>None\<close> in the
  code is the empty string.
\<close>

record road_local =
  rl_name :: string
  rl_basedirpath :: string
  rl_main :: bool
  rl_mutable :: bool
  rl_auto :: int
  rl_uid :: "int option"
  rl_host :: string
  rl_port :: int
  rl_sigkey :: string
  rl_prikey :: string
  rl_masterhost :: string
  rl_masterport :: int

definition road_local_ival :: road_local where
  "road_local_ival =
     \<lparr>rl_name = ''master'', rl_basedirpath = ''/tmp/raet/keep'', rl_main = False, rl_mutable = True,
      rl_auto = auto_value AutoOnce, rl_uid = None, rl_host = ''0.0.0.0'', rl_port = RAET_PORT,
      rl_sigkey = [], rl_prikey = [], rl_masterhost = ''127.0.0.1'', rl_masterport = RAET_PORT\<rparr>"

definition road_status_ival :: hdata where
  "road_status_ival = [(''joined'', VBool False), (''allowed'', VBool False), (''idle'', VBool False)]"

record 'r road_flo =
  rf_stack :: "('r road_env \<times> 'r road_stack) option"
  rf_local :: road_local
  rf_closed :: bool
  rf_status :: hdata
  rf_destination :: "int option"
  rf_txMsgs :: "road_msg list"
  rf_rxMsgs :: "(body \<times> string) list"
  rf_printed :: "body list"
  rf_joinentTimeout :: rat
  rf_stamp :: rat
  rf_fs :: fs
  rf_rand :: 'r
  rf_guids :: nat

type_synonym ('r, 'a) deed = "('r road_flo, 'a) eff"

text \<open>
  What is the same for all deeds: the settings of stacks that no share holds, the directories,
  serializers, sockets and the network.
\<close>

record 'r flo_env =
  fe_road :: "'r road_env"
  fe_dirs :: dir_env
  fe_serial :: serial
  fe_reopen :: "val \<Rightarrow> val option"
  fe_network :: "val network"

section \<open>The stack\<close>

definition enter :: "'r road_flo \<Rightarrow> 'r road_stack \<Rightarrow> 'r road_stack" where
  "enter s k =
     k\<lparr>st_stamp := rf_stamp s, st_rxMsgs := rf_rxMsgs s, st_txMsgs := rf_txMsgs s, ks_fs := rf_fs s,
       rs_rand := rf_rand s, rs_guids := rf_guids s\<rparr>"

definition leave :: "'r road_stack \<Rightarrow> 'r road_flo \<Rightarrow> 'r road_flo" where
  "leave k s =
     s\<lparr>rf_rxMsgs := st_rxMsgs k, rf_txMsgs := st_txMsgs k, rf_fs := ks_fs k, rf_rand := rs_rand k,
       rf_guids := rs_guids k\<rparr>"

text \<open>
  A method of the stack: \<open>JoinentTimeout\<close> is an attribute of the class \<open>RoadStack\<close>, which all its
  objects read. With no stack there is no method.
\<close>

definition on_stack :: "('r road_env \<Rightarrow> ('r, 'a) road) \<Rightarrow> ('r, 'a) deed" where
  "on_stack m s =
     (case rf_stack s of
        None \<Rightarrow> (Inl AttributeError, s)
      | Some (E, k) \<Rightarrow>
          let (x, k') = m (E\<lparr>rv_joinent_timeout := rf_joinentTimeout s\<rparr>) (enter s k)
          in (x, leave k' (s\<lparr>rf_stack := Some (E, k')\<rparr>)))"

text \<open>\<open>if stack and isinstance(stack, RoadStack)\<close>, around a method, and around a value that is read.\<close>

definition if_stack :: "('r road_env \<Rightarrow> ('r, unit) road) \<Rightarrow> ('r, unit) deed" where
  "if_stack m = ebind (eget rf_stack) (\<lambda>st. ewhen (st \<noteq> None) (on_stack m))"

definition of_stack :: "'a \<Rightarrow> ('r road_stack \<Rightarrow> 'a) \<Rightarrow> 'r road_flo \<Rightarrow> 'a" where
  "of_stack x f s = (case rf_stack s of None \<Rightarrow> x | Some (E, k) \<Rightarrow> f k)"

definition first_remote :: "'r road_stack \<Rightarrow> nat option" where
  "first_remote k = (case ovalues (st_uidRemotes k) of [] \<Rightarrow> None | r # _ \<Rightarrow> Some r)"

section \<open>Making a stack\<close>

definition flo_keep :: "'r flo_env \<Rightarrow> road_local \<Rightarrow> roadkeep result" where
  "flo_keep F l =
     RoadKeep_init (fe_dirs F) (fe_serial F)
       \<lparr>ka_basedirpath = de_abspath (fe_dirs F) (rl_basedirpath l), ka_dirpath = [],
        ka_stackname = rl_name l, ka_prefix = ''estate'', ka_ext = [], rka_auto = Some (rl_auto l),
        rka_baseroledirpath = [], rka_roledirpath = []\<rparr>"

definition local_ha :: "road_local \<Rightarrow> val" where
  "local_ha l = VList [VStr (rl_host l), VInt (rl_port l)]"

definition flo_road_env :: "'r flo_env \<Rightarrow> road_local \<Rightarrow> roadkeep \<Rightarrow> 'r road_env" where
  "flo_road_env F l keep = (fe_road F)\<lparr>rv_keep := keep, rv_main := rl_main l, rv_mutable := rl_mutable l\<rparr>"

text \<open>
  \<open>self.stack.value = RoadStack(...)\<close>: if the constructor raises, the share keeps its value, though
  the files may have changed.
\<close>

definition start_stack :: "'r flo_env \<Rightarrow> ('r, unit) deed" where
  "start_stack F =
     ebind (eget rf_local) (\<lambda>l.
     ebind (elift (flo_keep F l)) (\<lambda>keep s.
     let E = flo_road_env F l keep;
         (x, k) = RoadStack_init E (fe_reopen F) ((remote_args 0 0 (local_ha l))\<lparr>ra_name := rl_name l, ra_uid := rl_uid l\<rparr>)
                    (rl_sigkey l) (rl_prikey l) False False
                    (enter s ((new_road 0 (local_ha l) None (rf_fs s) (rf_rand s))\<lparr>
                       st_statTimer := \<lparr>tm_start = rf_stamp s, tm_duration = 0\<rparr>\<rparr>))
     in (x, leave k (case x of Inl _ \<Rightarrow> s | Inr _ \<Rightarrow> s\<lparr>rf_stack := Some (E, k), rf_closed := False\<rparr>))))"

section \<open>Deeds\<close>

text \<open>\<open>shutil.rmtree\<close> of the base directory of keeps: the files below it are gone.\<close>

definition SaltRaetRoadCleanup :: "'r flo_env \<Rightarrow> ('r, unit) deed" where
  "SaltRaetRoadCleanup F =
     ebind (eget (\<lambda>s. de_abspath (fe_dirs F) (rl_basedirpath (rf_local s)))) (\<lambda>d.
     ewhen (de_exists (fe_dirs F) d)
       (emod (\<lambda>s. s\<lparr>rf_fs := filter (\<lambda>(p, b). \<not> in_tree d p) (rf_fs s)\<rparr>)))"

definition RaetRoadStack_prepare :: "'r flo_env \<Rightarrow> ('r, unit) deed" where
  "RaetRoadStack_prepare F = start_stack F"

definition RaetRoadStack_action :: "'r flo_env \<Rightarrow> ('r, unit) deed" where
  "RaetRoadStack_action F = on_stack (\<lambda>E. service_all E (fe_network F))"

definition RaetRoadStackSetup_prepare :: "('r, unit) deed" where
  "RaetRoadStackSetup_prepare = emod (rf_joinentTimeout_update (\<lambda>_. 0))"

definition RaetRoadStackSetup_action :: "'r flo_env \<Rightarrow> ('r, unit) deed" where
  "RaetRoadStackSetup_action F = start_stack F"

definition RaetRoadStackCloser :: "('r, unit) deed" where
  "RaetRoadStackCloser =
     ebind (eget rf_stack) (\<lambda>st. ewhen (st \<noteq> None) (emod (rf_closed_update (\<lambda>_. True))))"

definition RaetRoadStackRxServicer :: "('r, unit) deed" where
  "RaetRoadStackRxServicer = on_stack service_rx"

definition RaetRoadStackTxServicer :: "'r flo_env \<Rightarrow> ('r, unit) deed" where
  "RaetRoadStackTxServicer F = on_stack (\<lambda>E. service_tx E (fe_network F))"

definition master_ha :: "road_local \<Rightarrow> val" where
  "master_ha l =
     VList [VStr (if rl_masterhost l = [] \<or> rl_masterhost l = ''0.0.0.0'' then ''127.0.0.1'' else rl_masterhost l),
            VInt (rl_masterport l)]"

definition join_first :: "val \<Rightarrow> 'r road_env \<Rightarrow> ('r, unit) road" where
  "join_first ha E =
     ebind (eget st_uidRemotes) (\<lambda>remotes.
     ethen (ewhen (remotes = [])
        (ebind (RemoteEstate_init E (remote_args 0 0 ha)) (\<lambda>r.
         ebind (add_remote E r False) (\<lambda>_. eret ()))))
      (ebind (eget (\<lambda>k. map_option (remote_uid k) (first_remote k))) (\<lambda>uid. case uid of
         None \<Rightarrow> eraise IndexError
       | Some u \<Rightarrow> stack_join E (Some u) None False False)))"

definition RaetRoadStackJoiner :: "('r, unit) deed" where
  "RaetRoadStackJoiner = ebind (eget rf_local) (\<lambda>l. if_stack (join_first (master_ha l)))"

definition update_status :: "string \<Rightarrow> val \<Rightarrow> ('r, unit) deed" where
  "update_status field v = emod (\<lambda>s. s\<lparr>rf_status := oset field v (rf_status s)\<rparr>)"

definition flag_val :: "bool option \<Rightarrow> val" where
  "flag_val b = (case b of None \<Rightarrow> VNone | Some b \<Rightarrow> VBool b)"

definition RaetRoadStackJoined :: "('r, unit) deed" where
  "RaetRoadStackJoined =
     ebind (eget (of_stack (VBool False) (\<lambda>k. case first_remote k of
         None \<Rightarrow> VBool False | Some r \<Rightarrow> rm_joined (rs_remotes k r)))) (update_status ''joined'')"

definition RaetRoadStackAllower :: "('r, unit) deed" where
  "RaetRoadStackAllower = if_stack (\<lambda>E. stack_allow E None None True)"

definition RaetRoadStackAllowed :: "('r, unit) deed" where
  "RaetRoadStackAllowed =
     ebind (eget (of_stack (VBool False) (\<lambda>k. case first_remote k of
         None \<Rightarrow> VBool False | Some r \<Rightarrow> flag_val (rm_allowed (rs_remotes k r))))) (update_status ''allowed'')"

definition RaetRoadStackIdled :: "('r, unit) deed" where
  "RaetRoadStackIdled =
     ebind (eget (of_stack (VBool False) (\<lambda>k. VBool (transactions k = [])))) (update_status ''idled'')"

definition RaetRoadStackManager :: "('r, unit) deed" where
  "RaetRoadStackManager = if_stack (\<lambda>E. stack_manage E True False)"

definition RaetRoadStackManagerImmediate :: "('r, unit) deed" where
  "RaetRoadStackManagerImmediate = if_stack (\<lambda>E. stack_manage E True True)"

text \<open>The fields of the message are the arguments of the action.\<close>

definition RaetRoadStackMessenger :: "hdata \<Rightarrow> ('r, unit) deed" where
  "RaetRoadStackMessenger kwa =
     ewhen (kwa \<noteq> [])
       (ebind (eget rf_destination) (\<lambda>deid. if_stack (\<lambda>E. road_transmit (BData (VDict kwa)) deid None)))"

definition road_print_one :: "('r, unit) deed" where
  "road_print_one =
     ebind (eget rf_rxMsgs) (\<lambda>q. case q of
       [] \<Rightarrow> eraise IndexError
     | (msg, name) # rest \<Rightarrow> emod (\<lambda>s. s\<lparr>rf_rxMsgs := rest, rf_printed := rf_printed s @ [msg]\<rparr>))"

definition RaetRoadStackPrinter :: "('r, unit) deed" where
  "RaetRoadStackPrinter =
     ebind (eget (length \<circ> rf_rxMsgs)) (\<lambda>n. drain n (\<lambda>s. rf_rxMsgs s \<noteq> []) road_print_one)"

section \<open>A program\<close>

datatype road_deed =
    Cleanup | Prepare | Act | SetupPrepare | Setup | Closer | RxServicer | TxServicer | Join | Joined
  | Allow | Allowed | Idled | Manager | ManagerImmediate | Messenger hdata | Printer

fun run_deed :: "'r flo_env \<Rightarrow> road_deed \<Rightarrow> ('r, unit) deed" where
  "run_deed F Cleanup = SaltRaetRoadCleanup F"
| "run_deed F Prepare = RaetRoadStack_prepare F"
| "run_deed F Act = RaetRoadStack_action F"
| "run_deed F SetupPrepare = RaetRoadStackSetup_prepare"
| "run_deed F Setup = RaetRoadStackSetup_action F"
| "run_deed F Closer = RaetRoadStackCloser"
| "run_deed F RxServicer = RaetRoadStackRxServicer"
| "run_deed F TxServicer = RaetRoadStackTxServicer F"
| "run_deed F Join = RaetRoadStackJoiner"
| "run_deed F Joined = RaetRoadStackJoined"
| "run_deed F Allow = RaetRoadStackAllower"
| "run_deed F Allowed = RaetRoadStackAllowed"
| "run_deed F Idled = RaetRoadStackIdled"
| "run_deed F Manager = RaetRoadStackManager"
| "run_deed F ManagerImmediate = RaetRoadStackManagerImmediate"
| "run_deed F (Messenger kwa) = RaetRoadStackMessenger kwa"
| "run_deed F Printer = RaetRoadStackPrinter"

definition uses_socket :: "road_deed \<Rightarrow> bool" where
  "uses_socket d \<longleftrightarrow> d \<in> {Act, RxServicer, TxServicer}"

text \<open>
  What a program's deeds, the clock, arriving packets and other writers of the shares make of the
  state: someone else sets the share \<open>local\<close> or the destination, or queues a message to transmit.
  Directories, network and settings may be others at each deed.
\<close>

inductive flo_step :: "'r road_flo \<Rightarrow> 'r road_flo \<Rightarrow> bool" where
  deed: "rf_closed s \<longrightarrow> \<not> uses_socket d \<Longrightarrow> flo_step s (snd (run_deed F d s))"
| clock: "rf_stamp s \<le> t \<Longrightarrow> flo_step s (s\<lparr>rf_stamp := t\<rparr>)"
| configure: "flo_step s (s\<lparr>rf_local := l, rf_destination := deid\<rparr>)"
| queue: "flo_step s (s\<lparr>rf_txMsgs := rf_txMsgs s @ [m]\<rparr>)"
| arrive: "rf_stack s = Some (E, k) \<Longrightarrow> flo_step s (s\<lparr>rf_stack := Some (E, k\<lparr>st_inbox := st_inbox k @ [p]\<rparr>)\<rparr>)"

inductive_cases flo_stepE: "flo_step s s'"

end
