(* ===== verification/RoadService.thy ===== *)
theory RoadService
  imports RoadStarting RoadFrames
begin

text \<open>
  What the service of a road stack leaves as it is, whatever arrives and whatever the network does. A
  property that depends only on the stack's own estate, address and server and on the messages for
  the application, and that more such messages do not end, is preserved by the whole service and by
  every method that an application calls.
\<close>

section \<open>More rules for computations\<close>

lemma keeps_target [keeps_intros]:
  "(\<And>k. x = Drop k \<Longrightarrow> keeps P (f k)) \<Longrightarrow> (\<And>r. x = Target r \<Longrightarrow> keeps P (g r)) \<Longrightarrow>
   keeps P (case x of Drop k \<Rightarrow> f k | Target r \<Rightarrow> g r)"
  by (cases x) auto

lemma keeps_field [keeps_intros]:
  "(\<And>b. x = FBytes b \<Longrightarrow> keeps P (f b)) \<Longrightarrow> (\<And>i. x = FLong i \<Longrightarrow> keeps P (g i)) \<Longrightarrow>
   keeps P (case x of FBytes b \<Rightarrow> f b | FLong i \<Rightarrow> g i)"
  by (cases x) auto

lemma keeps_val [keeps_intros]:
  "keeps P m \<Longrightarrow> (\<And>vs. x = VList vs \<Longrightarrow> keeps P (f vs)) \<Longrightarrow> keeps P (case x of VList vs \<Rightarrow> f vs | _ \<Rightarrow> m)"
  by (cases x) auto

lemma keeps_body [keeps_intros]:
  "keeps P m \<Longrightarrow> (\<And>d. x = BData (VDict d) \<Longrightarrow> keeps P (f d)) \<Longrightarrow>
   keeps P (case x of BData (VDict d) \<Rightarrow> f d | _ \<Rightarrow> m)"
  by (auto split: body.split val.split)

section \<open>Properties of the service\<close>

text \<open>What a stack is to others, and the messages that it has for its application.\<close>

definition road_view :: "'r road_stack \<Rightarrow> val lot \<times> local_part \<times> val \<times> bool \<times> (body \<times> string) list" where
  "road_view s = (st_local s, rs_local s, rs_aha s, st_server s, st_rxMsgs s)"

locale road_property =
  fixes P :: "'r road_stack \<Rightarrow> bool"
  assumes frame: "P s \<Longrightarrow> road_view s' = road_view s \<Longrightarrow> P s'"
    and deliver: "P s \<Longrightarrow> P (s\<lparr>st_rxMsgs := st_rxMsgs s @ [m]\<rparr>)"

sublocale road_property \<subseteq> session
  by unfold_locales (auto elim!: frame simp: road_view_def)

context road_property
begin

lemma rmod [keeps_intros]: "keeps P (rmod r f)"
  unfolding rmod_def by (intro keeps_emod) (erule frame, simp add: road_view_def)

section \<open>The base stack\<close>

lemma nextUid [keeps_intros]: "keeps P nextUid"
  unfolding nextUid_def by (intro keeps_intros) (auto elim!: frame simp: road_view_def set_lot_def)

lemma moveRemote [keeps_intros]: "keeps P (moveRemote ins r new)"
  unfolding moveRemote_def Let_def by (intro keeps_intros) (auto elim!: frame simp: road_view_def set_lot_def)

lemma renameRemote [keeps_intros]: "keeps P (renameRemote ins r new)"
  unfolding renameRemote_def Let_def by (intro keeps_intros) (auto elim!: frame simp: road_view_def set_lot_def)

lemma free_uid [keeps_intros]: "keeps P (free_uid n)"
  by (induction n) (auto intro!: keeps_intros)

lemma new_uid [keeps_intros]: "keeps P new_uid"
  unfolding new_uid_def by (intro keeps_intros)

lemma sock_receive [keeps_intros]: "keeps P sock_receive"
  by (rule keepsI) (auto simp: sock_receive_def Let_def intro: frame simp: road_view_def split: list.splits)

lemma handleOneReceived [keeps_intros]: "keeps P handleOneReceived"
  unfolding handleOneReceived_def by (intro keeps_intros) (auto elim!: frame simp: road_view_def set_lot_def)

lemma receive_loop [keeps_intros]: "keeps P (receive_loop n)"
  by (induction n) (auto intro!: keeps_intros)

lemma serviceReceives [keeps_intros]: "keeps P serviceReceives"
  unfolding serviceReceives_def by (intro keeps_intros)

lemma serviceRxes [keeps_intros]: "keeps P handle \<Longrightarrow> keeps P (serviceRxes handle)"
  unfolding serviceRxes_def by (intro keeps_intros)

lemma transmit [keeps_intros]: "keeps P (transmit entry msg uid)"
  unfolding transmit_def by (intro keeps_intros) (auto elim!: frame simp: road_view_def set_lot_def)

lemma handleOneTxMsg [keeps_intros]: "(\<And>x0. keeps P (message x0)) \<Longrightarrow> keeps P (handleOneTxMsg message)"
  unfolding handleOneTxMsg_def by (intro keeps_intros) (auto elim!: frame simp: road_view_def set_lot_def)

lemma serviceTxMsgs [keeps_intros]: "(\<And>x0. keeps P (message x0)) \<Longrightarrow> keeps P (serviceTxMsgs message)"
  unfolding serviceTxMsgs_def by (intro keeps_intros)

lemma sock_send [keeps_intros]: "keeps P (sock_send net packed ha)"
  by (rule keepsI) (auto simp: sock_send_def Let_def intro: frame simp: road_view_def split: list.splits)

lemma handleOneTx [keeps_intros]: "keeps P (handleOneTx net lb)"
  unfolding handleOneTx_def by (intro keeps_intros) (auto elim!: frame simp: road_view_def set_lot_def)

lemma tx_loop [keeps_intros]: "keeps P (tx_loop net n lb)"
  by (induction n arbitrary: lb) (auto intro!: keeps_intros)

lemma put_back [keeps_intros]: "keeps P (put_back lb)"
  unfolding put_back_def by (intro keeps_intros)

lemma serviceTxes [keeps_intros]: "keeps P (serviceTxes net)"
  unfolding serviceTxes_def by (intro keeps_intros)

lemma serviceAllRx [keeps_intros]: "keeps P handle \<Longrightarrow> keeps P process \<Longrightarrow> keeps P (serviceAllRx handle process)"
  unfolding serviceAllRx_def by (intro keeps_intros)

lemma serviceAllTx [keeps_intros]: "(\<And>x0. keeps P (message x0)) \<Longrightarrow> keeps P (serviceAllTx net message)"
  unfolding serviceAllTx_def by (intro keeps_intros)

section \<open>Persistence\<close>

lemma new_lot [keeps_intros]: "keeps P (new_lot l)"
  by (rule keepsI) (auto simp: new_lot_def Let_def intro: frame simp: road_view_def split: list.splits)

lemma ks_clearRemote [keeps_intros]: "keeps P (ks_clearRemote k r)"
  unfolding ks_clearRemote_def by (intro keeps_intros)

lemma ks_moveRemote [keeps_intros]: "(\<And>x0. keeps P (dumpr x0)) \<Longrightarrow> keeps P (ks_moveRemote k dumpr ins r new clear dump)"
  unfolding ks_moveRemote_def by (intro keeps_intros)

lemma ks_renameRemote [keeps_intros]: "(\<And>x0. keeps P (dumpr x0)) \<Longrightarrow> keeps P (ks_renameRemote k dumpr ins r new clear dump)"
  unfolding ks_renameRemote_def by (intro keeps_intros)

section \<open>Estates\<close>

lemma full_name [keeps_intros]: "keeps P (full_name E prefix name)"
  by (rule keepsI) (auto simp: full_name_def Let_def intro: frame simp: road_view_def split: list.splits)

lemma RemoteEstate_init [keeps_intros]: "keeps P (RemoteEstate_init E a)"
  unfolding RemoteEstate_init_def by (intro keeps_intros)

lemma cleanupDoneTransactions [keeps_intros]: "keeps P (cleanupDoneTransactions E r)"
  unfolding cleanupDoneTransactions_def by (intro keeps_intros)

lemma estate_process [keeps_intros]: "(\<And>x0. keeps P (process x0)) \<Longrightarrow> keeps P (estate_process E process r)"
  unfolding estate_process_def by (intro keeps_intros)

lemma remote_manage [keeps_intros]: "(\<And>x0 x1. keeps P (alive x0 x1)) \<Longrightarrow> keeps P (remote_manage E alive cascade immediate r)"
  unfolding remote_manage_def by (intro keeps_intros)

lemma send_saved [keeps_intros]: "(\<And>x0 x1. keeps P (message x0 x1)) \<Longrightarrow> keeps P (send_saved message r)"
  unfolding send_saved_def by (intro keeps_intros)

lemma sendSavedMessages [keeps_intros]: "(\<And>x0 x1. keeps P (message x0 x1)) \<Longrightarrow> keeps P (sendSavedMessages message r)"
  unfolding sendSavedMessages_def by (intro keeps_intros)

section \<open>Transactions\<close>

lemma leave_joinees [keeps_intros]: "keeps P (leave_joinees t)"
  unfolding leave_joinees_def by (intro keeps_intros) (auto elim!: frame simp: road_view_def set_lot_def)

lemma trans_data [keeps_intros]: "keeps P (trans_data t)"
  unfolding trans_data_def by (intro keeps_intros)

lemma rename_remote [keeps_intros]: "keeps P (rename_remote E r new)"
  unfolding rename_remote_def by (intro keeps_intros)

lemma retrieveRemote [keeps_intros]: "keeps P (retrieveRemote uid)"
  unfolding retrieveRemote_def by (intro keeps_intros)

lemma timed_out [keeps_intros]: "keeps P (timed_out E t)"
  unfolding timed_out_def by (intro keeps_intros)

lemma redo_due [keeps_intros]: "keeps P (redo_due E t)"
  unfolding redo_due_def by (intro keeps_intros)

section \<open>Starting transactions\<close>

lemma Joiner_init [keeps_intros]: "keeps P (Joiner_init E r timeout cascade renewal)"
  unfolding Joiner_init_def by (intro keeps_intros)

lemma Joiner_join [keeps_intros]: "keeps P (Joiner_join E t)"
  unfolding Joiner_join_def by (intro keeps_intros)

lemma Allower_init [keeps_intros]: "keeps P (Allower_init r timeout cascade)"
  unfolding Allower_init_def by (intro keeps_intros)

lemma seal [keeps_intros]: "keeps P (seal E priv msg pub)"
  unfolding seal_def by (intro keeps_intros)

lemma Aliver_init [keeps_intros]: "keeps P (Aliver_init r timeout cascade)"
  unfolding Aliver_init_def by (intro keeps_intros)

lemma Aliver_alive [keeps_intros]: "keeps P (Aliver_alive E t)"
  unfolding Aliver_alive_def by (intro keeps_intros)

lemma stack_alive [keeps_intros]: "keeps P (stack_alive E uid timeout cascade)"
  unfolding stack_alive_def by (intro keeps_intros)

lemma Messenger_init [keeps_intros]: "keeps P (Messenger_init E r timeout)"
  unfolding Messenger_init_def by (intro keeps_intros)

lemma pack_tray [keeps_intros]: "keeps P (pack_tray E t b)"
  unfolding pack_tray_def Let_def by (intro keeps_intros)

lemma reflag_segment [keeps_intros]: "keeps P (reflag_segment E t i flags)"
  unfolding reflag_segment_def Let_def by (intro keeps_intros)

lemma send_segment [keeps_intros]: "keeps P (send_segment t i)"
  unfolding send_segment_def by (intro keeps_intros)

lemma send_burst [keeps_intros]: "keeps P (send_burst E t)"
  unfolding send_burst_def Let_def by (intro keeps_intros)

lemma add_if_missing [keeps_intros]: "keeps P (add_if_missing t)"
  unfolding add_if_missing_def by (intro keeps_intros)

lemma Messenger_message [keeps_intros]: "keeps P (Messenger_message E b t)"
  unfolding Messenger_message_def by (intro keeps_intros)

lemma stack_message [keeps_intros]: "keeps P (stack_message E b uid timeout)"
  unfolding stack_message_def by (intro keeps_intros)

lemma resend_saved [keeps_intros]: "keeps P (resend_saved E r)"
  unfolding resend_saved_def by (intro keeps_intros)

section \<open>Joining\<close>

lemma set_name [keeps_intros]: "keeps P (set_name r name)"
  unfolding set_name_def by (intro keeps_intros) (auto elim!: frame simp: road_view_def set_lot_def)

lemma set_ha [keeps_intros]: "keeps P (set_ha r ha)"
  unfolding set_ha_def by (intro keeps_intros) (auto elim!: frame simp: road_view_def set_lot_def)

lemma take_identity [keeps_intros]: "keeps P (take_identity E r j)"
  unfolding take_identity_def by (intro keeps_intros)

lemma change_identity [keeps_intros]: "keeps P (change_identity E r rha fuid j)"
  unfolding change_identity_def by (intro keeps_intros)

lemma try_rename [keeps_intros]: "keeps P (try_rename E r name)"
  unfolding try_rename_def by (intro keeps_intros)

lemma name_taken [keeps_intros]: "keeps P (name_taken r name)"
  unfolding name_taken_def by (intro keeps_intros)

lemma Joiner_ackAccept [keeps_intros]: "keeps P (Joiner_ackAccept E t)"
  unfolding Joiner_ackAccept_def by (intro keeps_intros)

lemma Joiner_completify [keeps_intros]: "keeps P (Joiner_completify E t)"
  unfolding Joiner_completify_def by (intro keeps_intros)

lemma Joiner_ackPend [keeps_intros]: "keeps P (Joiner_ackPend E t)"
  unfolding Joiner_ackPend_def by (intro keeps_intros)

lemma Joiner_pendify [keeps_intros]: "keeps P (Joiner_pendify E t)"
  unfolding Joiner_pendify_def by (intro keeps_intros)

lemma Joiner_refuse [keeps_intros]: "keeps P (Joiner_refuse E t)"
  unfolding Joiner_refuse_def by (intro keeps_intros)

lemma Joiner_reject [keeps_intros]: "keeps P (Joiner_reject E t)"
  unfolding Joiner_reject_def by (intro keeps_intros)

lemma Joiner_renew [keeps_intros]: "keeps P (Joiner_renew E t)"
  unfolding Joiner_renew_def Let_def by (intro keeps_intros)

lemma Joiner_pend [keeps_intros]: "keeps P (Joiner_pend E t)"
  unfolding Joiner_pend_def by (intro keeps_intros)

lemma Joiner_vacuous [keeps_intros]: "keeps P (Joiner_vacuous E t r j)"
  unfolding Joiner_vacuous_def by (intro keeps_intros)

lemma Joiner_change [keeps_intros]: "keeps P (Joiner_change E t r rha j)"
  unfolding Joiner_change_def by (intro keeps_intros)

lemma Joiner_accepted [keeps_intros]: "keeps P (Joiner_accepted E t r rha j)"
  unfolding Joiner_accepted_def Let_def by (intro keeps_intros)

lemma Joiner_response [keeps_intros]: "keeps P (Joiner_response E t d)"
  unfolding Joiner_response_def Let_def by (intro keeps_intros)

lemma Joiner_accept [keeps_intros]: "keeps P (Joiner_accept E t)"
  unfolding Joiner_accept_def by (intro keeps_intros)

lemma Joiner_receive [keeps_intros]: "keeps P (Joiner_receive E t p)"
  unfolding Joiner_receive_def Let_def by (intro keeps_intros)

lemma check_status [keeps_intros]: "keeps P accepted \<Longrightarrow> keeps P (check_status E t accepted)"
  unfolding check_status_def by (intro keeps_intros)

lemma Joiner_process [keeps_intros]: "keeps P (Joiner_process E t)"
  unfolding Joiner_process_def by (intro keeps_intros)

lemma Joinent_init [keeps_intros]: "keeps P (Joinent_init E r timeout p)"
  unfolding Joinent_init_def Let_def by (intro keeps_intros)

lemma Joinent_ackPend [keeps_intros]: "keeps P (Joinent_ackPend E t)"
  unfolding Joinent_ackPend_def by (intro keeps_intros)

lemma Joinent_pendify [keeps_intros]: "keeps P (Joinent_pendify E t)"
  unfolding Joinent_pendify_def by (intro keeps_intros)

lemma Joinent_ackAccept [keeps_intros]: "keeps P (Joinent_ackAccept E t)"
  unfolding Joinent_ackAccept_def by (intro keeps_intros)

lemma Joinent_race [keeps_intros]: "keeps P (Joinent_race E t name js)"
  by (induction js) (auto intro!: keeps_intros)

lemma Joinent_vacuous [keeps_intros]: "keeps P (Joinent_vacuous E t reid j)"
  unfolding Joinent_vacuous_def by (intro keeps_intros)

lemma Joinent_known [keeps_intros]: "keeps P (Joinent_known E t leid)"
  unfolding Joinent_known_def by (intro keeps_intros)

lemma Joinent_place [keeps_intros]: "keeps P (Joinent_place E t r rha reid j same)"
  unfolding Joinent_place_def by (intro keeps_intros)

lemma Joinent_admit [keeps_intros]: "keeps P (Joinent_admit E t rha reid j)"
  unfolding Joinent_admit_def Let_def by (intro keeps_intros)

lemma Joinent_proceed [keeps_intros]: "keeps P (Joinent_proceed E t rha reid j leid)"
  unfolding Joinent_proceed_def by (intro keeps_intros)

lemma Joinent_request [keeps_intros]: "keeps P (Joinent_request E t d)"
  unfolding Joinent_request_def by (intro keeps_intros)

lemma Joinent_join [keeps_intros]: "keeps P (Joinent_join E t)"
  unfolding Joinent_join_def by (intro keeps_intros)

lemma Joinent_pend [keeps_intros]: "keeps P (Joinent_pend E t)"
  unfolding Joinent_pend_def by (intro keeps_intros)

lemma Joinent_complete [keeps_intros]: "keeps P (Joinent_complete E t)"
  unfolding Joinent_complete_def by (intro keeps_intros)

lemma Joinent_reject [keeps_intros]: "keeps P (Joinent_reject E t)"
  unfolding Joinent_reject_def by (intro keeps_intros)

lemma Joinent_refuse [keeps_intros]: "keeps P (Joinent_refuse E t)"
  unfolding Joinent_refuse_def by (intro keeps_intros)

lemma Joinent_receive [keeps_intros]: "keeps P (Joinent_receive E t p)"
  unfolding Joinent_receive_def Let_def by (intro keeps_intros)

lemma Joinent_process [keeps_intros]: "keeps P (Joinent_process E t)"
  unfolding Joinent_process_def by (intro keeps_intros)

lemma stack_replyJoin [keeps_intros]: "keeps P (stack_replyJoin E p r timeout)"
  unfolding stack_replyJoin_def by (intro keeps_intros)

section \<open>Allowing\<close>

lemma bad_body [keeps_intros]: "keeps P nack \<Longrightarrow> keeps P (bad_body stat nack)"
  unfolding bad_body_def by (intro keeps_intros)

lemma set_oreo [keeps_intros]: "keeps P (set_oreo t oreo)"
  unfolding set_oreo_def by (intro keeps_intros)

lemma get_priver [keeps_intros]: "keeps P get_priver"
  unfolding get_priver_def by (intro keeps_intros)

lemma set_allowed [keeps_intros]: "keeps P (set_allowed r)"
  unfolding set_allowed_def by (intro keeps_intros)

lemma Allower_initiate [keeps_intros]: "keeps P (Allower_initiate E t)"
  unfolding Allower_initiate_def by (intro keeps_intros)

lemma Allower_cookie [keeps_intros]: "keeps P (Allower_cookie E t)"
  unfolding Allower_cookie_def Let_def by (intro keeps_intros)

lemma Allower_ackFinal [keeps_intros]: "keeps P (Allower_ackFinal E t)"
  unfolding Allower_ackFinal_def Let_def by (intro keeps_intros)

lemma Allower_allow [keeps_intros]: "keeps P (Allower_allow E t)"
  unfolding Allower_allow_def by (intro keeps_intros)

lemma Allower_refuse [keeps_intros]: "keeps P (Allower_refuse E t)"
  unfolding Allower_refuse_def by (intro keeps_intros)

lemma Allower_reject [keeps_intros]: "keeps P (Allower_reject E t)"
  unfolding Allower_reject_def by (intro keeps_intros)

lemma Allower_unjoin [keeps_intros]: "keeps P (Allower_unjoin E t)"
  unfolding Allower_unjoin_def by (intro keeps_intros)

lemma Allower_receive [keeps_intros]: "keeps P (Allower_receive E t p)"
  unfolding Allower_receive_def Let_def by (intro keeps_intros)

lemma Allower_process [keeps_intros]: "keeps P (Allower_process E t)"
  unfolding Allower_process_def by (intro keeps_intros)

lemma reply_init [keeps_intros]: "keeps P (reply_init cls kind data lo hi bcst r timeout p)"
  unfolding reply_init_def by (intro keeps_intros)

lemma Allowent_init [keeps_intros]: "keeps P (Allowent_init r p)"
  unfolding Allowent_init_def by (intro keeps_intros)

lemma Allowent_cookie [keeps_intros]: "keeps P (Allowent_cookie E t)"
  unfolding Allowent_cookie_def by (intro keeps_intros)

lemma Allowent_race [keeps_intros]: "keeps P (Allowent_race E t as)"
  by (induction as) (auto intro!: keeps_intros)

lemma Allowent_open [keeps_intros]: "keeps P (Allowent_open E t)"
  unfolding Allowent_open_def Let_def by (intro keeps_intros)

lemma Allowent_hello [keeps_intros]: "keeps P (Allowent_hello E t)"
  unfolding Allowent_hello_def by (intro keeps_intros)

lemma Allowent_allow [keeps_intros]: "keeps P (Allowent_allow E t)"
  unfolding Allowent_allow_def by (intro keeps_intros)

lemma Allowent_ackInitiate [keeps_intros]: "keeps P (Allowent_ackInitiate E t)"
  unfolding Allowent_ackInitiate_def by (intro keeps_intros)

lemma Allowent_initiate [keeps_intros]: "keeps P (Allowent_initiate E t)"
  unfolding Allowent_initiate_def Let_def by (intro keeps_intros)

lemma Allowent_final [keeps_intros]: "keeps P (Allowent_final E t)"
  unfolding Allowent_final_def by (intro keeps_intros)

lemma Allowent_refuse [keeps_intros]: "keeps P (Allowent_refuse E t)"
  unfolding Allowent_refuse_def by (intro keeps_intros)

lemma Allowent_reject [keeps_intros]: "keeps P (Allowent_reject E t)"
  unfolding Allowent_reject_def by (intro keeps_intros)

lemma Allowent_receive [keeps_intros]: "keeps P (Allowent_receive E t p)"
  unfolding Allowent_receive_def Let_def by (intro keeps_intros)

lemma Allowent_process [keeps_intros]: "keeps P (Allowent_process E t)"
  unfolding Allowent_process_def by (intro keeps_intros)

lemma stack_replyAllow [keeps_intros]: "keeps P (stack_replyAllow E p r)"
  unfolding stack_replyAllow_def by (intro keeps_intros)

section \<open>Presence\<close>

lemma Aliver_end [keeps_intros]: "keeps P after \<Longrightarrow> keeps P (Aliver_end E t alived change after)"
  unfolding Aliver_end_def by (intro keeps_intros)

lemma Aliver_complete [keeps_intros]: "keeps P (Aliver_complete E t)"
  unfolding Aliver_complete_def by (intro keeps_intros)

lemma Aliver_refuse [keeps_intros]: "keeps P (Aliver_refuse E t)"
  unfolding Aliver_refuse_def by (intro keeps_intros)

lemma Aliver_reject [keeps_intros]: "keeps P (Aliver_reject E t)"
  unfolding Aliver_reject_def by (intro keeps_intros)

lemma Aliver_unjoin [keeps_intros]: "keeps P (Aliver_unjoin E t)"
  unfolding Aliver_unjoin_def by (intro keeps_intros)

lemma Aliver_unallow [keeps_intros]: "keeps P (Aliver_unallow E t)"
  unfolding Aliver_unallow_def by (intro keeps_intros)

lemma Aliver_receive [keeps_intros]: "keeps P (Aliver_receive E t p)"
  unfolding Aliver_receive_def Let_def by (intro keeps_intros)

lemma Aliver_process [keeps_intros]: "keeps P (Aliver_process E t)"
  unfolding Aliver_process_def by (intro keeps_intros)

lemma Alivent_init [keeps_intros]: "keeps P (Alivent_init r p)"
  unfolding Alivent_init_def by (intro keeps_intros)

lemma Alivent_alive [keeps_intros]: "keeps P (Alivent_alive E t)"
  unfolding Alivent_alive_def by (intro keeps_intros)

lemma Alivent_receive [keeps_intros]: "keeps P (Alivent_receive E t p)"
  unfolding Alivent_receive_def by (intro keeps_intros)

lemma Alivent_process [keeps_intros]: "keeps P (Alivent_process E t)"
  unfolding Alivent_process_def by (intro keeps_intros)

lemma stack_replyAlive [keeps_intros]: "keeps P (stack_replyAlive E p r)"
  unfolding stack_replyAlive_def by (intro keeps_intros)

section \<open>Messages\<close>

lemma reflag_missed [keeps_intros]: "keeps P (reflag_missed E t wait i)"
  unfolding reflag_missed_def by (intro keeps_intros)

lemma resend_segment [keeps_intros]: "keeps P (resend_segment t i)"
  unfolding resend_segment_def by (intro keeps_intros)

lemma sendMisseds [keeps_intros]: "keeps P (sendMisseds E t)"
  unfolding sendMisseds_def Let_def by (intro keeps_intros)

lemma Messenger_another [keeps_intros]: "keeps P (Messenger_another E t)"
  unfolding Messenger_another_def by (intro keeps_intros)

lemma add_misseds [keeps_intros]: "keeps P (add_misseds t vs)"
  by (induction vs) (auto intro!: keeps_intros)

lemma Messenger_resend [keeps_intros]: "keeps P (Messenger_resend E t)"
  unfolding Messenger_resend_def Let_def by (intro keeps_intros)

lemma Messenger_complete [keeps_intros]: "keeps P (Messenger_complete E t)"
  unfolding Messenger_complete_def by (intro keeps_intros)

lemma Messenger_reject [keeps_intros]: "keeps P (Messenger_reject E t)"
  unfolding Messenger_reject_def by (intro keeps_intros)

lemma Messenger_receive [keeps_intros]: "keeps P (Messenger_receive E t p)"
  unfolding Messenger_receive_def Let_def by (intro keeps_intros)

lemma redo_segment [keeps_intros]: "keeps P (redo_segment E t)"
  unfolding redo_segment_def by (intro keeps_intros)

lemma Messenger_process [keeps_intros]: "keeps P (Messenger_process E t)"
  unfolding Messenger_process_def by (intro keeps_intros)

lemma Messengent_init [keeps_intros]: "keeps P (Messengent_init r p)"
  unfolding Messengent_init_def by (intro keeps_intros)

lemma parse_tray [keeps_intros]: "keeps P (parse_tray E t)"
  unfolding parse_tray_def by (intro keeps_intros)

lemma Messengent_ack [keeps_intros]: "keeps P (Messengent_ack E t)"
  unfolding Messengent_ack_def by (intro keeps_intros)

lemma Messengent_done [keeps_intros]: "keeps P (Messengent_done E t)"
  unfolding Messengent_done_def by (intro keeps_intros)

lemma Messengent_complete [keeps_intros]: "keeps P (Messengent_complete E t)"
  unfolding Messengent_complete_def Let_def by (intro keeps_intros deliver)

lemma Messengent_resend [keeps_intros]: "keeps P (Messengent_resend E t ms)"
proof (induction "length ms" arbitrary: ms rule: less_induct)
  case less
  show ?case
    by (subst Messengent_resend.simps) (auto intro!: keeps_intros less)
qed

lemma ask_missing [keeps_intros]: "keeps P (ask_missing E t)"
  unfolding ask_missing_def by (intro keeps_intros)

lemma Messengent_message [keeps_intros]: "keeps P (Messengent_message E t)"
  unfolding Messengent_message_def by (intro keeps_intros)

lemma Messengent_reject [keeps_intros]: "keeps P (Messengent_reject E t)"
  unfolding Messengent_reject_def by (intro keeps_intros)

lemma Messengent_receive [keeps_intros]: "keeps P (Messengent_receive E t p)"
  unfolding Messengent_receive_def Let_def by (intro keeps_intros)

lemma Messengent_process [keeps_intros]: "keeps P (Messengent_process E t)"
  unfolding Messengent_process_def by (intro keeps_intros)

lemma stack_replyMessage [keeps_intros]: "keeps P (stack_replyMessage E p r)"
  unfolding stack_replyMessage_def by (intro keeps_intros)

section \<open>The road stack\<close>

lemma trans_receive [keeps_intros]: "keeps P (trans_receive E t p)"
  unfolding trans_receive_def by (intro keeps_intros)

lemma trans_process [keeps_intros]: "keeps P (trans_process E t)"
  unfolding trans_process_def by (intro keeps_intros)

lemma createRemote [keeps_intros]: "keeps P (createRemote E ha)"
  unfolding createRemote_def by (intro keeps_intros)

lemma Staler_nack [keeps_intros]: "keeps P (Staler_nack E r p)"
  unfolding Staler_nack_def by (intro keeps_intros)

lemma Stalent_nack [keeps_intros]: "keeps P (Stalent_nack E pk p)"
  unfolding Stalent_nack_def by (intro keeps_intros)

lemma correspond [keeps_intros]: "keeps P (correspond E p r)"
  unfolding correspond_def Let_def by (intro keeps_intros)

lemma drop_packet [keeps_intros]: "keeps P (drop_packet stat)"
  unfolding drop_packet_def by (intro keeps_intros)

lemma new_remote [keeps_intros]: "keeps P (new_remote E fuid sid ha)"
  unfolding new_remote_def by (intro keeps_intros)

lemma join_initiator [keeps_intros]: "keeps P (join_initiator E p de se sha)"
  unfolding join_initiator_def Let_def by (intro keeps_intros) (auto elim!: frame simp: road_view_def set_lot_def)

lemma in_session [keeps_intros]: "keeps P (in_session E p r rsid cf)"
  unfolding in_session_def by (intro keeps_intros)

lemma nonjoin_remote [keeps_intros]: "keeps P (nonjoin_remote E p de se rsid cf)"
  unfolding nonjoin_remote_def by (intro keeps_intros)

lemma find_remote [keeps_intros]: "keeps P (find_remote E p)"
  unfolding find_remote_def Let_def by (intro keeps_intros)

lemma processRx [keeps_intros]: "keeps P (processRx E p)"
  unfolding processRx_def Let_def by (intro keeps_intros)

lemma handle_rx [keeps_intros]: "keeps P (handle_rx E)"
  unfolding handle_rx_def by (intro keeps_intros) (auto elim!: frame simp: road_view_def set_lot_def)

lemma stack_process [keeps_intros]: "keeps P (stack_process E)"
  unfolding stack_process_def by (intro keeps_intros)

lemma manage_remotes [keeps_intros]: "keeps P (manage_remotes E c i rs acc)"
  by (induction E c i rs acc rule: manage_remotes.induct) (auto intro!: keeps_intros)

lemma stack_manage [keeps_intros]: "keeps P (stack_manage E cascade immediate)"
  unfolding stack_manage_def Let_def by (intro keeps_intros) (auto elim!: frame simp: road_view_def set_lot_def)

lemma handle_tx_msg [keeps_intros]: "keeps P (handle_tx_msg E)"
  unfolding handle_tx_msg_def by (intro keeps_intros)

lemma service_rx [keeps_intros]: "keeps P (service_rx E)"
  unfolding service_rx_def by (intro keeps_intros)

lemma service_tx [keeps_intros]: "keeps P (service_tx E net)"
  unfolding service_tx_def by (intro keeps_intros)

lemma service_all [keeps_intros]: "keeps P (service_all E net)"
  unfolding service_all_def by (intro keeps_intros)

section \<open>Calls of the application\<close>

lemma road_transmit [keeps_intros]: "keeps P (road_transmit b uid timeout)"
  unfolding road_transmit_def by (intro keeps_intros)

end

text \<open>Starting a stack sets its own estate, and leaves the messages.\<close>

locale road_messages = road_property +
  assumes own: "P s \<Longrightarrow> st_rxMsgs s' = st_rxMsgs s \<Longrightarrow> P s'"
begin

lemma LocalEstate_init [keeps_intros]: "keeps P (LocalEstate_init E a sigkey prikey)"
  unfolding LocalEstate_init_def by (intro keeps_intros)

lemma restores [keeps_intros]: "keeps P (road_restoreLocal E)" "keeps P (road_restoreRemotes E)"
  unfolding road_restoreLocal_def road_restoreRemotes_def restore_estate_def
  by (intro keeps_intros; erule own; simp)+

lemma open_server [keeps_intros]: "keeps P (open_server reopen)"
  unfolding open_server_def by (intro keeps_intros) (auto elim!: own)

lemma RoadStack_init: "keeps P (RoadStack_init E reopen a sigkey prikey cleanlocal cleanremote)"
  unfolding RoadStack_init_def keep_startup_def clearLocalKeep_def clearRemoteKeeps_def advance_sids_def
    dumpRemotes_def clearRemotes_def ks_clearRemote_def
  by (intro keeps_intros) (auto elim!: own simp: set_lot_def)

end

section \<open>Identity and messages\<close>

definition goes_on :: "'r road_stack \<Rightarrow> 'r road_stack \<Rightarrow> bool" where
  "goes_on s s' \<longleftrightarrow>
     st_local s' = st_local s \<and> rs_local s' = rs_local s \<and> rs_aha s' = rs_aha s \<and> st_server s' = st_server s \<and>
     (\<exists>new. st_rxMsgs s' = st_rxMsgs s @ new)"

interpretation going_on: road_property "goes_on s"
  by unfold_locales (auto simp: goes_on_def road_view_def)

lemma goes_on_refl: "goes_on s s"
  by (simp add: goes_on_def)

lemma kept_going: "keeps (goes_on s) m \<Longrightarrow> goes_on s (snd (m s))"
  using goes_on_refl [of s] by (simp add: keeps_def)

text \<open>
  C35: Whatever arrives and whatever the network does, neither the service of a road stack nor a
  call to join, to allow, to manage the remotes or to transmit changes the stack's own name, ids,
  addresses, role and keys, and the messages that are there for the application stay, in their
  order; new ones come after them.
\<close>

theorem service_keeps_identity:
  "goes_on s (snd (service_all E net s)) \<and> goes_on s (snd (stack_join E uid timeout cascade renewal s)) \<and>
   goes_on s (snd (stack_allow E uid timeout cascade s)) \<and> goes_on s (snd (stack_manage E cascade immediate s)) \<and>
   goes_on s (snd (road_transmit b uid timeout s))"
  by (intro conjI kept_going going_on.service_all going_on.stack_join going_on.stack_allow
      going_on.stack_manage going_on.road_transmit)

end
