(* ===== verification/RoadDeedFacts.thy ===== *)
theory RoadDeedFacts
  imports RoadBehaving RoadService
begin

text \<open>
  Programs of deeds on a road stack: what they print, what their status share says, and a stack that
  starts after the cleanup.
\<close>

section \<open>Messages\<close>

text \<open>All that has been received: what is printed, and what still waits.\<close>

definition heard :: "'r road_flo \<Rightarrow> body list" where
  "heard s = rf_printed s @ map fst (rf_rxMsgs s)"

definition hears :: "'r road_flo \<Rightarrow> 'r road_flo \<Rightarrow> bool" where
  "hears s s' \<longleftrightarrow> (\<exists>new. heard s' = heard s @ new)"

definition queue_grows :: "(body \<times> string) list \<Rightarrow> 'r road_stack \<Rightarrow> bool" where
  "queue_grows q k \<longleftrightarrow> (\<exists>new. st_rxMsgs k = q @ new)"

interpretation queue: road_messages "queue_grows q"
  by unfold_locales (auto simp: queue_grows_def road_view_def)

lemma hears_refl [simp]: "hears s s"
  by (simp add: hears_def)

lemma hears_trans: "hears s t \<Longrightarrow> hears t u \<Longrightarrow> hears s u"
  by (auto simp: hears_def)

lemma hears_leave:
  "queue_grows (rf_rxMsgs s) k \<Longrightarrow> rf_printed t = rf_printed s \<Longrightarrow> hears s (leave k t)"
  by (auto simp: hears_def heard_def leave_def queue_grows_def)

lemma hears_on_stack:
  assumes "\<And>E q. keeps (queue_grows q) (m E)"
  shows "hears s (snd (on_stack m s))"
proof -
  have "queue_grows (rf_rxMsgs s) k'" if "m E (enter s k) = (x, k')" for E k x k'
    using keepsD [OF assms, of "rf_rxMsgs s" "enter s k" E] that by (simp add: queue_grows_def enter_def)
  then show ?thesis
    by (auto simp: on_stack_def Let_def intro!: hears_leave split: option.split prod.split)
qed

lemma hears_if_stack: "(\<And>E q. keeps (queue_grows q) (m E)) \<Longrightarrow> hears s (snd (if_stack m s))"
  by (simp add: if_stack_def run_simps hears_on_stack)

lemma hears_start_stack: "hears s (snd (start_stack F s))"
proof -
  have "queue_grows (rf_rxMsgs s) k'"
    if "RoadStack_init E reopen a sk pk False False (enter s k) = (x, k')" for E reopen a sk pk k x k'
    using keepsD [OF queue.RoadStack_init, of "rf_rxMsgs s" "enter s k" E reopen a sk pk False False] that
    by (simp add: queue_grows_def enter_def)
  then show ?thesis
    by (auto simp: start_stack_def run_simps Let_def intro!: hears_leave split: prod.split sum.split)
qed

lemma join_first_queue: "keeps (queue_grows q) (join_first ha E)"
  unfolding join_first_def by (intro keeps_intros queue.stack_join queue.RemoteEstate_init queue.add_remote)

lemma road_print_one_heard: "rf_rxMsgs s \<noteq> [] \<Longrightarrow> heard (snd (road_print_one s)) = heard s"
  by (cases "rf_rxMsgs s") (auto simp: road_print_one_def heard_def run_simps split: prod.splits)

lemma printer_empties:
  "n = length (rf_rxMsgs s) \<Longrightarrow>
   drain n (\<lambda>s. rf_rxMsgs s \<noteq> []) road_print_one s =
     (Inr (), s\<lparr>rf_rxMsgs := [], rf_printed := rf_printed s @ map fst (rf_rxMsgs s)\<rparr>)"
proof (induction n arbitrary: s)
  case (Suc n)
  then obtain m rest where q: "rf_rxMsgs s = m # rest" "n = length rest" by (cases "rf_rxMsgs s") auto
  then show ?case
    using Suc.IH [of "s\<lparr>rf_rxMsgs := rest, rf_printed := rf_printed s @ [fst m]\<rparr>"]
    by (cases m) (simp add: run_simps road_print_one_def)
qed (simp add: run_simps)

lemma Printer_run:
  "RaetRoadStackPrinter s = (Inr (), s\<lparr>rf_rxMsgs := [], rf_printed := heard s\<rparr>)"
  by (simp add: RaetRoadStackPrinter_def run_simps printer_empties heard_def)

lemma deed_hears: "hears s (snd (run_deed F d s))"
proof -
  have plain: "hears s (snd (update_status f v s))" "hears s (snd (SaltRaetRoadCleanup F s))"
    "hears s (snd (RaetRoadStackSetup_prepare s))" "hears s (snd (RaetRoadStackCloser s))" for f v
    by (auto simp: update_status_def RaetRoadStackCloser_def SaltRaetRoadCleanup_def RaetRoadStackSetup_prepare_def run_simps hears_def heard_def)
  have printer: "hears s (snd (RaetRoadStackPrinter s))"
    by (simp add: Printer_run hears_def heard_def)
  show ?thesis
    by (cases d; simp add: RaetRoadStack_prepare_def RaetRoadStackSetup_action_def RaetRoadStack_action_def
        RaetRoadStackRxServicer_def RaetRoadStackTxServicer_def RaetRoadStackJoiner_def RaetRoadStackJoined_def
        RaetRoadStackAllower_def RaetRoadStackAllowed_def RaetRoadStackIdled_def RaetRoadStackManager_def
        RaetRoadStackManagerImmediate_def RaetRoadStackMessenger_def run_simps hears_start_stack plain printer
        hears_on_stack hears_if_stack queue.service_all queue.service_rx queue.service_tx queue.stack_allow
        queue.stack_manage queue.road_transmit join_first_queue)
qed

lemma step_hears: "flo_step s s' \<Longrightarrow> hears s s'"
proof (induction rule: flo_step.induct)
  case (deed s d)
  show ?case by (rule deed_hears)
qed (simp_all add: hears_def heard_def)

text \<open>
  C37: In every run of a program what has been received is printed or waits to be printed, once and
  in the order in which it came; and the printer always comes to its end, with nothing left.
\<close>

theorem received_is_printed_in_order:
  assumes "flo_step\<^sup>*\<^sup>* s s'"
  shows "\<exists>new. heard s' = heard s @ new \<and>
    RaetRoadStackPrinter s' = (Inr (), s'\<lparr>rf_rxMsgs := [], rf_printed := heard s @ new\<rparr>)"
proof -
  from assms have "hears s s'"
    by (induction rule: rtranclp_induct) (auto intro: hears_trans step_hears)
  then show ?thesis by (auto simp: hears_def Printer_run)
qed

section \<open>Status\<close>

text \<open>
  The fields of the status share in their order, with \<open>joined\<close> as the remote has it; \<open>idled\<close> is there
  once a deed has set it.
\<close>

definition flag :: "val \<Rightarrow> bool" where
  "flag v \<longleftrightarrow> v = VNone \<or> (\<exists>b. v = VBool b)"

definition status_typed :: "hdata \<Rightarrow> bool" where
  "status_typed d \<longleftrightarrow>
     (\<exists>j a. flag a \<and>
       (d = [(''joined'', j), (''allowed'', a), (''idle'', VBool False)] \<or>
        (\<exists>i. d = [(''joined'', j), (''allowed'', a), (''idle'', VBool False), (''idled'', VBool i)])))"

lemma flag_simps [simp]: "flag VNone" "flag (VBool b)" "flag (flag_val b')"
  by (auto simp: flag_def flag_val_def split: option.split)

lemma status_typed_oset:
  "status_typed d \<Longrightarrow> status_typed (oset ''joined'' v d)"
  "status_typed d \<Longrightarrow> flag v \<Longrightarrow> status_typed (oset ''allowed'' v d)"
  "status_typed d \<Longrightarrow> status_typed (oset ''idled'' (VBool b) d)"
  by (auto simp: status_typed_def)

lemma status_left [simp]: "rf_status (leave k s) = rf_status s"
  by (simp add: leave_def)

lemma on_stack_status [simp]: "rf_status (snd (on_stack m s)) = rf_status s"
  by (auto simp: on_stack_def Let_def split: option.split prod.split)

lemma if_stack_status [simp]: "rf_status (snd (if_stack m s)) = rf_status s"
  by (simp add: if_stack_def run_simps)

lemma start_stack_status [simp]: "rf_status (snd (start_stack F s)) = rf_status s"
  by (auto simp: start_stack_def run_simps Let_def split: prod.split sum.split)

lemma deed_status: "status_typed (rf_status s) \<Longrightarrow> status_typed (rf_status (snd (run_deed F d s)))"
  by (cases d) (auto simp: RaetRoadStack_prepare_def RaetRoadStackSetup_action_def RaetRoadStack_action_def
      RaetRoadStackRxServicer_def RaetRoadStackTxServicer_def RaetRoadStackJoiner_def RaetRoadStackJoined_def
      RaetRoadStackAllower_def RaetRoadStackAllowed_def RaetRoadStackIdled_def RaetRoadStackManager_def
      RaetRoadStackManagerImmediate_def RaetRoadStackMessenger_def SaltRaetRoadCleanup_def of_stack_def
      RaetRoadStackSetup_prepare_def RaetRoadStackCloser_def Printer_run update_status_def run_simps status_typed_oset split: option.split)

lemma step_status: "flo_step s s' \<Longrightarrow> status_typed (rf_status s) \<Longrightarrow> status_typed (rf_status s')"
  by (induction rule: flo_step.induct) (simp_all add: deed_status)

text \<open>
  C38: The status share keeps its type in every run: \<open>allowed\<close> and \<open>idled\<close> are flags, and the field
  \<open>idle\<close> that the deeds declare stays \<open>False\<close>, since the deed that looks for outstanding
  transactions updates \<open>idled\<close>.
\<close>

theorem status_share_typed:
  assumes "flo_step\<^sup>*\<^sup>* s s'" and "rf_status s = road_status_ival"
  shows "status_typed (rf_status s') \<and> oget (rf_status s') ''idle'' = Some (VBool False)"
proof -
  from assms(2) have "status_typed (rf_status s)" by (simp add: road_status_ival_def status_typed_def)
  with assms(1) have "status_typed (rf_status s')"
    by (induction rule: rtranclp_induct) (auto intro: step_status)
  then show ?thesis by (auto simp: status_typed_def)
qed

section \<open>A fresh start\<close>

text \<open>No file is in the directory.\<close>

definition cleaned :: "string \<Rightarrow> fs \<Rightarrow> bool" where
  "cleaned d fs \<longleftrightarrow> (\<forall>p \<in> set (okeys fs). \<not> in_tree d p)"

lemma in_tree_trans: "in_tree d p \<Longrightarrow> starts_with (p @ ''/'') q \<Longrightarrow> in_tree d q"
  by (auto simp: in_tree_iff dest: starts_withE)

lemma cleaned_missing: "cleaned d fs \<Longrightarrow> in_tree d p \<Longrightarrow> \<not> ohas fs p"
  by (auto simp: cleaned_def ohas_iff) (metis oget_None_iff option.distinct(1))

lemma cleaned_listdir: "cleaned d fs \<Longrightarrow> in_tree d p \<Longrightarrow> listdir p fs = []"
  by (auto simp: listdir_def cleaned_def filter_empty_conv intro: in_tree_trans)

lemma cleaned_local: "cleaned d (ks_fs k) \<Longrightarrow> in_tree d (kp_dirpath (rv_keep E)) \<Longrightarrow> road_restoreLocal E k = (Inr None, k)"
  by (simp add: road_restoreLocal_def road_loadLocalData_def loadLocalData_def load_file_def on_files_def run_simps
      localfilepath_def localdirpath_def in_tree_join cleaned_missing)

lemma cleaned_remotes:
  "cleaned d (ks_fs k) \<Longrightarrow> in_tree d (kp_dirpath (rv_keep E)) \<Longrightarrow> in_tree d (rk_roledirpath (rv_keep E)) \<Longrightarrow>
   road_restoreRemotes E k = (Inr (), k)"
  by (simp add: road_restoreRemotes_def road_loadAllRemoteData_def loadAllRemoteData_def loadAllRemoteRoleData_def
      on_files_def run_simps remotedirpath_def remoteroledirpath_def in_tree_join cleaned_listdir)

text \<open>A stack without remotes, and with the files and the queues of messages of \<open>k\<close>.\<close>

definition empty_like :: "'r road_stack \<Rightarrow> 'r road_stack \<Rightarrow> bool" where
  "empty_like k k' \<longleftrightarrow> ks_fs k' = ks_fs k \<and> st_uidRemotes k' = [] \<and> st_nameRemotes k' = [] \<and>
     st_rxMsgs k' = st_rxMsgs k \<and> st_txMsgs k' = st_txMsgs k"

interpretation empty: quiet "empty_like k"
  by unfold_locales (auto simp: empty_like_def)

lemma LocalEstate_init_keeps: "keeps (empty_like k) (LocalEstate_init E a sigkey prikey)"
  unfolding LocalEstate_init_def full_name_def nextUid_def
  by (intro keeps_intros empty.on_random keepsI) (auto simp: empty_like_def)

text \<open>The estate that the arguments describe, with keys made of the given ones.\<close>

definition estate_of_args :: "'r road_env \<Rightarrow> remote_args \<Rightarrow> string \<Rightarrow> string \<Rightarrow> int \<Rightarrow> val lot \<Rightarrow> local_part \<Rightarrow> bool" where
  "estate_of_args E a sigkey prikey puid l m \<longleftrightarrow>
     (ra_name a \<noteq> [] \<longrightarrow> lot_name l = ra_name a) \<and>
     lot_uid l = (case ra_uid a of Some u \<Rightarrow> u | None \<Rightarrow> if puid + 1 > 0xffffffff then 1 else puid + 1) \<and>
     lot_sid l = ra_sid a \<and> normal_ha E (ra_ha a) = Inr (lot_ha l) \<and>
     es_role m = (case ra_role a of None \<Rightarrow> lot_name l | Some role \<Rightarrow> role) \<and>
     (\<exists>z. fst (Signer_init (rv_nacl E) (KeyBytes sigkey) z) = Inr (lo_signer m)) \<and>
     (\<exists>z. fst (Privateer_init (rv_nacl E) (KeyBytes prikey) z) = Inr (lo_priver m))"

lemma on_random_returns: "on_random m k = (Inr x, k') \<Longrightarrow> \<exists>z. fst (m z) = Inr x"
  by (auto simp: on_random_def split: prod.splits intro!: exI [of _ "rs_rand k"])

lemma LocalEstate_init_estate:
  assumes "LocalEstate_init E a sigkey prikey k = (Inr (l, m), k')"
  shows "estate_of_args E a sigkey prikey (st_puid k) l m"
proof -
  from assms obtain name uid ha iha signer priver k1 k2 k3 k4 where
    name: "full_name E ''estate'' (ra_name a) k = (Inr name, k1)"
    and uid: "(case ra_uid a of None \<Rightarrow> nextUid | Some u \<Rightarrow> eret u) k1 = (Inr uid, k2)"
    and ha: "normal_ha E (ra_ha a) = Inr ha"
    and keys: "on_random (Signer_init (rv_nacl E) (KeyBytes sigkey)) k2 = (Inr signer, k3)"
      "on_random (Privateer_init (rv_nacl E) (KeyBytes prikey)) k3 = (Inr priver, k4)"
    and l: "l = \<lparr>lot_name = name, lot_uid = uid, lot_ha = ha, lot_sid = ra_sid a\<rparr>"
    and m: "m = \<lparr>es_tid = 0, es_iha = iha, es_natted = ra_natted a, es_fqdn = full_fqdn E (ra_fqdn a) ha,
            es_dyned = ra_dyned a, es_role = (case ra_role a of None \<Rightarrow> name | Some role \<Rightarrow> role),
            lo_signer = signer, lo_priver = priver\<rparr>"
    unfolding LocalEstate_init_def ebind_def elift_def eret_def
    by (auto split: prod.splits sum.splits simp del: full_name_def)
  have "ra_name a \<noteq> [] \<longrightarrow> name = ra_name a" and puid: "st_puid k1 = st_puid k"
    using name by (auto simp: full_name_def split: if_splits)
  moreover have "uid = (case ra_uid a of Some u \<Rightarrow> u | None \<Rightarrow> if st_puid k + 1 > 0xffffffff then 1 else st_puid k + 1)"
    using uid by (auto simp: nextUid_def run_simps puid split: option.splits)
  ultimately show ?thesis
    using ha on_random_returns [OF keys(1)] on_random_returns [OF keys(2)] by (simp add: estate_of_args_def l m cong: option.case_cong)
qed

lemma fresh_init:
  assumes run: "RoadStack_init E reopen a sigkey prikey False False k = (Inr (), k')"
    and clean: "cleaned d (ks_fs k)" "in_tree d (kp_dirpath (rv_keep E))" "in_tree d (rk_roledirpath (rv_keep E))"
    and empty: "st_uidRemotes k = []" "st_nameRemotes k = []"
  shows "st_uidRemotes k' = [] \<and> st_nameRemotes k' = [] \<and> st_rxMsgs k' = st_rxMsgs k \<and> st_txMsgs k' = st_txMsgs k \<and>
    estate_of_args E a sigkey prikey (st_puid k) (st_local k') (rs_local k')"
proof -
  from run obtain l m k1 where l: "LocalEstate_init E a sigkey prikey k = (Inr (l, m), k1)"
    by (auto simp: RoadStack_init_def run_simps split: prod.splits sum.splits)
  have "empty_like k k" using empty by (simp add: empty_like_def)
  then have "empty_like k k1" using keepsD [OF LocalEstate_init_keeps, of k k E a sigkey prikey] l by simp
  then have k1: "ks_fs k1 = ks_fs k" "st_uidRemotes k1 = []" "st_nameRemotes k1 = []" "st_rxMsgs k1 = st_rxMsgs k"
    "st_txMsgs k1 = st_txMsgs k" by (simp_all add: empty_like_def)
  show ?thesis
    using run k1 clean LocalEstate_init_estate [OF l]
    by (auto simp: RoadStack_init_def l run_simps keep_startup_def open_server_def cleaned_local cleaned_remotes
        advance_sids_def dumpRemotes_def clearRemotes_def dump_local_def on_files_def
        split: prod.splits sum.splits option.splits)
qed

lemma fresh_init_runs:
  assumes "LocalEstate_init E a sigkey prikey k = (Inr (l, m), k1)"
    and clean: "cleaned d (ks_fs k)" "in_tree d (kp_dirpath (rv_keep E))" "in_tree d (rk_roledirpath (rv_keep E))"
    and empty: "st_uidRemotes k = []" "st_nameRemotes k = []"
    and opens: "\<And>ha. reopen ha \<noteq> None" and dumps: "\<And>k. fst (dump_local E k) = Inr ()"
  shows "fst (RoadStack_init E reopen a sigkey prikey False False k) = Inr ()"
proof -
  have "empty_like k k" using empty by (simp add: empty_like_def)
  then have "empty_like k k1" using keepsD [OF LocalEstate_init_keeps, of k k E a sigkey prikey] assms(1) by simp
  then have k1: "ks_fs k1 = ks_fs k" "st_uidRemotes k1 = []" by (simp_all add: empty_like_def)
  have rest: "st_uidRemotes k2 = [] \<Longrightarrow> fst (ethen (dump_local E) (dumpRemotes (rv_keep E) (dump_remote E) True) k2) = Inr ()" for k2
    using dumps [of k2]
    by (auto simp: dumpRemotes_def clearRemotes_def dump_local_def on_files_def run_simps split: prod.splits sum.splits)
  show ?thesis
    using opens [of "rs_aha k1"] k1 clean rest
    by (auto simp: RoadStack_init_def assms(1) run_simps keep_startup_def open_server_def cleaned_local cleaned_remotes
        advance_sids_def split: option.splits)
qed

text \<open>What a setup after the cleanup does not depend on: an earlier stack, and the files below the directory.\<close>

lemma setup_forgets:
  assumes "base = de_abspath (fe_dirs F) (rl_basedirpath (rf_local s))" "de_exists (fe_dirs F) base"
    and "filter (\<lambda>(p, b). \<not> in_tree base p) fs = filter (\<lambda>(p, b). \<not> in_tree base p) (rf_fs s)"
    and "ethen (SaltRaetRoadCleanup F) (RaetRoadStackSetup_action F') s = (Inr (), s')"
  shows "ethen (SaltRaetRoadCleanup F) (RaetRoadStackSetup_action F') (s\<lparr>rf_stack := earlier, rf_closed := shut, rf_fs := fs\<rparr>) =
    (Inr (), s')"
  using assms
  by (auto simp: SaltRaetRoadCleanup_def RaetRoadStackSetup_action_def start_stack_def run_simps Let_def leave_def enter_def
      split: prod.splits sum.splits)

text \<open>
  C36: A stack that is set up after the cleanup takes up nothing of an earlier one and its files: with
  any other stack in the share, and any other files below the directory, the setup comes to the same.
  The stack has no remotes and is not joined, and its own estate is not restored: name, uid, address,
  role and keys are those of the share \<open>local\<close>, or made new. The queues of messages are shares of
  their own, and the stack goes on with what waits there. The keep must be in the directory that is
  cleaned, and not in the alternative one; what the operating system says of directories may be
  different after the cleanup.
\<close>

theorem setup_after_cleanup_is_fresh:
  assumes "flo_keep F' (rf_local s) = Inr keep"
    and "base = de_abspath (fe_dirs F) (rl_basedirpath (rf_local s))" "de_exists (fe_dirs F) base"
    and "in_tree base (kp_dirpath keep)" "in_tree base (rk_roledirpath keep)"
    and "ethen (SaltRaetRoadCleanup F) (RaetRoadStackSetup_action F') s = (Inr (), s')"
  shows "(\<exists>E k. rf_stack s' = Some (E, k) \<and> st_uidRemotes k = [] \<and> st_nameRemotes k = [] \<and>
      (rl_name (rf_local s) \<noteq> [] \<longrightarrow> lot_name (st_local k) = rl_name (rf_local s)) \<and>
      estate_of_args E ((remote_args 0 0 (local_ha (rf_local s)))\<lparr>ra_name := rl_name (rf_local s), ra_uid := rl_uid (rf_local s)\<rparr>)
        (rl_sigkey (rf_local s)) (rl_prikey (rf_local s)) 0 (st_local k) (rs_local k) \<and>
      rv_nacl E = rv_nacl (fe_road F') \<and> st_rxMsgs k = rf_rxMsgs s \<and> st_txMsgs k = rf_txMsgs s \<and>
      oget (rf_status (snd (RaetRoadStackJoined s'))) ''joined'' = Some (VBool False)) \<and>
    (\<forall>earlier shut fs. filter (\<lambda>(p, b). \<not> in_tree base p) fs = filter (\<lambda>(p, b). \<not> in_tree base p) (rf_fs s) \<longrightarrow>
      ethen (SaltRaetRoadCleanup F) (RaetRoadStackSetup_action F') (s\<lparr>rf_stack := earlier, rf_closed := shut, rf_fs := fs\<rparr>) =
        (Inr (), s'))"
proof (intro conjI allI impI)
  let ?l = "rf_local s"
  let ?E = "flo_road_env F' ?l keep"
  let ?fs = "filter (\<lambda>(p, b). \<not> in_tree base p) (rf_fs s)"
  let ?k = "enter (s\<lparr>rf_fs := ?fs\<rparr>) ((new_road 0 (local_ha ?l) None ?fs (rf_rand s))\<lparr>
      st_statTimer := \<lparr>tm_start = rf_stamp s, tm_duration = 0\<rparr>\<rparr>)"
  let ?a = "(remote_args 0 0 (local_ha ?l))\<lparr>ra_name := rl_name ?l, ra_uid := rl_uid ?l\<rparr>"
  from assms obtain k where init: "RoadStack_init ?E (fe_reopen F') ?a (rl_sigkey ?l) (rl_prikey ?l) False False ?k = (Inr (), k)"
    and stack: "rf_stack s' = Some (?E, k)"
    by (auto simp: SaltRaetRoadCleanup_def RaetRoadStackSetup_action_def start_stack_def run_simps Let_def leave_def
        split: prod.splits sum.splits)
  have "cleaned base (ks_fs ?k)" by (auto simp: enter_def cleaned_def okeys_def)
  then have fresh: "st_uidRemotes k = [] \<and> st_nameRemotes k = [] \<and> st_rxMsgs k = rf_rxMsgs s \<and> st_txMsgs k = rf_txMsgs s \<and>
      estate_of_args ?E ?a (rl_sigkey ?l) (rl_prikey ?l) 0 (st_local k) (rs_local k)"
    using fresh_init [OF init, of base] assms(4,5)
    by (simp add: flo_road_env_def enter_def new_road_def)
  moreover have "rl_name ?l \<noteq> [] \<longrightarrow> lot_name (st_local k) = rl_name ?l"
    using fresh by (simp add: estate_of_args_def remote_args_def)
  moreover have "oget (rf_status (snd (RaetRoadStackJoined s'))) ''joined'' = Some (VBool False)"
    using stack fresh by (simp add: RaetRoadStackJoined_def update_status_def of_stack_def first_remote_def run_simps)
  moreover have "rv_nacl ?E = rv_nacl (fe_road F')" by (simp add: flo_road_env_def)
  ultimately show "\<exists>E k. rf_stack s' = Some (E, k) \<and> st_uidRemotes k = [] \<and> st_nameRemotes k = [] \<and>
      (rl_name ?l \<noteq> [] \<longrightarrow> lot_name (st_local k) = rl_name ?l) \<and>
      estate_of_args E ?a (rl_sigkey ?l) (rl_prikey ?l) 0 (st_local k) (rs_local k) \<and>
      rv_nacl E = rv_nacl (fe_road F') \<and> st_rxMsgs k = rf_rxMsgs s \<and> st_txMsgs k = rf_txMsgs s \<and>
      oget (rf_status (snd (RaetRoadStackJoined s'))) ''joined'' = Some (VBool False)"
    using stack by blast
qed (rule setup_forgets [OF assms(2,3) _ assms(6)])

end
