(* ===== verification/DeedSamples.thy ===== *)
theory DeedSamples
  imports RoadDeedFacts RoadSamples YardNames
begin

text \<open>Programs of deeds on sample shares.\<close>

definition sample_flo_env :: "nat flo_env" where
  "sample_flo_env =
     \<lparr>fe_road = sample_env False True, fe_dirs = sample_dirs,
      fe_serial = sample_serial\<lparr>sr_json_dump := \<lambda>_. Inr ''data''\<rparr>, fe_reopen = Some, fe_network = (\<lambda>_ _ _. None)\<rparr>"

text \<open>The files have the data of an earlier stack.\<close>

definition sample_flo :: "nat road_flo" where
  "sample_flo =
     \<lparr>rf_stack = None, rf_local = road_local_ival, rf_closed = False, rf_status = road_status_ival, rf_destination = None,
      rf_txMsgs = [], rf_rxMsgs = [(BData (VDict [(''m'', VInt 1)]), ''a''), (BData (VDict []), ''b'')],
      rf_printed = [], rf_joinentTimeout = JoinentTimeout, rf_stamp = 0,
      rf_fs = [(''/tmp/raet/keep/master/local/estate.json'', ''old''),
               (''/tmp/raet/keep/master/remote/estate.a.json'', ''old'')],
      rf_rand = 0, rf_guids = 0\<rparr>"

definition master_keep :: roadkeep where
  "master_keep =
     \<lparr>kp_serial = fe_serial sample_flo_env, kp_dirpath = ''/tmp/raet/keep/master'', kp_prefix = ''estate'',
      kp_ext = ''json'', kp_LocalFields = ROAD_LOCAL_FIELDS, kp_RemoteFields = ROAD_REMOTE_FIELDS,
      rk_auto = 1, rk_roledirpath = ''/tmp/raet/keep/master/role''\<rparr>"

lemma sample_flo_keep: "flo_keep sample_flo_env road_local_ival = Inr master_keep"
  by (simp add: flo_keep_def RoadKeep_init_def Keep_init_def Keep_dir_def role_dir_def chosen_dir_def existing_dir_def
      sample_flo_env_def sample_dirs_def road_local_ival_def keep_args.defs keep.defs roadkeep.defs posix_join_def SLASH_def
      KEEP_EXT_def master_keep_def)

lemma master_dump: "rv_keep E = master_keep \<Longrightarrow> fst (dump_local E k) = Inr ()"
proof -
  have paths: "CHR '' '' \<notin> set (localfilepath master_keep)" "snd (splitext (localfilepath master_keep)) = ''.json''"
    "CHR '' '' \<notin> set (localrolepath master_keep)" "snd (splitext (localrolepath master_keep)) = ''.json''"
    by code_simp+
  have dumps: "sr_json_dump (kp_serial master_keep) v = Inr ''data''" for v
    by (simp add: master_keep_def sample_flo_env_def)
  assume "rv_keep E = master_keep"
  then show ?thesis
    by (simp add: dump_local_def on_files_def road_dumpLocal_def dumpLocalRole_def dumpLocalRoleData_def dumpLocalData_def
        keep_dump_def Let_def run_simps paths dumps split: prod.splits sum.splits)
qed

theorem setup_after_cleanup_is_fresh_witness:
  "\<exists>s' E k. ethen (SaltRaetRoadCleanup sample_flo_env) (RaetRoadStackSetup_action sample_flo_env) sample_flo = (Inr (), s') \<and>
     rf_stack s' = Some (E, k) \<and> st_uidRemotes k = [] \<and> lot_name (st_local k) = ''master'' \<and>
     lot_uid (st_local k) = 1"
proof -
  let ?m = "ethen (SaltRaetRoadCleanup sample_flo_env) (RaetRoadStackSetup_action sample_flo_env) sample_flo"
  let ?E = "flo_road_env sample_flo_env road_local_ival master_keep"
  have keep: "flo_keep sample_flo_env (rf_local sample_flo) = Inr master_keep"
    using sample_flo_keep by (simp add: sample_flo_def)
  have tree: "in_tree ''/tmp/raet/keep'' (kp_dirpath master_keep)" "in_tree ''/tmp/raet/keep'' (rk_roledirpath master_keep)"
    by (simp_all add: in_tree_def master_keep_def)
  let ?l = road_local_ival
  let ?a = "(remote_args 0 0 (local_ha ?l))\<lparr>ra_name := rl_name ?l, ra_uid := rl_uid ?l\<rparr>"
  let ?k = "enter (sample_flo\<lparr>rf_fs := []\<rparr>) ((new_road 0 (local_ha ?l) None [] (rf_rand sample_flo))\<lparr>
      st_statTimer := \<lparr>tm_start = rf_stamp sample_flo, tm_duration = 0\<rparr>\<rparr>)"
  have "case LocalEstate_init ?E ?a (rl_sigkey ?l) (rl_prikey ?l) ?k of (Inl _, _) \<Rightarrow> False | (Inr _, _) \<Rightarrow> True"
    by code_simp
  then obtain l m k1 where l: "LocalEstate_init ?E ?a (rl_sigkey ?l) (rl_prikey ?l) ?k = (Inr (l, m), k1)"
    by (auto split: prod.splits sum.splits)
  have dump: "fst (dump_local ?E k) = Inr ()" for k by (rule master_dump) (simp add: flo_road_env_def)
  have init: "fst (RoadStack_init ?E (fe_reopen sample_flo_env) ?a (rl_sigkey ?l) (rl_prikey ?l) False False ?k) = Inr ()"
    by (rule fresh_init_runs [where d = "''/tmp/raet/keep''", OF l _ _ _ _ _ _ dump])
      (simp_all add: cleaned_def enter_def new_road_def sample_flo_env_def flo_road_env_def tree)
  have share: "rf_local sample_flo = ?l" by (simp add: sample_flo_def)
  have cleanup: "SaltRaetRoadCleanup sample_flo_env sample_flo = (Inr (), sample_flo\<lparr>rf_fs := []\<rparr>)"
    by (simp add: SaltRaetRoadCleanup_def run_simps sample_flo_env_def sample_dirs_def sample_flo_def road_local_ival_def in_tree_def)
  have "fst ?m = Inr ()"
    using init keep by (auto simp: cleanup RaetRoadStackSetup_action_def start_stack_def run_simps Let_def share
        split: prod.splits)
  then have run: "?m = (Inr (), snd ?m)" by (simp add: prod_eq_iff)
  have base: "''/tmp/raet/keep'' = de_abspath (fe_dirs sample_flo_env) (rl_basedirpath (rf_local sample_flo))"
    "de_exists (fe_dirs sample_flo_env) ''/tmp/raet/keep''" "rl_name (rf_local sample_flo) = ''master''"
    by (simp_all add: sample_flo_env_def sample_dirs_def sample_flo_def road_local_ival_def)
  have "rl_name (rf_local sample_flo) \<noteq> []" by (simp add: base(3))
  with setup_after_cleanup_is_fresh [OF keep base(1,2) tree run] obtain E k where
    "rf_stack (snd ?m) = Some (E, k)" "st_uidRemotes k = []" "lot_name (st_local k) = ''master''"
    "lot_uid (st_local k) = 1"
    by (auto simp: base(3) share estate_of_args_def remote_args_def road_local_ival_def)
  then show ?thesis using run by blast
qed

definition sample_printed :: "nat road_flo" where
  "sample_printed = snd (run_deed sample_flo_env Idled (snd (run_deed sample_flo_env Printer sample_flo)))"

lemma sample_program: "flo_step\<^sup>*\<^sup>* sample_flo sample_printed"
proof -
  have step: "flo_step s (snd (run_deed sample_flo_env d s))" if "d \<in> {Printer, Idled}" for s d
    by (rule flo_step.deed) (use that in \<open>auto simp: uses_socket_def\<close>)
  show ?thesis
    unfolding sample_printed_def
    by (rule rtranclp.rtrancl_into_rtrancl [OF r_into_rtranclp]; rule step; simp)
qed

theorem received_is_printed_in_order_witness:
  "\<exists>new. heard sample_printed = [BData (VDict [(''m'', VInt 1)]), BData (VDict [])] @ new"
proof -
  have "heard sample_flo = [BData (VDict [(''m'', VInt 1)]), BData (VDict [])]"
    by (simp add: heard_def sample_flo_def)
  then show ?thesis using received_is_printed_in_order [OF sample_program] by auto
qed

theorem status_share_typed_witness:
  "oget (rf_status sample_printed) ''idle'' = Some (VBool False) \<and> oget (rf_status sample_printed) ''idled'' = Some (VBool False)"
proof -
  have "oget (rf_status sample_printed) ''idled'' = Some (VBool False)" by code_simp
  then show ?thesis using status_share_typed [OF sample_program] by (simp add: sample_flo_def)
qed

end
