(* ===== verification/LaneBehaving.thy ===== *)
theory LaneBehaving
  imports LaneStacking
begin

text \<open>
  The deeds of FloScript programs on a lane stack, raet/flo/behaving.py. Their shares are a record,
  and that of the stack is \<open>None\<close> until a deed has made one; the queues of messages are those of the
  shares, as for the road. The deed that cleans up sockets works on a directory.
\<close>

section \<open>Shares\<close>

record lane_flo =
  lf_stack :: "lane option"
  lf_closed :: bool
  lf_name :: string
  lf_lane :: string
  lf_sockdirpath :: string
  lf_yard :: "nat option"
  lf_dest :: string
  lf_txMsgs :: "(body \<times> int option) list"
  lf_rxMsgs :: "(body \<times> string) list"
  lf_total :: int
  lf_printed :: "(string \<times> body) list"
  lf_stamp :: rat

type_synonym 'a lane_deed = "(lane_flo, 'a) eff"

definition lane_ival :: lane_flo where
  "lane_ival =
     \<lparr>lf_stack = None, lf_closed = False, lf_name = ''minion'', lf_lane = ''maple'', lf_sockdirpath = ''/tmp/raet/test/lane/'',
      lf_yard = None, lf_dest = [], lf_txMsgs = [], lf_rxMsgs = [], lf_total = 0, lf_printed = [],
      lf_stamp = 0\<rparr>"

definition lane_enter :: "lane_flo \<Rightarrow> lane \<Rightarrow> lane" where
  "lane_enter s k = k\<lparr>st_stamp := lf_stamp s, st_rxMsgs := lf_rxMsgs s, st_txMsgs := lf_txMsgs s\<rparr>"

definition lane_leave :: "lane \<Rightarrow> lane_flo \<Rightarrow> lane_flo" where
  "lane_leave k s = s\<lparr>lf_rxMsgs := st_rxMsgs k, lf_txMsgs := st_txMsgs k\<rparr>"

definition on_lane :: "'a lane_eff \<Rightarrow> 'a lane_deed" where
  "on_lane m s =
     (case lf_stack s of
        None \<Rightarrow> (Inl AttributeError, s)
      | Some k \<Rightarrow>
          let (x, k') = m (lane_enter s k) in (x, lane_leave k' (s\<lparr>lf_stack := Some k'\<rparr>)))"

text \<open>\<open>if stack and isinstance(stack, LaneStack)\<close>.\<close>

definition if_lane :: "unit lane_deed \<Rightarrow> unit lane_deed" where
  "if_lane m = ebind (eget lf_stack) (\<lambda>st. ewhen (st \<noteq> None) m)"

section \<open>Deeds\<close>

definition RaetLaneStack_prepare :: "lane_env \<Rightarrow> (val \<Rightarrow> val option) \<Rightarrow> unit lane_deed" where
  "RaetLaneStack_prepare E reopen =
     ebind (eget id) (\<lambda>s.
     ebind (elift (LaneStack_init E reopen None
        \<lparr>ya_uid = None, ya_prefix = ''lane'', ya_name = lf_name s, ya_ha = [], ya_sid = None,
         ya_dirpath = lf_sockdirpath s, ya_lanename = lf_lane s, ya_bid = 0\<rparr> None)) (\<lambda>k.
     emod (\<lambda>s. s\<lparr>lf_stack := Some k, lf_closed := False\<rparr>)))"

definition RaetLaneStack_action :: "lane_env \<Rightarrow> val network \<Rightarrow> unit lane_deed" where
  "RaetLaneStack_action E net = on_lane (lane_serviceAll E net)"

definition RaetLaneStackCloser :: "unit lane_deed" where
  "RaetLaneStackCloser = if_lane (emod (lf_closed_update (\<lambda>_. True)))"

text \<open>A name that is not given is the empty string.\<close>

definition RaetLaneStackYardAdd :: "lane_env \<Rightarrow> string \<Rightarrow> string \<Rightarrow> unit lane_deed" where
  "RaetLaneStackYardAdd E lanename name =
     ebind (eget lf_sockdirpath) (\<lambda>dir.
     if_lane
       (ebind (on_lane (ebind (RemoteYard_init E
          \<lparr>ya_uid = None, ya_prefix = ''yard'', ya_name = name, ya_ha = [], ya_sid = None, ya_dirpath = dir,
           ya_lanename = lanename, ya_bid = 0\<rparr>) (\<lambda>r. ethen (lane_addRemote r) (eret r)))) (\<lambda>r.
        emod (\<lambda>s. s\<lparr>lf_yard := Some r\<rparr>))))"

definition RaetLaneStackTransmit :: "hdata \<Rightarrow> unit lane_deed" where
  "RaetLaneStackTransmit kwa =
     ewhen (kwa \<noteq> [])
       (ebind (eget lf_dest) (\<lambda>name.
        if_lane (on_lane (ebind (eget (\<lambda>k. fetchUidByName k name)) (\<lambda>uid.
          transmit (\<lambda>b u. (b, Some u)) (BData (VDict kwa)) uid)))))"

definition lane_print_one :: "unit lane_deed" where
  "lane_print_one =
     ebind (eget lf_rxMsgs) (\<lambda>q. case q of
       [] \<Rightarrow> eraise IndexError
     | (msg, name) # rest \<Rightarrow>
         ethen (emod (\<lambda>s. s\<lparr>lf_rxMsgs := rest\<rparr>))
          (ebind (eget lf_stack) (\<lambda>st. case st of
             None \<Rightarrow> eraise AttributeError
           | Some k \<Rightarrow> emod (\<lambda>s. s\<lparr>lf_printed := lf_printed s @ [(lot_name (st_local k), msg)],
                                   lf_total := lf_total s + 1\<rparr>))))"

definition RaetLaneStackPrinter :: "unit lane_deed" where
  "RaetLaneStackPrinter =
     ebind (eget (length \<circ> lf_rxMsgs)) (\<lambda>n. drain n (\<lambda>s. lf_rxMsgs s \<noteq> []) lane_print_one)"

section \<open>Cleaning up sockets\<close>

text \<open>The entries of a directory, each with whether it is a directory, too.\<close>

type_synonym listing = "(string \<times> bool) list"

definition stray_socket :: "string \<Rightarrow> bool" where
  "stray_socket name =
     (let (root, ext) = splitext name; (a, b, c) = partition_at root [DOT]
      in ext = UXD_EXT \<and> a \<noteq> [] \<and> b \<noteq> [] \<and> c \<noteq> [])"

text \<open>\<open>locked\<close> says which files the operating system does not unlink.\<close>

fun cleanup_entries :: "(string \<Rightarrow> bool) \<Rightarrow> listing \<Rightarrow> (listing, unit) eff" where
  "cleanup_entries locked [] = eret ()"
| "cleanup_entries locked ((name, isdir) # rest) =
     (if isdir \<or> \<not> stray_socket name then cleanup_entries locked rest
      else if locked name then eraise OSError
      else ethen (emod (filter (\<lambda>(n, b). n \<noteq> name))) (cleanup_entries locked rest))"

text \<open>The option \<open>sock_dir\<close> and the entries of that directory, if it is there.\<close>

definition SaltRaetLaneCleanup :: "(string \<Rightarrow> bool) \<Rightarrow> string \<Rightarrow> (listing option, unit) eff" where
  "SaltRaetLaneCleanup locked sock_dir entries =
     (if sock_dir = [] then (Inr (), entries)
      else case entries of
        None \<Rightarrow> (Inl OSError, None)
      | Some es \<Rightarrow> map_prod id Some (cleanup_entries locked es es))"

section \<open>A program\<close>

datatype lane_action =
    LanePrepare | LaneAct | LaneClose | YardAdd string string | LaneTransmit hdata | LanePrint

fun run_lane_deed :: "lane_env \<Rightarrow> (val \<Rightarrow> val option) \<Rightarrow> val network \<Rightarrow> lane_action \<Rightarrow> unit lane_deed" where
  "run_lane_deed E reopen net LanePrepare = RaetLaneStack_prepare E reopen"
| "run_lane_deed E reopen net LaneAct = RaetLaneStack_action E net"
| "run_lane_deed E reopen net LaneClose = RaetLaneStackCloser"
| "run_lane_deed E reopen net (YardAdd lanename name) = RaetLaneStackYardAdd E lanename name"
| "run_lane_deed E reopen net (LaneTransmit kwa) = RaetLaneStackTransmit kwa"
| "run_lane_deed E reopen net LanePrint = RaetLaneStackPrinter"

text \<open>
  The deeds of a program, in any order but for the use of a closed socket, with what happens beside
  them: time passes, pages arrive, and others set the shares or queue a message to transmit. The
  files, the network and the settings may be others at each deed.
\<close>

inductive lane_step :: "lane_flo \<Rightarrow> lane_flo \<Rightarrow> bool" where
  deed: "lf_closed s \<longrightarrow> d \<noteq> LaneAct \<Longrightarrow> lane_step s (snd (run_lane_deed E reopen net d s))"
| clock: "lf_stamp s \<le> t \<Longrightarrow> lane_step s (s\<lparr>lf_stamp := t\<rparr>)"
| configure: "lane_step s (s\<lparr>lf_name := n, lf_lane := l, lf_sockdirpath := d, lf_dest := y\<rparr>)"
| queue: "lane_step s (s\<lparr>lf_txMsgs := lf_txMsgs s @ [m]\<rparr>)"
| arrive: "lf_stack s = Some k \<Longrightarrow> lane_step s (s\<lparr>lf_stack := Some (k\<lparr>st_inbox := st_inbox k @ [p]\<rparr>)\<rparr>)"

end
