(* ===== verification/LaneDeedFacts.thy ===== *)
theory LaneDeedFacts
  imports LaneBehaving YardNames LaneFacts
begin

text \<open>
  Deeds on a lane stack: which files the cleanup removes, where a message for an unknown yard goes,
  and what is printed.
\<close>

section \<open>Sockets\<close>

text \<open>The files that yards listen at: \<open>lane.yard.uxd\<close>.\<close>

definition yard_file :: "string \<Rightarrow> bool" where
  "yard_file name \<longleftrightarrow> (\<exists>l y. l \<noteq> [] \<and> DOT \<notin> set l \<and> y \<noteq> [] \<and> name = socket_name l y)"

lemma stray_socket_iff:
  assumes "SLASH \<notin> set name"
  shows "stray_socket name \<longleftrightarrow> yard_file name"
proof
  assume "yard_file name"
  then obtain l y where ly: "l \<noteq> []" "DOT \<notin> set l" "y \<noteq> []" "name = (l @ DOT # y) @ UXD_EXT"
    by (auto simp: yard_file_def socket_name_def)
  have "\<exists>c \<in> set (l @ DOT # y). c \<noteq> CHR ''.''" using ly(1,2) by (cases l) (auto simp: DOT_def)
  moreover have "CHR ''/'' \<notin> set ((l @ DOT # y) @ ''uxd'')" using assms ly by (simp add: SLASH_def)
  ultimately have "splitext name = (l @ DOT # y, UXD_EXT)"
    using splitext_file(2) [of "l @ DOT # y" "''uxd''"] by (simp add: ly(4) UXD_EXT_def)
  moreover have "partition_at (l @ DOT # y) [DOT] = (l, [DOT], y)" using ly by (simp add: partition_char)
  ultimately show "stray_socket name" using ly by (simp add: stray_socket_def)
next
  assume stray: "stray_socket name"
  obtain root ext where e: "splitext name = (root, ext)" by fastforce
  obtain a b c where p: "partition_at root [DOT] = (a, b, c)" by (cases "partition_at root [DOT]") auto
  have "b = [DOT]" "ext = UXD_EXT" "a \<noteq> []" "c \<noteq> []"
    using stray p by (auto simp: stray_socket_def e partition_at_def split: option.splits)
  moreover from this have "root = a @ DOT # c" "DOT \<notin> set a" using p by (simp_all add: partition_char)
  moreover have "name = root @ ext" using splitext_parts [OF assms] by (simp add: e)
  ultimately show "yard_file name" by (auto simp: yard_file_def socket_name_def)
qed

definition kept_entry :: "string \<times> bool \<Rightarrow> bool" where
  "kept_entry e \<longleftrightarrow> snd e \<or> \<not> stray_socket (fst e)"

lemma cleanup_entries_run:
  "(\<And>n b. (n, b) \<in> set todo \<Longrightarrow> \<not> kept_entry (n, b) \<Longrightarrow> \<not> locked n) \<Longrightarrow>
   cleanup_entries locked (todo @ rest) es =
     cleanup_entries locked rest (filter (\<lambda>(n, b). \<not> (\<exists>b'. (n, b') \<in> set todo \<and> \<not> kept_entry (n, b'))) es)"
proof (induction todo arbitrary: es)
  case (Cons e todo)
  obtain n b where e: "e = (n, b)" by fastforce
  have IH: "cleanup_entries locked (todo @ rest) es' = cleanup_entries locked rest
      (filter (\<lambda>(n, b). \<not> (\<exists>b'. (n, b') \<in> set todo \<and> \<not> kept_entry (n, b'))) es')" for es'
    using Cons.IH Cons.prems by auto
  show ?case
    using Cons.prems [of n b]
    by (auto simp: e kept_entry_def run_simps IH intro!: arg_cong [where f = "cleanup_entries locked rest"] filter_cong)
qed simp

lemma cleaned_entries:
  assumes "distinct (map fst (todo @ rest))"
  shows "filter (\<lambda>(n, b). \<not> (\<exists>b'. (n, b') \<in> set todo \<and> \<not> kept_entry (n, b'))) (todo @ rest) =
    filter kept_entry todo @ rest"
proof -
  have "b' = b" if "(n, b) \<in> set todo" "(n, b') \<in> set todo" for n b b'
    using assms that by (auto dest: eq_key_imp_eq_value)
  moreover have "(n, b') \<notin> set todo" if "(n, b) \<in> set rest" for n b b'
    using assms that by (force simp: image_iff)
  ultimately have "filter (\<lambda>(n, b). \<not> (\<exists>b'. (n, b') \<in> set todo \<and> \<not> kept_entry (n, b'))) todo = filter kept_entry todo"
    "filter (\<lambda>(n, b). \<not> (\<exists>b'. (n, b') \<in> set todo \<and> \<not> kept_entry (n, b'))) rest = rest"
    by (auto simp: filter_id_conv intro!: filter_cong)
  then show ?thesis by (simp only: filter_append)
qed

lemma stray_entries:
  "\<forall>e \<in> set es. SLASH \<notin> set (fst e) \<Longrightarrow> filter kept_entry es = filter (\<lambda>(n, isdir). isdir \<or> \<not> yard_file n) es"
  by (rule filter_cong) (auto simp: kept_entry_def stray_socket_iff)

text \<open>
  C39: The cleanup removes the files that yards listen at and nothing else: directories stay, and
  files whose names are not made of a lane, a yard and the extension. It stops with \<open>OSError\<close> at the
  first such file that cannot be removed; those before it are gone, and the ones after it stay.
\<close>

theorem lane_cleanup_removes_sockets:
  assumes "sock_dir \<noteq> []" and names: "distinct (map fst (pre @ rest))" "\<forall>e \<in> set (pre @ rest). SLASH \<notin> set (fst e)"
    and free: "\<forall>(n, isdir) \<in> set pre. \<not> isdir \<longrightarrow> yard_file n \<longrightarrow> \<not> locked n"
    and stop: "rest = [] \<or> (\<exists>n post. rest = (n, False) # post \<and> yard_file n \<and> locked n)"
  shows "SaltRaetLaneCleanup locked sock_dir (Some (pre @ rest)) =
    (if rest = [] then Inr () else Inl OSError, Some (filter (\<lambda>(n, isdir). isdir \<or> \<not> yard_file n) pre @ rest))"
proof -
  have "\<not> locked n" if "(n, b) \<in> set pre" "\<not> kept_entry (n, b)" for n b
  proof -
    have "SLASH \<notin> set n" using that(1) bspec [OF names(2), of "(n, b)"] by simp
    then show ?thesis using that free by (auto simp: kept_entry_def stray_socket_iff)
  qed
  then have "cleanup_entries locked (pre @ rest) (pre @ rest) = cleanup_entries locked rest (filter kept_entry pre @ rest)"
    using cleanup_entries_run [of pre locked rest "pre @ rest"] unfolding cleaned_entries [OF names(1)] by blast
  moreover have "filter kept_entry pre = filter (\<lambda>(n, isdir). isdir \<or> \<not> yard_file n) pre"
    using names(2) by (intro stray_entries) simp
  ultimately have run: "cleanup_entries locked (pre @ rest) (pre @ rest) =
      cleanup_entries locked rest (filter (\<lambda>(n, isdir). isdir \<or> \<not> yard_file n) pre @ rest)" by simp
  have "rest = [] \<or> (\<exists>n post. rest = (n, False) # post \<and> stray_socket n \<and> locked n)"
    using stop names(2) by (auto simp: stray_socket_iff)
  then show ?thesis
    using assms(1) by (auto simp: SaltRaetLaneCleanup_def run run_simps)
qed

section \<open>Messages\<close>

text \<open>
  A message for a yard is queued for the uid that the name has; if no yard has the name it is
  queued all the same, for the first yard.
\<close>

theorem lane_transmit_destination:
  assumes "lf_stack s = Some k" and "ovalues (st_uidRemotes k) = r # rs" and "kwa \<noteq> []"
  shows "fst (RaetLaneStackTransmit kwa s) = Inr () \<and>
    lf_txMsgs (snd (RaetLaneStackTransmit kwa s)) =
      lf_txMsgs s @ [(BData (VDict kwa), Some (case fetchUidByName k (lf_dest s) of None \<Rightarrow> remote_uid k r | Some u \<Rightarrow> u))]"
  using assms
  by (simp add: RaetLaneStackTransmit_def if_lane_def on_lane_def transmit_def is_mapping_def lane_enter_def
      lane_leave_def fetchUidByName_def remote_uid_def [abs_def] run_simps split: option.split)

section \<open>Programs\<close>

definition lane_good :: "lane_flo \<Rightarrow> bool" where
  "lane_good s \<longleftrightarrow> (\<forall>k. lf_stack s = Some k \<longrightarrow> yards_ok k \<and> sessions_ok k)"

lemma lane_enter_good: "yards_ok k \<Longrightarrow> yards_ok (lane_enter s k)" "sessions_ok k \<Longrightarrow> sessions_ok (lane_enter s k)"
  by (erule yards_ok_same, simp add: lane_enter_def lane_tables_def)
    (erule sessions_same, simp add: lane_enter_def)

lemma on_lane_good:
  assumes "keeps yards_ok m" "keeps sessions_ok m"
  shows "keeps lane_good (on_lane m)"
proof (rule keepsI)
  fix s
  assume good: "lane_good s"
  have "yards_ok k'" "sessions_ok k'" if "lf_stack s = Some k" "m (lane_enter s k) = (x, k')" for k x k'
    using that good keepsD [OF assms(1), of "lane_enter s k"] keepsD [OF assms(2), of "lane_enter s k"]
    by (simp_all add: lane_good_def lane_enter_good)
  then show "lane_good (snd (on_lane m s))"
    by (auto simp: lane_good_def on_lane_def lane_leave_def Let_def split: option.split prod.split)
qed

lemma frame_good: "(\<And>s. lf_stack (f s) = lf_stack s) \<Longrightarrow> keeps lane_good (emod f)"
  by (rule keepsI) (simp add: lane_good_def run_simps)

lemma if_lane_good: "keeps lane_good m \<Longrightarrow> keeps lane_good (if_lane m)"
  unfolding if_lane_def by (intro keeps_intros)

lemma lane_deed_good: "keeps lane_good (run_lane_deed E reopen net d)"
proof (cases d)
  case LanePrepare
  show ?thesis
    unfolding LanePrepare run_lane_deed.simps RaetLaneStack_prepare_def
    by (rule keepsI) (auto simp: run_simps lane_good_def LaneStack_init_start split: sum.splits)
next
  case LaneAct
  show ?thesis
    unfolding LaneAct run_lane_deed.simps RaetLaneStack_action_def
    by (intro on_lane_good tables.lane_serviceAll sessions.lane_serviceAll)
next
  case LaneClose
  show ?thesis
    unfolding LaneClose run_lane_deed.simps RaetLaneStackCloser_def by (intro if_lane_good frame_good) simp
next
  case (YardAdd l n)
  show ?thesis
    unfolding YardAdd run_lane_deed.simps RaetLaneStackYardAdd_def
    by (intro keeps_ebind keeps_pure if_lane_good on_lane_good tables.new_remote sessions.new_remote frame_good) simp
next
  case (LaneTransmit kwa)
  show ?thesis
    unfolding LaneTransmit run_lane_deed.simps RaetLaneStackTransmit_def
    by (intro keeps_ewhen keeps_ebind keeps_pure if_lane_good on_lane_good tables.transmit sessions.transmit)
next
  case LanePrint
  have "keeps lane_good lane_print_one"
    unfolding lane_print_one_def by (intro keeps_pure keeps_ebind keeps_ethen keeps_list keeps_prod keeps_option frame_good) simp_all
  then show ?thesis
    unfolding LanePrint run_lane_deed.simps RaetLaneStackPrinter_def by (intro keeps_ebind keeps_pure keeps_drain)
qed

lemma lane_step_good: "lane_step s s' \<Longrightarrow> lane_good s \<Longrightarrow> lane_good s'"
proof (induction rule: lane_step.induct)
  case (deed s d)
  from deed(2) show ?case by (rule keepsD [OF lane_deed_good])
next
  case (arrive s k p)
  then show ?case by (auto simp: lane_good_def intro: tables.inbox sessions.inbox)
qed (simp_all add: lane_good_def)

text \<open>
  C40: In every run of a program on a lane the stack's tables of yards agree and the books of each
  yard are of one session: whatever the deeds, their order, what arrives and what others do with the
  shares and the queues.
\<close>

theorem lane_programs_keep_order:
  assumes "lane_step\<^sup>*\<^sup>* s s'" and "lf_stack s = None" and "lf_stack s' = Some k"
  shows "yards_ok k \<and> sessions_ok k"
proof -
  have "lane_good s" using assms(2) by (simp add: lane_good_def)
  with assms(1) have "lane_good s'"
    by (induction rule: rtranclp_induct) (auto intro: lane_step_good)
  with assms(3) show ?thesis by (simp add: lane_good_def)
qed

section \<open>Sample programs\<close>

theorem lane_cleanup_removes_sockets_witness:
  "SaltRaetLaneCleanup (\<lambda>n. n = ''b.c.uxd'') ''/tmp''
     (Some ([(''lane.a.uxd'', False), (''lane.d.uxd'', True), (''a.uxd'', False)] @ [(''b.c.uxd'', False), (''x.y.uxd'', False)])) =
   (Inl OSError, Some [(''lane.d.uxd'', True), (''a.uxd'', False), (''b.c.uxd'', False), (''x.y.uxd'', False)])"
proof -
  let ?pre = "[(''lane.a.uxd'', False), (''lane.d.uxd'', True), (''a.uxd'', False)]"
  let ?rest = "[(''b.c.uxd'', False), (''x.y.uxd'', False)]"
  have stray: "stray_socket ''lane.a.uxd''" "\<not> stray_socket ''a.uxd''" "stray_socket ''b.c.uxd''"
    by code_simp+
  have files: "yard_file ''lane.a.uxd''" "\<not> yard_file ''a.uxd''" "yard_file ''b.c.uxd''"
    using stray by (simp_all add: stray_socket_iff SLASH_def)
  have "distinct (map fst (?pre @ ?rest))" "\<forall>e \<in> set (?pre @ ?rest). SLASH \<notin> set (fst e)"
    by (simp_all add: SLASH_def)
  moreover have "\<forall>(n, isdir) \<in> set ?pre. \<not> isdir \<longrightarrow> yard_file n \<longrightarrow> \<not> n = ''b.c.uxd''" by simp
  ultimately show ?thesis
    using lane_cleanup_removes_sockets [of "''/tmp''" ?pre ?rest "\<lambda>n. n = ''b.c.uxd''"] files by simp
qed

definition sample_lane_flo :: lane_flo where
  "sample_lane_flo = lane_ival\<lparr>lf_dest := ''nobody''\<rparr>"

definition sample_lane_run :: "lane_action list \<Rightarrow> lane_flo" where
  "sample_lane_run ds = foldl (\<lambda>s d. snd (run_lane_deed sample_lane_env Some (\<lambda>_ _ _. None) d s)) sample_lane_flo ds"

lemma sample_lane_steps:
  "LaneAct \<notin> set ds \<Longrightarrow> lane_step\<^sup>*\<^sup>* sample_lane_flo (sample_lane_run ds)"
  by (induction ds rule: rev_induct)
    (auto simp: sample_lane_run_def intro: rtranclp.rtrancl_into_rtrancl lane_step.deed)

theorem lane_programs_keep_order_witness:
  "\<exists>k. lf_stack (sample_lane_run [LanePrepare, YardAdd ''maple'' ''lord'']) = Some k \<and> yards_ok k \<and> sessions_ok k"
proof -
  have "lf_stack (sample_lane_run [LanePrepare, YardAdd ''maple'' ''lord'']) \<noteq> None" by code_simp
  then obtain k where k: "lf_stack (sample_lane_run [LanePrepare, YardAdd ''maple'' ''lord'']) = Some k" by auto
  have "lf_stack sample_lane_flo = None" by (simp add: sample_lane_flo_def lane_ival_def)
  from lane_programs_keep_order [OF sample_lane_steps this k] k show ?thesis by simp
qed

theorem lane_transmit_destination_witness:
  "\<exists>uid. lf_txMsgs (snd (RaetLaneStackTransmit [(''m'', VInt 1)] (sample_lane_run [LanePrepare, YardAdd ''maple'' ''lord'']))) =
     [(BData (VDict [(''m'', VInt 1)]), Some uid)]"
proof -
  let ?s = "sample_lane_run [LanePrepare, YardAdd ''maple'' ''lord'']"
  have "case lf_stack ?s of None \<Rightarrow> False | Some k \<Rightarrow> st_uidRemotes k \<noteq> [] \<and> lf_txMsgs ?s = []" by code_simp
  then obtain k r rs where k: "lf_stack ?s = Some k" "ovalues (st_uidRemotes k) = r # rs" "lf_txMsgs ?s = []"
    by (cases "lf_stack ?s") (auto simp: neq_Nil_conv ovalues_def)
  from lane_transmit_destination [OF k(1,2), of "[(''m'', VInt 1)]"] k(3) show ?thesis by auto
qed

end
