(* ===== verification/Spec2Isabelle.thy ===== *)
theory Spec2Isabelle
  imports PacketFacts Lotting KeepStacking KeepDirs PageRound RoadWitness LaneDelivery DeedSamples LaneDeedFacts
begin

text \<open>
  A model of RAET, the Reliable Asynchronous Event Transport, the Python package src/raet, and the
  theorems that make it correct.

  \<^bold>\<open>The program.\<close> Two kinds of stack send messages, which are dictionaries, between named ends. A
  road stack (raet/road) talks UDP to remote estates: it serialises, encrypts, signs and segments a
  message, and runs a transaction for each exchange, a join that makes two estates known to each
  other, an allow that agrees on short term keys, an alive that tells presence, and the messages. A
  lane stack (raet/lane) talks over the sockets of one machine to remote yards, in pages. Both are
  subclasses of the stack of raet/stacking.py, which has the tables of remotes, the queues and the
  service loops; raet/keeping.py and raet/road/keeping.py write estates, keys and acceptance to disk;
  raet/nacling.py makes keys and signatures with libnacl, raet/encoding.py writes them as text;
  raet/lotting.py counts sessions. raet/flo/behaving.py has the deeds with which programs of the ioflo
  framework set up a stack, run it and pass messages to and from it.

  \<^bold>\<open>How the code is modelled.\<close> A function is an Isabelle function. A method that may raise returns
  \<open>'a result\<close>, the exception or the value (\<open>Prelude\<close>); a method that changes objects is a computation,
  a function from the state to its result and the next state, which an exception does not undo
  (\<open>Effects\<close>). Objects that refer to each other are numbers into tables of records in the state of the
  stack. Exceptions are the constructors of \<open>exn\<close> in \<open>Raeting\<close>, those of Python included, where the
  code raises them by mistake. An \<open>odict\<close> is an association list in the order of insertion. Bytes and
  strings are lists of characters, and ids of 32 bits are integers with the roll-over written out.

  What is not in the repository is an argument: JSON, MessagePack, the packing of flags and the keys of
  the remotes (record \<open>codec\<close>), libnacl and its random source (\<open>nacl\<close>), the serializers and the file
  system of a keep (\<open>serial\<close>, \<open>fs\<close>, \<open>dir_env\<close>), ioflo's timers and dictionaries, the resolver and the generator of
  names (\<open>road_env\<close>), paths, directories and ids of the lane (\<open>lane_env\<close>), and the socket, which is the
  list of what it will receive and a function that tells whether a send fails. The theorems name what
  they rely on of them: \<open>body_law\<close>, \<open>bits_law\<close>, \<open>lane_law\<close> (what was written is read back), \<open>nacl_ok\<close>
  (signatures verify, both sides derive the same box), \<open>insert_law\<close> (ioflo's \<open>insert\<close>), \<open>keep_ok\<close>. Each
  theorem that has hypotheses has a witness on concrete values.

  \<^bold>\<open>Theories.\<close>

  \<^item> Basis: \<open>Prelude\<close> (results, ordered dictionaries, strings), \<open>Effects\<close> (computations and what they
    preserve), \<open>Numerals\<close>, \<open>Structs\<close>, \<open>Segmenting\<close> (pieces of a message and the slots that collect
    them, a locale that trays and books interpret), \<open>Paths\<close> (paths, and the directories that keeps and
    lanes choose), \<open>Samples\<close>.
  \<^item> raet/raeting.py: \<open>Raeting\<close>, limits, enumerations, defaults and formats of headers.
  \<^item> raet/road/packeting.py: \<open>Packeting\<close> (head, body, coat and foot of a packet), \<open>Traying\<close> (segments);
    \<open>HeadText\<close>, \<open>HeadRound\<close>, \<open>PacketRound\<close>, \<open>TrayRound\<close>, \<open>SegmentSize\<close>, \<open>PacketFacts\<close>: what is packed
    is parsed, in any order of the segments, no packet is too long, and what is accepted is well formed
    and signed if it says so.
  \<^item> raet/encoding.py: \<open>Encoding\<close>, with base 16, 32 and 64 of Python's library; \<open>EncodingFacts\<close>: each
    encoder's output is decoded. raet/nacling.py: \<open>Nacling\<close>, \<open>NaclFacts\<close>.
  \<^item> raet/lotting.py: \<open>Lotting\<close>, the order of session ids as serial numbers of 32 bits.
  \<^item> raet/stacking.py: \<open>Stacking\<close>, \<open>KeepStacking\<close>; \<open>StackFacts\<close> and \<open>FreeUid\<close>: the tables of remotes
    agree, queues keep their order, a free id is found.
  \<^item> raet/keeping.py, raet/road/keeping.py: \<open>Keeping\<close>, \<open>RoadKeeping\<close>; \<open>KeepFacts\<close>, \<open>RoadKeepFacts\<close>: the
    files of a keep are a map from names to data, and keys are accepted as the mode says. \<open>KeepDirs\<close>
    has the removal of directories.
  \<^item> raet/road/estating.py: \<open>RoadState\<close>, \<open>Estating\<close>. raet/road/transacting.py: \<open>Transacting\<close> (what the
    classes share), \<open>Initiating\<close> (their creation), \<open>Joining\<close>, \<open>Allowing\<close>, \<open>Aliving\<close>, \<open>Messaging\<close>.
    raet/road/stacking.py: \<open>RoadStacking\<close> (dispatch and service), \<open>RoadStarting\<close> (start-up from the
    keep). \<open>RoadFrames\<close> has the locales on what operations leave as it is. \<open>RoadService\<close> extends them to
    all handlers, transactions and services: \<open>road_property\<close> is a property that the few writes of the
    stack's own state keep, \<open>road_messages\<close> one that the start-up keeps, too; they are interpreted on the
    stack's identity and on the messages for the application. \<open>RoadFacts\<close>, \<open>AllowFacts\<close>,
    \<open>Delivery\<close>, \<open>RoadRaces\<close>, \<open>RoadTimers\<close>, \<open>Channel\<close> and \<open>RoadRestart\<close> the properties; \<open>RoadSamples\<close> and
    \<open>RoadWitness\<close> two sample stacks and the witnesses.
  \<^item> raet/lane/paging.py: \<open>Paging\<close>, \<open>PageRound\<close>. raet/lane/yarding.py: \<open>Yarding\<close>, \<open>YardNames\<close>.
    raet/lane/stacking.py: \<open>LaneStacking\<close>; \<open>LaneService\<close> is the locale between the operations on yards
    and the service of the stack, interpreted in \<open>LaneFacts\<close> for the tables (\<open>LaneTables\<close>) and the books
    (\<open>LaneSessions\<close>); \<open>LaneDelivery\<close> composes the sending with the receiving stack.
  \<^item> raet/flo/behaving.py: \<open>RoadBehaving\<close> and \<open>LaneBehaving\<close>, the deeds as computations on the shares,
    and programs as step relations: deeds in any order, with the clock, arriving packets and others who
    write the shares. \<open>RoadDeedFacts\<close> and \<open>LaneDeedFacts\<close> have what holds in every run of a program, and
    of the deeds that clean up; \<open>DeedSamples\<close> sample shares and the witnesses of the road.

  Definitions have the names of the code's functions and classes, with the class in front where two
  classes have the method (\<open>Joiner_join\<close>), with \<open>road_\<close>, \<open>ks_\<close> or \<open>lane_\<close> for a method that overrides
  one, and with \<open>stack_\<close> for the methods of the road stack that start transactions.

  \<^bold>\<open>Loops and bounds.\<close> A loop that empties a queue runs once for each item that the queue has when it
  starts (\<open>drain\<close>, \<open>tx_loop\<close>, \<open>lane_tx_loop\<close>): its handlers take one item and add none.
  \<open>receive_loop\<close> runs once more than the socket has items. The search for a free id tries two ids more
  than there are remotes, which is enough as \<open>new_uid_finds\<close> shows; with all ids taken the code does not
  return, and the model raises. All other recursions are over lists or numbers of the input.

  \<^bold>\<open>Limits of the model.\<close> Header values of packets in the RAET format are integers, flags and strings;
  a JSON head may hold other values, and where the code would go on to use one as an id the model raises
  \<open>TypeError\<close>. So it does for stored data of other types than the code writes, and for the fields of a
  join that are not of the types that joins send. Assertions, console output and timers that the code
  sets and never reads are left out. \<open>keys\<close>, \<open>values\<close> and \<open>items\<close> of a dictionary give lists that do
  not change with it, as in Python 2.

  \<^bold>\<open>Not modelled.\<close> What opens and reads sockets, and which error number an exception of the operating
  system has; how ioflo finds shares and runs deeds, and what a deed does with a socket that has been
  closed; raet/abiding.py and the \<open>__init__\<close> files, which import names; setup.py; src/systest, which
  starts processes and measures their throughput, the tests and the examples.
\<close>

end
